(* ===== verification/Prelude.thy ===== *)
theory Prelude
  imports Main "HOL-Library.Sublist" "HOL-Library.State_Monad"
begin

text \<open>
  What the components share: the Go base library the source uses (\<^verbatim>\<open>strings\<close>,
  \<^verbatim>\<open>bytes\<close>, \<^verbatim>\<open>strconv\<close>, \<^verbatim>\<open>time\<close> and the
  64-bit \<^verbatim>\<open>int\<close>), Go errors as values, and the generic lemmas on them.

  A Go string or byte slice is a \<open>string\<close> whose characters are its bytes. A Go
  \<^verbatim>\<open>int\<close> and a \<^verbatim>\<open>time.Duration\<close> are an \<open>int\<close> in the
  64-bit range, every operation that can leave the range is followed by \<open>wrap64\<close>.
  A \<^verbatim>\<open>time.Time\<close> is the number of nanoseconds since an epoch.
\<close>

named_theorems go_string \<open>equations and rules on the Go string functions\<close>
named_theorems go_int \<open>bounds and wrap-around of 64-bit integers\<close>

section \<open>Integers and durations\<close>

definition wrap64 :: "int \<Rightarrow> int" where
  "wrap64 x = (x + 2 ^ 63) mod 2 ^ 64 - 2 ^ 63"

definition int64 :: "int \<Rightarrow> bool" where
  "int64 x \<longleftrightarrow> - (2 ^ 63) \<le> x \<and> x < 2 ^ 63"

abbreviation second :: int where "second \<equiv> 1000000000"
abbreviation minute :: int where "minute \<equiv> 60000000000"

text \<open>\<^verbatim>\<open>Time.Sub\<close> saturates instead of wrapping around.\<close>

definition timeSub :: "int \<Rightarrow> int \<Rightarrow> int" where
  "timeSub t u = max (- (2 ^ 63)) (min (2 ^ 63 - 1) (t - u))"

lemma wrap64_id [simp, go_int]: "int64 x \<Longrightarrow> wrap64 x = x"
  by (simp add: wrap64_def int64_def)

lemma int64_wrap64 [go_int]: "int64 (wrap64 x)"
proof -
  have "0 \<le> (x + 2 ^ 63) mod 2 ^ 64" "(x + 2 ^ 63) mod 2 ^ 64 < 2 ^ 64"
    by (rule pos_mod_sign, simp, rule pos_mod_bound, simp)
  then have "- (2 ^ 63) \<le> wrap64 x" "wrap64 x < 2 ^ 63"
    unfolding wrap64_def by simp_all
  then show ?thesis by (simp add: int64_def)
qed

lemma int64_timeSub [go_int]: "int64 (timeSub t u)"
  by (simp add: timeSub_def int64_def)

lemma timeSub_exact [go_int]: "int64 (t - u) \<Longrightarrow> timeSub t u = t - u"
  by (simp add: timeSub_def int64_def)

lemma timeSub_less_iff [go_int]:
  assumes "- (2 ^ 63) < d" and "d \<le> 2 ^ 63 - 1"
  shows "timeSub t u < d \<longleftrightarrow> t - u < d"
  using assms by (simp add: timeSub_def) linarith

section \<open>Errors\<close>

text \<open>
  A Go error carries its text, which the code inspects, and for an error of the Kubernetes
  API whether it is of kind NotFound. \<open>wrapErr\<close> is \<^verbatim>\<open>fmt.Errorf("...%w...")\<close>:
  the text before, the wrapped error, the text after.
\<close>

datatype goerr = GoErr (isNotFound: bool) (errText: string)

definition errorf :: "string \<Rightarrow> goerr" where
  "errorf msg = GoErr False msg"

definition wrapErr :: "string \<Rightarrow> goerr \<Rightarrow> goerr" where
  "wrapErr pre e = GoErr (isNotFound e) (pre @ errText e)"

definition wrapErrOut :: "string \<Rightarrow> goerr \<Rightarrow> string \<Rightarrow> goerr" where
  "wrapErrOut pre e post = GoErr (isNotFound e) (pre @ errText e @ post)"

lemma errText_simps [simp]:
  "errText (errorf m) = m"
  "errText (wrapErr p e) = p @ errText e"
  "errText (wrapErrOut p e q) = p @ errText e @ q"
  by (simp_all add: errorf_def wrapErr_def wrapErrOut_def)

text \<open>How a function ends that may panic: by the panic, with an error, or with a value.\<close>

datatype 'a res = Panicked | Failed goerr | Returned 'a

fun bindR :: "'a res \<Rightarrow> ('a \<Rightarrow> 'b res) \<Rightarrow> 'b res" where
  "bindR Panicked f = Panicked"
| "bindR (Failed e) f = Failed e"
| "bindR (Returned x) f = f x"

fun resOf :: "goerr + 'a \<Rightarrow> 'a res" where
  "resOf (Inl e) = Failed e"
| "resOf (Inr x) = Returned x"

lemma bindR_Returned: "bindR r f = Returned y \<longleftrightarrow> (\<exists>x. r = Returned x \<and> f x = Returned y)"
  by (cases r) auto

text \<open>The em dash of the messages, in UTF-8.\<close>

definition emDash :: string where
  "emDash = [CHR 0xE2, CHR 0x80, CHR 0x94]"

section \<open>Prefixes, suffixes and substrings\<close>

definition hasPrefix :: "string \<Rightarrow> string \<Rightarrow> bool" where
  "hasPrefix s p \<longleftrightarrow> take (length p) s = p"

definition hasSuffix :: "string \<Rightarrow> string \<Rightarrow> bool" where
  "hasSuffix s p \<longleftrightarrow> hasPrefix (rev s) (rev p)"

definition trimPrefix :: "string \<Rightarrow> string \<Rightarrow> string" where
  "trimPrefix s p = (if hasPrefix s p then drop (length p) s else s)"

definition trimSuffix :: "string \<Rightarrow> string \<Rightarrow> string" where
  "trimSuffix s p = (if hasSuffix s p then take (length s - length p) s else s)"

fun containsStr :: "string \<Rightarrow> string \<Rightarrow> bool" where
  "containsStr [] sub = (sub = [])"
| "containsStr (c # s) sub = (hasPrefix (c # s) sub \<or> containsStr s sub)"

lemma hasPrefix_iff [go_string]: "hasPrefix s p \<longleftrightarrow> prefix p s"
  by (metis append_eq_conv_conj hasPrefix_def prefix_def take_is_prefix)

lemma hasPrefix_append [simp]: "hasPrefix (p @ s) p"
  by (simp add: hasPrefix_def)

lemma trimPrefix_append [simp]: "trimPrefix (p @ s) p = s"
  by (simp add: trimPrefix_def)

lemma hasSuffix_append [simp]: "hasSuffix (s @ p) p"
  by (simp add: hasSuffix_def)

lemma trimSuffix_append [simp]: "trimSuffix (s @ p) p = s"
  by (simp add: trimSuffix_def)

lemma hasSuffix_iff [go_string]: "hasSuffix s p \<longleftrightarrow> suffix p s"
  by (simp add: hasSuffix_def hasPrefix_iff suffix_to_prefix)

lemma containsStr_iff [go_string]: "containsStr s sub \<longleftrightarrow> (\<exists>u v. s = u @ sub @ v)"
proof (induction s)
  case Nil
  then show ?case by simp
next
  case (Cons c s)
  show ?case
  proof
    assume "containsStr (c # s) sub"
    then consider "prefix sub (c # s)" | u v where "s = u @ sub @ v"
      using Cons.IH by (auto simp: hasPrefix_iff)
    then show "\<exists>u v. c # s = u @ sub @ v"
    proof cases
      case 1
      then obtain v where "c # s = [] @ sub @ v" by (auto simp: prefix_def)
      then show ?thesis by blast
    next
      case (2 u v)
      then have "c # s = (c # u) @ sub @ v" by simp
      then show ?thesis by blast
    qed
  next
    assume "\<exists>u v. c # s = u @ sub @ v"
    then obtain u v where eq: "c # s = u @ sub @ v" by blast
    show "containsStr (c # s) sub"
    proof (cases u)
      case Nil
      with eq have "prefix sub (c # s)" by (simp add: prefix_def)
      then show ?thesis by (simp add: hasPrefix_iff)
    next
      case (Cons d u')
      with eq have "s = u' @ sub @ v" by simp
      with Cons.IH show ?thesis by auto
    qed
  qed
qed

lemma containsStr_appendI1 [go_string]: "containsStr s sub \<Longrightarrow> containsStr (s @ t) sub"
  by (metis append.assoc containsStr_iff)

lemma containsStr_appendI2 [go_string]: "containsStr t sub \<Longrightarrow> containsStr (s @ t) sub"
  by (metis append.assoc containsStr_iff)

text \<open>
  \<^verbatim>\<open>strings.ToLower\<close>. Besides the ASCII letters, the only runes whose lower
  case is ASCII are U+0130 and the Kelvin sign U+212A; every other rune is kept as it is
  here, since the code only searches the result for ASCII text.
\<close>

definition lowerChar :: "char \<Rightarrow> char" where
  "lowerChar c = (if 65 \<le> (of_char c :: nat) \<and> (of_char c :: nat) \<le> 90
     then char_of (of_char c + 32 :: nat) else c)"

fun toLower :: "string \<Rightarrow> string" where
  "toLower [] = []"
| "toLower (c # s) =
     (if c = CHR 0xC4 \<and> take 1 s = [CHR 0xB0] then CHR ''i'' # toLower (drop 1 s)
      else if c = CHR 0xE2 \<and> take 2 s = [CHR 0x84, CHR 0xAA] then CHR ''k'' # toLower (drop 2 s)
      else lowerChar c # toLower s)"

section \<open>Splitting and joining\<close>

text \<open>
  \<^verbatim>\<open>strings.Split(s, sep)\<close> for a non-empty separator: the pieces between the
  leftmost non-overlapping occurrences. The second argument is the piece read so far.
\<close>

fun splitAcc :: "string \<Rightarrow> string \<Rightarrow> string \<Rightarrow> string list" where
  "splitAcc sep acc [] = [acc]"
| "splitAcc sep acc (c # s) =
     (if hasPrefix (c # s) sep then acc # splitAcc sep [] (drop (length sep - 1) s)
      else splitAcc sep (acc @ [c]) s)"

definition splitStr :: "string \<Rightarrow> string \<Rightarrow> string list" where
  "splitStr s sep = splitAcc sep [] s"

text \<open>\<^verbatim>\<open>strings.SplitN(s, sep, 2)\<close>: at most two pieces.\<close>

fun splitN2Acc :: "string \<Rightarrow> string \<Rightarrow> string \<Rightarrow> string list" where
  "splitN2Acc sep acc [] = [acc]"
| "splitN2Acc sep acc (c # s) =
     (if hasPrefix (c # s) sep then [acc, drop (length sep) (c # s)]
      else splitN2Acc sep (acc @ [c]) s)"

definition splitN2 :: "string \<Rightarrow> string \<Rightarrow> string list" where
  "splitN2 s sep = splitN2Acc sep [] s"

fun joinStr :: "string list \<Rightarrow> string \<Rightarrow> string" where
  "joinStr [] sep = []"
| "joinStr [x] sep = x"
| "joinStr (x # y # xs) sep = x @ sep @ joinStr (y # xs) sep"

lemma splitAcc_nonempty [simp]: "splitAcc sep acc s \<noteq> []"
  by (induction sep acc s rule: splitAcc.induct) auto

lemma splitStr_nonempty [simp]: "splitStr s sep \<noteq> []"
  by (simp add: splitStr_def)

lemma joinStr_Cons: "xs \<noteq> [] \<Longrightarrow> joinStr (x # xs) sep = x @ sep @ joinStr xs sep"
  by (cases xs) auto

text \<open>Joining the pieces gives the string back.\<close>

lemma join_splitAcc: "sep \<noteq> [] \<Longrightarrow> joinStr (splitAcc sep acc s) sep = acc @ s"
proof (induction sep acc s rule: splitAcc.induct)
  case (1 sep acc)
  then show ?case by simp
next
  case (2 sep acc c s)
  show ?case
  proof (cases "hasPrefix (c # s) sep")
    case True
    then obtain d sep' where sep: "sep = d # sep'" using "2.prems" by (cases sep) auto
    with True have "c # s = sep @ drop (length sep - 1) s"
      by (auto simp: hasPrefix_def) (metis append_take_drop_id)
    moreover from True have "splitAcc sep acc (c # s) = acc # splitAcc sep [] (drop (length sep - 1) s)"
      by simp
    ultimately show ?thesis
      using "2.IH"(1) [OF True "2.prems"] by (simp add: joinStr_Cons)
  next
    case False
    with "2.IH"(2) "2.prems" show ?thesis by simp
  qed
qed

lemma join_splitStr [go_string]: "sep \<noteq> [] \<Longrightarrow> joinStr (splitStr s sep) sep = s"
  by (simp add: splitStr_def join_splitAcc)

section \<open>White space\<close>

text \<open>
  \<^verbatim>\<open>TrimSpace\<close> of \<^verbatim>\<open>strings\<close> and \<^verbatim>\<open>bytes\<close>
  removes the white space of Unicode at both ends. \<open>goSpaces\<close> holds the UTF-8 encoding of
  every rune with \<^verbatim>\<open>unicode.IsSpace\<close>.
\<close>

definition goSpaces :: "string list" where
  "goSpaces =
     [[CHR 0x09], [CHR 0x0A], [CHR 0x0B], [CHR 0x0C], [CHR 0x0D], [CHR 0x20],
      [CHR 0xC2, CHR 0x85], [CHR 0xC2, CHR 0xA0], [CHR 0xE1, CHR 0x9A, CHR 0x80],
      [CHR 0xE2, CHR 0x80, CHR 0x80], [CHR 0xE2, CHR 0x80, CHR 0x81], [CHR 0xE2, CHR 0x80, CHR 0x82],
      [CHR 0xE2, CHR 0x80, CHR 0x83], [CHR 0xE2, CHR 0x80, CHR 0x84], [CHR 0xE2, CHR 0x80, CHR 0x85],
      [CHR 0xE2, CHR 0x80, CHR 0x86], [CHR 0xE2, CHR 0x80, CHR 0x87], [CHR 0xE2, CHR 0x80, CHR 0x88],
      [CHR 0xE2, CHR 0x80, CHR 0x89], [CHR 0xE2, CHR 0x80, CHR 0x8A], [CHR 0xE2, CHR 0x80, CHR 0xA8],
      [CHR 0xE2, CHR 0x80, CHR 0xA9], [CHR 0xE2, CHR 0x80, CHR 0xAF], [CHR 0xE2, CHR 0x81, CHR 0x9F],
      [CHR 0xE3, CHR 0x80, CHR 0x80]]"

function trimBy :: "string list \<Rightarrow> string \<Rightarrow> string" where
  "trimBy ws s = (case find (\<lambda>w. w \<noteq> [] \<and> hasPrefix s w) ws of
     None \<Rightarrow> s | Some w \<Rightarrow> trimBy ws (drop (length w) s))"
  by pat_completeness auto
termination
proof (relation "measure (\<lambda>(ws, s). length s)")
  fix ws :: "string list" and s w :: string
  assume "find (\<lambda>w. w \<noteq> [] \<and> hasPrefix s w) ws = Some w"
  then have "w \<noteq> []" and "hasPrefix s w" by (auto simp: find_Some_iff)
  then have "s \<noteq> []" by (auto simp: hasPrefix_def)
  with \<open>w \<noteq> []\<close> show "((ws, drop (length w) s), ws, s) \<in> measure (\<lambda>(ws, s). length s)"
    by simp
qed simp

declare trimBy.simps [simp del]

definition trimSpace :: "string \<Rightarrow> string" where
  "trimSpace s = rev (trimBy (map rev goSpaces) (rev (trimBy goSpaces s)))"

definition trimmed :: "string \<Rightarrow> bool" where
  "trimmed s \<longleftrightarrow> (\<forall>w \<in> set goSpaces. \<not> hasPrefix s w \<and> \<not> hasSuffix s w)"

lemma trimBy_id: "(\<forall>w \<in> set ws. \<not> hasPrefix s w) \<Longrightarrow> trimBy ws s = s"
  by (subst trimBy.simps) (auto simp: find_None_iff split: option.splits dest: find_Some_iff [THEN iffD1])

lemma trimBy_stop: "w \<in> set ws \<Longrightarrow> w \<noteq> [] \<Longrightarrow> \<not> hasPrefix (trimBy ws s) w"
proof (induction ws s rule: trimBy.induct)
  case (1 ws s)
  show ?case
  proof (cases "find (\<lambda>w. w \<noteq> [] \<and> hasPrefix s w) ws")
    case None
    then have "trimBy ws s = s" by (subst trimBy.simps) simp
    with None "1.prems" show ?thesis by (auto simp: find_None_iff)
  next
    case (Some u)
    with "1.IH" "1.prems" show ?thesis by (subst trimBy.simps) simp
  qed
qed

lemma trimBy_suffix: "\<exists>u. s = u @ trimBy ws s"
proof (induction ws s rule: trimBy.induct)
  case (1 ws s)
  show ?case
  proof (cases "find (\<lambda>w. w \<noteq> [] \<and> hasPrefix s w) ws")
    case None
    then show ?thesis by (subst trimBy.simps) simp
  next
    case (Some u)
    with "1.IH" obtain v where "drop (length u) s = v @ trimBy ws (drop (length u) s)" by blast
    moreover from Some have "trimBy ws s = trimBy ws (drop (length u) s)"
      by (subst trimBy.simps) simp
    ultimately have "s = (take (length u) s @ v) @ trimBy ws s"
      by (metis append.assoc append_take_drop_id)
    then show ?thesis by blast
  qed
qed

lemma goSpaces_nonempty: "w \<in> set goSpaces \<Longrightarrow> w \<noteq> []"
  by (auto simp: goSpaces_def)

lemma trimSpace_id [go_string]: "trimmed s \<Longrightarrow> trimSpace s = s"
  unfolding trimSpace_def trimmed_def by (simp add: trimBy_id hasSuffix_def)

lemma trimmed_trimSpace [go_string]: "trimmed (trimSpace s)"
  unfolding trimmed_def
proof (intro ballI conjI)
  fix w assume w: "w \<in> set goSpaces"
  let ?l = "trimBy goSpaces s"
  obtain u where "rev ?l = u @ trimBy (map rev goSpaces) (rev ?l)"
    using trimBy_suffix by blast
  then have "?l = trimSpace s @ rev u"
    unfolding trimSpace_def by (metis rev_append rev_rev_ident)
  moreover from w have "\<not> hasPrefix ?l w"
    by (simp add: trimBy_stop goSpaces_nonempty)
  ultimately show "\<not> hasPrefix (trimSpace s) w"
    by (metis append.assoc hasPrefix_iff prefix_def)
  from w have "\<not> hasPrefix (trimBy (map rev goSpaces) (rev ?l)) (rev w)"
    by (intro trimBy_stop) (auto simp: goSpaces_nonempty)
  then show "\<not> hasSuffix (trimSpace s) w"
    by (simp add: hasSuffix_def trimSpace_def)
qed

section \<open>Decimal numbers\<close>

definition digitChar :: "nat \<Rightarrow> char" where
  "digitChar d = char_of (48 + d)"

fun itoaNat :: "nat \<Rightarrow> string" where
  "itoaNat n = (if n < 10 then [digitChar n] else itoaNat (n div 10) @ [digitChar (n mod 10)])"

declare itoaNat.simps [simp del]

text \<open>\<^verbatim>\<open>%d\<close> and \<^verbatim>\<open>strconv.Itoa\<close>.\<close>

definition itoa :: "int \<Rightarrow> string" where
  "itoa i = (if i < 0 then ''-'' @ itoaNat (nat (- i)) else itoaNat (nat i))"

definition isDigit :: "char \<Rightarrow> bool" where
  "isDigit c \<longleftrightarrow> 48 \<le> (of_char c :: nat) \<and> (of_char c :: nat) \<le> 57"

fun digitsVal :: "int \<Rightarrow> string \<Rightarrow> int option" where
  "digitsVal acc [] = Some acc"
| "digitsVal acc (c # s) =
     (if isDigit c then digitsVal (10 * acc + int (of_char c - 48)) s else None)"

text \<open>
  \<^verbatim>\<open>strconv.Atoi\<close>: an optional sign, then one or more decimal digits, and the value
  in the 64-bit range.
\<close>

definition atoi :: "string \<Rightarrow> int option" where
  "atoi s =
     (let neg = (take 1 s = ''-''); body = (if take 1 s = ''-'' \<or> take 1 s = ''+'' then drop 1 s else s)
      in if body = [] then None
         else case digitsVal 0 body of
           None \<Rightarrow> None
         | Some v \<Rightarrow> (let x = (if neg then - v else v) in if int64 x then Some x else None))"

lemma of_char_digitChar [simp]: "d < 10 \<Longrightarrow> of_char (digitChar d) = 48 + d"
  by (simp add: digitChar_def)

lemma isDigit_digitChar [simp]: "d < 10 \<Longrightarrow> isDigit (digitChar d)"
  by (simp add: isDigit_def)

lemma digitsVal_append:
  "digitsVal a (s @ t) = Option.bind (digitsVal a s) (\<lambda>b. digitsVal b t)"
  by (induction a s rule: digitsVal.induct) auto

lemma digitsVal_itoaNat: "digitsVal 0 (itoaNat n) = Some (int n)"
proof (induction n rule: itoaNat.induct)
  case (1 n)
  show ?case
  proof (cases "n < 10")
    case True
    then show ?thesis by (subst itoaNat.simps) simp
  next
    case False
    have "int n = 10 * int (n div 10) + int (n mod 10)"
      by (metis mult_div_mod_eq of_nat_add of_nat_mult of_nat_numeral)
    with False "1.IH" show ?thesis by (subst itoaNat.simps) (simp add: digitsVal_append)
  qed
qed

lemma itoaNat_digits: "c \<in> set (itoaNat n) \<Longrightarrow> isDigit c"
proof (induction n rule: itoaNat.induct)
  case (1 n)
  then show ?case
    by (cases "n < 10") (auto simp: itoaNat.simps [of n] split: if_splits)
qed

lemma itoaNat_nonempty [simp]: "itoaNat n \<noteq> []"
  by (subst itoaNat.simps) simp

lemma atoi_itoa [go_string]: "0 \<le> i \<Longrightarrow> int64 i \<Longrightarrow> atoi (itoa i) = Some i"
proof -
  assume i: "0 \<le> i" "int64 i"
  obtain c t where ct: "itoaNat (nat i) = c # t" by (cases "itoaNat (nat i)") auto
  then have "isDigit c" using itoaNat_digits [of c "nat i"] by simp
  then have "take 1 (itoaNat (nat i)) \<noteq> ''-''" "take 1 (itoaNat (nat i)) \<noteq> ''+''"
    by (auto simp: ct isDigit_def)
  with i show ?thesis by (simp add: atoi_def itoa_def digitsVal_itoaNat Let_def)
qed

section \<open>Quoting\<close>

definition hexDigit :: "nat \<Rightarrow> char" where
  "hexDigit d = (if d < 10 then char_of (48 + d) else char_of (87 + d))"

text \<open>
  \<^verbatim>\<open>%q\<close> on a string of printable ASCII, control characters and printable UTF-8:
  double quotes around it, the quote and the backslash escaped, control characters as
  escape sequences, bytes of printable runes as they are.
\<close>

definition quoteChar :: "char \<Rightarrow> string" where
  "quoteChar c =
     (let n = (of_char c :: nat) in
      if n = 0x22 then [CHR 0x5C, CHR 0x22]
      else if n = 0x5C then [CHR 0x5C, CHR 0x5C]
      else if n = 0x07 then CHR 0x5C # ''a'' else if n = 0x08 then CHR 0x5C # ''b''
      else if n = 0x0C then CHR 0x5C # ''f'' else if n = 0x0A then CHR 0x5C # ''n''
      else if n = 0x0D then CHR 0x5C # ''r'' else if n = 0x09 then CHR 0x5C # ''t''
      else if n = 0x0B then CHR 0x5C # ''v''
      else if n < 0x20 \<or> n = 0x7F then [CHR 0x5C, CHR ''x'', hexDigit (n div 16), hexDigit (n mod 16)]
      else [c])"

definition goQuote :: "string \<Rightarrow> string" where
  "goQuote s = CHR 0x22 # concat (map quoteChar s) @ [CHR 0x22]"

section \<open>Interfaces\<close>

text \<open>A text form of a value that can be read back.\<close>

locale codec =
  fixes enc :: "'a \<Rightarrow> string" and dec :: "string \<Rightarrow> 'a option"
  assumes decodes: "dec (enc x) = Some x"
begin

lemma enc_eq_iff: "enc x = enc y \<longleftrightarrow> x = y"
  by (metis decodes option.inject)

lemma dec_enc_eq: "dec (enc x) = Some y \<longleftrightarrow> y = x"
  by (auto simp: decodes)

end

text \<open>A step relation and a property every step keeps.\<close>

locale kept_invariant =
  fixes step :: "'s \<Rightarrow> 's \<Rightarrow> bool" and inv :: "'s \<Rightarrow> bool"
  assumes kept: "step s s' \<Longrightarrow> inv s \<Longrightarrow> inv s'"
begin

lemma always: "step\<^sup>*\<^sup>* s s' \<Longrightarrow> inv s \<Longrightarrow> inv s'"
  by (induction rule: rtranclp_induct) (auto intro: kept)

end

text \<open>A step relation that cannot go on forever.\<close>

locale ranked_steps =
  fixes step :: "'s \<Rightarrow> 's \<Rightarrow> bool" and rank :: "'s \<Rightarrow> nat"
  assumes drops: "step s s' \<Longrightarrow> rank s' < rank s"
begin

lemma terminates: "wf {(s', s). step s s'}"
  by (rule wf_subset [OF wf_measure [of rank]]) (auto dest: drops)

lemma no_cycle: "step\<^sup>+\<^sup>+ s s' \<Longrightarrow> rank s' < rank s"
  by (induction rule: tranclp_induct) (auto dest: drops intro: less_trans)

end

end
