(* ===== verification/Api_Types.thy ===== *)
theory Api_Types
  imports Prelude "HOL-Library.List_Lexorder" "HOL-Library.Char_ord"
begin

text \<open>
  The custom resources of \<^verbatim>\<open>api/v1alpha1\<close>, and of the Cluster API objects
  (\<^verbatim>\<open>clusterv1\<close>) the fields the controllers read.

  A pointer is an \<open>option\<close>, an omitted string is the empty string, a map is a partial
  function, a \<^verbatim>\<open>metav1.Time\<close> is a number of nanoseconds. A Go string type with a list
  of constants is a datatype with one constructor per constant and one for every other
  string, the case the code's \<^verbatim>\<open>default\<close> branches handle. Of an object's finalizers
  only the controller's own is kept, as a flag. Of the conditions only the last call that
  marked the Ready condition is kept.
\<close>

section \<open>Metadata and references\<close>

record OwnerReference =
  ownerAPIVersion :: string
  ownerKind :: string
  ownerName :: string
  ownerUID :: string

record ObjectMeta =
  Name :: string
  Namespace :: string
  UID :: string
  Labels :: "string \<rightharpoonup> string"
  OwnerReferences :: "OwnerReference list"
  DeletionTimestamp :: "int option"
  hasFinalizer :: bool

record MachineReference =
  refName :: string
  refNamespace :: string

record LabelSelector =
  matchLabels :: "(string \<times> string) list"
  matchExpressions :: "(string \<times> string \<times> string list) list"

record SecretReference =
  secretName :: string
  secretNamespace :: string

type_synonym key = "string \<times> string"
type_synonym secretData = "string \<rightharpoonup> string"

text \<open>A label that is absent reads as the empty string.\<close>

definition label :: "ObjectMeta \<Rightarrow> string \<Rightarrow> string" where
  "label m k = (case Labels m k of None \<Rightarrow> [] | Some v \<Rightarrow> v)"

datatype severity = SeverityInfo | SeverityWarning | SeverityError

datatype cond_mark = MarkTrue | MarkFalse (markReason: string) severity string

section \<open>HetznerRobotHost\<close>

datatype HostState = HostStateNone | HostStateAvailable | HostStateClaimed | HostStateProvisioned
  | HostStateOther string

fun hostStateText :: "HostState \<Rightarrow> string" where
  "hostStateText HostStateNone = []"
| "hostStateText HostStateAvailable = ''Available''"
| "hostStateText HostStateClaimed = ''Claimed''"
| "hostStateText HostStateProvisioned = ''Provisioned''"
| "hostStateText (HostStateOther s) = s"

datatype HostLifecycleClass = HostLifecycleClassNone | HostLifecycleClassCompute
  | HostLifecycleClassControlPlane | HostLifecycleClassStorage | HostLifecycleClassOther string

fun lifecycleClassText :: "HostLifecycleClass \<Rightarrow> string" where
  "lifecycleClassText HostLifecycleClassNone = []"
| "lifecycleClassText HostLifecycleClassCompute = ''compute''"
| "lifecycleClassText HostLifecycleClassControlPlane = ''control-plane''"
| "lifecycleClassText HostLifecycleClassStorage = ''storage''"
| "lifecycleClassText (HostLifecycleClassOther s) = s"

datatype DestructiveProvisioningPolicy = PolicyNone | PolicyAlwaysCleanSlate
  | PolicyNeverDestructiveByDefault | PolicyRequiresExternalRelease | PolicyOther string

fun policyText :: "DestructiveProvisioningPolicy \<Rightarrow> string" where
  "policyText PolicyNone = []"
| "policyText PolicyAlwaysCleanSlate = ''AlwaysCleanSlate''"
| "policyText PolicyNeverDestructiveByDefault = ''NeverDestructiveByDefault''"
| "policyText PolicyRequiresExternalRelease = ''RequiresExternalRelease''"
| "policyText (PolicyOther s) = s"

record HetznerRobotHostSpec =
  ServerID :: int
  ServerIP :: string
  ServerIPv6Net :: string
  InternalIP :: string
  hostInstallDisk :: string
  LifecycleClass :: HostLifecycleClass
  MaintenanceMode :: bool
  DestructivePolicy :: DestructiveProvisioningPolicy

text \<open>The rules the schema has for an update of a host's spec: what is set stays.\<close>

definition hostSpecUpdate :: "HetznerRobotHostSpec \<Rightarrow> HetznerRobotHostSpec \<Rightarrow> bool" where
  "hostSpecUpdate old new \<longleftrightarrow> ServerID new = ServerID old
   \<and> (ServerIP old = [] \<or> ServerIP new = ServerIP old)
   \<and> (ServerIPv6Net old = [] \<or> ServerIPv6Net new = ServerIPv6Net old)
   \<and> (InternalIP old = [] \<or> InternalIP new = InternalIP old)
   \<and> (hostInstallDisk old = [] \<or> hostInstallDisk new = hostInstallDisk old)"

record HostHardwareDetails =
  hdPrimaryMAC :: string
  hdGatewayIP :: string
  hdNVMeDisks :: "string list"
  hdCephDisks :: "string list"
  hdByIDPaths :: "string \<rightharpoonup> string"

record HetznerRobotHostStatus =
  hostState :: HostState
  ConsumerRef :: "MachineReference option"
  MachineRef :: "MachineReference option"
  HardwareDetails :: "HostHardwareDetails option"
  LastConsumerRef :: "MachineReference option"
  DirtyReason :: string
  ErrorMessage :: string

record HetznerRobotHost =
  hostMeta :: ObjectMeta
  hostSpec :: HetznerRobotHostSpec
  hostStatus :: HetznerRobotHostStatus

definition modHostStatus ::
    "(HetznerRobotHostStatus \<Rightarrow> HetznerRobotHostStatus) \<Rightarrow> HetznerRobotHost \<Rightarrow> HetznerRobotHost" where
  "modHostStatus f h = h\<lparr>hostStatus := f (hostStatus h)\<rparr>"

abbreviation hostName :: "HetznerRobotHost \<Rightarrow> string" where "hostName h \<equiv> Name (hostMeta h)"

section \<open>HetznerRobotMachine\<close>

datatype ProvisioningState = StateNone | StateActivatingRescue | StateInRescue | StateInstalling
  | StateBootingTalos | StateApplyingConfig | StateWaitingForBoot | StateBootingFlatcar
  | StateProvisioned | StateDeleting | StateError | StateOther string

fun provisioningStateText :: "ProvisioningState \<Rightarrow> string" where
  "provisioningStateText StateNone = []"
| "provisioningStateText StateActivatingRescue = ''ActivatingRescue''"
| "provisioningStateText StateInRescue = ''InRescue''"
| "provisioningStateText StateInstalling = ''Installing''"
| "provisioningStateText StateBootingTalos = ''BootingTalos''"
| "provisioningStateText StateApplyingConfig = ''ApplyingConfig''"
| "provisioningStateText StateWaitingForBoot = ''WaitingForBoot''"
| "provisioningStateText StateBootingFlatcar = ''BootingFlatcar''"
| "provisioningStateText StateProvisioned = ''Provisioned''"
| "provisioningStateText StateDeleting = ''Deleting''"
| "provisioningStateText StateError = ''Error''"
| "provisioningStateText (StateOther s) = s"

text \<open>
  The states in the order of their declaration, which is the order a machine goes through them; text no
  constant names comes last.
\<close>

fun stageNo :: "ProvisioningState \<Rightarrow> nat" where
  "stageNo StateNone = 0" | "stageNo StateActivatingRescue = 1" | "stageNo StateInRescue = 2"
| "stageNo StateInstalling = 3" | "stageNo StateBootingTalos = 4" | "stageNo StateApplyingConfig = 5"
| "stageNo StateWaitingForBoot = 6" | "stageNo StateBootingFlatcar = 7" | "stageNo StateProvisioned = 8"
| "stageNo StateDeleting = 9" | "stageNo StateError = 10" | "stageNo (StateOther s) = 11"

fun otherText :: "ProvisioningState \<Rightarrow> string" where
  "otherText (StateOther s) = s" | "otherText _ = []"

instantiation ProvisioningState :: linorder
begin

definition less_eq_ProvisioningState :: "ProvisioningState \<Rightarrow> ProvisioningState \<Rightarrow> bool" where
  "st \<le> st' \<longleftrightarrow> stageNo st < stageNo st' \<or> stageNo st = stageNo st' \<and> otherText st \<le> otherText st'"

definition less_ProvisioningState :: "ProvisioningState \<Rightarrow> ProvisioningState \<Rightarrow> bool" where
  "st < st' \<longleftrightarrow> st \<le> st' \<and> \<not> st' \<le> (st :: ProvisioningState)"

instance
proof
  fix x y z :: ProvisioningState
  have same: "x = y" if "stageNo x = stageNo y" "otherText x = otherText y"
    using that by (cases x; cases y) simp_all
  show "x < y \<longleftrightarrow> x \<le> y \<and> \<not> y \<le> x" by (rule less_ProvisioningState_def)
  show "x \<le> x" by (simp add: less_eq_ProvisioningState_def)
  show "x \<le> y \<Longrightarrow> y \<le> z \<Longrightarrow> x \<le> z" by (auto simp: less_eq_ProvisioningState_def)
  show "x \<le> y \<Longrightarrow> y \<le> x \<Longrightarrow> x = y" by (rule same) (auto simp: less_eq_ProvisioningState_def)
  show "x \<le> y \<or> y \<le> x" by (auto simp: less_eq_ProvisioningState_def)
qed

end

datatype AddressType = MachineExternalIP | MachineInternalIP

record HetznerRobotMachineSpec =
  ProviderID :: "string option"
  specHostRef :: "string option"
  HostSelector :: "LabelSelector option"
  OSType :: string
  TalosSchematic :: string
  TalosVersion :: string
  FlatcarChannel :: string
  InstallDisk :: string
  CustomImageURL :: string
  EphemeralSize :: string

definition populated :: "string option \<Rightarrow> bool" where
  "populated t \<longleftrightarrow> t \<noteq> None \<and> t \<noteq> Some []"

text \<open>The schema's rules for the spec of a machine after an update.\<close>

definition hrmSpecUpdate :: "HetznerRobotMachineSpec \<Rightarrow> HetznerRobotMachineSpec \<Rightarrow> bool" where
  "hrmSpecUpdate old new \<longleftrightarrow>
     \<not> (specHostRef new \<noteq> None \<and> HostSelector new \<noteq> None)
   \<and> (\<not> populated (ProviderID old) \<or> ProviderID new = ProviderID old)
   \<and> (\<not> populated (specHostRef old) \<or> specHostRef new = specHostRef old)
   \<and> (HostSelector old = None \<or> HostSelector new = HostSelector old)"

record HetznerRobotMachineStatus =
  Ready :: bool
  Initialization :: "bool option"
  Addresses :: "(AddressType \<times> string) list"
  provState :: ProvisioningState
  HostRef :: string
  PrimaryMAC :: string
  GatewayIP :: string
  ResolvedInstallDisk :: string
  FailureReason :: "string option"
  FailureMessage :: "string option"
  ProvisionStarted :: "int option"
  RetryCount :: int
  LastRetryTimestamp :: "int option"
  LastResetTime :: "int option"
  readyMark :: "cond_mark option"

record HetznerRobotMachine =
  hrmMeta :: ObjectMeta
  hrmSpec :: HetznerRobotMachineSpec
  hrmStatus :: HetznerRobotMachineStatus

definition modStatus ::
    "(HetznerRobotMachineStatus \<Rightarrow> HetznerRobotMachineStatus) \<Rightarrow> HetznerRobotMachine \<Rightarrow> HetznerRobotMachine" where
  "modStatus f m = m\<lparr>hrmStatus := f (hrmStatus m)\<rparr>"

abbreviation setState :: "ProvisioningState \<Rightarrow> HetznerRobotMachine \<Rightarrow> HetznerRobotMachine" where
  "setState st \<equiv> modStatus (provState_update (\<lambda>_. st))"

lemma modHostStatus_simps [simp]:
  "hostMeta (modHostStatus f h) = hostMeta h"
  "hostSpec (modHostStatus f h) = hostSpec h"
  "hostStatus (modHostStatus f h) = f (hostStatus h)"
  by (simp_all add: modHostStatus_def)

lemma modStatus_simps [simp]:
  "hrmMeta (modStatus g m) = hrmMeta m"
  "hrmSpec (modStatus g m) = hrmSpec m"
  "hrmStatus (modStatus g m) = g (hrmStatus m)"
  by (simp_all add: modStatus_def)

section \<open>HetznerRobotCluster\<close>

record VLANConfig =
  vlanID :: int
  PrefixLength :: int

record APIEndpoint =
  endpointHost :: string
  endpointPort :: int

record HetznerRobotClusterSpec =
  ControlPlaneEndpoint :: APIEndpoint
  RobotSecretRef :: SecretReference
  SSHSecretRef :: SecretReference
  TalosFactoryBaseURL :: string
  vlanConfig :: "VLANConfig option"

record HetznerRobotClusterStatus =
  clusterReady :: bool
  clusterInitialization :: "bool option"
  clusterReadyMark :: "cond_mark option"

record HetznerRobotCluster =
  hrcMeta :: ObjectMeta
  hrcSpec :: HetznerRobotClusterSpec
  hrcStatus :: HetznerRobotClusterStatus

section \<open>HetznerRobotRemediation\<close>

datatype RemediationPhase = RemediationPhaseNone | RemediationPhaseRunning
  | RemediationPhaseWaiting | RemediationPhaseDeleting | RemediationPhaseOther string

record RemediationStrategy =
  strategyType :: string
  RetryLimit :: int
  Timeout :: int

record HetznerRobotRemediationStatus =
  Phase :: RemediationPhase
  remRetryCount :: int
  LastRemediated :: "int option"

record HetznerRobotRemediation =
  remMeta :: ObjectMeta
  remStrategy :: RemediationStrategy
  remStatus :: HetznerRobotRemediationStatus

section \<open>HetznerRobotHostRelease\<close>

datatype HostReleaseAction = HostReleaseActionWipeAndReinstall | HostReleaseActionOther string

record ReleasedMachineReference =
  relMachineName :: string
  relMachineNamespace :: string
  relMachineUID :: string

record HetznerRobotHostRelease =
  relMeta :: ObjectMeta
  relHostRef :: string
  relMachineRef :: ReleasedMachineReference
  ApprovedAction :: HostReleaseAction
  ExpiresAt :: int
  relReason :: string

section \<open>Cluster API objects\<close>

record MachineCondition =
  condType :: string
  condStatus :: string
  condReason :: string

record Machine =
  machineMeta :: ObjectMeta
  DataSecretName :: "string option"
  machineInfraRef :: string
  NodeRef :: "string option"
  machineConditions :: "MachineCondition list"
  isControlPlane :: bool

record Cluster =
  clusterMeta :: ObjectMeta
  Paused :: bool
  clusterInfraRef :: "key option"

section \<open>Results of a reconcile\<close>

datatype Result = Done | Requeue | RequeueAfter int

end
