(* ===== verification/Runtime.thy ===== *)
theory Runtime
  imports Api_Types
begin

text \<open>
  The interface between the controllers and the code that is not in the repository: the
  Kubernetes API client, the Cluster API utilities, HTTP, SSH, gRPC, the YAML and JSON codecs
  and the clock. All of it is one record of functions over an opaque world \<open>'w\<close>, the
  parameter \<open>X\<close> of every definition that uses it. Nothing is assumed of these functions:
  a call may fail, and two calls with the same arguments may answer differently, since the
  world may change between them. Where a property needs a documented behaviour of one of them
  it says so in a hypothesis.

  A method of a controller is a program in the state monad over the run's state: the world,
  the object being reconciled (which the Go code mutates through a pointer and patches when
  the reconcile ends, errors included), and the trace of the calls made to the outside with
  their answers.
\<close>

section \<open>Data the external calls exchange\<close>

text \<open>
  A Go \<^verbatim>\<open>interface{}\<close> value as the YAML and JSON decoders build it, and a nil slice, which
  the code can store in a document and JSON prints as null.
\<close>

datatype gval = GNull | GBool bool | GInt int | GStr string | GOther string
  | GNilList | GList "gval list" | GMap "string \<Rightarrow> gval option"

type_synonym gmap = "string \<rightharpoonup> gval"

record ServerInfo =
  siServerNumber :: int
  siServerName :: string
  siServerIP :: string
  siServerIPv6Net :: string

record RescueInfo =
  riServerIP :: string
  riServerNumber :: int
  Active :: bool
  Password :: string

datatype http_method = GET | POST | DELETE

text \<open>
  What a request ends in: it could not be built, it could not be sent, the status and what
  could be read of a body whose reading failed, or the status and the body.
\<close>

datatype http_result = HttpBadRequest goerr | HttpFailed goerr | HttpBodyError int string goerr
  | HttpResponse int string

record basic_auth =
  username :: string
  password :: string

datatype event =
    EvNow int
  | EvGetHost key "goerr + HetznerRobotHost"
  | EvListHosts string LabelSelector "goerr + HetznerRobotHost list"
  | EvListReleases string "goerr + HetznerRobotHostRelease list"
  | EvPatchHost HetznerRobotHost HetznerRobotHost "goerr option"
  | EvPatchCluster HetznerRobotCluster "goerr option"
  | EvPatchMachine HetznerRobotMachine HetznerRobotMachine "goerr option"
  | EvPatchRemediation HetznerRobotRemediation HetznerRobotRemediation "goerr option"
  | EvHttp http_method string "(string \<times> string) list" http_result
  | EvDial string "goerr option"
  | EvExec string string string string "goerr option"
  | EvTalosApply string string "goerr option"
  | EvTalosReset string "goerr option"

section \<open>The external functions\<close>

record 'w ext =
  xNow :: "'w \<Rightarrow> int \<times> 'w"
  xGetMachine :: "key \<Rightarrow> 'w \<Rightarrow> (goerr + HetznerRobotMachine) \<times> 'w"
  xGetHost :: "key \<Rightarrow> 'w \<Rightarrow> (goerr + HetznerRobotHost) \<times> 'w"
  xGetHRC :: "key \<Rightarrow> 'w \<Rightarrow> (goerr + HetznerRobotCluster) \<times> 'w"
  xGetRemediation :: "key \<Rightarrow> 'w \<Rightarrow> (goerr + HetznerRobotRemediation) \<times> 'w"
  xGetSecret :: "key \<Rightarrow> 'w \<Rightarrow> (goerr + secretData) \<times> 'w"
  xListHosts :: "string \<Rightarrow> LabelSelector \<Rightarrow> 'w \<Rightarrow> (goerr + HetznerRobotHost list) \<times> 'w"
  xListMachines :: "string \<Rightarrow> 'w \<Rightarrow> (goerr + HetznerRobotMachine list) \<times> 'w"
  xListHRCs :: "string \<Rightarrow> 'w \<Rightarrow> (goerr + HetznerRobotCluster list) \<times> 'w"
  xListReleases :: "string \<Rightarrow> 'w \<Rightarrow> (goerr + HetznerRobotHostRelease list) \<times> 'w"
  xSelectorError :: "LabelSelector \<Rightarrow> goerr option"
  xNewHelper :: "'w \<Rightarrow> goerr option \<times> 'w"
  xPatchHost :: "HetznerRobotHost \<Rightarrow> HetznerRobotHost \<Rightarrow> 'w \<Rightarrow> goerr option \<times> 'w"
  xPatchHRC :: "HetznerRobotCluster \<Rightarrow> 'w \<Rightarrow> goerr option \<times> 'w"
  xPatchHRM :: "HetznerRobotMachine \<Rightarrow> HetznerRobotMachine \<Rightarrow> 'w \<Rightarrow> goerr option \<times> 'w"
  xPatchRem :: "HetznerRobotRemediation \<Rightarrow> HetznerRobotRemediation \<Rightarrow> 'w \<Rightarrow> goerr option \<times> 'w"
  xOwnerMachine :: "ObjectMeta \<Rightarrow> 'w \<Rightarrow> (goerr + Machine option) \<times> 'w"
  xClusterOf :: "Machine \<Rightarrow> 'w \<Rightarrow> (goerr + Cluster option) \<times> 'w"
  xOwnerCluster :: "ObjectMeta \<Rightarrow> 'w \<Rightarrow> (goerr + Cluster option) \<times> 'w"
  xHttp :: "basic_auth \<Rightarrow> http_method \<Rightarrow> string \<Rightarrow> (string \<times> string) list \<Rightarrow> 'w \<Rightarrow> http_result \<times> 'w"
  xServerJSON :: "string \<Rightarrow> goerr + ServerInfo"
  xRescueJSON :: "string \<Rightarrow> goerr + RescueInfo"
  xAnyJSON :: "string \<Rightarrow> goerr option"
  xParseKey :: "string \<Rightarrow> goerr option"
  xPublicKey :: "string \<Rightarrow> string"
  xDial :: "string \<Rightarrow> 'w \<Rightarrow> goerr option \<times> 'w"
  xHandshake :: "string \<Rightarrow> string \<Rightarrow> string \<Rightarrow> 'w \<Rightarrow> goerr option \<times> 'w"
  xSession :: "string \<Rightarrow> string \<Rightarrow> 'w \<Rightarrow> goerr option \<times> 'w"
  xExec :: "string \<Rightarrow> string \<Rightarrow> string \<Rightarrow> 'w \<Rightarrow> (string \<times> goerr option) \<times> 'w"
  xTalosConn :: "string \<Rightarrow> 'w \<Rightarrow> goerr option \<times> 'w"
  xTalosApply :: "string \<Rightarrow> string \<Rightarrow> 'w \<Rightarrow> goerr option \<times> 'w"
  xTalosReset :: "string \<Rightarrow> 'w \<Rightarrow> goerr option \<times> 'w"
  xYamlUnmarshal :: "string \<Rightarrow> goerr + gmap option"
  xYamlMarshal :: "gmap \<Rightarrow> goerr + string"
  xJsonUnmarshal :: "string \<Rightarrow> goerr + gmap option"
  xJsonMarshal :: "gmap \<Rightarrow> goerr + string"
  xSprintV :: "gval \<Rightarrow> string"
  xFormatTime :: "int \<Rightarrow> string"

section \<open>Programs\<close>

record ('w, 'o) rt =
  world :: 'w
  trace :: "event list"
  obj :: 'o

type_synonym ('w, 'o, 'a) go = "(('w, 'o) rt, 'a) state"

abbreviation ret :: "'a \<Rightarrow> ('w, 'o, 'a) go" where "ret \<equiv> State_Monad.return"

text \<open>One external call: the world answers and the events it makes are appended to the trace.\<close>

definition call :: "('w \<Rightarrow> 'a \<times> 'w) \<Rightarrow> ('a \<Rightarrow> event list) \<Rightarrow> ('w, 'o, 'a) go" where
  "call f evs = State (\<lambda>s. case f (world s) of
     (a, w) \<Rightarrow> (a, s\<lparr>world := w, trace := trace s @ evs a\<rparr>))"

definition getObj :: "('w, 'o, 'o) go" where
  "getObj = State (\<lambda>s. (obj s, s))"

definition modObj :: "('o \<Rightarrow> 'o) \<Rightarrow> ('w, 'o, unit) go" where
  "modObj f = State (\<lambda>s. ((), s\<lparr>obj := f (obj s)\<rparr>))"

text \<open>Sequencing where an error returns at once, its text unchanged.\<close>

definition bindE :: "('w, 'o, goerr + 'a) go \<Rightarrow> ('a \<Rightarrow> ('w, 'o, goerr + 'b) go) \<Rightarrow> ('w, 'o, goerr + 'b) go" where
  "bindE m f = State_Monad.bind m (\<lambda>r. case r of Inl e \<Rightarrow> ret (Inl e) | Inr x \<Rightarrow> f x)"

lemma run_call [simp]:
  "run_state (call f evs) s =
     (fst (f (world s)), s\<lparr>world := snd (f (world s)), trace := trace s @ evs (fst (f (world s)))\<rparr>)"
  by (simp add: call_def split: prod.split)

lemma run_getObj [simp]: "run_state getObj s = (obj s, s)"
  by (simp add: getObj_def)

lemma run_modObj [simp]: "run_state (modObj f) s = ((), s\<lparr>obj := f (obj s)\<rparr>)"
  by (simp add: modObj_def)

subsection \<open>The calls\<close>

definition timeNow :: "'w ext \<Rightarrow> ('w, 'o, int) go" where
  "timeNow X = call (xNow X) (\<lambda>t. [EvNow t])"

definition getHost :: "'w ext \<Rightarrow> string \<Rightarrow> string \<Rightarrow> ('w, 'o, goerr + HetznerRobotHost) go" where
  "getHost X ns n = call (xGetHost X (ns, n)) (\<lambda>r. [EvGetHost (ns, n) r])"

definition listHosts :: "'w ext \<Rightarrow> string \<Rightarrow> LabelSelector \<Rightarrow> ('w, 'o, goerr + HetznerRobotHost list) go" where
  "listHosts X ns sel = call (xListHosts X ns sel) (\<lambda>r. [EvListHosts ns sel r])"

definition listReleases :: "'w ext \<Rightarrow> string \<Rightarrow> ('w, 'o, goerr + HetznerRobotHostRelease list) go" where
  "listReleases X ns = call (xListReleases X ns) (\<lambda>r. [EvListReleases ns r])"

definition patchHost :: "'w ext \<Rightarrow> HetznerRobotHost \<Rightarrow> HetznerRobotHost \<Rightarrow> ('w, 'o, goerr option) go" where
  "patchHost X before after = call (xPatchHost X before after) (\<lambda>r. [EvPatchHost before after r])"

definition patchHRC :: "'w ext \<Rightarrow> HetznerRobotCluster \<Rightarrow> ('w, 'o, goerr option) go" where
  "patchHRC X c = call (xPatchHRC X c) (\<lambda>r. [EvPatchCluster c r])"

definition patchHRM :: "'w ext \<Rightarrow> HetznerRobotMachine \<Rightarrow> HetznerRobotMachine \<Rightarrow> ('w, 'o, goerr option) go" where
  "patchHRM X before after = call (xPatchHRM X before after) (\<lambda>r. [EvPatchMachine before after r])"

definition patchRem :: "'w ext \<Rightarrow> HetznerRobotRemediation \<Rightarrow> HetznerRobotRemediation \<Rightarrow> ('w, 'o, goerr option) go" where
  "patchRem X before after = call (xPatchRem X before after) (\<lambda>r. [EvPatchRemediation before after r])"

definition httpDo :: "'w ext \<Rightarrow> basic_auth \<Rightarrow> http_method \<Rightarrow> string \<Rightarrow> (string \<times> string) list
    \<Rightarrow> ('w, 'o, http_result) go" where
  "httpDo X auth m url form = call (xHttp X auth m url form) (\<lambda>r. [EvHttp m url form r])"

definition tcpDial :: "'w ext \<Rightarrow> string \<Rightarrow> ('w, 'o, goerr option) go" where
  "tcpDial X addr = call (xDial X addr) (\<lambda>r. [EvDial addr r])"

definition sshExec :: "'w ext \<Rightarrow> string \<Rightarrow> string \<Rightarrow> string \<Rightarrow> ('w, 'o, string \<times> goerr option) go" where
  "sshExec X user ip cmd = call (xExec X user ip cmd) (\<lambda>(out, e). [EvExec user ip cmd out e])"

definition talosApply :: "'w ext \<Rightarrow> string \<Rightarrow> string \<Rightarrow> ('w, 'o, goerr option) go" where
  "talosApply X ip data = call (xTalosApply X ip data) (\<lambda>r. [EvTalosApply ip data r])"

definition talosReset :: "'w ext \<Rightarrow> string \<Rightarrow> ('w, 'o, goerr option) go" where
  "talosReset X ip = call (xTalosReset X ip) (\<lambda>r. [EvTalosReset ip r])"

text \<open>A read of which only the answer matters leaves no event.\<close>

definition silent :: "('w \<Rightarrow> 'a \<times> 'w) \<Rightarrow> ('w, 'o, 'a) go" where
  "silent f = call f (\<lambda>_. [])"

lemmas calls_def = timeNow_def getHost_def listHosts_def listReleases_def patchHost_def patchHRC_def
  patchHRM_def patchRem_def httpDo_def tcpDial_def sshExec_def talosApply_def talosReset_def silent_def

section \<open>Reasoning about the events of a program\<close>

text \<open>
  \<open>emits P m\<close>: whatever the world answers, a run of \<open>m\<close> only appends to the trace, and
  every event it appends satisfies \<open>P\<close>. \<open>results m\<close> are the values some run of
  \<open>m\<close> returns; the rule for sequencing hands them to the continuation.
\<close>

named_theorems emits_intro \<open>introduction rules for emits\<close>

definition emits :: "(event \<Rightarrow> bool) \<Rightarrow> ('w, 'o, 'a) go \<Rightarrow> bool" where
  "emits P m \<longleftrightarrow> (\<forall>s. \<exists>new. trace (snd (run_state m s)) = trace s @ new \<and> (\<forall>e \<in> set new. P e))"

definition results :: "('w, 'o, 'a) go \<Rightarrow> 'a set" where
  "results m = {a. \<exists>s. fst (run_state m s) = a}"

definition newEvents :: "('w, 'o, 'a) go \<Rightarrow> ('w, 'o) rt \<Rightarrow> event list" where
  "newEvents m s = drop (length (trace s)) (trace (snd (run_state m s)))"

lemma emits_new: "emits P m \<Longrightarrow> e \<in> set (newEvents m s) \<Longrightarrow> P e"
  unfolding emits_def newEvents_def by (metis append_eq_conv_conj)

lemma emits_trace: "emits P m \<Longrightarrow> trace (snd (run_state m s)) = trace s @ newEvents m s"
  unfolding emits_def newEvents_def by (metis append_eq_conv_conj)

lemma emits_mono: "emits P m \<Longrightarrow> (\<And>e. P e \<Longrightarrow> Q e) \<Longrightarrow> emits Q m"
  unfolding emits_def by meson

lemma emits_ret [emits_intro]: "emits P (ret x)"
  by (simp add: emits_def)

lemma emits_getObj [emits_intro]: "emits P getObj"
  by (simp add: emits_def)

lemma emits_modObj [emits_intro]: "emits P (modObj f)"
  by (simp add: emits_def)

lemma emits_call [emits_intro]: "(\<And>a e. e \<in> set (evs a) \<Longrightarrow> P e) \<Longrightarrow> emits P (call f evs)"
  by (auto simp: emits_def)

lemma emits_bind_results:
  assumes "emits P m" and "\<And>x. x \<in> results m \<Longrightarrow> emits P (f x)"
  shows "emits P (State_Monad.bind m f)"
  unfolding emits_def
proof
  fix s
  obtain a s' where run: "run_state m s = (a, s')" by (cases "run_state m s")
  then have "a \<in> results m" unfolding results_def by (metis (mono_tags, lifting) fst_conv mem_Collect_eq)
  with assms(2) have fa: "emits P (f a)" .
  from assms(1) run obtain n1 where n1: "trace s' = trace s @ n1" "\<forall>e \<in> set n1. P e"
    unfolding emits_def by (metis snd_conv)
  from fa obtain n2 where n2: "trace (snd (run_state (f a) s')) = trace s' @ n2" "\<forall>e \<in> set n2. P e"
    unfolding emits_def by blast
  have "trace (snd (run_state (State_Monad.bind m f) s)) = trace s @ (n1 @ n2)"
    using run n1(1) n2(1) by simp
  moreover have "\<forall>e \<in> set (n1 @ n2). P e" using n1(2) n2(2) by auto
  ultimately show "\<exists>new. trace (snd (run_state (State_Monad.bind m f) s)) = trace s @ new \<and> (\<forall>e \<in> set new. P e)"
    by blast
qed

lemma emits_bind [emits_intro]:
  "emits P m \<Longrightarrow> (\<And>x. emits P (f x)) \<Longrightarrow> emits P (State_Monad.bind m f)"
  by (rule emits_bind_results)

lemma emits_bindE [emits_intro]:
  "emits P m \<Longrightarrow> (\<And>x. emits P (f x)) \<Longrightarrow> emits P (bindE m f)"
  unfolding bindE_def by (intro emits_bind) (auto intro: emits_ret split: sum.split)

lemma emits_case_sum [emits_intro]:
  "(\<And>e. r = Inl e \<Longrightarrow> emits P (f e)) \<Longrightarrow> (\<And>x. r = Inr x \<Longrightarrow> emits P (g x)) \<Longrightarrow>
   emits P (case r of Inl e \<Rightarrow> f e | Inr x \<Rightarrow> g x)"
  by (cases r) auto

lemma emits_case_option [emits_intro]:
  "(r = None \<Longrightarrow> emits P f) \<Longrightarrow> (\<And>x. r = Some x \<Longrightarrow> emits P (g x)) \<Longrightarrow>
   emits P (case r of None \<Rightarrow> f | Some x \<Rightarrow> g x)"
  by (cases r) auto

lemma emits_if [emits_intro]:
  "(c \<Longrightarrow> emits P a) \<Longrightarrow> (\<not> c \<Longrightarrow> emits P b) \<Longrightarrow> emits P (if c then a else b)"
  by simp

lemma emits_case_prod [emits_intro]:
  "(\<And>a b. r = (a, b) \<Longrightarrow> emits P (f a b)) \<Longrightarrow> emits P (case r of (a, b) \<Rightarrow> f a b)"
  by (cases r) auto

lemma emits_Let [emits_intro]: "emits P (f x) \<Longrightarrow> emits P (let y = x in f y)"
  by simp

lemma results_ret [simp]: "results (ret x) = {x}"
  by (auto simp: results_def)

lemma results_call: "a \<in> results (call f evs) \<Longrightarrow> \<exists>w. a = fst (f w)"
  by (auto simp: results_def)

lemma resultsI: "run_state m s = (a, s') \<Longrightarrow> a \<in> results m"
  unfolding results_def by (metis (mono_tags, lifting) fst_conv mem_Collect_eq)

lemma results_bind:
  "a \<in> results (State_Monad.bind m f) \<Longrightarrow> \<exists>x. x \<in> results m \<and> a \<in> results (f x)"
  unfolding results_def by (simp add: case_prod_beta) metis

section \<open>Weakest preconditions\<close>

text \<open>
  \<open>wp m ob Q\<close>: started on the object \<open>ob\<close>, whatever the world is and answers, \<open>m\<close>
  only appends to the trace, and the events it appends, the value it returns and the object it
  leaves satisfy \<open>Q\<close>. The rules execute a program symbolically: the events of the first part
  are put before those of the rest.
\<close>

named_theorems wp_intro \<open>introduction rules for wp\<close>

definition wp :: "('w, 'o, 'a) go \<Rightarrow> 'o \<Rightarrow> (event list \<Rightarrow> 'a \<Rightarrow> 'o \<Rightarrow> bool) \<Rightarrow> bool" where
  "wp m ob Q \<longleftrightarrow> (\<forall>s. obj s = ob \<longrightarrow> (\<exists>new. trace (snd (run_state m s)) = trace s @ new
     \<and> Q new (fst (run_state m s)) (obj (snd (run_state m s)))))"

lemma wpD:
  assumes "wp m (obj s) Q"
  shows "Q (newEvents m s) (fst (run_state m s)) (obj (snd (run_state m s)))"
    and "trace (snd (run_state m s)) = trace s @ newEvents m s"
  using assms unfolding wp_def newEvents_def by (metis append_eq_conv_conj)+

lemma wp_mono: "wp m ob Q \<Longrightarrow> (\<And>n x ob'. Q n x ob' \<Longrightarrow> Q' n x ob') \<Longrightarrow> wp m ob Q'"
  unfolding wp_def by blast

lemma wp_conj: "wp m ob Q \<Longrightarrow> wp m ob R \<Longrightarrow> wp m ob (\<lambda>n x ob'. Q n x ob' \<and> R n x ob')"
  unfolding wp_def by (metis same_append_eq)

lemma wp_emits: "emits P m \<Longrightarrow> wp m ob (\<lambda>n x ob'. list_all P n)"
  unfolding wp_def emits_def list_all_iff by meson

lemma wp_bind:
  assumes "wp m ob (\<lambda>n x ob'. wp (f x) ob' (\<lambda>n'. Q (n @ n')))"
  shows "wp (State_Monad.bind m f) ob Q"
  unfolding wp_def
proof (intro allI impI)
  fix s :: "('a, 'b) rt" assume "obj s = ob"
  obtain a s' where run: "run_state m s = (a, s')" by (cases "run_state m s")
  with assms \<open>obj s = ob\<close> obtain n where n: "trace s' = trace s @ n" "wp (f a) (obj s') (\<lambda>n'. Q (n @ n'))"
    unfolding wp_def [of m] by fastforce
  from n(2) obtain n' where n': "trace (snd (run_state (f a) s')) = trace s' @ n'"
    "Q (n @ n') (fst (run_state (f a) s')) (obj (snd (run_state (f a) s')))"
    unfolding wp_def by blast
  have "trace (snd (run_state (State_Monad.bind m f) s)) = trace s @ (n @ n')" using run n n' by simp
  moreover have "Q (n @ n') (fst (run_state (State_Monad.bind m f) s))
      (obj (snd (run_state (State_Monad.bind m f) s)))" using run n' by simp
  ultimately show "\<exists>new. trace (snd (run_state (State_Monad.bind m f) s)) = trace s @ new
      \<and> Q new (fst (run_state (State_Monad.bind m f) s)) (obj (snd (run_state (State_Monad.bind m f) s)))"
    by blast
qed

lemma wp_ret [simp]: "wp (ret x) ob Q \<longleftrightarrow> Q [] x ob"
proof
  assume wp: "wp (ret x) ob Q"
  show "Q [] x ob"
    using wpD(1) [of "ret x" "\<lparr>world = undefined, trace = [], obj = ob\<rparr>" Q] wp
    by (simp add: newEvents_def)
qed (simp add: wp_def)

text \<open>Rules for a first step whose effect is known.\<close>

lemma wp_bind_ret [simp]: "wp (State_Monad.bind (ret x) f) ob Q \<longleftrightarrow> wp (f x) ob Q"
  by (simp add: wp_def)

lemma wp_bind_getObj [simp]: "wp (State_Monad.bind getObj f) ob Q \<longleftrightarrow> wp (f ob) ob Q"
  by (simp add: wp_def)

lemma wp_bind_modObj [simp]: "wp (State_Monad.bind (modObj g) f) ob Q \<longleftrightarrow> wp (f ()) (g ob) Q"
proof
  assume l: "wp (State_Monad.bind (modObj g) f) ob Q"
  show "wp (f ()) (g ob) Q"
    unfolding wp_def
  proof (intro allI impI)
    fix s :: "('a, 'b) rt" assume "obj s = g ob"
    moreover from l obtain new where "trace (snd (run_state (f ()) (s\<lparr>obj := g ob\<rparr>))) = trace s @ new"
      "Q new (fst (run_state (f ()) (s\<lparr>obj := g ob\<rparr>))) (obj (snd (run_state (f ()) (s\<lparr>obj := g ob\<rparr>))))"
      unfolding wp_def by (auto dest: spec [where x = "s\<lparr>obj := ob\<rparr>"])
    ultimately show "\<exists>new. trace (snd (run_state (f ()) s)) = trace s @ new
        \<and> Q new (fst (run_state (f ()) s)) (obj (snd (run_state (f ()) s)))"
      by (metis rt.surjective rt.update_convs(3))
  qed
next
  assume r: "wp (f ()) (g ob) Q"
  show "wp (State_Monad.bind (modObj g) f) ob Q"
    unfolding wp_def
  proof (intro allI impI)
    fix s :: "('a, 'b) rt" assume "obj s = ob"
    with r [unfolded wp_def, THEN spec, of "s\<lparr>obj := g ob\<rparr>"]
    show "\<exists>new. trace (snd (run_state (State_Monad.bind (modObj g) f) s)) = trace s @ new
        \<and> Q new (fst (run_state (State_Monad.bind (modObj g) f) s))
            (obj (snd (run_state (State_Monad.bind (modObj g) f) s)))"
      by simp
  qed
qed

lemma wp_modObj [simp]: "wp (modObj g) ob Q \<longleftrightarrow> Q [] () (g ob)"
  using wp_bind_modObj [of g ret ob Q] by simp

lemma wp_bind_call:
  "(\<And>x. wp (f x) ob (\<lambda>n. Q (evs x @ n))) \<Longrightarrow> wp (State_Monad.bind (call c evs) f) ob Q"
  by (rule wp_bind) (simp add: wp_def)

lemma wp_bind_calls [wp_intro]:
  "(\<And>x. wp (f1 x) ob (\<lambda>n. Q ([EvNow x] @ n))) \<Longrightarrow> wp (State_Monad.bind (timeNow X) f1) ob Q"
  "(\<And>x. wp (f2 x) ob (\<lambda>n. Q ([EvGetHost (ns, hn) x] @ n))) \<Longrightarrow> wp (State_Monad.bind (getHost X ns hn) f2) ob Q"
  "(\<And>x. wp (f3 x) ob (\<lambda>n. Q ([EvListHosts ns sel x] @ n))) \<Longrightarrow> wp (State_Monad.bind (listHosts X ns sel) f3) ob Q"
  "(\<And>x. wp (f4 x) ob (\<lambda>n. Q ([EvListReleases ns x] @ n))) \<Longrightarrow> wp (State_Monad.bind (listReleases X ns) f4) ob Q"
  "(\<And>x. wp (f5 x) ob (\<lambda>n. Q ([EvPatchHost b a x] @ n))) \<Longrightarrow> wp (State_Monad.bind (patchHost X b a) f5) ob Q"
  "(\<And>x. wp (f6 x) ob (\<lambda>n. Q ([EvPatchCluster hc x] @ n))) \<Longrightarrow> wp (State_Monad.bind (patchHRC X hc) f6) ob Q"
  "(\<And>x. wp (f7 x) ob Q) \<Longrightarrow> wp (State_Monad.bind (silent g) f7) ob Q"
  "(\<And>x. wp (f8 x) ob (\<lambda>n. Q ([EvPatchMachine mb ma x] @ n))) \<Longrightarrow> wp (State_Monad.bind (patchHRM X mb ma) f8) ob Q"
  "(\<And>x. wp (f9 x) ob (\<lambda>n. Q ([EvPatchRemediation rb ra x] @ n))) \<Longrightarrow> wp (State_Monad.bind (patchRem X rb ra) f9) ob Q"
  unfolding timeNow_def getHost_def listHosts_def listReleases_def patchHost_def patchHRC_def silent_def
    patchHRM_def patchRem_def
  by (rule wp_bind_call, simp)+

lemma wp_bindI:
  "wp m ob M \<Longrightarrow> (\<And>n x ob'. M n x ob' \<Longrightarrow> wp (f x) ob' (\<lambda>n'. Q (n @ n'))) \<Longrightarrow> wp (State_Monad.bind m f) ob Q"
  by (rule wp_bind, rule wp_mono)

lemma wp_bindEI:
  "wp m ob M \<Longrightarrow> (\<And>n e ob'. M n (Inl e) ob' \<Longrightarrow> Q n (Inl e) ob')
   \<Longrightarrow> (\<And>n x ob'. M n (Inr x) ob' \<Longrightarrow> wp (f x) ob' (\<lambda>n'. Q (n @ n'))) \<Longrightarrow> wp (bindE m f) ob Q"
  unfolding bindE_def by (rule wp_bindI, assumption) (auto split: sum.split)

lemma wp_case_sum [wp_intro]:
  "(\<And>e. r = Inl e \<Longrightarrow> wp (f e) ob Q) \<Longrightarrow> (\<And>x. r = Inr x \<Longrightarrow> wp (g x) ob Q) \<Longrightarrow>
   wp (case r of Inl e \<Rightarrow> f e | Inr x \<Rightarrow> g x) ob Q"
  by (cases r) auto

lemma wp_case_option [wp_intro]:
  "(r = None \<Longrightarrow> wp f ob Q) \<Longrightarrow> (\<And>x. r = Some x \<Longrightarrow> wp (g x) ob Q) \<Longrightarrow>
   wp (case r of None \<Rightarrow> f | Some x \<Rightarrow> g x) ob Q"
  by (cases r) auto

lemma wp_case_prod [wp_intro]:
  "(\<And>a b. r = (a, b) \<Longrightarrow> wp (f a b) ob Q) \<Longrightarrow> wp (case r of (a, b) \<Rightarrow> f a b) ob Q"
  by (cases r) auto

lemma wp_if [wp_intro]:
  "(c \<Longrightarrow> wp a ob Q) \<Longrightarrow> (\<not> c \<Longrightarrow> wp b ob Q) \<Longrightarrow> wp (if c then a else b) ob Q"
  by simp

lemma wp_Let [wp_intro]: "wp (f x) ob Q \<Longrightarrow> wp (let y = x in f y) ob Q"
  by simp

subsection \<open>Programs that leave the object alone\<close>

named_theorems keeps_intro \<open>introduction rules for keeps\<close>

definition keeps :: "('w, 'o, 'a) go \<Rightarrow> bool" where
  "keeps m \<longleftrightarrow> (\<forall>s. obj (snd (run_state m s)) = obj s \<and> (\<exists>new. trace (snd (run_state m s)) = trace s @ new))"

lemma keeps_ret [keeps_intro]: "keeps (ret x)"
  by (simp add: keeps_def)

lemma keeps_getObj [keeps_intro]: "keeps getObj"
  by (simp add: keeps_def)

lemma keeps_call: "keeps (call f evs)"
  by (simp add: keeps_def)

lemma keeps_calls [keeps_intro]:
  "keeps (timeNow X)" "keeps (getHost X ns n)" "keeps (listHosts X ns sel)" "keeps (listReleases X ns)"
  "keeps (patchHost X b a)" "keeps (patchHRC X c)" "keeps (patchHRM X hb ha)" "keeps (patchRem X rb ra)" "keeps (httpDo X au m u f)" "keeps (tcpDial X ad)"
  "keeps (sshExec X us ip cmd)" "keeps (talosApply X ip d)" "keeps (talosReset X ip)" "keeps (silent g)"
  unfolding calls_def by (rule keeps_call)+

lemma keeps_bind [keeps_intro]: "keeps m \<Longrightarrow> (\<And>x. keeps (f x)) \<Longrightarrow> keeps (State_Monad.bind m f)"
  unfolding keeps_def by (auto simp: case_prod_beta) (metis append.assoc)

lemma keeps_bindE [keeps_intro]: "keeps m \<Longrightarrow> (\<And>x. keeps (f x)) \<Longrightarrow> keeps (bindE m f)"
  unfolding bindE_def by (intro keeps_bind) (auto intro: keeps_ret split: sum.split)

lemma keeps_case_sum [keeps_intro]:
  "(\<And>e. keeps (f e)) \<Longrightarrow> (\<And>x. keeps (g x)) \<Longrightarrow> keeps (case r of Inl e \<Rightarrow> f e | Inr x \<Rightarrow> g x)"
  by (cases r) auto

lemma keeps_case_option [keeps_intro]:
  "keeps f \<Longrightarrow> (\<And>x. keeps (g x)) \<Longrightarrow> keeps (case r of None \<Rightarrow> f | Some x \<Rightarrow> g x)"
  by (cases r) auto

lemma keeps_case_prod [keeps_intro]: "(\<And>a b. keeps (f a b)) \<Longrightarrow> keeps (case r of (a, b) \<Rightarrow> f a b)"
  by (cases r) auto

lemma keeps_if [keeps_intro]: "keeps a \<Longrightarrow> keeps b \<Longrightarrow> keeps (if c then a else b)"
  by simp

lemma keeps_Let [keeps_intro]: "(\<And>y. keeps (f y)) \<Longrightarrow> keeps (let y = x in f y)"
  by simp

lemma wp_keeps: "keeps m \<Longrightarrow> wp m ob (\<lambda>n x ob'. ob' = ob)"
  unfolding keeps_def wp_def by auto

lemma wp_bind_keeps:
  "keeps m \<Longrightarrow> (\<And>n x. wp (f x) ob (\<lambda>n'. Q (n @ n'))) \<Longrightarrow> wp (State_Monad.bind m f) ob Q"
  by (rule wp_bindI [OF wp_keeps]) auto

subsection \<open>Programs that take the object along given steps\<close>

text \<open>\<open>moves R m\<close>: a run of \<open>m\<close> takes the object along steps of \<open>R\<close>.\<close>

named_theorems moves_intro \<open>introduction rules for moves\<close>

definition moves :: "('o \<Rightarrow> 'o \<Rightarrow> bool) \<Rightarrow> ('w, 'o, 'a) go \<Rightarrow> bool" where
  "moves R m \<longleftrightarrow> (\<forall>s. R\<^sup>*\<^sup>* (obj s) (obj (snd (run_state m s))) \<and> (\<exists>new. trace (snd (run_state m s)) = trace s @ new))"

lemma moves_keeps: "keeps m \<Longrightarrow> moves R m"
  by (simp add: moves_def keeps_def)

lemma moves_modObj: "(\<And>ob. R\<^sup>*\<^sup>* ob (f ob)) \<Longrightarrow> moves R (modObj f)"
  by (simp add: moves_def)

lemma moves_bind [moves_intro]: "moves R m \<Longrightarrow> (\<And>x. moves R (f x)) \<Longrightarrow> moves R (State_Monad.bind m f)"
  unfolding moves_def by (auto simp: case_prod_beta) (meson rtranclp_trans, metis append.assoc)

lemma moves_bindE [moves_intro]: "moves R m \<Longrightarrow> (\<And>x. moves R (f x)) \<Longrightarrow> moves R (bindE m f)"
  unfolding bindE_def by (intro moves_bind) (auto intro: moves_keeps keeps_ret split: sum.split)

lemma moves_case_sum [moves_intro]:
  "(\<And>e. moves R (f e)) \<Longrightarrow> (\<And>x. moves R (g x)) \<Longrightarrow> moves R (case r of Inl e \<Rightarrow> f e | Inr x \<Rightarrow> g x)"
  by (cases r) auto

lemma moves_case_option [moves_intro]:
  "moves R f \<Longrightarrow> (\<And>x. moves R (g x)) \<Longrightarrow> moves R (case r of None \<Rightarrow> f | Some x \<Rightarrow> g x)"
  by (cases r) auto

lemma moves_case_prod [moves_intro]: "(\<And>a b. moves R (f a b)) \<Longrightarrow> moves R (case r of (a, b) \<Rightarrow> f a b)"
  by (cases r) auto

lemma moves_if [moves_intro]: "moves R a \<Longrightarrow> moves R b \<Longrightarrow> moves R (if c then a else b)"
  by simp

lemma moves_Let [moves_intro]: "(\<And>y. moves R (f y)) \<Longrightarrow> moves R (let y = x in f y)"
  by simp

lemma moves_case_res [moves_intro]:
  "moves R f \<Longrightarrow> (\<And>e. moves R (g e)) \<Longrightarrow> (\<And>x. moves R (h x)) \<Longrightarrow>
   moves R (case r of Panicked \<Rightarrow> f | Failed e \<Rightarrow> g e | Returned x \<Rightarrow> h x)"
  by (cases r) auto

lemma wp_moves: "moves R m \<Longrightarrow> wp m ob (\<lambda>n x. R\<^sup>*\<^sup>* ob)"
  unfolding moves_def wp_def by auto

lemmas moves_getObj [moves_intro] = moves_keeps [OF keeps_getObj]
lemmas moves_ret [moves_intro] = moves_keeps [OF keeps_ret]

subsection \<open>Programs with a known answer\<close>

text \<open>\<open>answered m P\<close>: the run leaves the object alone and its result satisfies \<open>P\<close>.\<close>

definition answered :: "('w, 'o, 'a) go \<Rightarrow> ('a \<Rightarrow> bool) \<Rightarrow> bool" where
  "answered m P \<longleftrightarrow> (\<forall>ob. wp m ob (\<lambda>n r ob'. ob' = ob \<and> P r))"

lemma answered_ret: "P x \<Longrightarrow> answered (ret x) P"
  by (simp add: answered_def)

lemma wp_bind_answered:
  "answered m P \<Longrightarrow> (\<And>n x. P x \<Longrightarrow> wp (f x) ob (\<lambda>n'. Q (n @ n'))) \<Longrightarrow> wp (State_Monad.bind m f) ob Q"
  unfolding answered_def by (rule wp_bindI, erule spec) auto

lemma answered_bind: "answered m P \<Longrightarrow> (\<And>x. P x \<Longrightarrow> answered (f x) Q) \<Longrightarrow> answered (State_Monad.bind m f) Q"
  unfolding answered_def [of "State_Monad.bind m f"]
  by (intro allI wp_bind_answered [of m P]) (auto simp: answered_def)

lemma answered_call: "(\<And>w. P (fst (c w))) \<Longrightarrow> answered (call c evs) P"
  by (simp add: answered_def wp_def)

lemma answered_calls:
  "(\<And>w. P1 (fst (xGetHost X (ns, n) w))) \<Longrightarrow> answered (getHost X ns n) P1"
  "(\<And>w. P2 (fst (xHttp X au me u f w))) \<Longrightarrow> answered (httpDo X au me u f) P2"
  "(\<And>w. P3 (fst (xDial X a w))) \<Longrightarrow> answered (tcpDial X a) P3"
  "(\<And>w. P4 (fst (xExec X us ip cmd w))) \<Longrightarrow> answered (sshExec X us ip cmd) P4"
  "(\<And>w. P5 (fst (xTalosApply X ip d w))) \<Longrightarrow> answered (talosApply X ip d) P5"
  "(\<And>w. P6 (fst (g w))) \<Longrightarrow> answered (silent g) P6"
  "(\<And>w. P7 (fst (xNow X w))) \<Longrightarrow> answered (timeNow X) P7"
  "(\<And>w. P8 (fst (xPatchHRC X c w))) \<Longrightarrow> answered (patchHRC X c) P8"
  unfolding calls_def by (rule answered_call, assumption)+

lemma answered_any: "keeps m \<Longrightarrow> answered m (\<lambda>_. True)"
  unfolding answered_def by (auto intro: wp_mono [OF wp_keeps])

lemma answered_mono: "answered m P \<Longrightarrow> (\<And>x. P x \<Longrightarrow> Q x) \<Longrightarrow> answered m Q"
  unfolding answered_def by (blast intro: wp_mono)

section \<open>Kinds of events\<close>

definition isRead :: "event \<Rightarrow> bool" where
  "isRead e \<longleftrightarrow> (case e of EvNow _ \<Rightarrow> True | EvGetHost _ _ \<Rightarrow> True | EvListHosts _ _ _ \<Rightarrow> True
     | EvListReleases _ _ \<Rightarrow> True | _ \<Rightarrow> False)"

lemma isRead_simps [simp]:
  "isRead (EvNow t)" "isRead (EvGetHost k r)" "isRead (EvListHosts n l r')" "isRead (EvListReleases n r'')"
  "\<not> isRead (EvPatchHost h h' p)" "\<not> isRead (EvPatchCluster c p)" "\<not> isRead (EvHttp m u f v)"
  "\<not> isRead (EvDial a p)" "\<not> isRead (EvExec usr ip cmd out p)" "\<not> isRead (EvTalosApply ip d p)"
  "\<not> isRead (EvTalosReset ip p)" "\<not> isRead (EvPatchMachine mb ma p)" "\<not> isRead (EvPatchRemediation rb ra p)"
  by (simp_all add: isRead_def)

lemma emits_reads [emits_intro]:
  "emits isRead (timeNow X)" "emits isRead (getHost X ns n)" "emits isRead (listHosts X ns sel)"
  "emits isRead (listReleases X ns)"
  by (auto simp: calls_def intro!: emits_intro)

lemma emits_silent [emits_intro]: "emits P (silent f)"
  by (auto simp: silent_def intro: emits_intro)

end
