(* ===== verification/Policy.thy ===== *)
theory Policy
  imports Runtime
begin

text \<open>
  \<^verbatim>\<open>controllers/hetznerrobotmachine_policy.go\<close>: which hosts may be wiped or reset.
  Two functions decide from the host's spec alone and share a contract (locale
  \<open>host_gate\<close>): they let a host through exactly when it is disposable. The method of the
  reconciler adds storage hosts with an active \<^verbatim>\<open>HetznerRobotHostRelease\<close>.
\<close>

section \<open>Definitions\<close>

definition destructiveProvisioningDeniedReason :: string where
  "destructiveProvisioningDeniedReason = ''DestructiveProvisioningDenied''"

definition authorizeDestructiveProvisioning :: "HetznerRobotHost option \<Rightarrow> goerr option" where
  "authorizeDestructiveProvisioning ho = (case ho of
     None \<Rightarrow> Some (errorf ''destructive provisioning denied: host is nil'')
   | Some host \<Rightarrow>
       if MaintenanceMode (hostSpec host) then
         Some (errorf (''destructive provisioning denied for host '' @ hostName host @ '': maintenanceMode=true''))
       else (case LifecycleClass (hostSpec host) of
         HostLifecycleClassCompute \<Rightarrow>
           if DestructivePolicy (hostSpec host) = PolicyAlwaysCleanSlate then None
           else Some (errorf (''destructive provisioning denied for compute host '' @ hostName host
             @ '': policy='' @ goQuote (policyText (DestructivePolicy (hostSpec host)))
             @ '', want '' @ goQuote (policyText PolicyAlwaysCleanSlate)))
       | HostLifecycleClassControlPlane \<Rightarrow>
           Some (errorf (''destructive provisioning denied for control-plane host '' @ hostName host
             @ '': policy='' @ goQuote (policyText (DestructivePolicy (hostSpec host)))))
       | HostLifecycleClassStorage \<Rightarrow>
           Some (errorf (''destructive provisioning denied for storage host '' @ hostName host
             @ '': active storage host release is required''))
       | HostLifecycleClassNone \<Rightarrow>
           Some (errorf (''destructive provisioning denied for host '' @ hostName host
             @ '': lifecycleClass is required''))
       | HostLifecycleClassOther c \<Rightarrow>
           Some (errorf (''destructive provisioning denied for host '' @ hostName host
             @ '': unsupported lifecycleClass='' @ goQuote c))))"

text \<open>The guards of the loop of \<^verbatim>\<open>findActiveHostRelease\<close>: the release it returns is the first that passes them.\<close>

definition releaseMatches :: "HetznerRobotHost \<Rightarrow> Machine \<Rightarrow> int \<Rightarrow> HetznerRobotHostRelease \<Rightarrow> bool" where
  "releaseMatches host machine now release \<longleftrightarrow>
     relHostRef release = hostName host
     \<and> ApprovedAction release = HostReleaseActionWipeAndReinstall
     \<and> now < ExpiresAt release
     \<and> relMachineName (relMachineRef release) = Name (machineMeta machine)
     \<and> relMachineNamespace (relMachineRef release) = Namespace (machineMeta machine)
     \<and> relMachineUID (relMachineRef release) = UID (machineMeta machine)"

definition findActiveHostRelease :: "'w ext \<Rightarrow> HetznerRobotHost \<Rightarrow> Machine option
    \<Rightarrow> ('w, 'o, goerr + HetznerRobotHostRelease option) go" where
  "findActiveHostRelease X host mo = (case mo of
     None \<Rightarrow> ret (Inl (errorf (''destructive provisioning denied for host '' @ hostName host
       @ '': CAPI Machine is nil'')))
   | Some machine \<Rightarrow> do {
       r \<leftarrow> listReleases X (Namespace (hostMeta host));
       (case r of
          Inl e \<Rightarrow> ret (Inl (wrapErr (''list HetznerRobotHostReleases for host '' @ hostName host @ '': '') e))
        | Inr releases \<Rightarrow> do {
            now \<leftarrow> timeNow X;
            ret (Inr (find (releaseMatches host machine now) releases))
          })
     })"

text \<open>The method of the reconciler with the same name as the function above.\<close>

definition authorizeDestructiveProvisioningFor :: "'w ext \<Rightarrow> HetznerRobotMachine option \<Rightarrow> Machine option
    \<Rightarrow> HetznerRobotHost option \<Rightarrow> ('w, 'o, goerr option) go" where
  "authorizeDestructiveProvisioningFor X hrmo mo ho = (case ho of
     None \<Rightarrow> ret (Some (errorf ''destructive provisioning denied: host is nil''))
   | Some host \<Rightarrow>
       if hrmo = None then
         ret (Some (errorf (''destructive provisioning denied for host '' @ hostName host
           @ '': HetznerRobotMachine is nil'')))
       else if LifecycleClass (hostSpec host) \<noteq> HostLifecycleClassStorage then
         ret (authorizeDestructiveProvisioning ho)
       else if MaintenanceMode (hostSpec host) then
         ret (Some (errorf (''destructive provisioning denied for host '' @ hostName host
           @ '': maintenanceMode=true'')))
       else if DestructivePolicy (hostSpec host) \<noteq> PolicyRequiresExternalRelease then
         ret (Some (errorf (''destructive provisioning denied for storage host '' @ hostName host
           @ '': policy='' @ goQuote (policyText (DestructivePolicy (hostSpec host)))
           @ '', want '' @ goQuote (policyText PolicyRequiresExternalRelease))))
       else do {
         r \<leftarrow> findActiveHostRelease X host mo;
         (case r of
            Inl e \<Rightarrow> ret (Some e)
          | Inr (Some _) \<Rightarrow> ret None
          | Inr None \<Rightarrow> ret (Some (errorf (''destructive provisioning denied for storage host '' @ hostName host
              @ '': active HetznerRobotHostRelease for Machine ''
              @ (case mo of None \<Rightarrow> [] | Some m \<Rightarrow> Namespace (machineMeta m) @ ''/'' @ Name (machineMeta m)
                   @ '' uid='' @ UID (machineMeta m))
              @ '' is required''))))
       })"

definition authorizeAutomatedHardwareReset :: "HetznerRobotHost option \<Rightarrow> goerr option" where
  "authorizeAutomatedHardwareReset ho = (case ho of
     None \<Rightarrow> Some (errorf ''automated hardware reset denied: host is nil'')
   | Some host \<Rightarrow>
       if MaintenanceMode (hostSpec host) then
         Some (errorf (''automated hardware reset denied for host '' @ hostName host @ '': maintenanceMode=true''))
       else (case LifecycleClass (hostSpec host) of
         HostLifecycleClassCompute \<Rightarrow>
           if DestructivePolicy (hostSpec host) = PolicyAlwaysCleanSlate then None
           else Some (errorf (''automated hardware reset denied for compute host '' @ hostName host
             @ '': policy='' @ goQuote (policyText (DestructivePolicy (hostSpec host)))
             @ '', want '' @ goQuote (policyText PolicyAlwaysCleanSlate)))
       | HostLifecycleClassControlPlane \<Rightarrow>
           Some (errorf (''automated hardware reset denied for control-plane host '' @ hostName host
             @ '': platform quorum gate required''))
       | HostLifecycleClassStorage \<Rightarrow>
           Some (errorf (''automated hardware reset denied for storage host '' @ hostName host
             @ '': external storage health/release gate required''))
       | HostLifecycleClassNone \<Rightarrow>
           Some (errorf (''automated hardware reset denied for host '' @ hostName host
             @ '': lifecycleClass is required''))
       | HostLifecycleClassOther c \<Rightarrow>
           Some (errorf (''automated hardware reset denied for host '' @ hostName host
             @ '': unsupported lifecycleClass='' @ goQuote c))))"

definition markDestructiveProvisioningDenied :: "goerr \<Rightarrow> HetznerRobotMachine \<Rightarrow> HetznerRobotMachine" where
  "markDestructiveProvisioningDenied e = modStatus (readyMark_update
     (\<lambda>_. Some (MarkFalse destructiveProvisioningDeniedReason SeverityWarning (errText e))))"

definition provisioningMayBecomeDestructive :: "ProvisioningState \<Rightarrow> bool" where
  "provisioningMayBecomeDestructive st = (case st of
     StateNone \<Rightarrow> True | StateActivatingRescue \<Rightarrow> True | StateInRescue \<Rightarrow> True | StateInstalling \<Rightarrow> True
   | _ \<Rightarrow> False)"

section \<open>What the policy means\<close>

text \<open>The states with the gate in front of them are the ones up to the install.\<close>

lemma destructive_states_first: "provisioningMayBecomeDestructive st \<longleftrightarrow> st \<le> StateInstalling"
  by (cases st) (simp_all add: provisioningMayBecomeDestructive_def less_eq_ProvisioningState_def)


definition disposable :: "HetznerRobotHost \<Rightarrow> bool" where
  "disposable h \<longleftrightarrow> \<not> MaintenanceMode (hostSpec h)
     \<and> LifecycleClass (hostSpec h) = HostLifecycleClassCompute
     \<and> DestructivePolicy (hostSpec h) = PolicyAlwaysCleanSlate"

text \<open>
  The answers in a trace that release a storage host to a machine: the list of releases of the
  host's namespace holds one that matches at a time the clock gave.
\<close>

definition releasedIn :: "event list \<Rightarrow> HetznerRobotHost \<Rightarrow> Machine \<Rightarrow> bool" where
  "releasedIn tr h m \<longleftrightarrow> (\<exists>rels now. EvListReleases (Namespace (hostMeta h)) (Inr rels) \<in> set tr
     \<and> EvNow now \<in> set tr \<and> (\<exists>rel \<in> set rels. releaseMatches h m now rel))"

definition authorisedIn :: "event list \<Rightarrow> HetznerRobotHost \<Rightarrow> Machine \<Rightarrow> bool" where
  "authorisedIn tr h m \<longleftrightarrow> disposable h \<or>
     (\<not> MaintenanceMode (hostSpec h) \<and> LifecycleClass (hostSpec h) = HostLifecycleClassStorage
      \<and> DestructivePolicy (hostSpec h) = PolicyRequiresExternalRelease \<and> releasedIn tr h m)"

lemma authorisedIn_mono: "authorisedIn tr h m \<Longrightarrow> set tr \<subseteq> set tr' \<Longrightarrow> authorisedIn tr' h m"
  unfolding authorisedIn_def releasedIn_def by blast

section \<open>The contract of a gate on hosts\<close>

locale host_gate =
  fixes gate :: "HetznerRobotHost option \<Rightarrow> goerr option"
  assumes nil_denied: "gate None \<noteq> None"
    and maintenance_denied: "MaintenanceMode (hostSpec h) \<Longrightarrow> gate (Some h) \<noteq> None"
    and class_denied: "LifecycleClass (hostSpec h) \<noteq> HostLifecycleClassCompute \<Longrightarrow> gate (Some h) \<noteq> None"
    and policy_denied: "DestructivePolicy (hostSpec h) \<noteq> PolicyAlwaysCleanSlate \<Longrightarrow> gate (Some h) \<noteq> None"
    and disposable_allowed: "disposable h \<Longrightarrow> gate (Some h) = None"
begin

lemma gate_iff: "gate ho = None \<longleftrightarrow> (\<exists>h. ho = Some h \<and> disposable h)"
proof (cases ho)
  case None
  with nil_denied show ?thesis by simp
next
  case (Some h)
  have "gate (Some h) = None \<longleftrightarrow> disposable h"
    using maintenance_denied class_denied policy_denied disposable_allowed
    unfolding disposable_def by metis
  with Some show ?thesis by simp
qed

lemma gate_status: "gate (Some (modHostStatus f h)) = None \<longleftrightarrow> gate (Some h) = None"
  by (simp add: gate_iff disposable_def)

end

lemmas policy_splits = option.splits if_splits HostLifecycleClass.splits

interpretation destructive_gate: host_gate authorizeDestructiveProvisioning
  by unfold_locales
    (auto simp: authorizeDestructiveProvisioning_def disposable_def split: HostLifecycleClass.splits)

interpretation reset_gate: host_gate authorizeAutomatedHardwareReset
  by unfold_locales
    (auto simp: authorizeAutomatedHardwareReset_def disposable_def split: HostLifecycleClass.splits)

section \<open>The release gate\<close>

lemma emits_findActiveHostRelease [emits_intro]: "emits isRead (findActiveHostRelease X h mo)"
  unfolding findActiveHostRelease_def by (intro emits_intro)

lemma emits_authorizeFor [emits_intro]: "emits isRead (authorizeDestructiveProvisioningFor X hrmo mo ho)"
  unfolding authorizeDestructiveProvisioningFor_def
  by (intro emits_intro)

lemma findActive_iff:
  "(\<exists>rel. fst (run_state (findActiveHostRelease X h (Some m)) s) = Inr (Some rel))
   \<longleftrightarrow> releasedIn (newEvents (findActiveHostRelease X h (Some m)) s) h m"
proof (cases "fst (xListReleases X (Namespace (hostMeta h)) (world s))")
  case (Inl e)
  then show ?thesis
    by (simp add: findActiveHostRelease_def newEvents_def calls_def releasedIn_def)
next
  case (Inr rels)
  have find: "(\<exists>r. find (releaseMatches h m t) rels = Some r) \<longleftrightarrow> (\<exists>r \<in> set rels. releaseMatches h m t r)" for t
    by (metis find_None_iff not_None_eq)
  from Inr show ?thesis
    by (simp add: findActiveHostRelease_def newEvents_def calls_def releasedIn_def find)
qed

lemma authorizeFor_storage:
  assumes "LifecycleClass (hostSpec h) = HostLifecycleClassStorage" "\<not> MaintenanceMode (hostSpec h)"
    and "DestructivePolicy (hostSpec h) = PolicyRequiresExternalRelease"
  shows "fst (run_state (authorizeDestructiveProvisioningFor X (Some hrm) (Some m) (Some h)) s) = None
      \<longleftrightarrow> (\<exists>rel. fst (run_state (findActiveHostRelease X h (Some m)) s) = Inr (Some rel))"
    and "newEvents (authorizeDestructiveProvisioningFor X (Some hrm) (Some m) (Some h)) s
      = newEvents (findActiveHostRelease X h (Some m)) s"
  using assms
  by (auto simp: authorizeDestructiveProvisioningFor_def newEvents_def split: sum.splits option.splits prod.splits)

lemma authorizeFor_iff:
  "fst (run_state (authorizeDestructiveProvisioningFor X (Some hrm) (Some m) (Some h)) s) = None
   \<longleftrightarrow> authorisedIn (newEvents (authorizeDestructiveProvisioningFor X (Some hrm) (Some m) (Some h)) s) h m"
proof (cases "LifecycleClass (hostSpec h) = HostLifecycleClassStorage \<and> \<not> MaintenanceMode (hostSpec h)
    \<and> DestructivePolicy (hostSpec h) = PolicyRequiresExternalRelease")
  case True
  then have "\<not> disposable h" by (simp add: disposable_def)
  with True show ?thesis
    by (simp add: authorizeFor_storage findActive_iff authorisedIn_def)
next
  case False
  then show ?thesis
    by (auto simp: authorizeDestructiveProvisioningFor_def authorisedIn_def destructive_gate.gate_iff
        disposable_def)
qed


lemma keeps_authorizeFor: "keeps (authorizeDestructiveProvisioningFor X hrmo mo ho)"
  unfolding authorizeDestructiveProvisioningFor_def findActiveHostRelease_def by (intro keeps_intro)

lemma wp_authorizeFor:
  "wp (authorizeDestructiveProvisioningFor X (Some hrm) (Some m) (Some h)) ob
     (\<lambda>n r ob'. ob' = ob \<and> list_all isRead n \<and> (r = None \<longleftrightarrow> authorisedIn n h m))"
  (is "wp ?p _ _")
  unfolding wp_def
proof (intro allI impI)
  fix s :: "('a, 'b) rt" assume "obj s = ob"
  have "trace (snd (run_state ?p s)) = trace s @ newEvents ?p s"
    by (rule emits_trace [OF emits_authorizeFor])
  moreover have "list_all isRead (newEvents ?p s)"
    using emits_new [OF emits_authorizeFor] by (metis list_all_iff)
  moreover have "obj (snd (run_state ?p s)) = ob"
    using keeps_authorizeFor \<open>obj s = ob\<close> unfolding keeps_def by blast
  ultimately show "\<exists>new. trace (snd (run_state ?p s)) = trace s @ new \<and> (obj (snd (run_state ?p s)) = ob
      \<and> list_all isRead new \<and> (fst (run_state ?p s) = None \<longleftrightarrow> authorisedIn new h m))"
    using authorizeFor_iff by blast
qed

text \<open>
  Both gates that decide from the spec alone, the one for provisioning and the one for
  automated resets by remediation, let the same hosts through: the disposable ones. A nil
  host is refused, and the answer does not depend on the host's status.
\<close>

lemma spec_gates_agree:
  "(authorizeDestructiveProvisioning ho = None \<longleftrightarrow> (\<exists>h. ho = Some h \<and> disposable h))
   \<and> (authorizeAutomatedHardwareReset ho = None \<longleftrightarrow> authorizeDestructiveProvisioning ho = None)
   \<and> (authorizeAutomatedHardwareReset (Some (modHostStatus f h)) = None
       \<longleftrightarrow> authorizeAutomatedHardwareReset (Some h) = None)"
  by (intro conjI, rule destructive_gate.gate_iff, simp only: destructive_gate.gate_iff reset_gate.gate_iff,
      rule reset_gate.gate_status)

end
