(* ===== verification/Sample_World.thy ===== *)
theory Sample_World
  imports Runtime
begin

text \<open>
  One concrete instance of the external functions, over any world: every call
  succeeds, every list is empty, the clock stands at zero. The witnesses of the properties
  override the answers they need by record update.
\<close>

definition sampleMeta :: ObjectMeta where
  "sampleMeta = \<lparr>Name = ''obj'', Namespace = ''ns'', UID = ''uid'', Labels = Map.empty,
     OwnerReferences = [], DeletionTimestamp = None, hasFinalizer = True\<rparr>"

definition sampleHost :: HetznerRobotHost where
  "sampleHost = \<lparr>hostMeta = sampleMeta\<lparr>Name := ''node6''\<rparr>,
     hostSpec = \<lparr>ServerID = 2938104, ServerIP = ''192.0.2.6'', ServerIPv6Net = ''2001:db8:6::/64'',
       InternalIP = ''10.10.0.6'', hostInstallDisk = ''/dev/nvme0n1'',
       LifecycleClass = HostLifecycleClassCompute, MaintenanceMode = False,
       DestructivePolicy = PolicyAlwaysCleanSlate\<rparr>,
     hostStatus = \<lparr>hostState = HostStateAvailable, ConsumerRef = None, MachineRef = None,
       HardwareDetails = None, LastConsumerRef = None, DirtyReason = [], ErrorMessage = []\<rparr>\<rparr>"

definition sampleHRM :: HetznerRobotMachine where
  "sampleHRM = \<lparr>hrmMeta = sampleMeta\<lparr>Name := ''worker-0''\<rparr>,
     hrmSpec = \<lparr>ProviderID = None, specHostRef = Some ''node6'', HostSelector = None, OSType = ''talos'',
       TalosSchematic = ''3da7'', TalosVersion = ''v1.12.4'', FlatcarChannel = ''stable'',
       InstallDisk = ''/dev/nvme0n1'', CustomImageURL = [], EphemeralSize = []\<rparr>,
     hrmStatus = \<lparr>Ready = False, Initialization = None, Addresses = [], provState = StateNone,
       HostRef = [], PrimaryMAC = [], GatewayIP = [], ResolvedInstallDisk = [], FailureReason = None,
       FailureMessage = None, ProvisionStarted = None, RetryCount = 0, LastRetryTimestamp = None,
       LastResetTime = None, readyMark = None\<rparr>\<rparr>"

definition sampleHRC :: HetznerRobotCluster where
  "sampleHRC = \<lparr>hrcMeta = sampleMeta\<lparr>Name := ''prod''\<rparr>,
     hrcSpec = \<lparr>ControlPlaneEndpoint = \<lparr>endpointHost = [], endpointPort = 0\<rparr>,
       RobotSecretRef = \<lparr>secretName = ''robot'', secretNamespace = []\<rparr>,
       SSHSecretRef = \<lparr>secretName = ''ssh'', secretNamespace = []\<rparr>,
       TalosFactoryBaseURL = [], vlanConfig = None\<rparr>,
     hrcStatus = \<lparr>clusterReady = False, clusterInitialization = None, clusterReadyMark = None\<rparr>\<rparr>"

definition sampleMachine :: Machine where
  "sampleMachine = \<lparr>machineMeta = sampleMeta\<lparr>Name := ''worker-0''\<rparr>, DataSecretName = Some ''boot'',
     machineInfraRef = ''worker-0'', NodeRef = None, machineConditions = [], isControlPlane = False\<rparr>"

definition sampleCluster :: Cluster where
  "sampleCluster = \<lparr>clusterMeta = sampleMeta\<lparr>Name := ''prod''\<rparr>, Paused = False,
     clusterInfraRef = Some (''ns'', ''prod'')\<rparr>"

definition sampleRemediation :: HetznerRobotRemediation where
  "sampleRemediation = \<lparr>remMeta = sampleMeta\<lparr>Name := ''worker-0''\<rparr>,
     remStrategy = \<lparr>strategyType = ''Reboot'', RetryLimit = 2, Timeout = 0\<rparr>,
     remStatus = \<lparr>Phase = RemediationPhaseNone, remRetryCount = 0, LastRemediated = None\<rparr>\<rparr>"

definition sampleExt :: "'w ext" where
  "sampleExt = \<lparr>
     xNow = \<lambda>w. (0, w),
     xGetMachine = \<lambda>k w. (Inr sampleHRM, w),
     xGetHost = \<lambda>k w. (Inr sampleHost, w),
     xGetHRC = \<lambda>k w. (Inr sampleHRC, w),
     xGetRemediation = \<lambda>k w. (Inr sampleRemediation, w),
     xGetSecret = \<lambda>k w. (Inr [''ssh-privatekey'' \<mapsto> ''KEY'', ''value'' \<mapsto> ''DATA''], w),
     xListHosts = \<lambda>ns sel w. (Inr [], w),
     xListMachines = \<lambda>ns w. (Inr [], w),
     xListHRCs = \<lambda>ns w. (Inr [], w),
     xListReleases = \<lambda>ns w. (Inr [], w),
     xSelectorError = \<lambda>sel. None,
     xNewHelper = \<lambda>w. (None, w),
     xPatchHost = \<lambda>a b w. (None, w),
     xPatchHRC = \<lambda>c w. (None, w),
     xPatchHRM = \<lambda>a b w. (None, w),
     xPatchRem = \<lambda>a b w. (None, w),
     xOwnerMachine = \<lambda>m w. (Inr (Some sampleMachine), w),
     xClusterOf = \<lambda>m w. (Inr (Some sampleCluster), w),
     xOwnerCluster = \<lambda>m w. (Inr (Some sampleCluster), w),
     xHttp = \<lambda>a m u f w. (HttpResponse 200 [], w),
     xServerJSON = \<lambda>b. Inr \<lparr>siServerNumber = 0, siServerName = [], siServerIP = [], siServerIPv6Net = []\<rparr>,
     xRescueJSON = \<lambda>b. Inr \<lparr>riServerIP = [], riServerNumber = 0, Active = False, Password = []\<rparr>,
     xAnyJSON = \<lambda>b. None,
     xParseKey = \<lambda>k. None,
     xPublicKey = \<lambda>k. k,
     xDial = \<lambda>a w. (None, w),
     xHandshake = \<lambda>u a k w. (None, w),
     xSession = \<lambda>u i w. (None, w),
     xExec = \<lambda>u i c w. (([], None), w),
     xTalosConn = \<lambda>i w. (None, w),
     xTalosApply = \<lambda>i d w. (None, w),
     xTalosReset = \<lambda>i w. (None, w),
     xYamlUnmarshal = \<lambda>d. Inr (Some Map.empty),
     xYamlMarshal = \<lambda>m. Inr [],
     xJsonUnmarshal = \<lambda>d. Inr (Some Map.empty),
     xJsonMarshal = \<lambda>m. Inr [],
     xSprintV = \<lambda>v. [],
     xFormatTime = \<lambda>t. []\<rparr>"

text \<open>The same, where the stored machine has claimed the sample host.\<close>

definition claimedExt :: "'w ext" where
  "claimedExt = sampleExt\<lparr>xGetMachine := \<lambda>k w. (Inr (modStatus (HostRef_update (\<lambda>_. ''node6'')) sampleHRM), w)\<rparr>"

definition sampleRun :: "'o \<Rightarrow> (unit, 'o) rt" where
  "sampleRun ob = \<lparr>world = (), trace = [], obj = ob\<rparr>"

lemmas sample_defs = sampleMeta_def sampleHost_def sampleHRM_def sampleHRC_def sampleMachine_def
  sampleCluster_def
  sampleRemediation_def sampleExt_def claimedExt_def sampleRun_def

end
