(* ===== verification/Base64.thy ===== *)
theory Base64
  imports Prelude
begin

text \<open>
  The standard base64 encoding with padding, as Go's \<^verbatim>\<open>encoding/base64\<close> writes it and reads
  it back: the decoder skips line breaks and ignores the unused bits of the last character.
\<close>

definition b64Char :: "nat \<Rightarrow> char" where
  "b64Char n = (''ABCDEFGHIJKLMNOPQRSTUVWXYZabcdefghijklmnopqrstuvwxyz0123456789+/'') ! (n mod 64)"

fun base64Encode :: "string \<Rightarrow> string" where
  "base64Encode [] = []"
| "base64Encode [a] = (let n = of_char a * 16 in [b64Char (n div 64), b64Char n] @ ''=='')"
| "base64Encode [a, b] = (let n = (of_char a * 256 + of_char b) * 4 in
     [b64Char (n div 4096), b64Char (n div 64), b64Char n] @ ''='')"
| "base64Encode (a # b # c # s) = (let n = (of_char a * 256 + of_char b) * 256 + of_char c in
     [b64Char (n div 262144), b64Char (n div 4096), b64Char (n div 64), b64Char n]) @ base64Encode s"

definition b64Val :: "char \<Rightarrow> nat option" where
  "b64Val c = (let n = of_char c :: nat in
     if 65 \<le> n \<and> n \<le> 90 then Some (n - 65)
     else if 97 \<le> n \<and> n \<le> 122 then Some (n - 71)
     else if 48 \<le> n \<and> n \<le> 57 then Some (n + 4)
     else if c = CHR ''+'' then Some 62
     else if c = CHR ''/'' then Some 63
     else None)"

text \<open>The bytes of a quad of values, as many as the padding leaves.\<close>

definition b64Bytes :: "nat \<Rightarrow> nat \<Rightarrow> nat \<Rightarrow> nat \<Rightarrow> string" where
  "b64Bytes x y z w = [char_of (x * 4 + y div 16), char_of ((y mod 16) * 16 + z div 4), char_of ((z mod 4) * 64 + w)]"

fun b64Quads :: "string \<Rightarrow> string option" where
  "b64Quads [] = Some []"
| "b64Quads (a # b # c # d # s) = (case (b64Val a, b64Val b) of
     (Some x, Some y) \<Rightarrow>
       if c = CHR ''='' then (if d = CHR ''='' \<and> s = [] then Some (take 1 (b64Bytes x y 0 0)) else None)
       else (case b64Val c of
         Some z \<Rightarrow>
           if d = CHR ''='' then (if s = [] then Some (take 2 (b64Bytes x y z 0)) else None)
           else (case b64Val d of
             Some w \<Rightarrow> map_option ((@) (b64Bytes x y z w)) (b64Quads s)
           | None \<Rightarrow> None)
       | None \<Rightarrow> None)
   | _ \<Rightarrow> None)"
| "b64Quads _ = None"

definition base64Decode :: "string \<Rightarrow> string option" where
  "base64Decode s = b64Quads (filter (\<lambda>c. c \<noteq> CHR 0x0A \<and> c \<noteq> CHR 0x0D) s)"

section \<open>The round trip\<close>

text \<open>The characters base64 writes.\<close>

definition b64Alpha :: "char \<Rightarrow> bool" where
  "b64Alpha c \<longleftrightarrow> b64Val c \<noteq> None"

lemma table_nth:
  assumes "map f xs = map Some [0..<k]" and "i < k"
  shows "f (xs ! i) = Some i"
proof -
  from assms(1) have "length xs = k" by (metis diff_zero length_map length_upt)
  with assms(2) have "f (xs ! i) = map f xs ! i" by simp
  with assms show ?thesis by simp
qed

lemma b64Val_Char [simp]: "b64Val (b64Char n) = Some (n mod 64)"
  unfolding b64Char_def by (rule table_nth [where k = 64]) (code_simp, simp)

lemma b64Alpha_not [simp]:
  "b64Alpha c \<Longrightarrow> c \<noteq> CHR ''=''" "b64Alpha c \<Longrightarrow> c \<noteq> CHR 0x0A" "b64Alpha c \<Longrightarrow> c \<noteq> CHR 0x0D" "b64Alpha c \<Longrightarrow> c \<noteq> CHR 0x27"
  by (auto simp: b64Alpha_def b64Val_def)

lemma b64Alpha_breaks [simp]: "\<not> b64Alpha (CHR 0x0A)" "\<not> b64Alpha (CHR 0x0D)"
  by (simp_all add: b64Alpha_def b64Val_def)

lemma b64Char_alpha [simp]: "b64Alpha (b64Char n)"
  by (simp add: b64Alpha_def)

lemma b64Char_not [simp]: "b64Char n \<noteq> CHR ''=''" "b64Char n \<noteq> CHR 0x0A" "b64Char n \<noteq> CHR 0x0D" "b64Char n \<noteq> CHR 0x27"
  using b64Alpha_not [OF b64Char_alpha] by simp_all

lemma base64_chars: "c \<in> set (base64Encode s) \<Longrightarrow> b64Alpha c \<or> c = CHR ''=''"
  by (induction s rule: base64Encode.induct) (auto simp: Let_def)

text \<open>Splitting three bytes into four values and putting them together again.\<close>

lemma sixbits:
  fixes a b c :: nat
  assumes "a < 256" "b < 256" "c < 256"
  defines "n \<equiv> (a * 256 + b) * 256 + c"
  shows "n div 262144 mod 64 = a div 4" "n div 4096 mod 64 = (a mod 4) * 16 + b div 16"
    "n div 64 mod 64 = (b mod 16) * 4 + c div 64" "n mod 64 = c mod 64"
proof -
  define a1 a0 b1 b0 c1 c0 where parts: "a1 = a div 4" "a0 = a mod 4" "b1 = b div 16" "b0 = b mod 16" "c1 = c div 64" "c0 = c mod 64"
  have eqs: "a = 4 * a1 + a0" "b = 16 * b1 + b0" "c = 64 * c1 + c0" by (simp_all add: parts)
  have less: "a1 < 64" "a0 < 4" "b1 < 16" "b0 < 16" "c1 < 4" "c0 < 64" using assms by (auto simp: parts)
  have n: "n = a1 * 262144 + a0 * 65536 + b1 * 4096 + b0 * 256 + c1 * 64 + c0"
    unfolding n_def eqs by (simp add: algebra_simps)
  have d1: "n div 262144 = a1" by (rule div_nat_eqI) (use n less in simp_all)
  have d2: "n div 4096 = a1 * 64 + (a0 * 16 + b1)" by (rule div_nat_eqI) (use n less in simp_all)
  have d3: "n div 64 = (a1 * 64 + (a0 * 16 + b1)) * 64 + (b0 * 4 + c1)" by (rule div_nat_eqI) (use n less in simp_all)
  show "n div 262144 mod 64 = a div 4" using d1 less by (simp add: parts)
  have "a0 * 16 + b1 < 64" "b0 * 4 + c1 < 64" using less by linarith+
  then show "n div 4096 mod 64 = (a mod 4) * 16 + b div 16" "n div 64 mod 64 = (b mod 16) * 4 + c div 64"
    by (simp_all only: d2 d3 mod_mult_self3 mod_less parts)
  show "n mod 64 = c mod 64" 
  proof -
    have "n = c0 + (a1 * 4096 + a0 * 1024 + b1 * 64 + b0 * 4 + c1) * 64" using n by simp
    then show ?thesis by (simp only: mod_mult_self1) (simp add: parts)
  qed
qed

lemma b64Bytes_back:
  fixes a b c :: nat
  assumes "a < 256" "b < 256" "c < 256"
  shows "b64Bytes (a div 4) ((a mod 4) * 16 + b div 16) ((b mod 16) * 4 + c div 64) (c mod 64) = map char_of [a, b, c]"
proof -
  have "a div 4 * 4 + ((a mod 4) * 16 + b div 16) div 16 = a" "((a mod 4) * 16 + b div 16) mod 16 * 16 + ((b mod 16) * 4 + c div 64) div 4 = b"
    "((b mod 16) * 4 + c div 64) mod 4 * 64 + c mod 64 = c"
  proof -
    have "b div 16 < 16" "c div 64 < 4" using assms by auto
    then show "a div 4 * 4 + ((a mod 4) * 16 + b div 16) div 16 = a"
      "((a mod 4) * 16 + b div 16) mod 16 * 16 + ((b mod 16) * 4 + c div 64) div 4 = b"
      "((b mod 16) * 4 + c div 64) mod 4 * 64 + c mod 64 = c" by simp_all
  qed
  then show ?thesis by (simp add: b64Bytes_def)
qed

lemma b64Quads_chars:
  "b64Quads ([b64Char x, b64Char y] @ ''=='') = Some (take 1 (b64Bytes (x mod 64) (y mod 64) 0 0))"
  "b64Quads ([b64Char x, b64Char y, b64Char z] @ ''='') = Some (take 2 (b64Bytes (x mod 64) (y mod 64) (z mod 64) 0))"
  "b64Quads ([b64Char x, b64Char y, b64Char z, b64Char w] @ s)
     = map_option ((@) (b64Bytes (x mod 64) (y mod 64) (z mod 64) (w mod 64))) (b64Quads s)"
  by simp_all

lemma fewer_bits:
  fixes a b :: nat
  assumes "a < 256" "b < 256"
  shows "a * 16 div 64 mod 64 = a div 4" "a * 16 mod 64 = (a mod 4) * 16"
    "(a * 256 + b) * 4 div 4096 mod 64 = a div 4" "(a * 256 + b) * 4 div 64 mod 64 = (a mod 4) * 16 + b div 16"
    "(a * 256 + b) * 4 mod 64 = (b mod 16) * 4"
proof -
  let ?m = "(a * 256 + b) * 4"
  have m: "(a * 256 + b) * 256 + 0 = ?m * 64" and k: "(a * 256 + 0) * 256 + 0 = a * 16 * 4096" by simp_all
  have "x * 64 div 262144 = x div 4096" "x * 64 div 4096 = x div 64" "x * 64 div 64 = x"
    "x * 4096 div 262144 = x div 64" "x * 4096 div 4096 = x" for x :: nat
    using div_mult_mult2 [of 64 x 4096] div_mult_mult2 [of 64 x 64] div_mult_mult2 [of 4096 x 64] by simp_all
  note div = this
  show "?m div 4096 mod 64 = a div 4" "?m div 64 mod 64 = (a mod 4) * 16 + b div 16" "?m mod 64 = (b mod 16) * 4"
    using sixbits(1-3) [OF assms, of 0] unfolding m div by simp_all
  show "a * 16 div 64 mod 64 = a div 4" "a * 16 mod 64 = (a mod 4) * 16"
    using sixbits(1,2) [OF assms(1), of 0 0] unfolding k div by simp_all
qed

lemma b64Quads_encode: "b64Quads (base64Encode s) = Some s"
proof (induction s rule: base64Encode.induct)
  case (2 a)
  have a: "of_char a < (256 :: nat)" by simp
  show ?case
    using b64Bytes_back [OF a, of 0 0] unfolding base64Encode.simps Let_def b64Quads_chars fewer_bits [OF a a]
    by (simp add: b64Bytes_def)
next
  case (3 a b)
  have ab: "of_char a < (256 :: nat)" "of_char b < (256 :: nat)" by simp_all
  show ?case
    using b64Bytes_back [OF ab, of 0] unfolding base64Encode.simps Let_def b64Quads_chars fewer_bits [OF ab]
    by (simp add: b64Bytes_def)
next
  case (4 a b c s)
  have abc: "of_char a < (256 :: nat)" "of_char b < (256 :: nat)" "of_char c < (256 :: nat)" by simp_all
  show ?case
    unfolding base64Encode.simps Let_def b64Quads_chars sixbits [OF abc] b64Bytes_back [OF abc] 4 by simp
qed simp

lemma base64_decode_encode: "base64Decode (base64Encode s) = Some s"
proof -
  have "filter (\<lambda>c. c \<noteq> CHR 0x0A \<and> c \<noteq> CHR 0x0D) (base64Encode s) = base64Encode s"
  proof (rule filter_True, rule ballI)
    fix c assume "c \<in> set (base64Encode s)"
    then have "b64Alpha c \<or> c = CHR ''=''" by (rule base64_chars)
    then show "c \<noteq> CHR 0x0A \<and> c \<noteq> CHR 0x0D" by auto
  qed
  then show ?thesis by (simp add: base64Decode_def b64Quads_encode)
qed

interpretation b64: codec base64Encode base64Decode
  by unfold_locales (rule base64_decode_encode)

end
