(* ===== verification/Rescue_SSH.thy ===== *)
theory Rescue_SSH
  imports Sample_World "HOL-Library.AList" Base64
begin

text \<open>
  \<^verbatim>\<open>pkg/sshrescue/client.go\<close>: commands run over SSH in the Hetzner rescue system, the
  parser of the hardware report, the choice of the install disk, and the probes that tell rescue,
  Flatcar and a closed port apart. A Go map is an association list with distinct keys.
\<close>

section \<open>The client\<close>

definition joinHostPort :: "string \<Rightarrow> int \<Rightarrow> string" where
  "joinHostPort host port =
     (if CHR '':'' \<in> set host then ''['' @ host @ '']:'' @ itoa port else host @ '':'' @ itoa port)"

definition rescueSSHPort :: int where
  "rescueSSHPort = 22"

record Client =
  clientIP :: string
  clientKey :: string
  clientConnected :: bool

definition NewClient :: "string \<Rightarrow> string \<Rightarrow> Client" where
  "NewClient ip key = \<lparr>clientIP = ip, clientKey = key, clientConnected = False\<rparr>"

definition Connect :: "'w ext \<Rightarrow> Client \<Rightarrow> ('w, 'o, goerr + Client) go" where
  "Connect X c = (case xParseKey X (clientKey c) of
     Some e \<Rightarrow> ret (Inl (wrapErr ''parse SSH private key: '' e))
   | None \<Rightarrow> (let addr = joinHostPort (clientIP c) rescueSSHPort in do {
       d \<leftarrow> tcpDial X addr;
       (case d of
          Some e \<Rightarrow> ret (Inl (wrapErr (''TCP connect to '' @ addr @ '': '') e))
        | None \<Rightarrow> do {
            h \<leftarrow> silent (xHandshake X ''root'' addr (clientKey c));
            (case h of
               Some e \<Rightarrow> ret (Inl (wrapErr (''SSH handshake to '' @ addr @ '': '') e))
             | None \<Rightarrow> ret (Inr (c\<lparr>clientConnected := True\<rparr>)))
          })
     }))"

text \<open>Single quotes around the string; an embedded single quote closes, escapes and reopens.\<close>

definition shellQuote :: "string \<Rightarrow> string" where
  "shellQuote s = [CHR 0x27]
     @ concat (map (\<lambda>c. if c = CHR 0x27 then [CHR 0x27, CHR 0x5C, CHR 0x27, CHR 0x27] else [c]) s)
     @ [CHR 0x27]"

definition wrapBash :: "string \<Rightarrow> string" where
  "wrapBash command = ''bash -c '' @ shellQuote command"

definition RunCmd :: "'w ext \<Rightarrow> Client \<Rightarrow> string \<Rightarrow> ('w, 'o, string \<times> goerr option) go" where
  "RunCmd X c command =
     (if \<not> clientConnected c then ret ([], Some (errorf ''not connected''))
      else do {
        s \<leftarrow> silent (xSession X ''root'' (clientIP c));
        (case s of
           Some e \<Rightarrow> ret ([], Some (wrapErr ''new session: '' e))
         | None \<Rightarrow> do {
             r \<leftarrow> sshExec X ''root'' (clientIP c) (wrapBash command);
             (case r of (out, eo) \<Rightarrow> (case eo of
                Some e \<Rightarrow> ret (out, Some (wrapErrOut ''command failed: '' e (''\<newline>output: '' @ out)))
              | None \<Rightarrow> ret (out, None)))
           })
      })"

section \<open>Hardware\<close>

record HardwareInfo =
  hwPrimaryMAC :: string
  hwGatewayIP :: string
  NVMeDisks :: "string list"
  CephDisks :: "(string \<times> bool) list"
  ByIDPaths :: "(string \<times> string) list"

definition detectHardwareCmd :: string where
  "detectHardwareCmd = ''echo ''
     @ [CHR 0x22]
     @ ''MAC=$(ip link show $(ip route show default | awk ''
     @ [CHR 0x27]
     @ ''{print $5}''
     @ [CHR 0x27]
     @ '') | grep ether | awk ''
     @ [CHR 0x27]
     @ ''{print $2}''
     @ [CHR 0x27]
     @ '')''
     @ [CHR 0x22]
     @ ''\<newline>''
     @ ''echo ''
     @ [CHR 0x22]
     @ ''GATEWAY=$(ip route | grep default | awk ''
     @ [CHR 0x27]
     @ ''{print $3}''
     @ [CHR 0x27]
     @ '' | head -1)''
     @ [CHR 0x22]
     @ ''\<newline>''
     @ ''for d in $(lsblk -dn -o NAME,TYPE | awk ''
     @ [CHR 0x27]
     @ ''$2==''
     @ [CHR 0x22]
     @ ''disk''
     @ [CHR 0x22]
     @ '' && $1~/^nvme/ {print ''
     @ [CHR 0x22]
     @ ''/dev/''
     @ [CHR 0x22]
     @ ''$1}''
     @ [CHR 0x27]
     @ ''); do\<newline>''
     @ ''  echo ''
     @ [CHR 0x22]
     @ ''DISK=$d''
     @ [CHR 0x22]
     @ ''\<newline>''
     @ ''  if blkid ''
     @ [CHR 0x22]
     @ ''$d''
     @ [CHR 0x22]
     @ ''* 2>/dev/null | grep -q ceph_bluestore; then\<newline>''
     @ ''    echo ''
     @ [CHR 0x22]
     @ ''CEPH=$d''
     @ [CHR 0x22]
     @ ''\<newline>''
     @ ''  fi\<newline>''
     @ ''done\<newline>''
     @ ''for link in /dev/disk/by-id/nvme-*; do\<newline>''
     @ ''  [ -L ''
     @ [CHR 0x22]
     @ ''$link''
     @ [CHR 0x22]
     @ '' ] || continue\<newline>''
     @ ''  case ''
     @ [CHR 0x22]
     @ ''$link''
     @ [CHR 0x22]
     @ '' in *-part*) continue;; esac\<newline>''
     @ ''  target=$(readlink -f ''
     @ [CHR 0x22]
     @ ''$link''
     @ [CHR 0x22]
     @ '')\<newline>''
     @ ''  echo ''
     @ [CHR 0x22]
     @ ''BYID=$target=$link''
     @ [CHR 0x22]
     @ ''\<newline>''
     @ ''done''"

definition emptyHardware :: HardwareInfo where
  "emptyHardware = \<lparr>hwPrimaryMAC = [], hwGatewayIP = [], NVMeDisks = [], CephDisks = [], ByIDPaths = []\<rparr>"

text \<open>The body of the loop over the lines of the report.\<close>

definition parseHardwareLine :: "string \<Rightarrow> HardwareInfo \<Rightarrow> HardwareInfo" where
  "parseHardwareLine raw hw = (let line = trimSpace raw in
     if line = [] then hw
     else if hasPrefix line ''MAC='' then hw\<lparr>hwPrimaryMAC := trimPrefix line ''MAC=''\<rparr>
     else if hasPrefix line ''GATEWAY='' then hw\<lparr>hwGatewayIP := trimPrefix line ''GATEWAY=''\<rparr>
     else if hasPrefix line ''DISK='' then hw\<lparr>NVMeDisks := NVMeDisks hw @ [trimPrefix line ''DISK='']\<rparr>
     else if hasPrefix line ''CEPH='' then
       hw\<lparr>CephDisks := AList.update (trimPrefix line ''CEPH='') True (CephDisks hw)\<rparr>
     else if hasPrefix line ''BYID='' then
       (case splitN2 (trimPrefix line ''BYID='') ''='' of
          [dev, path] \<Rightarrow> hw\<lparr>ByIDPaths := AList.update dev path (ByIDPaths hw)\<rparr>
        | _ \<Rightarrow> hw)
     else hw)"

definition ParseHardwareOutput :: "string \<Rightarrow> goerr + HardwareInfo" where
  "ParseHardwareOutput output =
     (let hw = fold parseHardwareLine (splitStr output ''\<newline>'') emptyHardware in
      if hwPrimaryMAC hw = [] then Inl (errorf ''parse hardware output: MAC address not found'')
      else if hwGatewayIP hw = [] then Inl (errorf ''parse hardware output: gateway IP not found'')
      else Inr hw)"

definition DetectHardware :: "'w ext \<Rightarrow> Client \<Rightarrow> ('w, 'o, goerr + HardwareInfo) go" where
  "DetectHardware X c = do {
     r \<leftarrow> RunCmd X c detectHardwareCmd;
     (case r of (out, eo) \<Rightarrow> (case eo of
        Some e \<Rightarrow> ret (Inl (wrapErrOut ''detect hardware: '' e (''\<newline>Output: '' @ out)))
      | None \<Rightarrow> ret (ParseHardwareOutput out)))
   }"

text \<open>Reading a key that a \<^verbatim>\<open>map[string]bool\<close> lacks gives false.\<close>

definition isCeph :: "HardwareInfo \<Rightarrow> string \<Rightarrow> bool" where
  "isCeph hw d = (map_of (CephDisks hw) d = Some True)"

definition ResolveInstallDiskFromInfo :: "HardwareInfo \<Rightarrow> string \<Rightarrow> goerr + string" where
  "ResolveInstallDiskFromInfo hw configuredDisk =
     (let safes = filter (\<lambda>d. \<not> isCeph hw d) (NVMeDisks hw) in
      case safes of
        [] \<Rightarrow>
          if NVMeDisks hw = [] then Inr configuredDisk
          else if configuredDisk \<noteq> [] then Inr configuredDisk
          else Inl (errorf (''all NVMe disks have Ceph BlueStore data '' @ emDash
            @ '' cannot determine install disk safely''))
      | d # _ \<Rightarrow> if configuredDisk \<in> set safes then Inr configuredDisk else Inr d)"

section \<open>Wiping\<close>

definition wipeCmd :: "string list \<Rightarrow> string" where
  "wipeCmd disks = ''for d in ''
     @ joinStr (map shellQuote disks) '' ''
     @ ''; do (wipefs -af ''
     @ [CHR 0x22]
     @ ''$d''
     @ [CHR 0x22]
     @ '' 2>/dev/null; sgdisk --zap-all ''
     @ [CHR 0x22]
     @ ''$d''
     @ [CHR 0x22]
     @ '' 2>/dev/null; dd if=/dev/zero of=''
     @ [CHR 0x22]
     @ ''$d''
     @ [CHR 0x22]
     @ '' bs=1M count=100 conv=notrunc 2>/dev/null; DISK_SIZE=$(blockdev --getsize64 ''
     @ [CHR 0x22]
     @ ''$d''
     @ [CHR 0x22]
     @ '' 2>/dev/null); if [ -n ''
     @ [CHR 0x22]
     @ ''$DISK_SIZE''
     @ [CHR 0x22]
     @ '' ] && [ ''
     @ [CHR 0x22]
     @ ''$DISK_SIZE''
     @ [CHR 0x22]
     @ '' -gt 104857600 ]; then dd if=/dev/zero of=''
     @ [CHR 0x22]
     @ ''$d''
     @ [CHR 0x22]
     @ '' bs=1M count=100 seek=$(( (DISK_SIZE / 1048576) - 100 )) conv=notrunc 2>/dev/null; fi; blk''
     @ ''discard ''
     @ [CHR 0x22]
     @ ''$d''
     @ [CHR 0x22]
     @ '' 2>/dev/null; sync; echo ''
     @ [CHR 0x22]
     @ ''WIPED=$d''
     @ [CHR 0x22]
     @ '') & done; wait; echo ''
     @ [CHR 0x22]
     @ ''ALL_DONE''
     @ [CHR 0x22]"

text \<open>The disks a \<^verbatim>\<open>WIPED=\<close> line of the output names.\<close>

definition wipedDisks :: "string \<Rightarrow> string list" where
  "wipedDisks out = concat (map (\<lambda>raw. let line = trimSpace raw in
     if hasPrefix line ''WIPED='' then [trimPrefix line ''WIPED=''] else []) (splitStr out ''\<newline>''))"

definition WipeAllDisks :: "'w ext \<Rightarrow> Client \<Rightarrow> string list \<Rightarrow> ('w, 'o, string \<times> goerr option) go" where
  "WipeAllDisks X c disks =
     (if disks = [] then ret ([], Some (errorf ''wipe all disks: no disks specified''))
      else do {
        r \<leftarrow> RunCmd X c (wipeCmd disks);
        (case r of (out, eo) \<Rightarrow> (case eo of
           Some e \<Rightarrow> ret (out, Some (wrapErrOut ''wipe all disks: '' e (''\<newline>Output: '' @ out)))
         | None \<Rightarrow> (let missing = filter (\<lambda>d. d \<notin> set (wipedDisks out)) disks in
             if missing \<noteq> [] then
               ret (out, Some (errorf (''wipe all disks: '' @ itoa (int (length missing))
                 @ '' disk(s) not confirmed wiped: '' @ joinStr missing '', '')))
             else ret (out, None))))
      })"

section \<open>Installing an image\<close>

definition trimRightSlash :: "string \<Rightarrow> string" where
  "trimRightSlash s = rev (dropWhile (\<lambda>c. c = CHR ''/'') (rev s))"

definition talosImage :: "string \<Rightarrow> string \<Rightarrow> string \<Rightarrow> string \<Rightarrow> string \<times> string" where
  "talosImage factoryURL schematic version customImageURL =
     (if customImageURL \<noteq> [] then
        (customImageURL, if hasSuffix customImageURL ''.zst'' then ''zstdcat'' else ''xzcat'')
      else (trimRightSlash factoryURL @ ''/image/'' @ schematic @ ''/'' @ version @ ''/metal-amd64.raw.xz'', ''xzcat''))"

definition installTalosCmd :: "string \<Rightarrow> string \<Rightarrow> string \<Rightarrow> string \<Rightarrow> string \<Rightarrow> string" where
  "installTalosCmd factoryURL schematic version disk customImageURL =
     (case talosImage factoryURL schematic version customImageURL of (imageURL, decompressCmd) \<Rightarrow>
        ''curl -fsSL '' @ goQuote imageURL @ '' | '' @ decompressCmd @ '' | dd of='' @ goQuote disk
        @ '' bs=4M conv=notrunc status=progress 2>&1'')"

definition InstallTalos :: "'w ext \<Rightarrow> Client \<Rightarrow> string \<Rightarrow> string \<Rightarrow> string \<Rightarrow> string \<Rightarrow> string
    \<Rightarrow> ('w, 'o, goerr option) go" where
  "InstallTalos X c factoryURL schematic version disk customImageURL = do {
     r \<leftarrow> RunCmd X c (installTalosCmd factoryURL schematic version disk customImageURL);
     (case r of (out, eo) \<Rightarrow> (case eo of
        Some e \<Rightarrow> ret (Some (wrapErrOut (''write raw image to '' @ disk @ '': '') e (''\<newline>Output: '' @ out)))
      | None \<Rightarrow> ret None))
   }"

definition flatcarSetupCmd :: string where
  "flatcarSetupCmd = ''\<newline>''
     @ [CHR 0x09, CHR 0x09]
     @ ''curl -fsSL -o /tmp/flatcar-install https://raw.githubusercontent.com/flatcar/init/flatcar-''
     @ ''master/bin/flatcar-install && ''
     @ [CHR 0x5C]
     @ ''\<newline>''
     @ [CHR 0x09, CHR 0x09]
     @ ''chmod +x /tmp/flatcar-install && ''
     @ [CHR 0x5C]
     @ ''\<newline>''
     @ [CHR 0x09, CHR 0x09]
     @ ''apt-get install -y -qq gawk 2>&1 | tail -1 && ''
     @ [CHR 0x5C]
     @ ''\<newline>''
     @ [CHR 0x09, CHR 0x09]
     @ ''echo ''
     @ [CHR 0x22]
     @ ''SETUP_OK''
     @ [CHR 0x22]
     @ ''\<newline>''
     @ [CHR 0x09]"

definition createPartCmd :: "string \<Rightarrow> string" where
  "createPartCmd disk = ''\<newline>''
     @ [CHR 0x09, CHR 0x09]
     @ ''sgdisk -e ''
     @ goQuote disk
     @ '' 2>&1 && ''
     @ [CHR 0x5C]
     @ ''\<newline>''
     @ [CHR 0x09, CHR 0x09]
     @ ''DISK_END=$(sgdisk -p ''
     @ goQuote disk
     @ '' | grep ''
     @ [CHR 0x22]
     @ ''last usable sector''
     @ [CHR 0x22]
     @ '' | awk ''
     @ [CHR 0x27]
     @ ''{print $NF}''
     @ [CHR 0x27]
     @ '') && ''
     @ [CHR 0x5C]
     @ ''\<newline>''
     @ [CHR 0x09, CHR 0x09]
     @ ''SIZE_SECTORS=$((200 * 1024 * 1024 * 1024 / 512)) && ''
     @ [CHR 0x5C]
     @ ''\<newline>''
     @ [CHR 0x09, CHR 0x09]
     @ ''START=$((DISK_END - SIZE_SECTORS + 1)) && ''
     @ [CHR 0x5C]
     @ ''\<newline>''
     @ [CHR 0x09, CHR 0x09]
     @ ''sgdisk -n 10:${START}:${DISK_END} -t 10:8300 -c 10:r-dm-data ''
     @ goQuote disk
     @ '' 2>&1 && ''
     @ [CHR 0x5C]
     @ ''\<newline>''
     @ [CHR 0x09, CHR 0x09]
     @ ''partprobe ''
     @ goQuote disk
     @ '' 2>&1 && sleep 1 && ''
     @ [CHR 0x5C]
     @ ''\<newline>''
     @ [CHR 0x09, CHR 0x09]
     @ ''echo ''
     @ [CHR 0x22]
     @ ''PARTITION_CREATED''
     @ [CHR 0x22]
     @ ''\<newline>''
     @ [CHR 0x09]"

text \<open>Running a command whose output only matters in the error.\<close>

definition runOrFail :: "'w ext \<Rightarrow> Client \<Rightarrow> string \<Rightarrow> string \<Rightarrow> ('w, 'o, goerr option) go
    \<Rightarrow> ('w, 'o, goerr option) go" where
  "runOrFail X c msg cmd k = do {
     r \<leftarrow> RunCmd X c cmd;
     (case r of (out, eo) \<Rightarrow> (case eo of
        Some e \<Rightarrow> ret (Some (wrapErrOut msg e (''\<newline>Output: '' @ out)))
      | None \<Rightarrow> k))
   }"

definition ignitionCmd :: "string \<Rightarrow> string" where
  "ignitionCmd ignitionJSON = ''echo '' @ [CHR 0x27] @ base64Encode ignitionJSON @ [CHR 0x27]
     @ '' | base64 -d > /tmp/ignition.json && echo IGN_OK''"

definition flatcarInstallCmd :: "string \<Rightarrow> string \<Rightarrow> string \<Rightarrow> string" where
  "flatcarInstallCmd channel disk customImageURL =
     (if customImageURL \<noteq> [] then
        ''/tmp/flatcar-install -d '' @ disk @ '' -f /tmp/flatcar-custom.bin.bz2 -i /tmp/ignition.json 2>&1''
      else ''/tmp/flatcar-install -d '' @ disk @ '' -C '' @ channel @ '' -i /tmp/ignition.json 2>&1'')"

definition InstallFlatcar :: "'w ext \<Rightarrow> Client \<Rightarrow> string \<Rightarrow> string \<Rightarrow> string \<Rightarrow> string
    \<Rightarrow> ('w, 'o, goerr option) go" where
  "InstallFlatcar X c channel0 disk customImageURL ignitionJSON =
     (let channel = (if channel0 = [] then ''stable'' else channel0);
          finish = runOrFail X c (''flatcar-install on '' @ disk @ '': '') (flatcarInstallCmd channel disk customImageURL)
            (runOrFail X c (''create r-dm-data partition on '' @ disk @ '': '') (createPartCmd disk) (ret None))
      in runOrFail X c ''setup flatcar-install: '' flatcarSetupCmd
        (runOrFail X c ''write Ignition temp file: '' (ignitionCmd ignitionJSON)
          (if customImageURL \<noteq> [] then
             runOrFail X c ''download custom image: ''
               (''curl -fsSL -o /tmp/flatcar-custom.bin.bz2 '' @ goQuote customImageURL @ '' && echo DL_OK'') finish
           else finish)))"

section \<open>Probes\<close>

definition isReachableAddr :: "'w ext \<Rightarrow> string \<Rightarrow> ('w, 'o, bool) go" where
  "isReachableAddr X addr = do { d \<leftarrow> tcpDial X addr; ret (d = None) }"

definition IsReachable :: "'w ext \<Rightarrow> string \<Rightarrow> ('w, 'o, bool) go" where
  "IsReachable X ip = isReachableAddr X (joinHostPort ip rescueSSHPort)"

definition IsFlatcarUp :: "'w ext \<Rightarrow> string \<Rightarrow> string \<Rightarrow> ('w, 'o, bool) go" where
  "IsFlatcarUp X ip key = (case xParseKey X key of
     Some _ \<Rightarrow> ret False
   | None \<Rightarrow> (let addr = joinHostPort ip rescueSSHPort in do {
       d \<leftarrow> tcpDial X addr;
       (if d \<noteq> None then ret False
        else do { h \<leftarrow> silent (xHandshake X ''core'' addr key); ret (h = None) })
     }))"

definition flatcarSentinelCmd :: string where
  "flatcarSentinelCmd =
     ''test -f /run/cluster-api/bootstrap-success.complete && echo READY || echo WAITING''"

definition CheckFlatcarBootstrapComplete :: "'w ext \<Rightarrow> string \<Rightarrow> string \<Rightarrow> ('w, 'o, goerr + bool) go" where
  "CheckFlatcarBootstrapComplete X ip key = (case xParseKey X key of
     Some e \<Rightarrow> ret (Inl (wrapErr ''parse SSH key: '' e))
   | None \<Rightarrow> (let addr = joinHostPort ip rescueSSHPort in do {
       d \<leftarrow> tcpDial X addr;
       (case d of
          Some e \<Rightarrow> ret (Inl (wrapErr (''TCP connect to '' @ addr @ '': '') e))
        | None \<Rightarrow> do {
            h \<leftarrow> silent (xHandshake X ''core'' addr key);
            (case h of
               Some e \<Rightarrow> ret (Inl (wrapErr (''SSH handshake to '' @ addr @ '': '') e))
             | None \<Rightarrow> do {
                 s \<leftarrow> silent (xSession X ''core'' ip);
                 (case s of
                    Some e \<Rightarrow> ret (Inl (wrapErr ''new session: '' e))
                  | None \<Rightarrow> do {
                      r \<leftarrow> sshExec X ''core'' ip flatcarSentinelCmd;
                      (case r of (out, eo) \<Rightarrow> (case eo of
                         Some e \<Rightarrow> ret (Inl (wrapErrOut ''check bootstrap sentinel: '' e (''\<newline>Output: '' @ out)))
                       | None \<Rightarrow> ret (Inr (trimSpace out = ''READY''))))
                    })
               })
          })
     }))"

definition rescueModeCmd :: string where
  "rescueModeCmd = ''if mount | grep ''
     @ [CHR 0x27]
     @ ''on / ''
     @ [CHR 0x27]
     @ '' | grep -q tmpfs; then echo RESCUE; elif grep -qi ''
     @ [CHR 0x27]
     @ ''Hetzner Rescue''
     @ [CHR 0x27]
     @ '' /etc/motd 2>/dev/null; then echo RESCUE; elif [ ''
     @ [CHR 0x22]
     @ ''$(hostname)''
     @ [CHR 0x22]
     @ '' = ''
     @ [CHR 0x22]
     @ ''rescue''
     @ [CHR 0x22]
     @ '' ]; then echo RESCUE; else echo NORMAL; fi''"

definition IsRescueMode :: "'w ext \<Rightarrow> string \<Rightarrow> string \<Rightarrow> ('w, 'o, goerr + bool) go" where
  "IsRescueMode X ip key = do {
     cr \<leftarrow> Connect X (NewClient ip key);
     (case cr of
        Inl e \<Rightarrow> ret (Inl (wrapErr (''SSH connect for rescue check on '' @ ip @ '': '') e))
      | Inr c \<Rightarrow> do {
          r \<leftarrow> RunCmd X c rescueModeCmd;
          (case r of (out, eo) \<Rightarrow> (case eo of
             Some e \<Rightarrow> ret (Inl (wrapErrOut (''rescue mode detection on '' @ ip @ '': '') e
               ('' (output: '' @ out @ '')'')))
           | None \<Rightarrow> ret (Inr (trimSpace out = ''RESCUE''))))
        })
   }"

section \<open>Quoting for the shell\<close>

text \<open>
  How a POSIX shell reads a list of words made of single-quoted text, escaped characters,
  blanks and plain characters with no meaning to the shell. \<open>None\<close> where anything else
  stands unquoted, or a quote stays open. The arguments: inside single quotes, the word so
  far, whether a word has begun.
\<close>

definition shPlain :: "char \<Rightarrow> bool" where
  "shPlain c \<longleftrightarrow> isDigit c \<or> (97 \<le> (of_char c :: nat) \<and> (of_char c :: nat) \<le> 122)
     \<or> (65 \<le> (of_char c :: nat) \<and> (of_char c :: nat) \<le> 90) \<or> c \<in> set ''-_./:,''"

fun shRead :: "bool \<Rightarrow> string \<Rightarrow> bool \<Rightarrow> string \<Rightarrow> string list option" where
  "shRead True cur st [] = None"
| "shRead False cur st [] = Some (if st then [cur] else [])"
| "shRead True cur st (c # s) =
     (if c = CHR 0x27 then shRead False cur True s else shRead True (cur @ [c]) True s)"
| "shRead False cur st (c # s) =
     (if c = CHR 0x27 then shRead True cur True s
      else if c = CHR 0x5C then
        (case s of [] \<Rightarrow> None
         | d # t \<Rightarrow> if d = CHR 0x0A then None else shRead False (cur @ [d]) True t)
      else if c = CHR '' '' then
        (if st then map_option (Cons cur) (shRead False [] False s) else shRead False [] False s)
      else if shPlain c then shRead False (cur @ [c]) True s
      else None)"

definition shWords :: "string \<Rightarrow> string list option" where
  "shWords s = shRead False [] False s"

lemma shRead_quoted:
  "shRead True cur st
     (concat (map (\<lambda>c. if c = CHR 0x27 then [CHR 0x27, CHR 0x5C, CHR 0x27, CHR 0x27] else [c]) s)
      @ CHR 0x27 # rest) = shRead False (cur @ s) True rest"
  by (induction s arbitrary: cur st) auto

lemma shRead_shellQuote [go_string]:
  "shRead False cur st (shellQuote s @ rest) = shRead False (cur @ s) True rest"
  by (simp add: shellQuote_def shRead_quoted)

lemma shRead_words: "shRead False [] False (joinStr (map shellQuote ws) '' '') = Some ws"
proof (induction ws)
  case Nil
  then show ?case by simp
next
  case (Cons w ws)
  show ?case
  proof (cases ws)
    case Nil
    then show ?thesis using shRead_shellQuote [of "[]" False w "[]"] by simp
  next
    case (Cons v vs)
    with Cons.IH show ?thesis by (simp add: shRead_shellQuote)
  qed
qed

interpretation shell_words: codec "\<lambda>ws. joinStr (map shellQuote ws) '' ''" shWords
  by unfold_locales (simp add: shWords_def shRead_words)

text \<open>
  C31. Quoting for the remote shell loses nothing and lets nothing escape: the remote shell reads
  the line that \<^verbatim>\<open>Run\<close> sends as exactly the three words bash, -c and the command, whatever bytes the
  command holds, and the disk list of the wipe loop as exactly the list of disks.
\<close>

theorem shell_quoting_roundtrip:
  "shWords (wrapBash cmd) = Some [''bash'', ''-c'', cmd]
   \<and> shWords (joinStr (map shellQuote disks) '' '') = Some disks"
proof
  have "shRead False [] True (shellQuote cmd @ []) = Some [cmd]"
    by (simp only: shRead_shellQuote) simp
  moreover have "shRead False [] False (shellQuote cmd @ []) = Some [cmd]"
    by (simp only: shRead_shellQuote) simp
  ultimately show "shWords (wrapBash cmd) = Some [''bash'', ''-c'', cmd]"
    by (simp add: shWords_def wrapBash_def shPlain_def)
  show "shWords (joinStr (map shellQuote disks) '' '') = Some disks"
    by (rule shell_words.decodes)
qed

lemma wrapBash_eq_iff: "wrapBash a = wrapBash b \<longleftrightarrow> a = b"
proof -
  have "shWords (wrapBash c) = Some [''bash'', ''-c'', c]" for c
    using shRead_shellQuote [of "[]" False c "[]"] by (simp add: shWords_def wrapBash_def shPlain_def)
  then show ?thesis by (metis list.inject option.inject)
qed

section \<open>The hardware report\<close>

definition fieldLines :: "string \<Rightarrow> string list \<Rightarrow> string list" where
  "fieldLines tag raws = map (\<lambda>l. trimPrefix l tag) (filter (\<lambda>l. hasPrefix l tag) (map trimSpace raws))"

lemma hasPrefix_Cons: "hasPrefix s (c # p) \<Longrightarrow> s \<noteq> [] \<and> hd s = c"
  by (cases s) (auto simp: hasPrefix_def)

lemma fieldLines_simps [simp]:
  "fieldLines tag [] = []"
  "fieldLines tag (r # rs) = (if hasPrefix (trimSpace r) tag then [trimPrefix (trimSpace r) tag] else [])
     @ fieldLines tag rs"
  by (simp_all add: fieldLines_def)

lemma parse_disks: "NVMeDisks (fold parseHardwareLine raws hw) = NVMeDisks hw @ fieldLines ''DISK='' raws"
  by (induction raws arbitrary: hw)
    (auto simp: parseHardwareLine_def Let_def dest!: hasPrefix_Cons split: list.splits)

lemma parse_mac:
  "hwPrimaryMAC (fold parseHardwareLine raws hw) = last (hwPrimaryMAC hw # fieldLines ''MAC='' raws)"
  by (induction raws arbitrary: hw)
    (auto simp: parseHardwareLine_def Let_def dest!: hasPrefix_Cons split: list.splits)

lemma parse_gateway:
  "hwGatewayIP (fold parseHardwareLine raws hw) = last (hwGatewayIP hw # fieldLines ''GATEWAY='' raws)"
  by (induction raws arbitrary: hw)
    (auto simp: parseHardwareLine_def Let_def dest!: hasPrefix_Cons split: list.splits)

lemma hasPrefix_other: "hasPrefix s (c # p) \<Longrightarrow> c \<noteq> d \<Longrightarrow> \<not> hasPrefix s (d # q)"
  using hasPrefix_Cons by blast

lemma parse_ceph_line:
  "isCeph (parseHardwareLine r hw) d \<longleftrightarrow> isCeph hw d \<or> d \<in> set (fieldLines ''CEPH='' [r])"
proof (cases "hasPrefix (trimSpace r) ''CEPH=''")
  case True
  then have "trimSpace r \<noteq> []" and "\<not> hasPrefix (trimSpace r) ''MAC=''"
    and "\<not> hasPrefix (trimSpace r) ''GATEWAY=''" and "\<not> hasPrefix (trimSpace r) ''DISK=''"
    by (simp_all add: hasPrefix_other [OF True] hasPrefix_Cons)
  with True show ?thesis by (auto simp: parseHardwareLine_def Let_def isCeph_def update_conv')
next
  case False
  then have "CephDisks (parseHardwareLine r hw) = CephDisks hw"
    by (simp add: parseHardwareLine_def Let_def split: list.split)
  with False show ?thesis by (simp add: isCeph_def)
qed

lemma parse_ceph:
  "isCeph (fold parseHardwareLine raws hw) d \<longleftrightarrow> isCeph hw d \<or> d \<in> set (fieldLines ''CEPH='' raws)"
  by (induction raws arbitrary: hw) (auto simp: parse_ceph_line)

text \<open>
  C33. Reading the hardware report. The parser succeeds exactly when the last MAC= line and
  the last GATEWAY= line of the report are there and not empty; then those are the MAC and the gateway, the
  NVMe disks are the values of the DISK= lines in their order, and a disk counts as Ceph exactly
  when a CEPH= line names it.
\<close>

theorem parse_hardware_report:
  "(let raws = splitStr output ''\<newline>'';
        mac = last ([] # fieldLines ''MAC='' raws); gw = last ([] # fieldLines ''GATEWAY='' raws)
    in case ParseHardwareOutput output of
         Inl e \<Rightarrow> mac = [] \<or> gw = []
       | Inr hw \<Rightarrow> mac \<noteq> [] \<and> gw \<noteq> [] \<and> hwPrimaryMAC hw = mac \<and> hwGatewayIP hw = gw
           \<and> NVMeDisks hw = fieldLines ''DISK='' raws
           \<and> {d. isCeph hw d} = set (fieldLines ''CEPH='' raws))"
proof -
  have "isCeph emptyHardware d = False" and "hwPrimaryMAC emptyHardware = []"
    and "hwGatewayIP emptyHardware = []" and "NVMeDisks emptyHardware = []" for d
    by (simp_all add: emptyHardware_def isCeph_def)
  then show ?thesis
    by (simp add: ParseHardwareOutput_def Let_def parse_mac parse_gateway parse_disks parse_ceph set_eq_iff)
qed

text \<open>
  C32. The Ignition file reaches the server unchanged. The command that writes it is an echo of one shell
  word piped through the base64 decoder; the shell reads that word as the payload whatever the
  file holds, and decoding the payload gives back exactly the bytes of the file.
\<close>

theorem ignition_payload_roundtrip:
  "\<exists>cmd payload. ignitionCmd ign = cmd @ '' | base64 -d > /tmp/ignition.json && echo IGN_OK''
     \<and> shWords cmd = Some [''echo'', payload] \<and> base64Decode payload = Some ign"
proof -
  let ?p = "base64Encode ign"
  have "concat (map (\<lambda>c. if c = CHR 0x27 then [CHR 0x27, CHR 0x5C, CHR 0x27, CHR 0x27] else [c]) p) = p"
    if "CHR 0x27 \<notin> set p" for p using that by (induction p) auto
  moreover have "CHR 0x27 \<notin> set ?p" using base64_chars [of "CHR 0x27" ign] by (auto simp: b64Alpha_def b64Val_def)
  ultimately have quote: "shellQuote ?p = [CHR 0x27] @ ?p @ [CHR 0x27]" by (simp add: shellQuote_def)
  have "shWords (''echo '' @ shellQuote ?p) = Some [''echo'', ?p]"
    using shRead_shellQuote [of "[]" False ?p "[]"] by (simp add: shWords_def shPlain_def)
  then show ?thesis
    unfolding quote by (intro exI [of _ "''echo '' @ [CHR 0x27] @ ?p @ [CHR 0x27]"] exI [of _ ?p])
      (simp add: ignitionCmd_def b64.decodes)
qed

section \<open>The install disk\<close>

text \<open>
  C25. As long as one NVMe disk carries no Ceph data, the disk chosen for the image is an NVMe
  disk without Ceph data, and it is the configured one whenever that one qualifies.
\<close>

theorem install_disk_not_ceph:
  assumes "d0 \<in> set (NVMeDisks hw)" and "\<not> isCeph hw d0"
  shows "\<exists>d. ResolveInstallDiskFromInfo hw cfg = Inr d \<and> d \<in> set (NVMeDisks hw) \<and> \<not> isCeph hw d
    \<and> (cfg \<in> set (NVMeDisks hw) \<and> \<not> isCeph hw cfg \<longrightarrow> d = cfg)"
proof -
  let ?safes = "filter (\<lambda>d. \<not> isCeph hw d) (NVMeDisks hw)"
  have "d0 \<in> set ?safes" using assms by simp
  then obtain d ds where safes: "?safes = d # ds" by (cases ?safes) auto
  then have "d \<in> set ?safes" by simp
  then have d: "d \<in> set (NVMeDisks hw)" "\<not> isCeph hw d" by simp_all
  have "ResolveInstallDiskFromInfo hw cfg = Inr (if cfg \<in> set ?safes then cfg else d)"
    by (simp only: ResolveInstallDiskFromInfo_def Let_def safes list.case) simp
  with d show ?thesis by simp
qed

theorem install_disk_not_ceph_witness:
  "\<exists>d. ResolveInstallDiskFromInfo (emptyHardware\<lparr>NVMeDisks := [''/dev/nvme0n1'', ''/dev/nvme1n1''],
        CephDisks := [(''/dev/nvme0n1'', True)]\<rparr>) ''/dev/nvme0n1'' = Inr d \<and> d = ''/dev/nvme1n1''"
  using install_disk_not_ceph [of "''/dev/nvme1n1''"
      "emptyHardware\<lparr>NVMeDisks := [''/dev/nvme0n1'', ''/dev/nvme1n1''], CephDisks := [(''/dev/nvme0n1'', True)]\<rparr>"
      "''/dev/nvme0n1''"]
  by (auto simp: isCeph_def)

text \<open>
  When every NVMe disk carries Ceph data, the configured disk is used all the same; the
  error branch is left for an empty configuration, which no caller passes.
\<close>

lemma install_disk_all_ceph:
  assumes "cfg \<noteq> []" and "\<forall>d \<in> set (NVMeDisks hw). isCeph hw d"
  shows "ResolveInstallDiskFromInfo hw cfg = Inr cfg"
proof -
  have "filter (\<lambda>d. \<not> isCeph hw d) (NVMeDisks hw) = []" using assms(2) by (simp add: filter_empty_conv)
  then show ?thesis using assms(1) by (simp add: ResolveInstallDiskFromInfo_def)
qed

lemma install_disk_all_ceph_witness:
  "ResolveInstallDiskFromInfo (emptyHardware\<lparr>NVMeDisks := [''/dev/nvme0n1''],
     CephDisks := [(''/dev/nvme0n1'', True)]\<rparr>) ''/dev/nvme0n1'' = Inr ''/dev/nvme0n1''"
  by (rule install_disk_all_ceph) (simp_all add: isCeph_def)

section \<open>Wiping\<close>

lemma emits_RunCmd [emits_intro]:
  "(\<And>out e. P (EvExec ''root'' (clientIP c) (wrapBash cmd) out e)) \<Longrightarrow> emits P (RunCmd X c cmd)"
  unfolding RunCmd_def by (intro emits_intro) (auto simp: calls_def intro!: emits_intro)

lemma RunCmd_ok:
  assumes "run_state (RunCmd X c cmd) s = ((out, None), s')"
  shows "clientConnected c" "EvExec ''root'' (clientIP c) (wrapBash cmd) out None \<in> set (newEvents (RunCmd X c cmd) s)"
  using assms by (auto simp: RunCmd_def newEvents_def calls_def split: if_splits option.splits prod.splits)

lemma wipe_run:
  assumes "disks \<noteq> []"
  shows "newEvents (WipeAllDisks X c disks) s = newEvents (RunCmd X c (wipeCmd disks)) s"
  using assms by (simp add: WipeAllDisks_def newEvents_def Let_def case_prod_beta split: option.split)

text \<open>
  C24. A wipe that reports no error did run: there was at least one disk, the connection was up,
  the command sent as root to the server's address was the wipe of exactly these disks, it
  exited without error, and its output confirms each single disk with a WIPED= line.
\<close>

theorem wipe_confirmed:
  assumes "fst (run_state (WipeAllDisks X c disks) s) = (out, None)"
  shows "disks \<noteq> [] \<and> clientConnected c
    \<and> EvExec ''root'' (clientIP c) (wrapBash (wipeCmd disks)) out None \<in> set (newEvents (WipeAllDisks X c disks) s)
    \<and> set disks \<subseteq> set (wipedDisks out)"
proof -
  have ne: "disks \<noteq> []" using assms by (auto simp: WipeAllDisks_def)
  obtain o1 e1 s1 where run: "run_state (RunCmd X c (wipeCmd disks)) s = ((o1, e1), s1)"
    by (metis prod.exhaust)
  with assms ne have e1: "e1 = None" and o1: "o1 = out"
    by (auto simp: WipeAllDisks_def Let_def split: option.splits if_splits)
  from assms ne run e1 o1 have "filter (\<lambda>d. d \<notin> set (wipedDisks out)) disks = []"
    by (simp add: WipeAllDisks_def Let_def split: if_splits)
  then have "set disks \<subseteq> set (wipedDisks out)" by (auto simp: filter_empty_conv)
  with ne RunCmd_ok [OF run [unfolded e1 o1]] show ?thesis by (simp add: wipe_run)
qed

theorem wipe_confirmed_witness:
  "set [''/dev/nvme0n1''] \<subseteq> set (wipedDisks ''WIPED=/dev/nvme0n1'')"
proof -
  let ?X = "sampleExt\<lparr>xExec := \<lambda>u i c w. ((''WIPED=/dev/nvme0n1'', None), w)\<rparr>"
  have "wipedDisks ''WIPED=/dev/nvme0n1'' = [''/dev/nvme0n1'']"
    by (simp add: wipedDisks_def splitStr_def hasPrefix_def trimPrefix_def trimSpace_id trimmed_def
        goSpaces_def hasSuffix_def)
  then have "fst (run_state (WipeAllDisks ?X ((NewClient ''192.0.2.6'' ''K'')\<lparr>clientConnected := True\<rparr>)
      [''/dev/nvme0n1'']) (sampleRun ())) = (''WIPED=/dev/nvme0n1'', None)"
    by (simp add: WipeAllDisks_def RunCmd_def calls_def sample_defs NewClient_def Let_def)
  from wipe_confirmed [OF this] show ?thesis by simp
qed

end
