(* ===== verification/Host_Claims.thy ===== *)
theory Host_Claims
  imports Policy Rescue_SSH
begin

text \<open>
  \<^verbatim>\<open>controllers/hetznerrobotmachine_host.go\<close>: how a HetznerRobotMachine finds, claims,
  adopts and releases its physical host. The object of a run is the machine; a host is read,
  changed in memory and patched, so every change appears in the trace as a patch with the host
  before and after.
\<close>

section \<open>References\<close>

definition machineReferenceFor :: "HetznerRobotMachine \<Rightarrow> MachineReference" where
  "machineReferenceFor hrm = \<lparr>refName = Name (hrmMeta hrm), refNamespace = Namespace (hrmMeta hrm)\<rparr>"

definition machineReferenceMatches :: "MachineReference option \<Rightarrow> HetznerRobotMachine \<Rightarrow> bool" where
  "machineReferenceMatches ro hrm \<longleftrightarrow> (case ro of None \<Rightarrow> False | Some r \<Rightarrow>
     refName r = Name (hrmMeta hrm) \<and> refNamespace r = Namespace (hrmMeta hrm))"

definition currentHostConsumerRef :: "HetznerRobotHost \<Rightarrow> MachineReference option" where
  "currentHostConsumerRef host =
     (if ConsumerRef (hostStatus host) \<noteq> None then ConsumerRef (hostStatus host)
      else if MachineRef (hostStatus host) \<noteq> None then MachineRef (hostStatus host)
      else None)"

definition setHostConsumerRef :: "MachineReference \<Rightarrow> HetznerRobotHost \<Rightarrow> HetznerRobotHost" where
  "setHostConsumerRef r = modHostStatus (\<lambda>st. st\<lparr>ConsumerRef := Some r, MachineRef := Some r\<rparr>)"

definition clearHostConsumerRef :: "HetznerRobotHost \<Rightarrow> HetznerRobotHost" where
  "clearHostConsumerRef = modHostStatus (\<lambda>st. st\<lparr>ConsumerRef := None, MachineRef := None\<rparr>)"

definition hostIsClaimedBy :: "HetznerRobotHost \<Rightarrow> HetznerRobotMachine \<Rightarrow> bool" where
  "hostIsClaimedBy host hrm \<longleftrightarrow> machineReferenceMatches (ConsumerRef (hostStatus host)) hrm
     \<or> machineReferenceMatches (MachineRef (hostStatus host)) hrm"

definition refText :: "MachineReference \<Rightarrow> string" where
  "refText r = refNamespace r @ ''/'' @ refName r"

abbreviation hrmText :: "HetznerRobotMachine \<Rightarrow> string" where
  "hrmText hrm \<equiv> Namespace (hrmMeta hrm) @ ''/'' @ Name (hrmMeta hrm)"

definition providerPrefix :: string where
  "providerPrefix = ''hetzner-robot://''"

definition robotServerIDFromProviderID :: "string option \<Rightarrow> int option" where
  "robotServerIDFromProviderID po = (case po of
     None \<Rightarrow> None
   | Some raw \<Rightarrow>
       if \<not> hasPrefix raw providerPrefix then None
       else (case atoi (trimPrefix raw providerPrefix) of
         None \<Rightarrow> None
       | Some sid \<Rightarrow> if sid \<le> 0 then None else Some sid))"

text \<open>
  A patch of a host: the helper takes the host as it is, then the changed host is sent. The
  two messages are the ones the callers wrap the errors in.
\<close>

definition patchHostWith :: "'w ext \<Rightarrow> string \<Rightarrow> string \<Rightarrow> HetznerRobotHost \<Rightarrow> HetznerRobotHost
    \<Rightarrow> ('w, 'o, goerr + HetznerRobotHost) go" where
  "patchHostWith X helperMsg patchMsg base changed = do {
     h \<leftarrow> silent (xNewHelper X);
     (case h of
        Some e \<Rightarrow> ret (Inl (wrapErr helperMsg e))
      | None \<Rightarrow> do {
          p \<leftarrow> patchHost X base changed;
          ret (case p of Some e \<Rightarrow> Inl (wrapErr patchMsg e) | None \<Rightarrow> Inr changed) })
   }"

definition ensureHostConsumerRef :: "'w ext \<Rightarrow> HetznerRobotHost \<Rightarrow> HetznerRobotMachine
    \<Rightarrow> ('w, 'o, goerr + HetznerRobotHost) go" where
  "ensureHostConsumerRef X host hrm =
     (let ref = currentHostConsumerRef host in
      if ref \<noteq> None \<and> \<not> machineReferenceMatches ref hrm then
        ret (Inl (errorf (''host '' @ hostName host @ '' is claimed by '' @ refText (the ref) @ '', not '' @ hrmText hrm)))
      else if machineReferenceMatches (ConsumerRef (hostStatus host)) hrm
        \<and> machineReferenceMatches (MachineRef (hostStatus host)) hrm then ret (Inr host)
      else patchHostWith X ''init HRH patch helper for consumerRef backfill: ''
        (''backfill host '' @ hostName host @ '' consumerRef: '')
        host (setHostConsumerRef (machineReferenceFor hrm) host))"

section \<open>Finding and claiming\<close>

definition claimedHost :: "HetznerRobotMachine \<Rightarrow> HetznerRobotHost \<Rightarrow> HetznerRobotHost" where
  "claimedHost hrm host = modHostStatus (\<lambda>st. st\<lparr>DirtyReason := []\<rparr>)
     (setHostConsumerRef (machineReferenceFor hrm)
       (modHostStatus (\<lambda>st. st\<lparr>hostState := HostStateClaimed\<rparr>) host))"

text \<open>The end of \<^verbatim>\<open>resolveHost\<close>: fetch the candidate again and claim it.\<close>

definition claimCandidate :: "'w ext \<Rightarrow> string \<Rightarrow> ('w, HetznerRobotMachine, goerr + HetznerRobotHost) go" where
  "claimCandidate X candidateName = do {
     hrm \<leftarrow> getObj;
     r \<leftarrow> getHost X (Namespace (hrmMeta hrm)) candidateName;
     (case r of
        Inl e \<Rightarrow> ret (Inl (wrapErr (''get candidate host '' @ candidateName @ '': '') e))
      | Inr hrh \<Rightarrow>
          if hostState (hostStatus hrh) \<noteq> HostStateAvailable then
            ret (Inl (errorf (''host '' @ candidateName @ '' is not Available (state=''
              @ hostStateText (hostState (hostStatus hrh)) @ '')'')))
          else if MaintenanceMode (hostSpec hrh) then
            ret (Inl (errorf (''host '' @ candidateName @ '' is in maintenanceMode and cannot be claimed'')))
          else bindE (patchHostWith X ''init HRH patch helper for claim: ''
              (''claim host '' @ candidateName @ '' (patch HRH): '') hrh (claimedHost hrm hrh))
            (\<lambda>h. do {
               modObj (modStatus (HostRef_update (\<lambda>_. candidateName)));
               ret (Inr h) }))
   }"

text \<open>Recovery of a claim whose record in the machine's status was lost.\<close>

definition recoverClaim :: "'w ext \<Rightarrow> HetznerRobotHost \<Rightarrow> ('w, HetznerRobotMachine, goerr + HetznerRobotHost) go" where
  "recoverClaim X hrh = do {
     modObj (modStatus (HostRef_update (\<lambda>_. hostName hrh)));
     hrm \<leftarrow> getObj;
     ensureHostConsumerRef X hrh hrm
   }"

definition resolveHost :: "'w ext \<Rightarrow> ('w, HetznerRobotMachine, goerr + HetznerRobotHost) go" where
  "resolveHost X = do {
     hrm \<leftarrow> getObj;
     (let ns = Namespace (hrmMeta hrm); spec = hrmSpec hrm; ref = HostRef (hrmStatus hrm) in
      if ref \<noteq> [] then do {
        r \<leftarrow> getHost X ns ref;
        (case r of
           Inl e \<Rightarrow> ret (Inl (wrapErr (''get claimed host '' @ ref @ '': '') e))
         | Inr hrh \<Rightarrow> ensureHostConsumerRef X hrh hrm)
      }
      else if specHostRef spec \<noteq> None \<and> the (specHostRef spec) \<noteq> [] then
        (let n = the (specHostRef spec) in do {
           r \<leftarrow> getHost X ns n;
           (case r of
              Inl e \<Rightarrow> ret (Inl (wrapErr (''get host '' @ n @ '': '') e))
            | Inr hrh \<Rightarrow>
                if hostIsClaimedBy hrh hrm then recoverClaim X hrh
                else if MaintenanceMode (hostSpec hrh) then
                  ret (Inl (errorf (''host '' @ hostName hrh @ '' is in maintenanceMode and cannot be claimed'')))
                else claimCandidate X n)
         })
      else (case HostSelector spec of
        Some sel \<Rightarrow> (case xSelectorError X sel of
          Some e \<Rightarrow> ret (Inl (wrapErr ''invalid hostSelector: '' e))
        | None \<Rightarrow> do {
            r \<leftarrow> listHosts X ns sel;
            (case r of
               Inl e \<Rightarrow> ret (Inl (wrapErr ''list hosts by selector: '' e))
             | Inr items \<Rightarrow> (case find (\<lambda>h. hostIsClaimedBy h hrm) items of
                 Some h \<Rightarrow> recoverClaim X h
               | None \<Rightarrow>
                   (let candidateName = (case find (\<lambda>h. hostState (hostStatus h) = HostStateAvailable
                          \<and> \<not> MaintenanceMode (hostSpec h)) items of
                        None \<Rightarrow> [] | Some h \<Rightarrow> hostName h) in
                    if candidateName = [] then
                      ret (Inl (errorf ''no non-maintenance Available HetznerRobotHost found matching selector''))
                    else claimCandidate X candidateName)))
          })
      | None \<Rightarrow> ret (Inl (errorf ''HetznerRobotMachine must specify either spec.hostRef or spec.hostSelector''))))
   }"

text \<open>
  Deletion must not claim: the host and whether it is to be released, or nothing.
\<close>

definition resolveHostForDelete :: "'w ext \<Rightarrow> ('w, HetznerRobotMachine, goerr + HetznerRobotHost option \<times> bool) go" where
  "resolveHostForDelete X = do {
     hrm \<leftarrow> getObj;
     (let ns = Namespace (hrmMeta hrm); spec = hrmSpec hrm; ref = HostRef (hrmStatus hrm) in
      if ref \<noteq> [] then do {
        r \<leftarrow> getHost X ns ref;
        ret (case r of
           Inl e \<Rightarrow> Inl (wrapErr (''get claimed host '' @ ref @ '': '') e)
         | Inr hrh \<Rightarrow> Inr (Some hrh, True))
      }
      else if specHostRef spec \<noteq> None \<and> the (specHostRef spec) \<noteq> [] then
        (let n = the (specHostRef spec) in do {
           r \<leftarrow> getHost X ns n;
           ret (case r of
              Inl e \<Rightarrow> Inl (wrapErr (''get directly referenced host '' @ n @ '': '') e)
            | Inr hrh \<Rightarrow> if hostIsClaimedBy hrh hrm then Inr (Some hrh, True) else Inr (None, False))
         })
      else (case HostSelector spec of
        Some sel \<Rightarrow> (case xSelectorError X sel of
          Some e \<Rightarrow> ret (Inl (wrapErr ''invalid hostSelector: '' e))
        | None \<Rightarrow> do {
            r \<leftarrow> listHosts X ns sel;
            ret (case r of
               Inl e \<Rightarrow> Inl (wrapErr ''list hosts by selector: '' e)
             | Inr items \<Rightarrow> (case find (\<lambda>h. hostIsClaimedBy h hrm) items of
                 Some h \<Rightarrow> Inr (Some h, True) | None \<Rightarrow> Inr (None, False)))
          })
      | None \<Rightarrow> ret (Inr (None, False))))
   }"

definition releasedHost :: "HetznerRobotHost \<Rightarrow> HetznerRobotHost" where
  "releasedHost hrh = modHostStatus (\<lambda>st. st\<lparr>DirtyReason := ''ReleasedAfterMachineDelete'', ErrorMessage := []\<rparr>)
     (clearHostConsumerRef
       (modHostStatus (\<lambda>st. st\<lparr>hostState := HostStateAvailable, LastConsumerRef := currentHostConsumerRef hrh\<rparr>) hrh))"

definition releaseHost :: "'w ext \<Rightarrow> string \<Rightarrow> string \<Rightarrow> ('w, 'o, goerr option) go" where
  "releaseHost X ns hn = do {
     r \<leftarrow> getHost X ns hn;
     (case r of
        Inl e \<Rightarrow> ret (Some (wrapErr (''get host '' @ hn @ '': '') e))
      | Inr hrh \<Rightarrow> do {
          p \<leftarrow> patchHostWith X ''init HRH patch helper: '' (''patch host '' @ hn @ '': '') hrh (releasedHost hrh);
          ret (case p of Inl e \<Rightarrow> Some e | Inr _ \<Rightarrow> None) })
   }"

section \<open>Adopting a provisioned host\<close>

text \<open>
  Who stands in the way of this machine owning the host. A legacy reference (only
  \<^verbatim>\<open>machineRef\<close> set) gives way when the machine's providerID names the host's server and
  the referenced machine no longer exists. Where the code returns a reference beside an error,
  every caller returns the error.
\<close>

definition blockingHostOwnerRef :: "'w ext \<Rightarrow> HetznerRobotHost \<Rightarrow> HetznerRobotMachine
    \<Rightarrow> ('w, 'o, goerr + MachineReference option) go" where
  "blockingHostOwnerRef X host hrm = (case ConsumerRef (hostStatus host) of
     Some c \<Rightarrow> if machineReferenceMatches (Some c) hrm then ret (Inr None) else ret (Inr (Some c))
   | None \<Rightarrow> (case MachineRef (hostStatus host) of
       None \<Rightarrow> ret (Inr None)
     | Some legacyRef \<Rightarrow>
         if machineReferenceMatches (Some legacyRef) hrm then ret (Inr None)
         else if robotServerIDFromProviderID (ProviderID (hrmSpec hrm)) \<noteq> Some (ServerID (hostSpec host)) then
           ret (Inr (Some legacyRef))
         else (let legacyNamespace = (if refNamespace legacyRef = [] then Namespace (hostMeta host)
                 else refNamespace legacyRef) in do {
           r \<leftarrow> silent (xGetMachine X (legacyNamespace, refName legacyRef));
           ret (case r of
              Inl e \<Rightarrow> if isNotFound e then Inr None
                else Inl (wrapErr (''get legacy host owner '' @ legacyNamespace @ ''/'' @ refName legacyRef @ '': '') e)
            | Inr _ \<Rightarrow> Inr (Some legacyRef))
         })))"

definition resolveProvisionedAdoptionHost :: "'w ext \<Rightarrow> HetznerRobotMachine \<Rightarrow> int
    \<Rightarrow> ('w, 'o, goerr + HetznerRobotHost) go" where
  "resolveProvisionedAdoptionHost X hrm expectedServerID =
     (let ns = Namespace (hrmMeta hrm); spec = hrmSpec hrm in
      if specHostRef spec \<noteq> None \<and> the (specHostRef spec) \<noteq> [] then do {
        r \<leftarrow> getHost X ns (the (specHostRef spec));
        ret (case r of
           Inl e \<Rightarrow> Inl (wrapErr (''get hostRef '' @ the (specHostRef spec) @ '' for provisioned adoption: '') e)
         | Inr host \<Rightarrow> Inr host)
      }
      else (case HostSelector spec of
        None \<Rightarrow> ret (Inl (errorf
          ''spec.hostRef or spec.hostSelector is required to backfill provisioned host ownership''))
      | Some sel \<Rightarrow> (case xSelectorError X sel of
          Some e \<Rightarrow> ret (Inl (wrapErr ''invalid hostSelector for provisioned adoption: '' e))
        | None \<Rightarrow> do {
            r \<leftarrow> listHosts X ns sel;
            ret (case r of
               Inl e \<Rightarrow> Inl (wrapErr ''list hosts by selector for provisioned adoption: '' e)
             | Inr items \<Rightarrow> (case filter (\<lambda>h. ServerID (hostSpec h) = expectedServerID) items of
                 [] \<Rightarrow> Inl (errorf (''no HetznerRobotHost matches providerID serverID='' @ itoa expectedServerID))
               | [h] \<Rightarrow> Inr h
               | matches \<Rightarrow> Inl (errorf (''multiple HetznerRobotHosts match providerID serverID=''
                   @ itoa expectedServerID @ '': '' @ joinStr (sort (map hostName matches)) '', ''))))
          })))"

definition adoptedHost :: "HetznerRobotMachine \<Rightarrow> HetznerRobotHost \<Rightarrow> HetznerRobotHost" where
  "adoptedHost hrm host = modHostStatus (\<lambda>st. st\<lparr>DirtyReason := [], ErrorMessage := []\<rparr>)
     (setHostConsumerRef (machineReferenceFor hrm)
       (modHostStatus (\<lambda>st. st\<lparr>hostState := HostStateProvisioned\<rparr>) host))"

definition backfillProvisionedHostClaim :: "'w ext \<Rightarrow> ('w, HetznerRobotMachine, goerr + bool) go" where
  "backfillProvisionedHostClaim X = do {
     hrm \<leftarrow> getObj;
     (if HostRef (hrmStatus hrm) \<noteq> [] then ret (Inr False)
      else (case robotServerIDFromProviderID (ProviderID (hrmSpec hrm)) of
        None \<Rightarrow> ret (Inl (errorf ''providerID is required to backfill provisioned host ownership''))
      | Some expectedServerID \<Rightarrow>
          bindE (resolveProvisionedAdoptionHost X hrm expectedServerID) (\<lambda>host.
            if MaintenanceMode (hostSpec host) then
              ret (Inl (errorf (''host '' @ hostName host @ '' is in maintenanceMode and cannot be adopted'')))
            else if ServerID (hostSpec host) \<noteq> expectedServerID then
              ret (Inl (errorf (''host '' @ hostName host @ '' serverID='' @ itoa (ServerID (hostSpec host))
                @ '' does not match HRM providerID serverID='' @ itoa expectedServerID)))
            else bindE (blockingHostOwnerRef X host hrm) (\<lambda>ref.
              case ref of
                Some r \<Rightarrow> ret (Inl (errorf (''host '' @ hostName host @ '' is claimed by '' @ refText r)))
              | None \<Rightarrow>
                  if hostState (hostStatus host) = HostStateClaimed then
                    ret (Inl (errorf (''host '' @ hostName host @ '' is Claimed without consumerRef'')))
                  else bindE (patchHostWith X ''init HRH patch helper for provisioned adoption: ''
                      (''backfill host '' @ hostName host @ '' provisioned ownership: '')
                      host (adoptedHost hrm host))
                    (\<lambda>h. do {
                       modObj (modStatus (HostRef_update (\<lambda>_. hostName host)));
                       ret (Inr True) })))))
   }"

definition provisionedHost :: "HetznerRobotMachine \<Rightarrow> HetznerRobotHost \<Rightarrow> HetznerRobotHost" where
  "provisionedHost hrm host = modHostStatus (\<lambda>st. st\<lparr>ErrorMessage := []\<rparr>)
     (setHostConsumerRef (machineReferenceFor hrm)
       (modHostStatus (\<lambda>st. st\<lparr>hostState := HostStateProvisioned\<rparr>) host))"

definition ensureProvisionedHostStatus :: "'w ext \<Rightarrow> ('w, HetznerRobotMachine, goerr option) go" where
  "ensureProvisionedHostStatus X = do {
     hrm \<leftarrow> getObj;
     (let ref = HostRef (hrmStatus hrm) in
      if ref = [] then ret None
      else do {
        r \<leftarrow> getHost X (Namespace (hrmMeta hrm)) ref;
        (case r of
           Inl e \<Rightarrow> ret (Some (wrapErr (''get provisioned host '' @ ref @ '': '') e))
         | Inr host \<Rightarrow> do {
             b \<leftarrow> blockingHostOwnerRef X host hrm;
             (case b of
                Inl e \<Rightarrow> ret (Some e)
              | Inr (Some o1) \<Rightarrow> ret (Some (errorf (''host '' @ hostName host @ '' is claimed by '' @ refText o1
                  @ '', not '' @ hrmText hrm)))
              | Inr None \<Rightarrow>
                  if hostState (hostStatus host) = HostStateProvisioned
                    \<and> machineReferenceMatches (ConsumerRef (hostStatus host)) hrm
                    \<and> machineReferenceMatches (MachineRef (hostStatus host)) hrm then ret None
                  else do {
                    p \<leftarrow> patchHostWith X ''init HRH patch helper for provisioned status: ''
                      (''patch host '' @ hostName host @ '' provisioned status: '') host (provisionedHost hrm host);
                    ret (case p of Inl e \<Rightarrow> Some e | Inr _ \<Rightarrow> None)
                  })
           })
      })
   }"

section \<open>Recording facts about a host\<close>

definition hardwareDetails :: "HardwareInfo \<Rightarrow> HostHardwareDetails" where
  "hardwareDetails hw = \<lparr>hdPrimaryMAC = hwPrimaryMAC hw, hdGatewayIP = hwGatewayIP hw,
     hdNVMeDisks = sort (NVMeDisks hw), hdCephDisks = sort (map fst (filter snd (CephDisks hw))),
     hdByIDPaths = map_of (ByIDPaths hw)\<rparr>"

definition recordHostHardwareDetails :: "'w ext \<Rightarrow> string \<Rightarrow> string \<Rightarrow> HardwareInfo option
    \<Rightarrow> ('w, 'o, goerr option) go" where
  "recordHostHardwareDetails X ns hn hwo = (case hwo of
     None \<Rightarrow> ret None
   | Some hw \<Rightarrow>
       if hn = [] then ret None
       else do {
         r \<leftarrow> getHost X ns hn;
         (case r of
            Inl e \<Rightarrow> ret (Some (wrapErr (''get host '' @ hn @ '': '') e))
          | Inr hrh \<Rightarrow> do {
              p \<leftarrow> patchHostWith X ''init HRH patch helper: '' (''patch host '' @ hn @ '' hardware details: '')
                hrh (modHostStatus (\<lambda>st. st\<lparr>HardwareDetails := Some (hardwareDetails hw)\<rparr>) hrh);
              ret (case p of Inl e \<Rightarrow> Some e | Inr _ \<Rightarrow> None) })
       })"

definition updateHostState :: "'w ext \<Rightarrow> string \<Rightarrow> string \<Rightarrow> HostState \<Rightarrow> ('w, 'o, goerr option) go" where
  "updateHostState X ns hn st = do {
     r \<leftarrow> getHost X ns hn;
     (case r of
        Inl e \<Rightarrow> ret (Some (wrapErr (''get host '' @ hn @ '': '') e))
      | Inr hrh \<Rightarrow>
          if hostState (hostStatus hrh) = st then ret None
          else do {
            p \<leftarrow> patchHostWith X ''init HRH patch helper: ''
              (''patch host '' @ hn @ '' state to '' @ hostStateText st @ '': '')
              hrh (modHostStatus (\<lambda>s. s\<lparr>hostState := st\<rparr>) hrh);
            ret (case p of Inl e \<Rightarrow> Some e | Inr _ \<Rightarrow> None) })
   }"

section \<open>Ownership\<close>

text \<open>
  What the claims promise. A host is owned by a machine when both of its references name it;
  it is unowned for a machine when no reference names anybody else. A host has been seen in a
  trace when the API returned it or accepted a patch to it.
\<close>

definition ownedBy :: "HetznerRobotMachine \<Rightarrow> HetznerRobotHost \<Rightarrow> bool" where
  "ownedBy hrm h \<longleftrightarrow> ConsumerRef (hostStatus h) = Some (machineReferenceFor hrm)
     \<and> MachineRef (hostStatus h) = Some (machineReferenceFor hrm)"

definition freeFor :: "HetznerRobotMachine \<Rightarrow> HetznerRobotHost \<Rightarrow> bool" where
  "freeFor hrm h \<longleftrightarrow> currentHostConsumerRef h \<in> {None, Some (machineReferenceFor hrm)}"

fun showsHost :: "event \<Rightarrow> HetznerRobotHost \<Rightarrow> bool" where
  "showsHost (EvGetHost k (Inr h')) h = (h' = h)"
| "showsHost (EvListHosts ns sel (Inr hs)) h = (h \<in> set hs)"
| "showsHost (EvPatchHost b a None) h = (a = h)"
| "showsHost _ h = False"

definition hostSeen :: "event list \<Rightarrow> HetznerRobotHost \<Rightarrow> bool" where
  "hostSeen tr h \<longleftrightarrow> list_ex (\<lambda>e. showsHost e h) tr"

text \<open>
  A patch that takes a host for a machine: an Available host out of maintenance becomes
  Claimed, or the references of a host nobody else owns are completed. Nothing of the spec or
  the metadata changes.
\<close>

definition claimPatch :: "HetznerRobotMachine \<Rightarrow> event \<Rightarrow> bool" where
  "claimPatch hrm e \<longleftrightarrow> (\<exists>b a r. e = EvPatchHost b a r
     \<and> hostMeta a = hostMeta b \<and> hostSpec a = hostSpec b \<and> ownedBy hrm a
     \<and> (hostState (hostStatus b) = HostStateAvailable \<and> \<not> MaintenanceMode (hostSpec b)
          \<and> hostState (hostStatus a) = HostStateClaimed
        \<or> freeFor hrm b \<and> hostState (hostStatus a) = hostState (hostStatus b)))"

named_theorems ownership \<open>how the operations act on the references of a host\<close>

lemma matches_iff [ownership]: "machineReferenceMatches ro hrm \<longleftrightarrow> ro = Some (machineReferenceFor hrm)"
  by (auto simp: machineReferenceMatches_def machineReferenceFor_def split: option.split)

lemma ownedBy_ops [simp]:
  "ownedBy hrm (setHostConsumerRef (machineReferenceFor hrm) h)"
  "ownedBy hrm (claimedHost hrm h)" "ownedBy hrm (adoptedHost hrm h)" "ownedBy hrm (provisionedHost hrm h)"
  by (simp_all add: ownedBy_def claimedHost_def adoptedHost_def provisionedHost_def setHostConsumerRef_def)

lemma host_ops_keep [simp]:
  "hostMeta (setHostConsumerRef r h) = hostMeta h" "hostSpec (setHostConsumerRef r h) = hostSpec h"
  "hostMeta (claimedHost hrm h) = hostMeta h" "hostSpec (claimedHost hrm h) = hostSpec h"
  "hostMeta (adoptedHost hrm h) = hostMeta h" "hostSpec (adoptedHost hrm h) = hostSpec h"
  "hostMeta (provisionedHost hrm h) = hostMeta h" "hostSpec (provisionedHost hrm h) = hostSpec h"
  "hostMeta (releasedHost h) = hostMeta h" "hostSpec (releasedHost h) = hostSpec h"
  "hostState (hostStatus (claimedHost hrm h)) = HostStateClaimed"
  "hostState (hostStatus (setHostConsumerRef r h)) = hostState (hostStatus h)"
  "hostState (hostStatus (adoptedHost hrm h)) = HostStateProvisioned"
  "hostState (hostStatus (provisionedHost hrm h)) = HostStateProvisioned"
  by (simp_all add: claimedHost_def adoptedHost_def provisionedHost_def releasedHost_def setHostConsumerRef_def
      clearHostConsumerRef_def)

lemma ownedBy_cong: "hrmMeta m = hrmMeta m' \<Longrightarrow> ownedBy m h = ownedBy m' h"
  by (simp add: ownedBy_def machineReferenceFor_def)

lemma claimPatch_cong: "hrmMeta m = hrmMeta m' \<Longrightarrow> claimPatch m e = claimPatch m' e"
  by (simp add: claimPatch_def ownedBy_def freeFor_def machineReferenceFor_def)

lemma hostSeen_simps [simp]:
  "hostSeen (xs @ ys) h \<longleftrightarrow> hostSeen xs h \<or> hostSeen ys h"
  "hostSeen [] h \<longleftrightarrow> False" "hostSeen (e # tr) h \<longleftrightarrow> showsHost e h \<or> hostSeen tr h"
  by (simp_all add: hostSeen_def)

subsection \<open>What the operations guarantee\<close>

lemma wp_patchHostWith:
  assumes "\<And>r. Q [EvPatchHost b a (Some r)] (Inl (wrapErr m2 r)) ob" and "\<And>e. Q [] (Inl e) ob"
    and "Q [EvPatchHost b a None] (Inr a) ob"
  shows "wp (patchHostWith X m1 m2 b a) ob Q"
  unfolding patchHostWith_def
  by (intro wp_intro) (auto simp: assms split: option.split)

text \<open>
  The contract shared by everything that hands a host to the machine: on success the host is
  owned by it, the API has shown that very host, and all that was written are claims.
\<close>

definition handsOver :: "HetznerRobotMachine \<Rightarrow> event list \<Rightarrow> event list \<Rightarrow> goerr + HetznerRobotHost
    \<Rightarrow> HetznerRobotMachine \<Rightarrow> bool" where
  "handsOver m0 seen n r m \<longleftrightarrow> hrmMeta m = hrmMeta m0 \<and> list_all (\<lambda>e. isRead e \<or> claimPatch m0 e) n
     \<and> (case r of Inl _ \<Rightarrow> True | Inr h \<Rightarrow> ownedBy m0 h \<and> hostSeen (seen @ n) h)"

lemma wp_ensureRef:
  assumes "hostSeen seen h" and "hrmMeta m = hrmMeta m0" and "hrmMeta ob = hrmMeta m0"
  shows "wp (ensureHostConsumerRef X h m) ob (handsOver m0 seen)"
proof -
  have ref: "machineReferenceFor m = machineReferenceFor m0" using assms(2) by (simp add: machineReferenceFor_def)
  show ?thesis
    unfolding ensureHostConsumerRef_def Let_def matches_iff ref
    by (intro wp_if wp_patchHostWith)
      (use assms in \<open>auto simp: handsOver_def ownedBy_def freeFor_def claimPatch_def setHostConsumerRef_def\<close>)
qed

lemma wp_bindE_patchHostWith:
  assumes "\<And>r. Q [EvPatchHost b a (Some r)] (Inl (wrapErr m2 r)) ob" and "\<And>e. Q [] (Inl e) ob"
    and "wp (f a) ob (\<lambda>n. Q ([EvPatchHost b a None] @ n))"
  shows "wp (bindE (patchHostWith X m1 m2 b a) f) ob Q"
  unfolding bindE_def
  by (rule wp_bind, rule wp_patchHostWith) (use assms in auto)

lemma wp_claimCandidate:
  assumes "hrmMeta ob = hrmMeta m0"
  shows "wp (claimCandidate X cand) ob (handsOver m0 seen)"
proof -
  have ref: "machineReferenceFor ob = machineReferenceFor m0"
    using assms by (simp add: machineReferenceFor_def)
  show ?thesis
    unfolding claimCandidate_def wp_bind_getObj
    by (intro wp_intro wp_bindE_patchHostWith)
      (use assms in \<open>auto simp: handsOver_def claimPatch_def ownedBy_def claimedHost_def setHostConsumerRef_def ref\<close>)
qed

lemma handsOver_prefix: "handsOver m0 (seen @ n) n' r m \<Longrightarrow> list_all isRead n \<Longrightarrow> handsOver m0 seen (n @ n') r m"
  by (auto simp: handsOver_def list_all_iff split: sum.splits)

lemma wp_recoverClaim:
  assumes "hostSeen seen h" and "hrmMeta ob = hrmMeta m0"
  shows "wp (recoverClaim X h) ob (handsOver m0 seen)"
  unfolding recoverClaim_def wp_bind_modObj wp_bind_getObj
  by (rule wp_ensureRef) (simp_all add: assms)

lemma wp_read_then:
  assumes "wp m ob (handsOver m0 (seen @ n))" and "list_all isRead n"
  shows "wp m ob (\<lambda>n'. handsOver m0 seen (n @ n'))"
  using assms(1) by (rule wp_mono) (rule handsOver_prefix [OF _ assms(2)])

lemma wp_resolveHost: "wp (resolveHost X) ob (handsOver ob [])"
proof -
  have fail: "handsOver ob sn n (Inl e) ob" if "list_all isRead n" for sn n e
    using that by (auto simp: handsOver_def list_all_iff)
  show ?thesis
    unfolding resolveHost_def Let_def wp_bind_getObj
    by (intro wp_intro wp_read_then wp_ensureRef wp_claimCandidate wp_recoverClaim)
      (auto intro: fail simp: find_Some_iff)
qed

lemma wp_resolveHostForDelete:
  "wp (resolveHostForDelete X) ob (\<lambda>n r m. m = ob \<and> list_all isRead n \<and>
     (case r of Inr (Some h, rel) \<Rightarrow> rel \<and> hostSeen n h \<and>
        (if HostRef (hrmStatus ob) = [] then hostIsClaimedBy h ob
         else EvGetHost (Namespace (hrmMeta ob), HostRef (hrmStatus ob)) (Inr h) \<in> set n)
      | Inr (None, rel) \<Rightarrow> \<not> rel | Inl _ \<Rightarrow> True))"
  unfolding resolveHostForDelete_def Let_def wp_bind_getObj
  by (intro wp_intro) (auto simp: find_Some_iff split: sum.split option.split)

text \<open>A patch by which a machine takes over the host it is already running on.\<close>

definition adoptionPatch :: "HetznerRobotMachine \<Rightarrow> event \<Rightarrow> bool" where
  "adoptionPatch hrm e \<longleftrightarrow> (\<exists>b a r. e = EvPatchHost b a r
     \<and> hostMeta a = hostMeta b \<and> hostSpec a = hostSpec b \<and> ownedBy hrm a
     \<and> hostState (hostStatus a) = HostStateProvisioned
     \<and> ConsumerRef (hostStatus b) \<in> {None, Some (machineReferenceFor hrm)}
     \<and> (freeFor hrm b \<or> robotServerIDFromProviderID (ProviderID (hrmSpec hrm)) = Some (ServerID (hostSpec b))))"

lemma wp_blockingHostOwnerRef:
  "wp (blockingHostOwnerRef X h m) ob (\<lambda>n r ob'. n = [] \<and> ob' = ob \<and>
     (r = Inr None \<longrightarrow> ConsumerRef (hostStatus h) \<in> {None, Some (machineReferenceFor m)}
        \<and> (freeFor m h \<or> robotServerIDFromProviderID (ProviderID (hrmSpec m)) = Some (ServerID (hostSpec h)))))"
  unfolding blockingHostOwnerRef_def Let_def matches_iff
  by (intro wp_intro) (auto simp: freeFor_def currentHostConsumerRef_def split: sum.split)

lemma wp_adoptionHost: "wp (resolveProvisionedAdoptionHost X m sid) ob (\<lambda>n r ob'. list_all isRead n \<and> ob' = ob)"
  unfolding resolveProvisionedAdoptionHost_def Let_def by (intro wp_intro) auto

text \<open>The backfill is stricter: the host must be the server of the machine's providerID.\<close>

definition backfillPatch :: "HetznerRobotMachine \<Rightarrow> event \<Rightarrow> bool" where
  "backfillPatch hrm e \<longleftrightarrow> adoptionPatch hrm e \<and> (\<exists>b a r. e = EvPatchHost b a r
     \<and> robotServerIDFromProviderID (ProviderID (hrmSpec hrm)) = Some (ServerID (hostSpec b))
     \<and> \<not> MaintenanceMode (hostSpec b) \<and> hostState (hostStatus b) \<noteq> HostStateClaimed)"

definition backfills :: "HetznerRobotMachine \<Rightarrow> event list \<Rightarrow> goerr + bool \<Rightarrow> HetznerRobotMachine \<Rightarrow> bool" where
  "backfills m0 n r m \<longleftrightarrow> list_all (\<lambda>e. isRead e \<or> backfillPatch m0 e) n
     \<and> (if r = Inr True then \<exists>h. hostSeen n h \<and> ownedBy m0 h \<and> m = modStatus (HostRef_update (\<lambda>_. hostName h)) m0
        else m = m0)"

lemma backfills_fail: "list_all isRead n \<Longrightarrow> backfills m0 n (Inl e) m0"
  by (auto simp: backfills_def list_all_iff)

lemma wp_backfill: "wp (backfillProvisionedHostClaim X) ob (backfills ob)"
  unfolding backfillProvisionedHostClaim_def wp_bind_getObj
  apply (intro wp_if wp_case_option)
    apply (simp add: backfills_def)
   apply (simp add: backfills_fail)
  apply (rule wp_bindEI [OF wp_adoptionHost])
   apply (simp add: backfills_fail)
  apply (intro wp_if)
    apply (simp add: backfills_fail)
   apply (simp add: backfills_fail)
  apply (rule wp_bindEI [OF wp_blockingHostOwnerRef])
   apply (simp add: backfills_fail)
  apply (intro wp_if wp_case_option)
    apply (simp add: backfills_fail)
   apply (rule wp_bindE_patchHostWith)
     apply (auto simp: backfills_def backfillPatch_def list_all_iff adoptionPatch_def)
  done

lemma wp_ensureProvisioned:
  "wp (ensureProvisionedHostStatus X) ob (\<lambda>n r m. m = ob \<and> list_all (\<lambda>e. isRead e \<or> adoptionPatch ob e) n)"
  unfolding ensureProvisionedHostStatus_def Let_def wp_bind_getObj
  apply (intro wp_intro)
    apply simp
   apply simp
  apply (rule wp_bindI [OF wp_blockingHostOwnerRef])
  apply (intro wp_intro)
     apply (simp_all split: option.split)
  apply (rule wp_bind, rule wp_patchHostWith)
    apply (auto simp: adoptionPatch_def)
  done


text \<open>
  C29. A machine that names a free host by reference gets it: if the API keeps answering with the
  same host, Available, out of maintenance and without references, and accepts the patch, then
  resolveHost returns that host as Claimed by this machine and records its name in the status.
\<close>

theorem resolve_host_claims:
  assumes "HostRef (hrmStatus (obj s)) = []" and "specHostRef (hrmSpec (obj s)) = Some hn" and "hn \<noteq> []"
    and "\<And>w. fst (xGetHost X (Namespace (hrmMeta (obj s)), hn) w) = Inr h"
    and "hostState (hostStatus h) = HostStateAvailable" and "\<not> MaintenanceMode (hostSpec h)"
    and "currentHostConsumerRef h = None"
    and "\<And>w. fst (xNewHelper X w) = None" and "\<And>a w. fst (xPatchHost X h a w) = None"
  shows "fst (run_state (resolveHost X) s) = Inr (claimedHost (obj s) h)
    \<and> HostRef (hrmStatus (obj (snd (run_state (resolveHost X) s)))) = hn"
proof -
  have "\<not> hostIsClaimedBy h (obj s)"
    using assms(7) by (auto simp: hostIsClaimedBy_def matches_iff currentHostConsumerRef_def split: if_splits)
  with assms show ?thesis
    by (simp add: resolveHost_def claimCandidate_def bindE_def patchHostWith_def calls_def Let_def)
qed

theorem resolve_host_claims_witness:
  "fst (run_state (resolveHost sampleExt) (sampleRun sampleHRM)) = Inr (claimedHost sampleHRM sampleHost)"
  using resolve_host_claims [of "sampleRun sampleHRM" "''node6''" sampleExt sampleHost]
  by (simp add: sample_defs currentHostConsumerRef_def)

text \<open>
  Deletion never claims. Finding the host of a machine that is being deleted only reads and
  leaves the machine's object alone; the host it finds is the answer to the name in the machine's status, or,
  without one, a host just shown of which a reference names this machine.
\<close>

lemma resolve_delete_only_reads:
  "list_all isRead (newEvents (resolveHostForDelete X) s)
   \<and> obj (snd (run_state (resolveHostForDelete X) s)) = obj s
   \<and> (case fst (run_state (resolveHostForDelete X) s) of
        Inl _ \<Rightarrow> True
      | Inr (None, release) \<Rightarrow> \<not> release
      | Inr (Some h, release) \<Rightarrow> release \<and> hostSeen (newEvents (resolveHostForDelete X) s) h
          \<and> (if HostRef (hrmStatus (obj s)) = [] then hostIsClaimedBy h (obj s)
             else EvGetHost (Namespace (hrmMeta (obj s)), HostRef (hrmStatus (obj s))) (Inr h)
               \<in> set (newEvents (resolveHostForDelete X) s)))"
  using wpD(1) [OF wp_resolveHostForDelete [of X "obj s"]] by (auto split: sum.splits option.splits)


text \<open>
  C37. The providerID the controller writes for a server is read back as that server's number,
  for every positive 64-bit number, and for no other number.
\<close>

theorem provider_id_roundtrip:
  assumes "int64 sid"
  shows "robotServerIDFromProviderID (Some (''hetzner-robot://'' @ itoa sid))
    = (if 0 < sid then Some sid else None)"
proof -
  have trim: "robotServerIDFromProviderID (Some (providerPrefix @ t))
      = (case atoi t of None \<Rightarrow> None | Some i \<Rightarrow> if i \<le> 0 then None else Some i)" for t
    by (simp add: robotServerIDFromProviderID_def)
  consider "0 \<le> sid" | "sid < 0" by linarith
  then show ?thesis
  proof cases
    case 1
    with assms show ?thesis using trim [of "itoa sid"]
      by (simp add: providerPrefix_def atoi_itoa)
  next
    case 2
    then have "atoi (itoa sid) = Some sid \<or> atoi (itoa sid) = None"
      using digitsVal_itoaNat [of "nat (- sid)"] by (simp add: atoi_def itoa_def Let_def)
    with 2 show ?thesis using trim [of "itoa sid"] by (auto simp: providerPrefix_def)
  qed
qed

theorem provider_id_roundtrip_witness:
  "robotServerIDFromProviderID (Some (''hetzner-robot://'' @ itoa 2938104)) = Some 2938104"
  using provider_id_roundtrip [of 2938104] by (simp add: int64_def)

end
