(* ===== verification/Robot_Client.thy ===== *)
theory Robot_Client
  imports Sample_World
begin

text \<open>
  \<^verbatim>\<open>pkg/robot\<close>: the client of the Hetzner Robot web service. A request goes out with
  basic authentication; a status of 400 or more is an error with the body in its text; the
  answer is decoded from JSON by external code.
\<close>

section \<open>Definitions\<close>

definition robotBaseURL :: string where
  "robotBaseURL = ''https://robot-ws.your-server.de''"

record RobotClient =
  robotAuth :: basic_auth
  baseURL :: string

definition NewRobot :: "string \<Rightarrow> string \<Rightarrow> RobotClient" where
  "NewRobot user pass = \<lparr>robotAuth = \<lparr>username = user, password = pass\<rparr>, baseURL = robotBaseURL\<rparr>"

definition NewWithBaseURL :: "string \<Rightarrow> string \<Rightarrow> string \<Rightarrow> RobotClient" where
  "NewWithBaseURL user pass url = \<lparr>robotAuth = \<lparr>username = user, password = pass\<rparr>, baseURL = url\<rparr>"

definition robotGet :: "'w ext \<Rightarrow> RobotClient \<Rightarrow> string \<Rightarrow> ('w, 'o, goerr + string) go" where
  "robotGet X c path = do {
     r \<leftarrow> httpDo X (robotAuth c) GET (baseURL c @ path) [];
     ret (case r of
        HttpBadRequest e \<Rightarrow> Inl e
      | HttpFailed e \<Rightarrow> Inl (wrapErr (''robot API GET '' @ path @ '': '') e)
      | HttpBodyError _ _ e \<Rightarrow> Inl e
      | HttpResponse code body \<Rightarrow>
          if 400 \<le> code then
            Inl (errorf (''robot API error '' @ itoa code @ '' on GET '' @ path @ '': '' @ body))
          else Inr body)
   }"

definition robotPost :: "'w ext \<Rightarrow> RobotClient \<Rightarrow> string \<Rightarrow> (string \<times> string) list \<Rightarrow> ('w, 'o, goerr + string) go" where
  "robotPost X c path form = do {
     r \<leftarrow> httpDo X (robotAuth c) POST (baseURL c @ path) form;
     ret (case r of
        HttpBadRequest e \<Rightarrow> Inl e
      | HttpFailed e \<Rightarrow> Inl (wrapErr (''robot API POST '' @ path @ '': '') e)
      | HttpBodyError _ _ e \<Rightarrow> Inl e
      | HttpResponse code body \<Rightarrow>
          if 400 \<le> code then
            Inl (errorf (''robot API error '' @ itoa code @ '' on POST '' @ path @ '': '' @ body))
          else Inr body)
   }"

definition GetServer :: "'w ext \<Rightarrow> RobotClient \<Rightarrow> int \<Rightarrow> ('w, 'o, goerr + ServerInfo) go" where
  "GetServer X c serverID = do {
     r \<leftarrow> robotGet X c (''/server/'' @ itoa serverID);
     ret (case r of Inl e \<Rightarrow> Inl e | Inr body \<Rightarrow> xServerJSON X body)
   }"

definition GetServerByIP :: "'w ext \<Rightarrow> RobotClient \<Rightarrow> string \<Rightarrow> ('w, 'o, goerr + ServerInfo) go" where
  "GetServerByIP X c ip = do {
     r \<leftarrow> robotGet X c (''/server/'' @ ip);
     ret (case r of Inl e \<Rightarrow> Inl e | Inr body \<Rightarrow> xServerJSON X body)
   }"

text \<open>The form is kept in the order \<^verbatim>\<open>url.Values.Encode\<close> writes it, by key.\<close>

definition ActivateRescue :: "'w ext \<Rightarrow> RobotClient \<Rightarrow> int \<Rightarrow> string \<Rightarrow> ('w, 'o, goerr + RescueInfo) go" where
  "ActivateRescue X c serverID fingerprint = do {
     r \<leftarrow> robotPost X c (''/boot/'' @ itoa serverID @ ''/rescue'')
       ([(''arch'', ''64'')] @ (if fingerprint \<noteq> [] then [(''authorized_key'', fingerprint)] else [])
        @ [(''os'', ''linux'')]);
     ret (case r of
        Inl e \<Rightarrow> Inl (wrapErr ''activate rescue: '' e)
      | Inr body \<Rightarrow> (case xRescueJSON X body of
          Inl e \<Rightarrow> Inl (wrapErr ''activate rescue: '' e) | Inr info \<Rightarrow> Inr info))
   }"

definition GetRescueStatus :: "'w ext \<Rightarrow> RobotClient \<Rightarrow> int \<Rightarrow> ('w, 'o, goerr + RescueInfo) go" where
  "GetRescueStatus X c serverID = do {
     r \<leftarrow> robotGet X c (''/boot/'' @ itoa serverID @ ''/rescue'');
     ret (case r of Inl e \<Rightarrow> Inl e | Inr body \<Rightarrow> xRescueJSON X body)
   }"

definition DeactivateRescue :: "'w ext \<Rightarrow> RobotClient \<Rightarrow> int \<Rightarrow> ('w, 'o, goerr option) go" where
  "DeactivateRescue X c serverID = do {
     r \<leftarrow> httpDo X (robotAuth c) DELETE (baseURL c @ ''/boot/'' @ itoa serverID @ ''/rescue'') [];
     ret (case r of
        HttpBadRequest e \<Rightarrow> Some e
      | HttpFailed e \<Rightarrow> Some e
      | HttpBodyError code body _ \<Rightarrow>
          if 400 \<le> code then Some (errorf (''robot API error '' @ itoa code @ '': '' @ body)) else None
      | HttpResponse code body \<Rightarrow>
          if 400 \<le> code then Some (errorf (''robot API error '' @ itoa code @ '': '' @ body)) else None)
   }"

datatype ResetType = ResetTypeSoftware | ResetTypeHardware | ResetTypePower

fun resetTypeText :: "ResetType \<Rightarrow> string" where
  "resetTypeText ResetTypeSoftware = ''sw''"
| "resetTypeText ResetTypeHardware = ''hw''"
| "resetTypeText ResetTypePower = ''power''"

definition ResetServer :: "'w ext \<Rightarrow> RobotClient \<Rightarrow> int \<Rightarrow> ResetType \<Rightarrow> ('w, 'o, goerr option) go" where
  "ResetServer X c serverID rtype = do {
     r \<leftarrow> robotPost X c (''/reset/'' @ itoa serverID) [(''type'', resetTypeText rtype)];
     ret (case r of
        Inl e \<Rightarrow> Some (wrapErr (''reset server '' @ itoa serverID @ '': '') e)
      | Inr body \<Rightarrow> map_option (wrapErr (''reset server '' @ itoa serverID @ '': '')) (xAnyJSON X body))
   }"

definition SetServerName :: "'w ext \<Rightarrow> RobotClient \<Rightarrow> int \<Rightarrow> string \<Rightarrow> ('w, 'o, goerr option) go" where
  "SetServerName X c serverID n = do {
     r \<leftarrow> robotPost X c (''/server/'' @ itoa serverID) [(''server_name'', n)];
     ret (case r of Inl e \<Rightarrow> Some e | Inr body \<Rightarrow> xAnyJSON X body)
   }"

text \<open>A key missing in the secret reads as the empty string.\<close>

definition secretText :: "secretData \<Rightarrow> string \<Rightarrow> string" where
  "secretText d k = (case d k of None \<Rightarrow> [] | Some v \<Rightarrow> v)"

definition secretKey :: "HetznerRobotCluster \<Rightarrow> SecretReference \<Rightarrow> key" where
  "secretKey hrc ref = ((if secretNamespace ref = [] then Namespace (hrcMeta hrc) else secretNamespace ref), secretName ref)"

definition NewFromCluster :: "'w ext \<Rightarrow> HetznerRobotCluster \<Rightarrow> ('w, 'o, goerr + RobotClient) go" where
  "NewFromCluster X hrc = (let k = secretKey hrc (RobotSecretRef (hrcSpec hrc)) in do {
     r \<leftarrow> silent (xGetSecret X k);
     ret (case r of
        Inl e \<Rightarrow> Inl (wrapErr (''get robot secret '' @ fst k @ ''/'' @ snd k @ '': '') e)
      | Inr d \<Rightarrow> Inr (NewRobot (secretText d ''robot-user'') (secretText d ''robot-password'')))
   })"

section \<open>The requests\<close>

definition resetRequest :: "RobotClient \<Rightarrow> int \<Rightarrow> event \<Rightarrow> bool" where
  "resetRequest c sid e \<longleftrightarrow> (\<exists>r. e = EvHttp POST (baseURL c @ ''/reset/'' @ itoa sid) [(''type'', ''hw'')] r)"

lemma emits_http:
  assumes "\<And>r. P (EvHttp m url form r)"
  shows "emits P (httpDo X auth m url form)"
  using assms by (auto simp: httpDo_def intro!: emits_intro)

lemma emits_robotGet: "(\<And>r. P (EvHttp GET (baseURL c @ path) [] r)) \<Longrightarrow> emits P (robotGet X c path)"
  unfolding robotGet_def by (intro emits_intro emits_http) auto

lemma emits_robotPost:
  "(\<And>r. P (EvHttp POST (baseURL c @ path) form r)) \<Longrightarrow> emits P (robotPost X c path form)"
  unfolding robotPost_def by (intro emits_intro emits_http) auto

lemma emits_NewFromCluster [emits_intro]: "emits P (NewFromCluster X hrc)"
  unfolding NewFromCluster_def Let_def by (intro emits_intro)

text \<open>
  A reset of a server, whatever the service answers, is one request and no other: a POST
  to /reset/ followed by that server's number, with the reset type as its only field; the call
  reports no error only if the service answered with a status below 400.
\<close>

lemma reset_is_one_request:
  "\<exists>r. newEvents (ResetServer X c sid rtype) s
       = [EvHttp POST (baseURL c @ ''/reset/'' @ itoa sid) [(''type'', resetTypeText rtype)] r]
     \<and> (fst (run_state (ResetServer X c sid rtype) s) = None
         \<longleftrightarrow> (case r of HttpResponse code body \<Rightarrow> code < 400 \<and> xAnyJSON X body = None | _ \<Rightarrow> False))"
  by (simp add: ResetServer_def robotPost_def httpDo_def newEvents_def split: http_result.split)

end
