(* ===== verification/Secrets.thy ===== *)
theory Secrets
  imports Robot_Client
begin

text \<open>
  \<^verbatim>\<open>controllers/hetznerrobotmachine_secrets.go\<close>: the secrets the machine controller
  reads, the bootstrap data, the Robot credentials and the SSH key.
\<close>

definition getBootstrapData :: "'w ext \<Rightarrow> Machine \<Rightarrow> ('w, 'o, goerr + string) go" where
  "getBootstrapData X machine = (case DataSecretName machine of
     None \<Rightarrow> ret (Inl (errorf (''bootstrap data secret not yet available on machine '' @ Name (machineMeta machine))))
   | Some n \<Rightarrow> do {
       r \<leftarrow> silent (xGetSecret X (Namespace (machineMeta machine), n));
       ret (case r of
          Inl e \<Rightarrow> Inl (wrapErr (''get bootstrap secret '' @ n @ '': '') e)
        | Inr d \<Rightarrow> (case d ''value'' of
            None \<Rightarrow> Inl (errorf (''bootstrap secret '' @ n @ '' has no '' @ [CHR 0x27] @ ''value'' @ [CHR 0x27] @ '' key''))
          | Some v \<Rightarrow> Inr v))
     })"

definition buildRobotClient :: "'w ext \<Rightarrow> HetznerRobotCluster \<Rightarrow> ('w, 'o, goerr + RobotClient) go" where
  "buildRobotClient X hrc = NewFromCluster X hrc"

definition getSSHPrivateKey :: "'w ext \<Rightarrow> HetznerRobotCluster \<Rightarrow> ('w, 'o, goerr + string) go" where
  "getSSHPrivateKey X hrc = (let k = secretKey hrc (SSHSecretRef (hrcSpec hrc)) in do {
     r \<leftarrow> silent (xGetSecret X k);
     ret (case r of
        Inl e \<Rightarrow> Inl (wrapErr (''get SSH secret '' @ fst k @ ''/'' @ snd k @ '': '') e)
      | Inr d \<Rightarrow> (case d ''ssh-privatekey'' of
          None \<Rightarrow> Inl (errorf (''SSH secret '' @ snd k @ '' has no '' @ [CHR 0x27] @ ''ssh-privatekey'' @ [CHR 0x27] @ '' key''))
        | Some v \<Rightarrow> Inr v))
   })"

definition getSSHKeyFingerprint :: "'w ext \<Rightarrow> HetznerRobotCluster \<Rightarrow> ('w, 'o, goerr + string) go" where
  "getSSHKeyFingerprint X hrc = do {
     r \<leftarrow> silent (xGetSecret X (secretKey hrc (SSHSecretRef (hrcSpec hrc))));
     ret (case r of
        Inl e \<Rightarrow> Inl (wrapErr ''get SSH secret: '' e)
      | Inr d \<Rightarrow> Inr (secretText d ''ssh-fingerprint''))
   }"

definition getSSHPublicKey :: "'w ext \<Rightarrow> HetznerRobotCluster \<Rightarrow> ('w, 'o, goerr + string) go" where
  "getSSHPublicKey X hrc = do {
     r \<leftarrow> getSSHPrivateKey X hrc;
     ret (case r of
        Inl e \<Rightarrow> Inl (wrapErr ''get SSH private key for public key derivation: '' e)
      | Inr k \<Rightarrow> (case xParseKey X k of
          Some e \<Rightarrow> Inl (wrapErr ''parse SSH private key: '' e)
        | None \<Rightarrow> Inr (trimSpace (xPublicKey X k))))
   }"

lemma emits_secrets [emits_intro]:
  "emits P (getBootstrapData X m)" "emits P (buildRobotClient X hrc)" "emits P (getSSHPrivateKey X hrc)"
  "emits P (getSSHKeyFingerprint X hrc)"
  unfolding getBootstrapData_def buildRobotClient_def getSSHPrivateKey_def getSSHKeyFingerprint_def Let_def
  by (intro emits_intro)+

lemma emits_getSSHPublicKey [emits_intro]: "emits P (getSSHPublicKey X hrc)"
  unfolding getSSHPublicKey_def by (intro emits_intro)

end
