(* ===== verification/Talos_Client.thy ===== *)
theory Talos_Client
  imports Rescue_SSH
begin

text \<open>
  \<^verbatim>\<open>pkg/talos/client.go\<close>: the probes of a Talos node and the two calls of its
  maintenance API. The gRPC transport and the generated client are external.
\<close>

section \<open>Definitions\<close>

definition TalosAPIPort :: int where
  "TalosAPIPort = 50000"

definition tcpReachable :: "'w ext \<Rightarrow> string \<Rightarrow> int \<Rightarrow> ('w, 'o, bool) go" where
  "tcpReachable X ip port = do { d \<leftarrow> tcpDial X (joinHostPort ip port); ret (d = None) }"

definition IsUp :: "'w ext \<Rightarrow> string \<Rightarrow> ('w, 'o, bool) go" where
  "IsUp X ip = tcpReachable X ip TalosAPIPort"

definition IsK8sAPIUp :: "'w ext \<Rightarrow> string \<Rightarrow> ('w, 'o, bool) go" where
  "IsK8sAPIUp X ip = tcpReachable X ip 6443"

text \<open>How the answer to the empty ApplyConfiguration call is read.\<close>

definition maintenanceAnswer :: "goerr option \<Rightarrow> bool" where
  "maintenanceAnswer eo = (case eo of
     None \<Rightarrow> True
   | Some e \<Rightarrow> (let errMsg = errText e in
       if containsStr errMsg ''certificate required'' then False
       else if containsStr errMsg ''deadline exceeded'' \<or> containsStr errMsg ''context canceled''
         \<or> containsStr errMsg ''connection refused'' \<or> containsStr errMsg ''connection reset''
         \<or> containsStr errMsg ''i/o timeout'' \<or> containsStr errMsg ''EOF''
         \<or> containsStr errMsg ''Unavailable'' \<or> containsStr errMsg ''transport:''
       then False
       else True))"

definition IsInMaintenanceMode :: "'w ext \<Rightarrow> string \<Rightarrow> ('w, 'o, bool) go" where
  "IsInMaintenanceMode X ip = do {
     c \<leftarrow> silent (xTalosConn X ip);
     (case c of
        Some _ \<Rightarrow> ret False
      | None \<Rightarrow> do { r \<leftarrow> talosApply X ip []; ret (maintenanceAnswer r) })
   }"

definition WipeSystemDisk :: "'w ext \<Rightarrow> string \<Rightarrow> ('w, 'o, goerr option) go" where
  "WipeSystemDisk X ip = do {
     c \<leftarrow> silent (xTalosConn X ip);
     (case c of
        Some e \<Rightarrow> ret (Some (wrapErr (''connect to '' @ ip @ '' for system disk wipe: '') e))
      | None \<Rightarrow> do {
          r \<leftarrow> talosReset X ip;
          ret (map_option (wrapErr (''reset with system disk wipe on '' @ ip @ '': '')) r) })
   }"

definition ApplyConfig :: "'w ext \<Rightarrow> string \<Rightarrow> string \<Rightarrow> ('w, 'o, goerr option) go" where
  "ApplyConfig X ip configData = do {
     c \<leftarrow> silent (xTalosConn X ip);
     (case c of
        Some e \<Rightarrow> ret (Some (wrapErr (''connect to '' @ ip @ '' (maintenance): '') e))
      | None \<Rightarrow> do {
          r \<leftarrow> talosApply X ip configData;
          ret (map_option (wrapErr (''ApplyConfiguration on '' @ ip @ '': '')) r) })
   }"

definition isAlreadyBootstrapped :: "goerr option \<Rightarrow> bool" where
  "isAlreadyBootstrapped eo = (case eo of None \<Rightarrow> False | Some e \<Rightarrow>
     containsStr (errText e) ''already bootstrapped'' \<or> containsStr (errText e) ''AlreadyExists''
     \<or> containsStr (errText e) ''etcd is already running'')"

definition IsTransientBootstrapError :: "goerr option \<Rightarrow> bool" where
  "IsTransientBootstrapError eo = (case eo of None \<Rightarrow> False | Some e \<Rightarrow> (let s = errText e in
     containsStr s ''connection refused'' \<or> containsStr s ''connection reset'' \<or> containsStr s ''EOF''
     \<or> containsStr s ''deadline exceeded'' \<or> containsStr s ''Unavailable'' \<or> containsStr s ''transport:''
     \<or> containsStr s ''tls:'' \<or> containsStr s ''certificate required'' \<or> containsStr s ''i/o timeout''))"

section \<open>Properties\<close>

lemma emits_tcpReachable:
  "(\<And>r. P (EvDial (joinHostPort ip port) r)) \<Longrightarrow> emits P (tcpReachable X ip port)"
  unfolding tcpReachable_def calls_def by (auto intro!: emits_intro)

text \<open>
  The maintenance probe never mistakes a node that could not be talked to for one in
  maintenance mode: every error that IsTransientBootstrapError calls transient, except a plain
  TLS error, is read as "not in maintenance", also when it comes wrapped in other text.
\<close>

lemma maintenance_probe_conservative:
  assumes "IsTransientBootstrapError (Some e)" and "\<not> containsStr (errText e) ''tls:''"
  shows "\<not> maintenanceAnswer (Some (wrapErr pre e))"
proof -
  have c: "containsStr (errText e) sub \<Longrightarrow> containsStr (errText (wrapErr pre e)) sub" for sub
    by (simp add: containsStr_appendI2)
  from assms have "containsStr (errText e) ''certificate required'' \<or> containsStr (errText e) ''connection refused''
    \<or> containsStr (errText e) ''connection reset'' \<or> containsStr (errText e) ''EOF''
    \<or> containsStr (errText e) ''deadline exceeded'' \<or> containsStr (errText e) ''Unavailable''
    \<or> containsStr (errText e) ''transport:'' \<or> containsStr (errText e) ''i/o timeout''"
    unfolding IsTransientBootstrapError_def Let_def option.case by blast
  then show ?thesis
    unfolding maintenanceAnswer_def Let_def option.case using c by metis
qed

end
