(* ===== verification/Inject.thy ===== *)
theory Inject
  imports Sample_World
begin

text \<open>
  \<^verbatim>\<open>controllers/hetznerrobotmachine_inject.go\<close>: the per-machine values written into the
  first document of a Talos machine configuration. The YAML codec is external. A child map the
  code fetches by reference and changes in place is here the child of the changed parent.
\<close>

section \<open>Documents\<close>

definition docSep :: string where
  "docSep = ''\<newline>---\<newline>''"

definition splitYAMLDocuments :: "string \<Rightarrow> string list" where
  "splitYAMLDocuments data = concat (map (\<lambda>raw. let p = trimSpace raw in
     if p \<noteq> [] \<and> p \<noteq> ''---'' then [trimPrefix p ''---\<newline>''] else []) (splitStr data docSep))"

text \<open>The documents after the first, as they are appended to the new first one.\<close>

definition restText :: "string list \<Rightarrow> string" where
  "restText docs = concat (map (\<lambda>d. docSep @ d) docs)"

text \<open>
  Every function the code passes here begins by writing to the map, which panics on the nil map
  that an empty or null document leaves; otherwise it cannot fail.
\<close>

definition modifyFirstDocument :: "'w ext \<Rightarrow> string \<Rightarrow> (gmap \<Rightarrow> gmap) \<Rightarrow> string res" where
  "modifyFirstDocument X configData fn = (case splitYAMLDocuments configData of
     [] \<Rightarrow> Failed (errorf ''empty machineconfig'')
   | d # ds \<Rightarrow> (case xYamlUnmarshal X d of
       Inl e \<Rightarrow> Failed (wrapErr ''unmarshal first document: '' e)
     | Inr None \<Rightarrow> Panicked
     | Inr (Some config) \<Rightarrow> (case xYamlMarshal X (fn config) of
         Inl e \<Rightarrow> Failed (wrapErr ''marshal first document: '' e)
       | Inr firstDoc \<Rightarrow> Returned (firstDoc @ restText ds))))"

definition childMap :: "gmap \<Rightarrow> string \<Rightarrow> gmap" where
  "childMap parent k = (case parent k of Some (GMap m) \<Rightarrow> m | _ \<Rightarrow> Map.empty)"

text \<open>\<open>ensureMap\<close> and what is then done to the child.\<close>

definition ensureMap :: "string \<Rightarrow> (gmap \<Rightarrow> gmap) \<Rightarrow> gmap \<Rightarrow> gmap" where
  "ensureMap k f parent = parent(k \<mapsto> GMap (f (childMap parent k)))"

definition asList :: "gval option \<Rightarrow> gval list option" where
  "asList v = (case v of Some (GList xs) \<Rightarrow> Some xs | Some GNilList \<Rightarrow> Some [] | _ \<Rightarrow> None)"

text \<open>A failed assertion to a slice leaves the nil slice, to which the code appends.\<close>

definition listOr :: "gval option \<Rightarrow> gval list" where
  "listOr v = (case asList v of Some xs \<Rightarrow> xs | None \<Rightarrow> [])"

section \<open>The edits\<close>

definition installDiskEdit :: "string \<Rightarrow> gmap \<Rightarrow> gmap" where
  "installDiskEdit disk = ensureMap ''machine'' (ensureMap ''install'' (\<lambda>install.
     if install ''disk'' = None then install(''disk'' \<mapsto> GStr disk) else install))"

definition injectInstallDisk :: "'w ext \<Rightarrow> string \<Rightarrow> string \<Rightarrow> string res" where
  "injectInstallDisk X configData disk0 =
     (let disk = (if disk0 = [] then ''/dev/nvme0n1'' else disk0)
      in modifyFirstDocument X configData (installDiskEdit disk))"

definition ipv6Iface :: "string \<Rightarrow> string \<Rightarrow> gval" where
  "ipv6Iface ipv6Net primaryMAC =
     (let selector = [''physical'' \<mapsto> GBool True];
          selector' = (if primaryMAC \<noteq> [] then selector(''hardwareAddr'' \<mapsto> GStr primaryMAC) else selector)
      in GMap [''deviceSelector'' \<mapsto> GMap selector',
           ''addresses'' \<mapsto> GList [GStr (hd (splitStr ipv6Net ''/'') @ ''1/64'')],
           ''routes'' \<mapsto> GList [GMap [''network'' \<mapsto> GStr ''::/0'', ''gateway'' \<mapsto> GStr ''fe80::1'']]])"

definition ipv6Edit :: "string \<Rightarrow> string \<Rightarrow> gmap \<Rightarrow> gmap" where
  "ipv6Edit ipv6Net primaryMAC = ensureMap ''machine'' (\<lambda>machine.
     ensureMap ''sysctls'' (\<lambda>sysctls. sysctls(''net.ipv6.conf.all.forwarding'' \<mapsto> GStr ''1''))
       (ensureMap ''network'' (\<lambda>network. network(''interfaces'' \<mapsto>
          GList (listOr (network ''interfaces'') @ [ipv6Iface ipv6Net primaryMAC]))) machine))"

definition injectIPv6Config :: "'w ext \<Rightarrow> string \<Rightarrow> string \<Rightarrow> string \<Rightarrow> string \<Rightarrow> string res" where
  "injectIPv6Config X configData ipv6Net primaryMAC internalIP =
     (if ipv6Net = [] then Returned configData
      else modifyFirstDocument X configData (ipv6Edit ipv6Net primaryMAC))"

definition nodeIPv6Of :: "string \<Rightarrow> string" where
  "nodeIPv6Of ipv6Net = (if ipv6Net \<noteq> [] then trimSuffix (hd (splitStr ipv6Net ''/'')) ''::'' @ ''::1'' else [])"

definition nodeIPOf :: "string \<Rightarrow> string \<Rightarrow> string" where
  "nodeIPOf internalIP ipv6Net = (let nodeIPv6 = nodeIPv6Of ipv6Net in
     if internalIP \<noteq> [] \<and> nodeIPv6 \<noteq> [] then internalIP @ '','' @ nodeIPv6
     else if internalIP \<noteq> [] then internalIP
     else if nodeIPv6 \<noteq> [] then nodeIPv6
     else [])"

definition kubeletArgEdit :: "string \<Rightarrow> string \<Rightarrow> gmap \<Rightarrow> gmap" where
  "kubeletArgEdit arg v = ensureMap ''machine'' (ensureMap ''kubelet'' (ensureMap ''extraArgs''
     (\<lambda>extraArgs. extraArgs(arg \<mapsto> GStr v))))"

definition injectKubeletNodeIP :: "'w ext \<Rightarrow> string \<Rightarrow> string \<Rightarrow> string \<Rightarrow> string res" where
  "injectKubeletNodeIP X configData internalIP ipv6Net =
     (let nodeIP = nodeIPOf internalIP ipv6Net in
      if nodeIP = [] then Returned configData
      else modifyFirstDocument X configData (kubeletArgEdit ''node-ip'' nodeIP))"

definition dropVlans :: "gval \<Rightarrow> gval" where
  "dropVlans v = (case v of GMap ifMap \<Rightarrow> GMap (ifMap(''vlans'' := None)) | _ \<Rightarrow> v)"

definition vlanIface :: "VLANConfig \<Rightarrow> string \<Rightarrow> string \<Rightarrow> gval" where
  "vlanIface cfg internalIP primaryMAC =
     (let prefixLen = (if PrefixLength cfg = 0 then 24 else PrefixLength cfg) in
      GMap [''deviceSelector'' \<mapsto> GMap [''physical'' \<mapsto> GBool True, ''hardwareAddr'' \<mapsto> GStr primaryMAC],
        ''vlans'' \<mapsto> GList [GMap [''vlanId'' \<mapsto> GInt (vlanID cfg),
          ''addresses'' \<mapsto> GList [GStr (internalIP @ ''/'' @ itoa prefixLen)]]]])"

definition vlanEdit :: "VLANConfig \<Rightarrow> string \<Rightarrow> string \<Rightarrow> gmap \<Rightarrow> gmap" where
  "vlanEdit cfg internalIP primaryMAC = ensureMap ''machine'' (ensureMap ''network'' (\<lambda>network.
     network(''interfaces'' \<mapsto> GList (map dropVlans (listOr (network ''interfaces''))
       @ [vlanIface cfg internalIP primaryMAC]))))"

definition injectVLANConfig :: "'w ext \<Rightarrow> string \<Rightarrow> VLANConfig option \<Rightarrow> string \<Rightarrow> string \<Rightarrow> string \<Rightarrow> string
    \<Rightarrow> string res" where
  "injectVLANConfig X configData vlanCfg internalIP primaryMAC serverIP gatewayIP =
     (if vlanCfg = None \<or> internalIP = [] then Returned configData
      else if primaryMAC = [] then
        Failed (errorf (''primaryMAC required for VLAN injection '' @ emDash @ '' detected during rescue''))
      else modifyFirstDocument X configData (vlanEdit (the vlanCfg) internalIP primaryMAC))"

definition injectProviderID :: "'w ext \<Rightarrow> string \<Rightarrow> string \<Rightarrow> string res" where
  "injectProviderID X configData providerID =
     (if providerID = [] then Returned configData
      else modifyFirstDocument X configData (kubeletArgEdit ''provider-id'' providerID))"

section \<open>The contract of an edit\<close>

text \<open>
  The values a YAML document can hold: all but the nil slice, which prints as an empty list.
\<close>

primrec yamlValue :: "gval \<Rightarrow> bool" where
  "yamlValue GNull = True"
| "yamlValue (GBool b) = True"
| "yamlValue (GInt i) = True"
| "yamlValue (GStr s) = True"
| "yamlValue (GOther s) = True"
| "yamlValue GNilList = False"
| "yamlValue (GList vs) = list_all id (map yamlValue vs)"
| "yamlValue (GMap m) = (\<forall>k. (map_option yamlValue \<circ> m) k \<noteq> Some False)"

definition yamlMap :: "gmap \<Rightarrow> bool" where
  "yamlMap m \<longleftrightarrow> (\<forall>k v. m k = Some v \<longrightarrow> yamlValue v)"

lemma yamlValue_GMap [simp]: "yamlValue (GMap m) = yamlMap m"
  by (auto simp: yamlMap_def)

lemma yamlValue_GList [simp]: "yamlValue (GList vs) = list_all yamlValue vs"
  by (simp add: list_all_iff)

declare yamlValue.simps(7,8) [simp del]

lemma yamlMap_empty [simp]: "yamlMap Map.empty"
  by (simp add: yamlMap_def)

lemma yamlMap_upd: "yamlMap m \<Longrightarrow> yamlValue v \<Longrightarrow> yamlMap (m(k \<mapsto> v))"
  by (simp add: yamlMap_def)

lemma yamlMap_childMap: "yamlMap m \<Longrightarrow> yamlMap (childMap m k)"
  by (auto simp: yamlMap_def childMap_def split: option.split gval.split) (metis yamlMap_def yamlValue_GMap)

lemma yamlMap_ensureMap:
  "yamlMap m \<Longrightarrow> (\<And>c. yamlMap c \<Longrightarrow> yamlMap (f c)) \<Longrightarrow> yamlMap (ensureMap k f m)"
  by (simp add: ensureMap_def yamlMap_upd yamlMap_childMap)

lemma yamlMap_listOr: "yamlMap m \<Longrightarrow> list_all yamlValue (listOr (m k))"
  by (auto simp: listOr_def asList_def yamlMap_def list_all_iff split: option.splits gval.splits dest!: spec [of _ k])

lemma yamlValue_dropVlans: "yamlValue v \<Longrightarrow> yamlValue (dropVlans v)"
  by (auto simp: dropVlans_def yamlMap_def split: gval.split)

lemma yamlMap_dropVlans: "yamlMap m \<Longrightarrow> list_all (yamlValue \<circ> dropVlans) (listOr (m k))"
  using yamlMap_listOr yamlValue_dropVlans by (auto simp: list_all_iff)

text \<open>
  An edit changes the \<^verbatim>\<open>machine\<close> map only, and in it only the named sections.
\<close>

locale machine_edit =
  fixes edit :: "gmap \<Rightarrow> gmap" and sections :: "string set"
  assumes outside: "k \<noteq> ''machine'' \<Longrightarrow> edit c k = c k"
    and makes_map: "edit c ''machine'' = Some (GMap (childMap (edit c) ''machine''))"
    and inside: "k \<notin> sections \<Longrightarrow> childMap (edit c) ''machine'' k = childMap c ''machine'' k"
    and yaml: "yamlMap c \<Longrightarrow> yamlMap (edit c)"
begin

lemma keeps_section:
  assumes "k \<notin> sections"
  shows "childMap (childMap (edit c) ''machine'') k = childMap (childMap c ''machine'') k"
  using inside [OF assms] by (simp add: childMap_def)

lemma keeps_documents:
  assumes "modifyFirstDocument X data edit = Returned out"
  shows "\<exists>d ds c t. splitYAMLDocuments data = d # ds \<and> xYamlUnmarshal X d = Inr (Some c)
    \<and> xYamlMarshal X (edit c) = Inr t \<and> out = t @ restText ds"
  using assms by (auto simp: modifyFirstDocument_def split: list.splits sum.splits option.splits)

end

lemma childMap_ensureMap [simp]:
  "childMap (ensureMap k f c) k' = (if k' = k then f (childMap c k) else childMap c k')"
  by (simp add: ensureMap_def childMap_def)

lemma ensureMap_apply [simp]:
  "ensureMap k f c k' = (if k' = k then Some (GMap (f (childMap c k))) else c k')"
  by (simp add: ensureMap_def)

lemma yaml_ipv6Iface: "yamlValue (ipv6Iface n mac)"
  by (simp add: ipv6Iface_def Let_def yamlMap_def)

lemma yaml_vlanIface: "yamlValue (vlanIface cfg ip mac)"
  by (simp add: vlanIface_def Let_def yamlMap_def)

interpretation install_disk_edit: machine_edit "installDiskEdit d" "{''install''}" for d
  by unfold_locales (auto simp: installDiskEdit_def intro!: yamlMap_ensureMap yamlMap_upd)

interpretation ipv6_edit: machine_edit "ipv6Edit n mac" "{''network'', ''sysctls''}" for n mac
  by unfold_locales (auto simp: ipv6Edit_def yaml_ipv6Iface intro!: yamlMap_ensureMap yamlMap_upd yamlMap_listOr)

interpretation kubelet_edit: machine_edit "kubeletArgEdit a v" "{''kubelet''}" for a v
  by unfold_locales (auto simp: kubeletArgEdit_def intro!: yamlMap_ensureMap yamlMap_upd)

interpretation vlan_edit: machine_edit "vlanEdit cfg ip mac" "{''network''}" for cfg ip mac
  by unfold_locales (auto simp: vlanEdit_def yaml_vlanIface list.pred_map intro!: yamlMap_ensureMap yamlMap_upd yamlMap_dropVlans)

text \<open>Edits compose, and so do their contracts.\<close>

lemma machine_edit_comp:
  assumes "machine_edit f S" and "machine_edit g T"
  shows "machine_edit (\<lambda>c. g (f c)) (S \<union> T)"
  using assms unfolding machine_edit_def by auto

section \<open>Splitting what was joined\<close>

text \<open>What becomes of one piece between separators.\<close>

definition docOf :: "string \<Rightarrow> string option" where
  "docOf raw = (let p = trimSpace raw in
     if p \<noteq> [] \<and> p \<noteq> ''---'' then Some (trimPrefix p ''---\<newline>'') else None)"

text \<open>No separator begins inside the text, also when one follows it.\<close>

fun sepFree :: "string \<Rightarrow> bool" where
  "sepFree [] = True"
| "sepFree (c # s) = (\<not> hasPrefix (c # s @ docSep) docSep \<and> sepFree s)"

definition stableDoc :: "string \<Rightarrow> bool" where
  "stableDoc d \<longleftrightarrow> sepFree d \<and> docOf d = Some d"

lemma split_eq_docOf:
  "splitYAMLDocuments data = concat (map (\<lambda>r. case docOf r of None \<Rightarrow> [] | Some d \<Rightarrow> [d]) (splitStr data docSep))"
  unfolding splitYAMLDocuments_def docOf_def Let_def
  by (rule arg_cong [where f = concat]) auto

lemma hasPrefix_longer: "length p \<le> length s \<Longrightarrow> hasPrefix (s @ t) p = hasPrefix s p"
  by (simp add: hasPrefix_def)

lemma splitAcc_end: "sepFree d \<Longrightarrow> splitAcc docSep acc d = [acc @ d]"
proof (induction d arbitrary: acc)
  case Nil
  then show ?case by simp
next
  case (Cons c d)
  then have "\<not> hasPrefix ((c # d) @ docSep) docSep" by simp
  then have "\<not> hasPrefix (c # d) docSep"
    by (auto simp: hasPrefix_iff dest: prefix_prefix)
  with Cons show ?case by simp
qed

lemma splitAcc_sep: "sepFree d \<Longrightarrow> splitAcc docSep acc (d @ docSep @ rest) = (acc @ d) # splitAcc docSep [] rest"
proof (induction d arbitrary: acc)
  case Nil
  show ?case by (simp add: docSep_def hasPrefix_def)
next
  case (Cons c d)
  have "hasPrefix ((c # d @ docSep) @ rest) docSep = hasPrefix (c # d @ docSep) docSep"
    by (rule hasPrefix_longer) simp
  with Cons show ?case by simp
qed

lemma restText_Cons: "restText (d # ds) = docSep @ d @ restText ds"
  by (simp add: restText_def)

lemma splitStr_rest:
  "sepFree t \<Longrightarrow> list_all sepFree ds \<Longrightarrow> splitStr (t @ restText ds) docSep = t # ds"
proof (induction ds arbitrary: t)
  case Nil
  then show ?case by (simp add: splitStr_def restText_def splitAcc_end)
next
  case (Cons d ds)
  then have "splitAcc docSep [] (d @ restText ds) = d # ds" by (simp add: splitStr_def)
  with Cons.prems show ?case by (simp add: splitStr_def restText_Cons splitAcc_sep)
qed

lemma split_rest:
  assumes "sepFree t" and "docOf t = Some d" and "list_all stableDoc ds"
  shows "splitYAMLDocuments (t @ restText ds) = d # ds"
proof -
  have "list_all sepFree ds" using assms(3) by (auto simp: list_all_iff stableDoc_def)
  moreover have "concat (map (\<lambda>r. case docOf r of None \<Rightarrow> [] | Some d \<Rightarrow> [d]) ds) = ds"
    using assms(3) by (induction ds) (auto simp: stableDoc_def)
  ultimately show ?thesis using assms(1,2) by (simp add: split_eq_docOf splitStr_rest)
qed

section \<open>Reading a configuration\<close>

text \<open>
  The documented behaviour of the YAML codec the pipeline relies on: what it reads are YAML values, and a
  map of such values it prints is one document, without a separator line, that reads back as that map.
\<close>

definition yaml_codec :: "'w ext \<Rightarrow> bool" where
  "yaml_codec X \<longleftrightarrow> (\<forall>d m. xYamlUnmarshal X d = Inr (Some m) \<longrightarrow> yamlMap m)
     \<and> (\<forall>m t. yamlMap m \<longrightarrow> xYamlMarshal X m = Inr t \<longrightarrow>
          sepFree t \<and> (\<exists>d. docOf t = Some d \<and> xYamlUnmarshal X d = Inr (Some m)))"

text \<open>The configuration is the map \<open>c\<close> followed by the documents \<open>ds\<close>.\<close>

definition readsAs :: "'w ext \<Rightarrow> string \<Rightarrow> gmap \<Rightarrow> string list \<Rightarrow> bool" where
  "readsAs X data c ds \<longleftrightarrow> (\<exists>d. splitYAMLDocuments data = d # ds \<and> xYamlUnmarshal X d = Inr (Some c))
     \<and> list_all stableDoc ds"

context machine_edit
begin

lemma modify_reads:
  assumes "yaml_codec X" and "readsAs X data c ds" and "modifyFirstDocument X data edit = Returned out"
  shows "readsAs X out (edit c) ds"
proof -
  from assms(2,3) obtain t where t: "xYamlMarshal X (edit c) = Inr t" "out = t @ restText ds"
    by (auto simp: readsAs_def modifyFirstDocument_def split: sum.splits)
  have "yamlMap (edit c)"
    using assms(1,2) by (intro yaml) (auto simp: yaml_codec_def readsAs_def)
  with assms(1) t(1) obtain d where "sepFree t" "docOf t = Some d" "xYamlUnmarshal X d = Inr (Some (edit c))"
    unfolding yaml_codec_def by blast
  with assms(2) t show ?thesis by (auto simp: readsAs_def split_rest)
qed

end

lemma inject_reads:
  assumes "yaml_codec X" and "readsAs X data c ds"
  shows "injectInstallDisk X data disk = Returned out \<Longrightarrow>
      readsAs X out (installDiskEdit (if disk = [] then ''/dev/nvme0n1'' else disk) c) ds"
    and "injectVLANConfig X data v ip mac sip gw = Returned out \<Longrightarrow>
      readsAs X out (case v of None \<Rightarrow> c | Some cfg \<Rightarrow> if ip = [] then c else vlanEdit cfg ip mac c) ds"
    and "injectIPv6Config X data n mac ip = Returned out \<Longrightarrow>
      readsAs X out (if n = [] then c else ipv6Edit n mac c) ds"
    and "injectKubeletNodeIP X data ip n = Returned out \<Longrightarrow>
      readsAs X out (if nodeIPOf ip n = [] then c else kubeletArgEdit ''node-ip'' (nodeIPOf ip n) c) ds"
    and "injectProviderID X data pid = Returned out \<Longrightarrow>
      readsAs X out (if pid = [] then c else kubeletArgEdit ''provider-id'' pid c) ds"
  using assms(2) install_disk_edit.modify_reads [OF assms] vlan_edit.modify_reads [OF assms]
    ipv6_edit.modify_reads [OF assms] kubelet_edit.modify_reads [OF assms]
  unfolding injectInstallDisk_def injectVLANConfig_def injectIPv6Config_def injectKubeletNodeIP_def
    injectProviderID_def Let_def
  by (auto split: if_splits option.split)

end
