(* ===== verification/Ignition.thy ===== *)
theory Ignition
  imports Inject Rescue_SSH
begin

text \<open>
  \<^verbatim>\<open>controllers/hetznerrobotmachine_ignition.go\<close>: the Ignition document of a Flatcar
  machine with the per-machine values written into it. The JSON codec is external. A type
  assertion that the code does not check ends in the value \<open>Panicked\<close> when it fails.
\<close>

section \<open>Data URLs\<close>

text \<open>\<^verbatim>\<open>url.PathEscape\<close>: the bytes it keeps, and the escape of the others.\<close>

definition pathKeep :: "char \<Rightarrow> bool" where
  "pathKeep c \<longleftrightarrow> isDigit c \<or> (97 \<le> (of_char c :: nat) \<and> (of_char c :: nat) \<le> 122)
     \<or> (65 \<le> (of_char c :: nat) \<and> (of_char c :: nat) \<le> 90) \<or> c \<in> set ''-_.~$&+:=@''"

definition upperHex :: "nat \<Rightarrow> char" where
  "upperHex d = (if d < 10 then char_of (48 + d) else char_of (55 + d))"

definition escapeByte :: "char \<Rightarrow> string" where
  "escapeByte c = (if pathKeep c then [c]
     else [CHR ''%'', upperHex (of_char c div 16), upperHex (of_char c mod 16)])"

definition urlEncode :: "string \<Rightarrow> string" where
  "urlEncode s = concat (map escapeByte s)"

section \<open>Cleaning the document\<close>

text \<open>\<^verbatim>\<open>%v\<close> of a string is the string; other values print by the external \<open>xSprintV\<close>.\<close>

definition sprintV :: "'w ext \<Rightarrow> gval \<Rightarrow> string" where
  "sprintV X v = (case v of GStr s \<Rightarrow> s | _ \<Rightarrow> xSprintV X v)"

definition fixFile :: "'w ext \<Rightarrow> gval \<Rightarrow> gval" where
  "fixFile X f = (case f of
     GMap file \<Rightarrow> (case file ''contents'' of
       Some (GMap contents) \<Rightarrow> (case contents ''inline'' of
         Some inline \<Rightarrow>
           if contents ''source'' = None then
             GMap (file(''contents'' \<mapsto> GMap ((contents(''source'' \<mapsto> GStr (''data:,'' @ urlEncode (sprintV X inline))))
               (''inline'' := None))))
           else f
       | None \<Rightarrow> f)
     | _ \<Rightarrow> f)
   | _ \<Rightarrow> f)"

definition fixIgnitionInlineFields :: "'w ext \<Rightarrow> gmap \<Rightarrow> gmap" where
  "fixIgnitionInlineFields X ign = (case ign ''storage'' of
     Some (GMap storage) \<Rightarrow> (case asList (storage ''files'') of
       Some files \<Rightarrow> ign(''storage'' \<mapsto> GMap (storage(''files'' \<mapsto> GList (map (fixFile X) files))))
     | None \<Rightarrow> ign)
   | _ \<Rightarrow> ign)"

text \<open>The string at a key; a missing key or another type reads as the empty string.\<close>

definition strOr :: "gval option \<Rightarrow> string" where
  "strOr v = (case v of Some (GStr s) \<Rightarrow> s | _ \<Rightarrow> [])"

definition fileSource :: "gmap \<Rightarrow> string" where
  "fileSource file = strOr (childMap file ''contents'' ''source'')"

definition isURL :: "string \<Rightarrow> bool" where
  "isURL src \<longleftrightarrow> hasPrefix src ''http://'' \<or> hasPrefix src ''https://''"

text \<open>The loop over the files: those kept and the paths of those removed.\<close>

fun removeURLFiles :: "gval list \<Rightarrow> (gval list \<times> string list) res" where
  "removeURLFiles [] = Returned ([], [])"
| "removeURLFiles (f # fs) = (case f of
     GMap file \<Rightarrow>
       if isURL (fileSource file) then
         (case file ''path'' of
            Some (GStr path) \<Rightarrow> bindR (removeURLFiles fs) (\<lambda>(kept, removed). Returned (kept, path # removed))
          | _ \<Rightarrow> Panicked)
       else bindR (removeURLFiles fs) (\<lambda>(kept, removed). Returned (f # kept, removed))
   | _ \<Rightarrow> bindR (removeURLFiles fs) (\<lambda>(kept, removed). Returned (f # kept, removed)))"

text \<open>A slice that only appends filled is nil when nothing was appended.\<close>

definition slice :: "gval list \<Rightarrow> gval" where
  "slice xs = (if xs = [] then GNilList else GList xs)"

definition linkKept :: "string list \<Rightarrow> gval \<Rightarrow> bool" where
  "linkKept removed l = (case l of GMap link \<Rightarrow> strOr (link ''target'') \<notin> set removed | _ \<Rightarrow> True)"

definition removeLinks :: "string list \<Rightarrow> gmap \<Rightarrow> gmap" where
  "removeLinks removed storage = (case asList (storage ''links'') of
     Some links \<Rightarrow> if removed \<noteq> [] then storage(''links'' \<mapsto> slice (filter (linkKept removed) links)) else storage
   | None \<Rightarrow> storage)"

definition removeIgnitionURLDownloads :: "gmap \<Rightarrow> gmap res" where
  "removeIgnitionURLDownloads ign = (case ign ''storage'' of
     Some (GMap storage) \<Rightarrow>
       bindR (case asList (storage ''files'') of
           Some files \<Rightarrow> bindR (removeURLFiles files)
             (\<lambda>(kept, removed). Returned (storage(''files'' \<mapsto> slice kept), removed))
         | None \<Rightarrow> Returned (storage, []))
         (\<lambda>(storage', removed). Returned (ign(''storage'' \<mapsto> GMap (removeLinks removed storage'))))
   | _ \<Rightarrow> Returned ign)"

section \<open>Adding to the document\<close>

definition addIgnitionFile :: "string \<Rightarrow> string \<Rightarrow> int \<Rightarrow> gmap \<Rightarrow> gmap res" where
  "addIgnitionFile path content mode storage = (case asList (storage ''files'') of
     None \<Rightarrow> Panicked
   | Some files \<Rightarrow> Returned (storage(''files'' \<mapsto> GList (files @ [GMap [''path'' \<mapsto> GStr path,
       ''contents'' \<mapsto> GMap [''source'' \<mapsto> GStr (''data:,'' @ urlEncode content)],
       ''mode'' \<mapsto> GInt mode, ''overwrite'' \<mapsto> GBool True]]))))"

definition addIgnitionUnit :: "string \<Rightarrow> bool \<Rightarrow> string \<Rightarrow> gmap \<Rightarrow> gmap res" where
  "addIgnitionUnit n enabled contents systemd = (case asList (systemd ''units'') of
     None \<Rightarrow> Panicked
   | Some units \<Rightarrow>
       (let u0 = [''name'' \<mapsto> GStr n, ''enabled'' \<mapsto> GBool enabled];
            u1 = (if contents \<noteq> [] then u0(''contents'' \<mapsto> GStr contents) else u0)
        in Returned (systemd(''units'' \<mapsto> GList (units @ [GMap u1])))))"

definition kubeletDropin :: "string \<Rightarrow> gval" where
  "kubeletDropin extraArgs = GMap [''name'' \<mapsto> GStr ''10-caphr-args.conf'',
     ''contents'' \<mapsto> GStr (''[Service]\<newline>Environment='' @ [CHR 0x22] @ ''KUBELET_EXTRA_ARGS='' @ extraArgs
       @ [CHR 0x22] @ ''\<newline>'')]"

definition isNamed :: "string \<Rightarrow> gval \<Rightarrow> bool" where
  "isNamed n v = (case v of GMap m \<Rightarrow> (case m ''name'' of Some (GStr s) \<Rightarrow> s = n | _ \<Rightarrow> False) | _ \<Rightarrow> False)"

lemma isNamed_iff: "isNamed n v \<longleftrightarrow> (\<exists>m. v = GMap m \<and> m ''name'' = Some (GStr n))"
  by (auto simp: isNamed_def split: gval.splits option.splits)

text \<open>The change of the first entry with the name, if there is one.\<close>

fun updFirst :: "('a \<Rightarrow> bool) \<Rightarrow> ('a \<Rightarrow> 'a) \<Rightarrow> 'a list \<Rightarrow> 'a list" where
  "updFirst p f [] = []"
| "updFirst p f (x # xs) = (if p x then f x # xs else x # updFirst p f xs)"

definition onMap :: "(gmap \<Rightarrow> gmap) \<Rightarrow> gval \<Rightarrow> gval" where
  "onMap f v = (case v of GMap m \<Rightarrow> GMap (f m) | _ \<Rightarrow> v)"

definition addKubeletDropin :: "string \<Rightarrow> gmap \<Rightarrow> gmap res" where
  "addKubeletDropin extraArgs systemd = (case asList (systemd ''units'') of
     None \<Rightarrow> Panicked
   | Some units \<Rightarrow>
       if list_ex (isNamed ''kubelet.service'') units then
         Returned (systemd(''units'' \<mapsto> GList (updFirst (isNamed ''kubelet.service'')
           (onMap (\<lambda>u. u(''dropins'' \<mapsto> GList (listOr (u ''dropins'') @ [kubeletDropin extraArgs])))) units)))
       else Returned systemd)"

definition publicNetworkText :: "string \<Rightarrow> string \<Rightarrow> string \<Rightarrow> string \<Rightarrow> VLANConfig option \<Rightarrow> string" where
  "publicNetworkText primaryMAC serverIP gatewayIP ipv6Net vlanConf =
     ''[Match]\<newline>MACAddress='' @ primaryMAC @ ''\<newline>''
     @ ''\<newline>[Network]\<newline>DNS=185.12.64.1\<newline>DNS=185.12.64.2\<newline>''
     @ (case vlanConf of None \<Rightarrow> [] | Some v \<Rightarrow> ''VLAN=vlan'' @ itoa (vlanID v) @ ''\<newline>'')
     @ ''\<newline>[Address]\<newline>Address='' @ serverIP @ ''/32\<newline>Peer='' @ gatewayIP @ ''/32\<newline>''
     @ ''\<newline>[Route]\<newline>Destination=0.0.0.0/0\<newline>Gateway='' @ gatewayIP @ ''\<newline>''
     @ (if ipv6Net \<noteq> [] then
          ''\<newline>[Address]\<newline>Address='' @ trimSuffix (hd (splitStr ipv6Net ''/'')) ''::'' @ ''::1/64'' @ ''\<newline>''
          @ ''\<newline>[Route]\<newline>Destination=::/0\<newline>Gateway=fe80::1\<newline>''
        else [])"

definition addHetznerPrimaryNetwork :: "string \<Rightarrow> string \<Rightarrow> string \<Rightarrow> string \<Rightarrow> VLANConfig option \<Rightarrow> gmap \<Rightarrow> gmap res" where
  "addHetznerPrimaryNetwork primaryMAC serverIP gatewayIP ipv6Net vlanConf =
     addIgnitionFile ''/etc/systemd/network/10-public.network''
       (publicNetworkText primaryMAC serverIP gatewayIP ipv6Net vlanConf) 420"

definition vlanNetdevText :: "int \<Rightarrow> string" where
  "vlanNetdevText vid = ''[NetDev]\<newline>Name=vlan'' @ itoa vid @ ''\<newline>Kind=vlan\<newline>\<newline>[VLAN]\<newline>Id='' @ itoa vid @ ''\<newline>''"

definition vlanNetworkText :: "int \<Rightarrow> string \<Rightarrow> int \<Rightarrow> string" where
  "vlanNetworkText vid internalIP prefixLen = ''[Match]\<newline>Name=vlan'' @ itoa vid
     @ ''\<newline>\<newline>[Network]\<newline>Address='' @ internalIP @ ''/'' @ itoa prefixLen @ ''\<newline>''"

definition addVLANNetdevAndNetwork :: "int \<Rightarrow> string \<Rightarrow> int \<Rightarrow> gmap \<Rightarrow> gmap res" where
  "addVLANNetdevAndNetwork vid internalIP prefixLen storage =
     bindR (addIgnitionFile (''/etc/systemd/network/10-vlan'' @ itoa vid @ ''.netdev'') (vlanNetdevText vid) 420 storage)
       (addIgnitionFile (''/etc/systemd/network/10-vlan'' @ itoa vid @ ''.network'')
          (vlanNetworkText vid internalIP prefixLen) 420)"

definition addNetworkdIPv6File :: "string \<Rightarrow> string \<Rightarrow> gmap \<Rightarrow> gmap res" where
  "addNetworkdIPv6File ipv6Addr primaryMAC = addIgnitionFile ''/etc/systemd/network/10-ipv6.network''
     (''[Match]\<newline>MACAddress='' @ primaryMAC @ ''\<newline>\<newline>[Network]\<newline>Address='' @ ipv6Addr
      @ ''\<newline>\<newline>[Route]\<newline>Destination=::/0\<newline>Gateway=fe80::1\<newline>'') 420"

text \<open>The map at a key, created when the key is missing; the assertion panics on another type.\<close>

definition mapAt :: "gmap \<Rightarrow> string \<Rightarrow> gmap res" where
  "mapAt parent k = (case parent k of None \<Rightarrow> Returned Map.empty | Some (GMap m) \<Rightarrow> Returned m | _ \<Rightarrow> Panicked)"

text \<open>The list at a key is created, empty, when the key is missing.\<close>

definition withList :: "string \<Rightarrow> gmap \<Rightarrow> gmap" where
  "withList k m = (if m k = None then m(k \<mapsto> GList []) else m)"

text \<open>An interface value that is exactly this string.\<close>

definition isStr :: "string \<Rightarrow> gval \<Rightarrow> bool" where
  "isStr s v = (case v of GStr t \<Rightarrow> t = s | _ \<Rightarrow> False)"

lemma isStr_mem [simp]: "list_ex (isStr s) xs \<longleftrightarrow> GStr s \<in> set xs"
proof -
  have "isStr s v \<longleftrightarrow> v = GStr s" for v by (cases v) (auto simp: isStr_def)
  then show ?thesis by (auto simp: list_ex_iff)
qed

definition addKeyToUser :: "string \<Rightarrow> gmap \<Rightarrow> gmap" where
  "addKeyToUser pubKey user = (let keys = listOr (user ''sshAuthorizedKeys'') in
     if list_ex (isStr pubKey) keys then user
     else user(''sshAuthorizedKeys'' \<mapsto> GList (keys @ [GStr pubKey])))"

definition addKeyToUsers :: "string \<Rightarrow> string \<Rightarrow> gval list \<Rightarrow> gval list" where
  "addKeyToUsers user pubKey users =
     (if list_ex (isNamed user) users then updFirst (isNamed user) (onMap (addKeyToUser pubKey)) users
      else users @ [GMap [''name'' \<mapsto> GStr user, ''sshAuthorizedKeys'' \<mapsto> GList [GStr pubKey]]])"

definition addSSHAuthorizedKey :: "string \<Rightarrow> string \<Rightarrow> gmap \<Rightarrow> gmap res" where
  "addSSHAuthorizedKey user pubKey ign =
     bindR (mapAt ign ''passwd'') (\<lambda>passwd0. let passwd = withList ''users'' passwd0 in
       case asList (passwd ''users'') of
         None \<Rightarrow> Panicked
       | Some users \<Rightarrow> Returned (ign(''passwd'' \<mapsto> GMap (passwd(''users'' \<mapsto> GList (addKeyToUsers user pubKey users))))))"

definition buildKubeletExtraArgs :: "string \<Rightarrow> string \<Rightarrow> string \<Rightarrow> string" where
  "buildKubeletExtraArgs providerID internalIP ipv6Net =
     (let nodeIP = nodeIPOf internalIP ipv6Net in
      joinStr ((if providerID \<noteq> [] then [''--provider-id='' @ providerID] else [])
        @ (if nodeIP \<noteq> [] then [''--node-ip='' @ nodeIP] else [])) '' '')"

definition injectFlatcarConfig :: "'w ext \<Rightarrow> string \<Rightarrow> string \<Rightarrow> string \<Rightarrow> string \<Rightarrow> string
    \<Rightarrow> VLANConfig option \<Rightarrow> string \<Rightarrow> string \<Rightarrow> string \<Rightarrow> string res" where
  "injectFlatcarConfig X bootstrapData providerID internalIP ipv6Net primaryMAC vlanConf sshPublicKey serverIP gatewayIP =
     (case xJsonUnmarshal X bootstrapData of
        Inl e \<Rightarrow> Failed (wrapErr ''parse Ignition JSON: '' e)
      | Inr None \<Rightarrow> Panicked
      | Inr (Some ign0) \<Rightarrow>
          bindR (removeIgnitionURLDownloads (fixIgnitionInlineFields X ign0)) (\<lambda>ign.
          bindR (mapAt ign ''storage'') (\<lambda>storage0.
          bindR (mapAt ign ''systemd'') (\<lambda>systemd0.
            let storage = withList ''files'' storage0; systemd = withList ''units'' systemd0;
                kubeletArgs = buildKubeletExtraArgs providerID internalIP ipv6Net in
            bindR (if kubeletArgs \<noteq> [] then
                bindR (addIgnitionUnit ''kubelet.service'' False [] systemd) (addKubeletDropin kubeletArgs)
              else Returned systemd) (\<lambda>systemd'.
            bindR (if serverIP \<noteq> [] \<and> gatewayIP \<noteq> [] then
                addHetznerPrimaryNetwork primaryMAC serverIP gatewayIP ipv6Net None storage
              else Returned storage) (\<lambda>storage'.
            bindR (let ign' = ign(''storage'' \<mapsto> GMap storage', ''systemd'' \<mapsto> GMap systemd') in
                if sshPublicKey \<noteq> [] then addSSHAuthorizedKey ''core'' sshPublicKey ign' else Returned ign')
              (\<lambda>final. case xJsonMarshal X final of
                 Inl e \<Rightarrow> Failed (wrapErr ''marshal Ignition JSON: '' e)
               | Inr out \<Rightarrow> Returned out)))))))"

section \<open>Network files before the first boot\<close>

definition heredocCmd :: "string \<Rightarrow> string \<Rightarrow> string" where
  "heredocCmd path text = ''cat > '' @ path @ '' << '' @ [CHR 0x27] @ ''NETEOF'' @ [CHR 0x27] @ ''\<newline>'' @ text @ ''NETEOF''"

text \<open>The body after the mount; the deferred unmount follows it on every path.\<close>

definition preBootFiles :: "'w ext \<Rightarrow> Client \<Rightarrow> string \<Rightarrow> string \<Rightarrow> string \<Rightarrow> string \<Rightarrow> string
    \<Rightarrow> VLANConfig option \<Rightarrow> ('w, 'o, goerr option) go" where
  "preBootFiles X c primaryMAC serverIP gatewayIP ipv6Net internalIP vlanConf =
     (let networkDir = ''/mnt/flatcar-root/etc/systemd/network'';
          primary = publicNetworkText primaryMAC serverIP gatewayIP ipv6Net vlanConf in
      runOrFail X c ''create networkd dir on ROOT: '' (''mkdir -p '' @ networkDir)
        (runOrFail X c ''write 10-static-preboot.network: ''
          (heredocCmd (networkDir @ ''/10-static-preboot.network'') primary)
          (case vlanConf of
             None \<Rightarrow> ret None
           | Some v \<Rightarrow>
               if internalIP = [] then ret None
               else (let prefixLen = (if PrefixLength v = 0 then 24 else PrefixLength v) in
                 runOrFail X c ''write vlan netdev: ''
                   (heredocCmd (networkDir @ ''/10-vlan'' @ itoa (vlanID v) @ ''.netdev'') (vlanNetdevText (vlanID v)))
                   (runOrFail X c ''write vlan network: ''
                     (heredocCmd (networkDir @ ''/10-vlan'' @ itoa (vlanID v) @ ''.network'')
                       (vlanNetworkText (vlanID v) internalIP prefixLen))
                     (ret None))))))"

definition writePreBootNetwork :: "'w ext \<Rightarrow> Client \<Rightarrow> string \<Rightarrow> string \<Rightarrow> string \<Rightarrow> string \<Rightarrow> string \<Rightarrow> string
    \<Rightarrow> VLANConfig option \<Rightarrow> ('w, 'o, goerr option) go" where
  "writePreBootNetwork X c installDisk primaryMAC serverIP gatewayIP ipv6Net internalIP vlanConf =
     (if serverIP = [] \<or> gatewayIP = [] then
        ret (Some (errorf ''cannot write pre-boot network: serverIP or gatewayIP empty''))
      else (let rootPart = installDisk @ ''p9''; mountPoint = ''/mnt/flatcar-root'' in
        runOrFail X c (''mount ROOT partition '' @ rootPart @ '': '')
          (''mkdir -p '' @ mountPoint @ '' && mount '' @ rootPart @ '' '' @ mountPoint)
          (do {
             r \<leftarrow> preBootFiles X c primaryMAC serverIP gatewayIP ipv6Net internalIP vlanConf;
             _ \<leftarrow> RunCmd X c (''umount '' @ mountPoint @ '' 2>/dev/null || true'');
             ret r })))"

section \<open>Data URLs read back\<close>

definition unhex :: "char \<Rightarrow> nat option" where
  "unhex c = (if isDigit c then Some (of_char c - 48)
     else if 65 \<le> (of_char c :: nat) \<and> (of_char c :: nat) \<le> 70 then Some (of_char c - 55) else None)"

text \<open>How a data URL is read: percent escapes decoded, other bytes kept.\<close>

fun percentDecode :: "string \<Rightarrow> string option" where
  "percentDecode [] = Some []"
| "percentDecode (c # s) =
     (if c = CHR ''%'' then
        (case s of
           a # b # t \<Rightarrow> (case (unhex a, unhex b) of
             (Some x, Some y) \<Rightarrow> map_option (Cons (char_of (16 * x + y))) (percentDecode t)
           | _ \<Rightarrow> None)
         | _ \<Rightarrow> None)
      else map_option (Cons c) (percentDecode s))"

lemma unhex_upperHex: "d < 16 \<Longrightarrow> unhex (upperHex d) = Some d"
  by (auto simp: unhex_def upperHex_def isDigit_def)

lemma percent_not_kept: "\<not> pathKeep (CHR ''%'')"
  by (simp add: pathKeep_def isDigit_def)

lemma percentDecode_escape: "percentDecode (escapeByte c @ s) = map_option (Cons c) (percentDecode s)"
proof (cases "pathKeep c")
  case True
  then have "c \<noteq> CHR ''%''" using percent_not_kept by metis
  with True show ?thesis by (simp add: escapeByte_def)
next
  case False
  let ?n = "of_char c :: nat"
  have "?n < 16 * 16" using nat_of_char_less_256 [of c] by simp
  then have "?n div 16 < 16" "?n mod 16 < 16" by (simp_all only: less_mult_imp_div_less)
  moreover have "16 * (?n div 16) + ?n mod 16 = ?n" by simp
  ultimately show ?thesis using False by (simp add: escapeByte_def unhex_upperHex)
qed

lemma percentDecode_urlEncode: "percentDecode (urlEncode s) = Some s"
  by (induction s) (simp_all add: urlEncode_def percentDecode_escape)

interpretation percent: codec urlEncode percentDecode
  by unfold_locales (rule percentDecode_urlEncode)


section \<open>The finished document\<close>

definition urlFile :: "gval \<Rightarrow> bool" where
  "urlFile f = (case f of GMap file \<Rightarrow> isURL (fileSource file) | _ \<Rightarrow> False)"

lemma removeURLFiles_spec:
  "removeURLFiles fs = Returned (kept, removed) \<Longrightarrow> kept = filter (\<lambda>f. \<not> urlFile f) fs"
proof (induction fs arbitrary: kept removed)
  case Nil
  then show ?case by simp
next
  case (Cons f fs)
  then show ?case
    by (auto simp: urlFile_def bindR_Returned split: gval.splits if_splits option.splits prod.splits)
qed

lemma asList_slice [simp]: "asList (Some (slice xs)) = Some xs" "asList (Some (GList xs)) = Some xs"
  by (simp_all add: asList_def slice_def)

lemma removeLinks_files [simp]: "removeLinks r st ''files'' = st ''files''"
  by (simp add: removeLinks_def split: option.split)

lemma removed_no_url:
  assumes "removeIgnitionURLDownloads ign = Returned ign'" and "mapAt ign' ''storage'' = Returned st"
    and "asList (withList ''files'' st ''files'') = Some files"
  shows "list_all (\<lambda>f. \<not> urlFile f) files"
proof (cases "ign ''storage''")
  case None
  with assms show ?thesis
    by (auto simp: removeIgnitionURLDownloads_def mapAt_def withList_def asList_def split: if_splits)
next
  case (Some v)
  show ?thesis
  proof (cases v)
    case (GMap storage)
    show ?thesis
    proof (cases "asList (storage ''files'')")
      case None
      with Some GMap assms show ?thesis
        by (auto simp: removeIgnitionURLDownloads_def mapAt_def withList_def split: if_splits)
    next
      case (Some fs)
      with \<open>ign ''storage'' = Some v\<close> GMap assms(1) obtain kept removed where
        kr: "removeURLFiles fs = Returned (kept, removed)"
        "ign' = ign(''storage'' \<mapsto> GMap (removeLinks removed (storage(''files'' \<mapsto> slice kept))))"
        by (auto simp: removeIgnitionURLDownloads_def bindR_Returned)
      then have "files = kept" using assms(2,3) by (auto simp: mapAt_def withList_def)
      with removeURLFiles_spec [OF kr(1)] show ?thesis by (auto simp: list_all_iff)
    qed
  qed (use Some assms in \<open>auto simp: removeIgnitionURLDownloads_def mapAt_def\<close>)
qed

lemma updFirst_ex: "list_ex p xs \<Longrightarrow> \<exists>x \<in> set xs. p x \<and> f x \<in> set (updFirst p f xs)"
  by (induction xs) auto

lemma addKey_present:
  "\<exists>u. GMap u \<in> set (addKeyToUsers n key users) \<and> u ''name'' = Some (GStr n)
     \<and> GStr key \<in> set (listOr (u ''sshAuthorizedKeys''))"
proof (cases "list_ex (isNamed n) users")
  case True
  from updFirst_ex [OF this, of "onMap (addKeyToUser key)"] obtain v where
    v: "isNamed n v" "onMap (addKeyToUser key) v \<in> set (updFirst (isNamed n) (onMap (addKeyToUser key)) users)"
    by blast
  from v(1) obtain m where m: "v = GMap m" "m ''name'' = Some (GStr n)"
    by (auto simp: isNamed_iff split: gval.splits)
  have "GMap (addKeyToUser key m) \<in> set (addKeyToUsers n key users)"
    using True v(2) m(1) by (simp add: addKeyToUsers_def onMap_def)
  moreover have "addKeyToUser key m ''name'' = Some (GStr n)"
    and "GStr key \<in> set (listOr (addKeyToUser key m ''sshAuthorizedKeys''))"
    using m(2) by (auto simp: addKeyToUser_def Let_def listOr_def)
  ultimately show ?thesis by blast
next
  case False
  then show ?thesis by (auto simp: addKeyToUsers_def listOr_def)
qed

lemma dropin_present:
  assumes "addIgnitionUnit ''kubelet.service'' False [] systemd = Returned s1"
    and "addKubeletDropin args s1 = Returned s2"
  shows "\<exists>units u. asList (s2 ''units'') = Some units \<and> GMap u \<in> set units
    \<and> u ''name'' = Some (GStr ''kubelet.service'') \<and> kubeletDropin args \<in> set (listOr (u ''dropins''))"
proof -
  let ?n = "isNamed ''kubelet.service''"
  let ?f = "onMap (\<lambda>u. u(''dropins'' \<mapsto> GList (listOr (u ''dropins'') @ [kubeletDropin args])))"
  from assms(1) obtain units where "s1 ''units'' = Some (GList (units
      @ [GMap [''name'' \<mapsto> GStr ''kubelet.service'', ''enabled'' \<mapsto> GBool False]]))"
    by (auto simp: addIgnitionUnit_def split: option.splits)
  then obtain us where us: "s1 ''units'' = Some (GList us)" "list_ex ?n us"
    by (auto simp: isNamed_iff)
  with assms(2) have s2: "s2 ''units'' = Some (GList (updFirst ?n ?f us))"
    by (auto simp: addKubeletDropin_def)
  from updFirst_ex [OF us(2), of ?f] obtain v where v: "?n v" "?f v \<in> set (updFirst ?n ?f us)" by blast
  then obtain m where m: "v = GMap m" "m ''name'' = Some (GStr ''kubelet.service'')"
    by (auto simp: isNamed_iff split: gval.splits)
  with v(2) s2 show ?thesis
    by (intro exI [of _ "updFirst ?n ?f us"] exI [of _ "m(''dropins'' \<mapsto> GList (listOr (m ''dropins'') @ [kubeletDropin args]))"])
      (simp add: onMap_def listOr_def)
qed

definition publicNetworkFile :: "string \<Rightarrow> string \<Rightarrow> string \<Rightarrow> string \<Rightarrow> gval" where
  "publicNetworkFile mac ip gw ipv6Net = GMap [''path'' \<mapsto> GStr ''/etc/systemd/network/10-public.network'',
     ''contents'' \<mapsto> GMap [''source'' \<mapsto> GStr (''data:,'' @ urlEncode (publicNetworkText mac ip gw ipv6Net None))],
     ''mode'' \<mapsto> GInt 420, ''overwrite'' \<mapsto> GBool True]"

lemma publicNetworkFile_local: "\<not> urlFile (publicNetworkFile mac ip gw n)"
  by (simp add: publicNetworkFile_def urlFile_def fileSource_def childMap_def strOr_def isURL_def hasPrefix_def)

text \<open>What a finished document must hold.\<close>

definition flatcarComplete :: "gmap \<Rightarrow> string \<Rightarrow> string \<Rightarrow> gval \<Rightarrow> bool" where
  "flatcarComplete final args key netFile \<longleftrightarrow>
     (\<exists>files. asList (childMap final ''storage'' ''files'') = Some files
        \<and> list_all (\<lambda>f. \<not> urlFile f) files \<and> netFile \<in> set files)
   \<and> (\<exists>units u. asList (childMap final ''systemd'' ''units'') = Some units \<and> GMap u \<in> set units
        \<and> u ''name'' = Some (GStr ''kubelet.service'') \<and> kubeletDropin args \<in> set (listOr (u ''dropins'')))
   \<and> (\<exists>users u. asList (childMap final ''passwd'' ''users'') = Some users \<and> GMap u \<in> set users
        \<and> u ''name'' = Some (GStr ''core'') \<and> GStr key \<in> set (listOr (u ''sshAuthorizedKeys'')))"

lemma addSSH_present:
  assumes "addSSHAuthorizedKey n key ign = Returned ign'"
  shows "\<exists>users u. asList (childMap ign' ''passwd'' ''users'') = Some users \<and> GMap u \<in> set users
      \<and> u ''name'' = Some (GStr n) \<and> GStr key \<in> set (listOr (u ''sshAuthorizedKeys''))"
    and "k \<noteq> ''passwd'' \<Longrightarrow> childMap ign' k = childMap ign k"
proof -
  from assms obtain pw users where
    "ign' = ign(''passwd'' \<mapsto> GMap (pw(''users'' \<mapsto> GList (addKeyToUsers n key users))))"
    by (auto simp: addSSHAuthorizedKey_def bindR_Returned Let_def split: option.splits)
  with addKey_present [of n key users]
  show "\<exists>users u. asList (childMap ign' ''passwd'' ''users'') = Some users \<and> GMap u \<in> set users
      \<and> u ''name'' = Some (GStr n) \<and> GStr key \<in> set (listOr (u ''sshAuthorizedKeys''))"
    and "k \<noteq> ''passwd'' \<Longrightarrow> childMap ign' k = childMap ign k"
    by (auto simp: childMap_def)
qed

text \<open>
  C23. The Ignition document of a Flatcar machine. When the injection returns, what it returns is
  the printed form of a document without any file that would be fetched over HTTP, with the
  static network file of the primary interface, with a kubelet.service unit that carries the
  machine's extra arguments as a drop-in, and with the controller's key among the keys of the
  user core. The kubelet arguments begin with the providerID.
\<close>

theorem flatcar_config_complete:
  assumes "injectFlatcarConfig X data pid ip n mac vlan key sip gw = Returned out"
    and "pid \<noteq> []" and "key \<noteq> []" and "sip \<noteq> []" and "gw \<noteq> []"
  shows "\<exists>final. xJsonMarshal X final = Inr out
    \<and> hasPrefix (buildKubeletExtraArgs pid ip n) (''--provider-id='' @ pid)
    \<and> flatcarComplete final (buildKubeletExtraArgs pid ip n) key (publicNetworkFile mac sip gw n)"
proof -
  let ?args = "buildKubeletExtraArgs pid ip n"
  have args: "hasPrefix ?args (''--provider-id='' @ pid)" "?args \<noteq> []"
    using \<open>pid \<noteq> []\<close> by (auto simp: buildKubeletExtraArgs_def Let_def hasPrefix_def)
  have ok: "(case r of Inl e \<Rightarrow> Failed (g e) | Inr x \<Rightarrow> Returned x) = Returned out \<longleftrightarrow> r = Inr out" for r g
    by (auto split: sum.splits)
  from assms args(2) obtain ign0 ign st0 sy0 s1 s2 st final where
    steps: "removeIgnitionURLDownloads ign0 = Returned ign" "mapAt ign ''storage'' = Returned st0"
      "addIgnitionUnit ''kubelet.service'' False [] (withList ''units'' sy0) = Returned s1"
      "addKubeletDropin ?args s1 = Returned s2"
      "addHetznerPrimaryNetwork mac sip gw n None (withList ''files'' st0) = Returned st"
      "addSSHAuthorizedKey ''core'' key (ign(''storage'' \<mapsto> GMap st, ''systemd'' \<mapsto> GMap s2)) = Returned final"
      and out: "xJsonMarshal X final = Inr out"
    unfolding injectFlatcarConfig_def Let_def
    by (cases "xJsonUnmarshal X data") (auto simp: bindR_Returned ok split: option.splits)
  from steps(5) obtain files where files: "asList (withList ''files'' st0 ''files'') = Some files"
    "st ''files'' = Some (GList (files @ [publicNetworkFile mac sip gw n]))"
    by (auto simp: addHetznerPrimaryNetwork_def addIgnitionFile_def publicNetworkFile_def split: option.splits)
  from removed_no_url [OF steps(1,2) files(1)] have "list_all (\<lambda>f. \<not> urlFile f) files" .
  moreover have "childMap final ''storage'' = st" "childMap final ''systemd'' = s2"
    using addSSH_present(2) [OF steps(6)] by (simp_all add: childMap_def)
  ultimately have "flatcarComplete final ?args key (publicNetworkFile mac sip gw n)"
    unfolding flatcarComplete_def
    using files(2) publicNetworkFile_local dropin_present [OF steps(3,4)] addSSH_present(1) [OF steps(6)] by simp
  with out args show ?thesis by blast
qed

theorem flatcar_config_complete_witness:
  "\<exists>final. flatcarComplete final (buildKubeletExtraArgs ''hetzner-robot://7'' [] []) ''ssh-ed25519 AAAA''
     (publicNetworkFile ''aa:bb'' ''192.0.2.6'' ''192.0.2.1'' [])"
proof -
  have "injectFlatcarConfig sampleExt [] ''hetzner-robot://7'' [] [] ''aa:bb'' None ''ssh-ed25519 AAAA'' ''192.0.2.6'' ''192.0.2.1''
      = Returned []"
    by (simp add: injectFlatcarConfig_def sampleExt_def fixIgnitionInlineFields_def removeIgnitionURLDownloads_def
        mapAt_def withList_def buildKubeletExtraArgs_def nodeIPOf_def nodeIPv6Of_def addIgnitionUnit_def
        addKubeletDropin_def isNamed_iff addHetznerPrimaryNetwork_def addIgnitionFile_def
        addSSHAuthorizedKey_def)
  from flatcar_config_complete [OF this] show ?thesis by auto
qed

section \<open>Keys are only added\<close>

definition keysOf :: "gval \<Rightarrow> gval list" where
  "keysOf v = (case v of GMap u \<Rightarrow> listOr (u ''sshAuthorizedKeys'') | _ \<Rightarrow> [])"

definition dropKeys :: "gval \<Rightarrow> gval" where
  "dropKeys = onMap (\<lambda>u. u(''sshAuthorizedKeys'' := None))"

lemma updFirst_idem:
  "(\<And>x. p x \<Longrightarrow> p (f x) \<and> f (f x) = f x) \<Longrightarrow> updFirst p f (updFirst p f xs) = updFirst p f xs"
  by (induction xs) auto

lemma updFirst_ex_iff: "(\<And>x. p x \<Longrightarrow> p (f x)) \<Longrightarrow> list_ex p (updFirst p f xs) = list_ex p xs"
  by (induction xs) auto

lemma updFirst_map: "(\<And>x. g (f x) = g x) \<Longrightarrow> map g (updFirst p f xs) = map g xs"
  by (induction xs) auto

lemma updFirst_rel: "(\<And>x. R x x) \<Longrightarrow> (\<And>x. R x (f x)) \<Longrightarrow> list_all2 R xs (updFirst p f xs)"
  by (induction xs) (auto intro: list_all2_refl)

lemma updFirst_none: "\<not> list_ex p xs \<Longrightarrow> updFirst p f (xs @ [y]) = xs @ [if p y then f y else y]"
  by (induction xs) auto

lemma length_updFirst [simp]: "length (updFirst p f xs) = length xs"
  by (induction xs) auto

lemma addKeyToUser_facts:
  "isNamed n v \<Longrightarrow> isNamed n (onMap (addKeyToUser key) v)"
  "onMap (addKeyToUser key) (onMap (addKeyToUser key) v) = onMap (addKeyToUser key) v"
  "dropKeys (onMap (addKeyToUser key) v) = dropKeys v"
  "prefix (keysOf v) (keysOf (onMap (addKeyToUser key) v))"
  by (auto simp: isNamed_iff onMap_def addKeyToUser_def Let_def dropKeys_def keysOf_def listOr_def
      split: gval.splits)

text \<open>
  C34. Adding the controller's key is idempotent and takes nothing away: a second injection of
  the same key changes nothing, the users keep their places and all their other fields, and the
  keys a user had stay in front of the added one.
\<close>

theorem ssh_key_idempotent:
  "addKeyToUsers n key (addKeyToUsers n key users) = addKeyToUsers n key users
   \<and> take (length users) (map dropKeys (addKeyToUsers n key users)) = map dropKeys users
   \<and> list_all2 (\<lambda>v v'. prefix (keysOf v) (keysOf v')) users (take (length users) (addKeyToUsers n key users))"
proof (cases "list_ex (isNamed n) users")
  case True
  let ?us = "updFirst (isNamed n) (onMap (addKeyToUser key)) users"
  have us: "addKeyToUsers n key users = ?us" using True by (simp add: addKeyToUsers_def)
  have "list_ex (isNamed n) ?us" using True by (simp add: updFirst_ex_iff addKeyToUser_facts)
  then have "addKeyToUsers n key ?us = ?us"
    by (simp add: addKeyToUsers_def updFirst_idem addKeyToUser_facts)
  then show ?thesis
    by (simp add: us updFirst_map updFirst_rel addKeyToUser_facts)
next
  case False
  let ?new = "GMap [''name'' \<mapsto> GStr n, ''sshAuthorizedKeys'' \<mapsto> GList [GStr key]]"
  have "isNamed n ?new" "onMap (addKeyToUser key) ?new = ?new"
    by (simp_all add: isNamed_iff onMap_def addKeyToUser_def listOr_def)
  with False show ?thesis
    by (simp add: addKeyToUsers_def updFirst_none list_all2_refl)
qed

end
