(* ===== verification/Boot_Scripts.thy ===== *)
theory Boot_Scripts
  imports Rescue_SSH
begin

text \<open>
  The scripts the machine controller runs in the rescue system besides those of
  \<^verbatim>\<open>pkg/sshrescue\<close>, byte for byte: the clean-up of the EFI boot entries after an install
  of Talos and of Flatcar, the reboot, and the check that the rescue system is what answers.
\<close>

definition talosEfiScript :: string where
  "talosEfiScript = ''\<newline>''
     @ [CHR 0x09, CHR 0x09]
     @ ''if command -v efibootmgr > /dev/null 2>&1; then\<newline>''
     @ [CHR 0x09, CHR 0x09, CHR 0x09]
     @ ''# Mount efivars read-write (rescue mounts it read-only by default)\<newline>''
     @ [CHR 0x09, CHR 0x09, CHR 0x09]
     @ ''mount -o remount,rw /sys/firmware/efi/efivars 2>/dev/null || ''
     @ [CHR 0x5C]
     @ ''\<newline>''
     @ [CHR 0x09, CHR 0x09, CHR 0x09]
     @ ''mount -t efivarfs efivarfs /sys/firmware/efi/efivars 2>/dev/null || true\<newline>''
     @ ''\<newline>''
     @ [CHR 0x09, CHR 0x09, CHR 0x09]
     @ ''echo ''
     @ [CHR 0x22]
     @ ''Before cleanup:''
     @ [CHR 0x22]
     @ ''\<newline>''
     @ [CHR 0x09, CHR 0x09, CHR 0x09]
     @ ''efibootmgr\<newline>''
     @ ''\<newline>''
     @ [CHR 0x09, CHR 0x09, CHR 0x09]
     @ ''# Delete ALL boot entries except PXE/Network and Talos\<newline>''
     @ [CHR 0x09, CHR 0x09, CHR 0x09]
     @ ''for entry in $(efibootmgr 2>/dev/null | grep ''
     @ [CHR 0x27]
     @ ''^Boot[0-9A-Fa-f]''
     @ [CHR 0x27]
     @ '' | grep -iv ''
     @ [CHR 0x27]
     @ ''pxe''
     @ [CHR 0x5C]
     @ ''|network''
     @ [CHR 0x5C]
     @ ''|ipv4''
     @ [CHR 0x5C]
     @ ''|ipv6''
     @ [CHR 0x5C]
     @ ''|talos''
     @ [CHR 0x27]
     @ '' | grep -o ''
     @ [CHR 0x27]
     @ ''^Boot[0-9A-Fa-f]*''
     @ [CHR 0x27]
     @ '' | sed ''
     @ [CHR 0x27]
     @ ''s/Boot//''
     @ [CHR 0x27]
     @ ''); do\<newline>''
     @ [CHR 0x09, CHR 0x09, CHR 0x09, CHR 0x09]
     @ ''echo ''
     @ [CHR 0x22]
     @ ''Deleting non-Talos/non-PXE entry: Boot${entry}''
     @ [CHR 0x22]
     @ ''\<newline>''
     @ [CHR 0x09, CHR 0x09, CHR 0x09, CHR 0x09]
     @ ''efibootmgr -b ''
     @ [CHR 0x22]
     @ ''$entry''
     @ [CHR 0x22]
     @ '' -B 2>/dev/null || true\<newline>''
     @ [CHR 0x09, CHR 0x09, CHR 0x09]
     @ ''done\<newline>''
     @ ''\<newline>''
     @ [CHR 0x09, CHR 0x09, CHR 0x09]
     @ ''# Set boot order: PXE first, Talos second (Hetzner standard).\<newline>''
     @ [CHR 0x09, CHR 0x09, CHR 0x09]
     @ ''# PXE first ensures rescue always works (one-shot: if rescue active ''
     @ [CHR 0xE2, CHR 0x86, CHR 0x92]
     @ '' boot\<newline>''
     @ [CHR 0x09, CHR 0x09, CHR 0x09]
     @ ''# rescue; if not ''
     @ [CHR 0xE2, CHR 0x86, CHR 0x92]
     @ '' PXE silently fails ''
     @ [CHR 0xE2, CHR 0x86, CHR 0x92]
     @ '' falls through to Talos).\<newline>''
     @ [CHR 0x09, CHR 0x09, CHR 0x09]
     @ ''TALOS_NUM=$(efibootmgr | grep -i ''
     @ [CHR 0x27]
     @ ''Talos''
     @ [CHR 0x27]
     @ '' | grep -oP ''
     @ [CHR 0x27]
     @ ''Boot''
     @ [CHR 0x5C]
     @ ''K[0-9A-Fa-f]+''
     @ [CHR 0x27]
     @ '' | head -1)\<newline>''
     @ [CHR 0x09, CHR 0x09, CHR 0x09]
     @ ''PXE_NUMS=$(efibootmgr | grep -i ''
     @ [CHR 0x27]
     @ ''PXE''
     @ [CHR 0x5C]
     @ ''|Network''
     @ [CHR 0x5C]
     @ ''|IPv4''
     @ [CHR 0x27]
     @ '' | grep -oP ''
     @ [CHR 0x27]
     @ ''Boot''
     @ [CHR 0x5C]
     @ ''K[0-9A-Fa-f]+''
     @ [CHR 0x27]
     @ '' | paste -sd,)\<newline>''
     @ [CHR 0x09, CHR 0x09, CHR 0x09]
     @ ''if [ -n ''
     @ [CHR 0x22]
     @ ''$PXE_NUMS''
     @ [CHR 0x22]
     @ '' ] && [ -n ''
     @ [CHR 0x22]
     @ ''$TALOS_NUM''
     @ [CHR 0x22]
     @ '' ]; then\<newline>''
     @ [CHR 0x09, CHR 0x09, CHR 0x09, CHR 0x09]
     @ ''efibootmgr -o ''
     @ [CHR 0x22]
     @ ''${PXE_NUMS},${TALOS_NUM}''
     @ [CHR 0x22]
     @ '' 2>&1\<newline>''
     @ [CHR 0x09, CHR 0x09, CHR 0x09]
     @ ''elif [ -n ''
     @ [CHR 0x22]
     @ ''$PXE_NUMS''
     @ [CHR 0x22]
     @ '' ]; then\<newline>''
     @ [CHR 0x09, CHR 0x09, CHR 0x09, CHR 0x09]
     @ ''efibootmgr -o ''
     @ [CHR 0x22]
     @ ''${PXE_NUMS}''
     @ [CHR 0x22]
     @ '' 2>&1\<newline>''
     @ [CHR 0x09, CHR 0x09, CHR 0x09]
     @ ''elif [ -n ''
     @ [CHR 0x22]
     @ ''$TALOS_NUM''
     @ [CHR 0x22]
     @ '' ]; then\<newline>''
     @ [CHR 0x09, CHR 0x09, CHR 0x09, CHR 0x09]
     @ ''efibootmgr -o ''
     @ [CHR 0x22]
     @ ''${TALOS_NUM}''
     @ [CHR 0x22]
     @ '' 2>&1\<newline>''
     @ [CHR 0x09, CHR 0x09, CHR 0x09]
     @ ''fi\<newline>''
     @ ''\<newline>''
     @ [CHR 0x09, CHR 0x09, CHR 0x09]
     @ ''echo ''
     @ [CHR 0x22]
     @ ''After cleanup:''
     @ [CHR 0x22]
     @ ''\<newline>''
     @ [CHR 0x09, CHR 0x09, CHR 0x09]
     @ ''efibootmgr\<newline>''
     @ [CHR 0x09, CHR 0x09]
     @ ''fi\<newline>''
     @ [CHR 0x09]"

definition flatcarEfiScript :: string where
  "flatcarEfiScript = ''\<newline>''
     @ [CHR 0x09, CHR 0x09]
     @ ''if command -v efibootmgr > /dev/null 2>&1; then\<newline>''
     @ [CHR 0x09, CHR 0x09, CHR 0x09]
     @ ''mount -o remount,rw /sys/firmware/efi/efivars 2>/dev/null || ''
     @ [CHR 0x5C]
     @ ''\<newline>''
     @ [CHR 0x09, CHR 0x09, CHR 0x09]
     @ ''mount -t efivarfs efivarfs /sys/firmware/efi/efivars 2>/dev/null || true\<newline>''
     @ ''\<newline>''
     @ [CHR 0x09, CHR 0x09, CHR 0x09]
     @ ''echo ''
     @ [CHR 0x22]
     @ ''Before:''
     @ [CHR 0x22]
     @ ''\<newline>''
     @ [CHR 0x09, CHR 0x09, CHR 0x09]
     @ ''efibootmgr\<newline>''
     @ ''\<newline>''
     @ [CHR 0x09, CHR 0x09, CHR 0x09]
     @ ''# Delete ALL non-PXE boot entries (stale Flatcar, Talos, UEFI OS, etc)\<newline>''
     @ [CHR 0x09, CHR 0x09, CHR 0x09]
     @ ''for entry in $(efibootmgr 2>/dev/null | grep ''
     @ [CHR 0x27]
     @ ''^Boot[0-9A-Fa-f]''
     @ [CHR 0x27]
     @ '' | grep -iv ''
     @ [CHR 0x27]
     @ ''pxe''
     @ [CHR 0x5C]
     @ ''|network''
     @ [CHR 0x5C]
     @ ''|ipv4''
     @ [CHR 0x5C]
     @ ''|ipv6''
     @ [CHR 0x27]
     @ '' | grep -o ''
     @ [CHR 0x27]
     @ ''^Boot[0-9A-Fa-f]*''
     @ [CHR 0x27]
     @ '' | sed ''
     @ [CHR 0x27]
     @ ''s/Boot//''
     @ [CHR 0x27]
     @ ''); do\<newline>''
     @ [CHR 0x09, CHR 0x09, CHR 0x09, CHR 0x09]
     @ ''efibootmgr -b ''
     @ [CHR 0x22]
     @ ''$entry''
     @ [CHR 0x22]
     @ '' -B 2>/dev/null || true\<newline>''
     @ [CHR 0x09, CHR 0x09, CHR 0x09]
     @ ''done\<newline>''
     @ ''\<newline>''
     @ [CHR 0x09, CHR 0x09, CHR 0x09]
     @ ''# Set boot order to PXE only ''
     @ [CHR 0xE2, CHR 0x80, CHR 0x94]
     @ '' firmware will fallback to disk ESP\<newline>''
     @ [CHR 0x09, CHR 0x09, CHR 0x09]
     @ ''PXE_NUMS=$(efibootmgr | grep -i ''
     @ [CHR 0x27]
     @ ''PXE''
     @ [CHR 0x5C]
     @ ''|Network''
     @ [CHR 0x5C]
     @ ''|IPv4''
     @ [CHR 0x27]
     @ '' | grep -oP ''
     @ [CHR 0x27]
     @ ''Boot''
     @ [CHR 0x5C]
     @ ''K[0-9A-Fa-f]+''
     @ [CHR 0x27]
     @ '' | paste -sd,)\<newline>''
     @ [CHR 0x09, CHR 0x09, CHR 0x09]
     @ ''if [ -n ''
     @ [CHR 0x22]
     @ ''$PXE_NUMS''
     @ [CHR 0x22]
     @ '' ]; then\<newline>''
     @ [CHR 0x09, CHR 0x09, CHR 0x09, CHR 0x09]
     @ ''efibootmgr -o ''
     @ [CHR 0x22]
     @ ''${PXE_NUMS}''
     @ [CHR 0x22]
     @ '' 2>&1\<newline>''
     @ [CHR 0x09, CHR 0x09, CHR 0x09]
     @ ''fi\<newline>''
     @ ''\<newline>''
     @ [CHR 0x09, CHR 0x09, CHR 0x09]
     @ ''echo ''
     @ [CHR 0x22]
     @ ''After:''
     @ [CHR 0x22]
     @ ''\<newline>''
     @ [CHR 0x09, CHR 0x09, CHR 0x09]
     @ ''efibootmgr\<newline>''
     @ [CHR 0x09, CHR 0x09]
     @ ''fi\<newline>''
     @ [CHR 0x09]"

definition rebootCmd :: string where
  "rebootCmd = ''reboot''"

definition rescueCheckCmd :: string where
  "rescueCheckCmd = ''([ '' @ [CHR 0x22] @ ''$(hostname)'' @ [CHR 0x22] @ '' = '' @ [CHR 0x22] @ ''rescue'' @ [CHR 0x22]
     @ '' ] || test -f /etc/hetzner-build) && echo RESCUE || echo NOT_RESCUE''"

section \<open>Templates for Flatcar nodes\<close>

text \<open>
  The three file templates at the end of \<^verbatim>\<open>hetznerrobotmachine_ignition.go\<close>: the unit and
  script that make the thin pool for containerd out of the data partition, and the containerd section for it.
\<close>

definition devmapperPoolServiceUnit :: string where
  "devmapperPoolServiceUnit = ''[Unit]\<newline>''
     @ ''Description=Create devmapper thin-pool for containerd\<newline>''
     @ ''DefaultDependencies=no\<newline>''
     @ ''Before=containerd.service\<newline>''
     @ ''After=dev-disk-by''
     @ [CHR 0x5C]
     @ ''x2dpartlabel-r''
     @ [CHR 0x5C]
     @ ''x2ddm''
     @ [CHR 0x5C]
     @ ''x2ddata.device\<newline>''
     @ ''Wants=dev-disk-by''
     @ [CHR 0x5C]
     @ ''x2dpartlabel-r''
     @ [CHR 0x5C]
     @ ''x2ddm''
     @ [CHR 0x5C]
     @ ''x2ddata.device\<newline>''
     @ ''\<newline>''
     @ ''[Service]\<newline>''
     @ ''Type=oneshot\<newline>''
     @ ''RemainAfterExit=yes\<newline>''
     @ ''ExecStart=/opt/bin/setup-devmapper-pool.sh\<newline>''
     @ ''\<newline>''
     @ ''[Install]\<newline>''
     @ ''WantedBy=multi-user.target\<newline>''"

definition devmapperPoolScript :: string where
  "devmapperPoolScript = ''#!/bin/bash\<newline>''
     @ ''set -euo pipefail\<newline>''
     @ ''\<newline>''
     @ ''POOL_NAME=''
     @ [CHR 0x22]
     @ ''containerd-pool''
     @ [CHR 0x22]
     @ ''\<newline>''
     @ ''DM_PART=''
     @ [CHR 0x22]
     @ ''/dev/disk/by-partlabel/r-dm-data''
     @ [CHR 0x22]
     @ ''\<newline>''
     @ ''META_DIR=''
     @ [CHR 0x22]
     @ ''/var/lib/devmapper''
     @ [CHR 0x22]
     @ ''\<newline>''
     @ ''META_FILE=''
     @ [CHR 0x22]
     @ ''${META_DIR}/meta''
     @ [CHR 0x22]
     @ ''\<newline>''
     @ ''\<newline>''
     @ ''log() { echo ''
     @ [CHR 0x22]
     @ ''devmapper-pool: $*''
     @ [CHR 0x22]
     @ ''; }\<newline>''
     @ ''\<newline>''
     @ ''# Wait for partition device to appear.\<newline>''
     @ ''WAIT=0\<newline>''
     @ ''while [ ! -b ''
     @ [CHR 0x22]
     @ ''$DM_PART''
     @ [CHR 0x22]
     @ '' ] && [ ''
     @ [CHR 0x22]
     @ ''$WAIT''
     @ [CHR 0x22]
     @ '' -lt 30 ]; do\<newline>''
     @ ''    sleep 1\<newline>''
     @ ''    WAIT=$((WAIT + 1))\<newline>''
     @ ''done\<newline>''
     @ ''if [ ! -b ''
     @ [CHR 0x22]
     @ ''$DM_PART''
     @ [CHR 0x22]
     @ '' ]; then\<newline>''
     @ ''    log ''
     @ [CHR 0x22]
     @ ''ERROR: $DM_PART not found after ${WAIT}s''
     @ [CHR 0x22]
     @ ''\<newline>''
     @ ''    exit 1\<newline>''
     @ ''fi\<newline>''
     @ ''log ''
     @ [CHR 0x22]
     @ ''partition ready after ${WAIT}s''
     @ [CHR 0x22]
     @ ''\<newline>''
     @ ''\<newline>''
     @ ''# Check if pool already exists (persistent across reboots if metadata on disk).\<newline>''
     @ ''if dmsetup info ''
     @ [CHR 0x22]
     @ ''$POOL_NAME''
     @ [CHR 0x22]
     @ '' >/dev/null 2>&1; then\<newline>''
     @ ''    log ''
     @ [CHR 0x22]
     @ ''pool already exists, nothing to do''
     @ [CHR 0x22]
     @ ''\<newline>''
     @ ''    exit 0\<newline>''
     @ ''fi\<newline>''
     @ ''\<newline>''
     @ ''DATA_DEV=$(readlink -f ''
     @ [CHR 0x22]
     @ ''$DM_PART''
     @ [CHR 0x22]
     @ '')\<newline>''
     @ ''log ''
     @ [CHR 0x22]
     @ ''data device: $DATA_DEV''
     @ [CHR 0x22]
     @ ''\<newline>''
     @ ''\<newline>''
     @ ''# Create metadata sparse file (4GB) on /var.\<newline>''
     @ ''# On Flatcar /var is writable (stateful partition), unlike Talos extensions.\<newline>''
     @ ''mkdir -p ''
     @ [CHR 0x22]
     @ ''$META_DIR''
     @ [CHR 0x22]
     @ ''\<newline>''
     @ ''if [ ! -f ''
     @ [CHR 0x22]
     @ ''$META_FILE''
     @ [CHR 0x22]
     @ '' ]; then\<newline>''
     @ ''    dd if=/dev/zero of=''
     @ [CHR 0x22]
     @ ''$META_FILE''
     @ [CHR 0x22]
     @ '' bs=1 count=0 seek=4294967296 2>/dev/null\<newline>''
     @ ''    log ''
     @ [CHR 0x22]
     @ ''metadata file created''
     @ [CHR 0x22]
     @ ''\<newline>''
     @ ''fi\<newline>''
     @ ''\<newline>''
     @ ''META_LOOP=$(losetup -f --show ''
     @ [CHR 0x22]
     @ ''$META_FILE''
     @ [CHR 0x22]
     @ '')\<newline>''
     @ ''SECTORS=$(blockdev --getsz ''
     @ [CHR 0x22]
     @ ''$DATA_DEV''
     @ [CHR 0x22]
     @ '')\<newline>''
     @ ''log ''
     @ [CHR 0x22]
     @ ''creating pool: data=$DATA_DEV sectors=$SECTORS meta=$META_LOOP''
     @ [CHR 0x22]
     @ ''\<newline>''
     @ ''\<newline>''
     @ ''dmsetup create ''
     @ [CHR 0x22]
     @ ''$POOL_NAME''
     @ [CHR 0x22]
     @ '' ''
     @ [CHR 0x5C]
     @ ''\<newline>''
     @ ''    --table ''
     @ [CHR 0x22]
     @ ''0 ${SECTORS} thin-pool ${META_LOOP} ${DATA_DEV} 512 32768 1 skip_block_zeroing''
     @ [CHR 0x22]
     @ ''\<newline>''
     @ ''log ''
     @ [CHR 0x22]
     @ ''pool created successfully''
     @ [CHR 0x22]
     @ ''\<newline>''"

definition containerdDevmapperConfig :: string where
  "containerdDevmapperConfig = ''# Devmapper snapshotter for Kata containers.\<newline>''
     @ ''# Pool created by devmapper-pool.service (Before=containerd.service).\<newline>''
     @ ''[plugins.''
     @ [CHR 0x22]
     @ ''io.containerd.snapshotter.v1.devmapper''
     @ [CHR 0x22]
     @ '']\<newline>''
     @ ''  pool_name = ''
     @ [CHR 0x22]
     @ ''containerd-pool''
     @ [CHR 0x22]
     @ ''\<newline>''
     @ ''  root_path = ''
     @ [CHR 0x22]
     @ ''/var/lib/containerd/devmapper''
     @ [CHR 0x22]
     @ ''\<newline>''
     @ ''  base_image_size = ''
     @ [CHR 0x22]
     @ ''10GB''
     @ [CHR 0x22]
     @ ''\<newline>''
     @ ''  discard_blocks = true\<newline>''
     @ ''  fs_type = ''
     @ [CHR 0x22]
     @ ''ext4''
     @ [CHR 0x22]
     @ ''\<newline>''
     @ ''  async_remove = true\<newline>''"

text \<open>The script looks for the partition the installer makes, and containerd for the pool the script makes.\<close>

lemma pool_names_agree:
  "containsStr devmapperPoolScript ''/dev/disk/by-partlabel/r-dm-data''"
  "containsStr (createPartCmd disk) ''-c 10:r-dm-data ''"
  "containsStr devmapperPoolScript ''containerd-pool''" "containsStr containerdDevmapperConfig ''containerd-pool''"
  unfolding devmapperPoolScript_def createPartCmd_def containerdDevmapperConfig_def
  by ((((rule containsStr_appendI1, code_simp); fail) | rule containsStr_appendI2)+)+

end
