(* ===== verification/Machine_States.thy ===== *)
theory Machine_States
  imports Host_Claims Secrets Talos_Client Ignition Boot_Scripts
begin

text \<open>
  \<^verbatim>\<open>controllers/hetznerrobotmachine_states.go\<close> and
  \<^verbatim>\<open>controllers/hetznerrobotmachine_flatcar.go\<close>: one definition per state of the
  provisioning state machine, from rescue activation to the provisioned node. The object of a
  run is the machine; a state function ends by a panic, with an error, or with a requeue.
\<close>

section \<open>Constants\<close>

definition requeueAfterShort :: int where "requeueAfterShort = 15 * second"
definition requeueAfterMedium :: int where "requeueAfterMedium = 20 * second"
definition requeueAfterLong :: int where "requeueAfterLong = 60 * second"
definition resetCooldown :: int where "resetCooldown = 2 * minute"
definition talosFactoryDefaultBaseURL :: string where
  "talosFactoryDefaultBaseURL = ''https://factory.talos.dev''"

definition isFlatcar :: "HetznerRobotMachine \<Rightarrow> bool" where
  "isFlatcar hrm \<longleftrightarrow> OSType (hrmSpec hrm) = ''flatcar''"

lemma isFlatcar_modStatus [simp]: "isFlatcar (modStatus f m) = isFlatcar m"
  by (simp add: isFlatcar_def)

lemma isFlatcar_provider [simp]: "isFlatcar (m\<lparr>hrmSpec := (hrmSpec m)\<lparr>ProviderID := p\<rparr>\<rparr>) = isFlatcar m"
  by (simp add: isFlatcar_def)

type_synonym 'w step = "('w, HetznerRobotMachine, Result res) go"

abbreviation requeue :: "int \<Rightarrow> 'w step" where "requeue d \<equiv> ret (Returned (RequeueAfter d))"
abbreviation fail :: "goerr \<Rightarrow> 'w step" where "fail e \<equiv> ret (Failed e)"

section \<open>Activating rescue\<close>

text \<open>After the cooldown: arm the rescue system, reset the hardware, note the time.\<close>

definition armRescueAndReset :: "'w ext \<Rightarrow> HetznerRobotCluster \<Rightarrow> RobotClient \<Rightarrow> int \<Rightarrow> 'w step" where
  "armRescueAndReset X hrc rc serverID = do {
     f \<leftarrow> getSSHKeyFingerprint X hrc;
     (case f of
        Inl e \<Rightarrow> fail (wrapErr ''get SSH key fingerprint: '' e)
      | Inr sshFingerprint \<Rightarrow> do {
          a \<leftarrow> ActivateRescue X rc serverID sshFingerprint;
          (case a of
             Inl e \<Rightarrow> fail (wrapErr (''activate rescue on server '' @ itoa serverID @ '': '') e)
           | Inr _ \<Rightarrow> do {
               r \<leftarrow> ResetServer X rc serverID ResetTypeHardware;
               (case r of
                  Some e \<Rightarrow> fail (wrapErr (''reset server '' @ itoa serverID @ '': '') e)
                | None \<Rightarrow> do {
                    now \<leftarrow> timeNow X;
                    modObj (modStatus (\<lambda>st. st\<lparr>LastResetTime := Some now, provState := StateActivatingRescue\<rparr>));
                    requeue (4 * minute) })
             })
        })
   }"

definition stateActivateRescue :: "'w ext \<Rightarrow> HetznerRobotCluster \<Rightarrow> RobotClient \<Rightarrow> int \<Rightarrow> string \<Rightarrow> 'w step" where
  "stateActivateRescue X hrc rc serverID serverIP = do {
     hrm \<leftarrow> getObj;
     (case LastResetTime (hrmStatus hrm) of
        None \<Rightarrow> armRescueAndReset X hrc rc serverID
      | Some t \<Rightarrow> do {
          now \<leftarrow> timeNow X;
          (let elapsed = timeSub now t in
           if elapsed < resetCooldown then requeue (wrap64 (resetCooldown - elapsed))
           else armRescueAndReset X hrc rc serverID) })
   }"

text \<open>The second half of the check: what the Robot API and the Talos port say.\<close>

definition checkRescueStatus :: "'w ext \<Rightarrow> HetznerRobotCluster \<Rightarrow> RobotClient \<Rightarrow> int \<Rightarrow> string \<Rightarrow> 'w step" where
  "checkRescueStatus X hrc rc serverID serverIP = do {
     r \<leftarrow> GetRescueStatus X rc serverID;
     (case r of
        Inl _ \<Rightarrow> requeue requeueAfterLong
      | Inr rescueStatus \<Rightarrow>
          if \<not> Active rescueStatus then do {
            up \<leftarrow> IsUp X serverIP;
            (if up then do {
               _ \<leftarrow> WipeSystemDisk X serverIP;
               stateActivateRescue X hrc rc serverID serverIP }
             else requeue (2 * minute)) }
          else do {
            up \<leftarrow> IsUp X serverIP;
            (if up then do {
               _ \<leftarrow> WipeSystemDisk X serverIP;
               stateActivateRescue X hrc rc serverID serverIP }
             else requeue requeueAfterLong) })
   }"

definition stateCheckRescueActive :: "'w ext \<Rightarrow> HetznerRobotCluster \<Rightarrow> RobotClient \<Rightarrow> int \<Rightarrow> string \<Rightarrow> 'w step" where
  "stateCheckRescueActive X hrc rc serverID serverIP = do {
     reachable \<leftarrow> IsReachable X serverIP;
     (if reachable then do {
        k \<leftarrow> getSSHPrivateKey X hrc;
        (case k of
           Inl _ \<Rightarrow> checkRescueStatus X hrc rc serverID serverIP
         | Inr privateKey \<Rightarrow> do {
             c \<leftarrow> Connect X (NewClient serverIP privateKey);
             (case c of
                Inl _ \<Rightarrow> checkRescueStatus X hrc rc serverID serverIP
              | Inr client \<Rightarrow> do {
                  r \<leftarrow> RunCmd X client rescueCheckCmd;
                  (if trimSpace (fst r) = ''RESCUE'' then do {
                     modObj (setState StateInRescue);
                     requeue requeueAfterShort }
                   else stateActivateRescue X hrc rc serverID serverIP) })
           }) }
      else checkRescueStatus X hrc rc serverID serverIP)
   }"

section \<open>Installing\<close>

text \<open>
  The guard both installs begin with: nothing is done to a server unless its SSH port answers,
  the key is there, the system behind it is verified to be the rescue system, and the
  connection for the install is up. Then \<open>k\<close> runs with that connection.
\<close>

definition inVerifiedRescue :: "'w ext \<Rightarrow> HetznerRobotCluster \<Rightarrow> RobotClient \<Rightarrow> int \<Rightarrow> string
    \<Rightarrow> (Client \<Rightarrow> 'w step) \<Rightarrow> 'w step" where
  "inVerifiedRescue X hrc rc serverID serverIP k = do {
     reachable \<leftarrow> IsReachable X serverIP;
     (if \<not> reachable then do {
        modObj (setState StateNone);
        requeue requeueAfterShort }
      else do {
        kr \<leftarrow> getSSHPrivateKey X hrc;
        (case kr of
           Inl e \<Rightarrow> fail (wrapErr ''get SSH private key for rescue check: '' e)
         | Inr privateKey \<Rightarrow> do {
             ir \<leftarrow> IsRescueMode X serverIP privateKey;
             (case ir of
                Inl _ \<Rightarrow> requeue requeueAfterLong
              | Inr isRescue \<Rightarrow>
                  if \<not> isRescue then stateActivateRescue X hrc rc serverID serverIP
                  else do {
                    c \<leftarrow> Connect X (NewClient serverIP privateKey);
                    (case c of
                       Inl e \<Rightarrow> fail (wrapErr (''SSH connect to rescue '' @ serverIP @ '': '') e)
                     | Inr sshClient \<Rightarrow> k sshClient) })
           })
      })
   }"

text \<open>
  What both installs do next: detect the hardware, record it, choose the disk, wipe all NVMe
  disks. Then \<open>k\<close> runs with the hardware and the disk.
\<close>

definition onWipedDisks :: "'w ext \<Rightarrow> Client \<Rightarrow> string \<Rightarrow> (HardwareInfo \<Rightarrow> string \<Rightarrow> 'w step) \<Rightarrow> 'w step" where
  "onWipedDisks X sshClient serverIP k = do {
     hr \<leftarrow> DetectHardware X sshClient;
     (case hr of
        Inl e \<Rightarrow> fail (wrapErr (''detect hardware on '' @ serverIP @ '': '') e)
      | Inr hw \<Rightarrow> do {
          modObj (modStatus (\<lambda>st. st\<lparr>PrimaryMAC := hwPrimaryMAC hw, GatewayIP := hwGatewayIP hw\<rparr>));
          hrm \<leftarrow> getObj;
          _ \<leftarrow> recordHostHardwareDetails X (Namespace (hrmMeta hrm)) (HostRef (hrmStatus hrm)) (Some hw);
          (let configuredDisk = (if InstallDisk (hrmSpec hrm) = [] then ''/dev/nvme0n1'' else InstallDisk (hrmSpec hrm)) in
           case ResolveInstallDiskFromInfo hw configuredDisk of
             Inl e \<Rightarrow> fail (wrapErr (''resolve install disk on '' @ serverIP @ '': '') e)
           | Inr installDisk \<Rightarrow>
               (let stableDisk = (case map_of (ByIDPaths hw) installDisk of Some byID \<Rightarrow> byID | None \<Rightarrow> installDisk) in do {
                  modObj (modStatus (ResolvedInstallDisk_update (\<lambda>_. stableDisk)));
                  (if NVMeDisks hw = [] then fail (errorf (''no NVMe disks found on '' @ serverIP))
                   else do {
                     w \<leftarrow> WipeAllDisks X sshClient (NVMeDisks hw);
                     (case w of (out, eo) \<Rightarrow> (case eo of
                        Some e \<Rightarrow> fail (wrapErrOut (''wipe all disks on '' @ serverIP @ '': '') e (''\<newline>Output: '' @ out))
                      | None \<Rightarrow> k hw installDisk)) }) }))
        })
   }"

definition stateInstallTalos :: "'w ext \<Rightarrow> HetznerRobotCluster \<Rightarrow> RobotClient \<Rightarrow> int \<Rightarrow> string \<Rightarrow> 'w step" where
  "stateInstallTalos X hrc rc serverID serverIP =
     inVerifiedRescue X hrc rc serverID serverIP (\<lambda>sshClient.
       onWipedDisks X sshClient serverIP (\<lambda>hw installDisk. do {
         hrm \<leftarrow> getObj;
         (let factoryURL = (if TalosFactoryBaseURL (hrcSpec hrc) = [] then talosFactoryDefaultBaseURL
                else TalosFactoryBaseURL (hrcSpec hrc)) in do {
            i \<leftarrow> InstallTalos X sshClient factoryURL (TalosSchematic (hrmSpec hrm)) (TalosVersion (hrmSpec hrm))
              installDisk (CustomImageURL (hrmSpec hrm));
            (case i of
               Some e \<Rightarrow> fail (wrapErr (''install Talos on '' @ serverIP @ '': '') e)
             | None \<Rightarrow> do {
                 _ \<leftarrow> RunCmd X sshClient talosEfiScript;
                 _ \<leftarrow> DeactivateRescue X rc serverID;
                 _ \<leftarrow> RunCmd X sshClient rebootCmd;
                 modObj (setState StateInstalling);
                 requeue (90 * second) })
          })
       }))"

definition stateWaitInstall :: "'w ext \<Rightarrow> HetznerRobotCluster \<Rightarrow> RobotClient \<Rightarrow> int \<Rightarrow> string \<Rightarrow> 'w step" where
  "stateWaitInstall X hrc rc serverID serverIP = do {
     m \<leftarrow> IsInMaintenanceMode X serverIP;
     (if m then do {
        modObj (setState StateBootingTalos);
        requeue requeueAfterShort }
      else do {
        up \<leftarrow> IsUp X serverIP;
        (if up then stateActivateRescue X hrc rc serverID serverIP
         else requeue requeueAfterMedium) })
   }"

section \<open>Configuring Talos\<close>

definition stateWaitTalosMaintenanceMode :: "'w ext \<Rightarrow> Machine \<Rightarrow> HetznerRobotCluster \<Rightarrow> string \<Rightarrow> 'w step" where
  "stateWaitTalosMaintenanceMode X machine hrc serverIP = do {
     m \<leftarrow> IsInMaintenanceMode X serverIP;
     (if \<not> m then requeue requeueAfterMedium
      else if isControlPlane machine \<and> endpointHost (ControlPlaneEndpoint (hrcSpec hrc)) = [] then do {
        h \<leftarrow> silent (xNewHelper X);
        (case h of
           Some e \<Rightarrow> fail (wrapErr ''init HRC patch helper: '' e)
         | None \<Rightarrow> do {
             p \<leftarrow> patchHRC X (hrc\<lparr>hrcSpec := (hrcSpec hrc)
               \<lparr>ControlPlaneEndpoint := \<lparr>endpointHost = serverIP, endpointPort = 6443\<rparr>\<rparr>\<rparr>);
             (case p of
                Some e \<Rightarrow> fail (wrapErr ''patch control plane endpoint: '' e)
              | None \<Rightarrow> do {
                  modObj (setState StateApplyingConfig);
                  requeue requeueAfterShort }) }) }
      else do {
        modObj (setState StateApplyingConfig);
        requeue requeueAfterShort })
   }"

definition wrapR :: "string \<Rightarrow> 'a res \<Rightarrow> 'a res" where
  "wrapR msg r = (case r of Failed e \<Rightarrow> Failed (wrapErr msg e) | _ \<Rightarrow> r)"

definition providerIDFor :: "int \<Rightarrow> string" where
  "providerIDFor serverID = ''hetzner-robot://'' @ itoa serverID"

text \<open>The injections of \<^verbatim>\<open>stateApplyConfig\<close>, in their order, with the checks between them.\<close>

definition buildMachineConfig :: "'w ext \<Rightarrow> HetznerRobotMachine \<Rightarrow> HetznerRobotCluster \<Rightarrow> HetznerRobotHost
    \<Rightarrow> int \<Rightarrow> string \<Rightarrow> string \<Rightarrow> string res" where
  "buildMachineConfig X hrm hrc hrh serverID serverIP data =
     (let installDisk = (if ResolvedInstallDisk (hrmStatus hrm) \<noteq> [] then ResolvedInstallDisk (hrmStatus hrm)
            else if InstallDisk (hrmSpec hrm) \<noteq> [] then InstallDisk (hrmSpec hrm) else ''/dev/nvme0n1'');
          primaryMAC = PrimaryMAC (hrmStatus hrm) in
      bindR (wrapR ''inject install disk into config: '' (injectInstallDisk X data installDisk)) (\<lambda>d1.
      if primaryMAC = [] then
        Failed (errorf (''primary NIC MAC not detected '' @ emDash @ '' machine must go through rescue install first''))
      else
      bindR (case vlanConfig (hrcSpec hrc) of
          None \<Rightarrow> Returned d1
        | Some v \<Rightarrow>
            if InternalIP (hostSpec hrh) = [] then
              Failed (errorf (''VLANConfig is set on cluster but host '' @ hostName hrh @ '' has no internalIP''))
            else if GatewayIP (hrmStatus hrm) = [] then
              Failed (errorf (''gateway IP not detected '' @ emDash @ '' machine must go through rescue install first''))
            else wrapR ''inject VLAN config: '' (injectVLANConfig X d1 (Some v) (InternalIP (hostSpec hrh))
              primaryMAC serverIP (GatewayIP (hrmStatus hrm)))) (\<lambda>d2.
      bindR (if ServerIPv6Net (hostSpec hrh) = [] then Returned d2
        else wrapR ''inject IPv6 config: ''
          (injectIPv6Config X d2 (ServerIPv6Net (hostSpec hrh)) primaryMAC (InternalIP (hostSpec hrh)))) (\<lambda>d3.
      bindR (wrapR ''inject kubelet nodeIP: '' (injectKubeletNodeIP X d3
          (if vlanConfig (hrcSpec hrc) = None then [] else InternalIP (hostSpec hrh))
          (ServerIPv6Net (hostSpec hrh)))) (\<lambda>d4.
      wrapR ''inject providerID into config: '' (injectProviderID X d4 (providerIDFor serverID)))))))"

definition stateApplyConfig :: "'w ext \<Rightarrow> Machine \<Rightarrow> HetznerRobotCluster \<Rightarrow> HetznerRobotHost \<Rightarrow> int \<Rightarrow> string \<Rightarrow> 'w step" where
  "stateApplyConfig X machine hrc hrh serverID serverIP = do {
     b \<leftarrow> getBootstrapData X machine;
     (case b of
        Inl _ \<Rightarrow> requeue requeueAfterShort
      | Inr bootstrapData \<Rightarrow> do {
          hrm \<leftarrow> getObj;
          (case buildMachineConfig X hrm hrc hrh serverID serverIP bootstrapData of
             Panicked \<Rightarrow> ret Panicked
           | Failed e \<Rightarrow> fail e
           | Returned data \<Rightarrow> do {
               a \<leftarrow> ApplyConfig X serverIP data;
               (case a of
                  Some e \<Rightarrow> fail (wrapErr (''apply Talos config to '' @ serverIP @ '': '') e)
                | None \<Rightarrow> do {
                    modObj (\<lambda>m. m\<lparr>hrmSpec := (hrmSpec m)\<lparr>ProviderID := Some (providerIDFor serverID)\<rparr>\<rparr>);
                    modObj (setState StateWaitingForBoot);
                    requeue requeueAfterMedium }) })
        })
   }"

definition markProvisioned :: "HetznerRobotMachine \<Rightarrow> HetznerRobotMachine" where
  "markProvisioned = modStatus (\<lambda>st. st\<lparr>provState := StateProvisioned, Ready := True,
     Initialization := Some True, readyMark := Some MarkTrue\<rparr>)"

definition stateWaitForBoot :: "'w ext \<Rightarrow> Machine \<Rightarrow> string \<Rightarrow> 'w step" where
  "stateWaitForBoot X machine serverIP = do {
     up \<leftarrow> IsUp X serverIP;
     (if \<not> up then requeue requeueAfterMedium
      else do {
        modObj markProvisioned;
        ret (Returned Done) })
   }"

section \<open>Flatcar\<close>

definition stateInstallFlatcar :: "'w ext \<Rightarrow> Machine \<Rightarrow> HetznerRobotCluster \<Rightarrow> HetznerRobotHost \<Rightarrow> RobotClient
    \<Rightarrow> int \<Rightarrow> string \<Rightarrow> 'w step" where
  "stateInstallFlatcar X machine hrc hrh rc serverID serverIP = do {
     b \<leftarrow> getBootstrapData X machine;
     (case b of
        Inl _ \<Rightarrow> requeue requeueAfterShort
      | Inr bootstrapData \<Rightarrow> do {
          p \<leftarrow> getSSHPublicKey X hrc;
          (case p of
             Inl e \<Rightarrow> fail (wrapErr ''get SSH public key for Flatcar: '' e)
           | Inr sshPubKey \<Rightarrow>
               inVerifiedRescue X hrc rc serverID serverIP (\<lambda>sshClient.
                 onWipedDisks X sshClient serverIP (\<lambda>hw installDisk. do {
                   hrm \<leftarrow> getObj;
                   (let providerID = providerIDFor serverID;
                        internalIP = (if vlanConfig (hrcSpec hrc) = None then [] else InternalIP (hostSpec hrh));
                        channel = (if FlatcarChannel (hrmSpec hrm) = [] then ''stable'' else FlatcarChannel (hrmSpec hrm)) in
                    case wrapR ''inject Flatcar config: '' (injectFlatcarConfig X bootstrapData providerID internalIP
                        (ServerIPv6Net (hostSpec hrh)) (hwPrimaryMAC hw) (vlanConfig (hrcSpec hrc)) sshPubKey serverIP
                        (hwGatewayIP hw)) of
                      Panicked \<Rightarrow> ret Panicked
                    | Failed e \<Rightarrow> fail e
                    | Returned ignitionJSON \<Rightarrow> do {
                        i \<leftarrow> InstallFlatcar X sshClient channel installDisk (CustomImageURL (hrmSpec hrm)) ignitionJSON;
                        (case i of
                           Some e \<Rightarrow> fail (wrapErr (''install Flatcar on '' @ serverIP @ '': '') e)
                         | None \<Rightarrow> do {
                             _ \<leftarrow> RunCmd X sshClient flatcarEfiScript;
                             _ \<leftarrow> DeactivateRescue X rc serverID;
                             modObj (\<lambda>m. m\<lparr>hrmSpec := (hrmSpec m)\<lparr>ProviderID := Some providerID\<rparr>\<rparr>);
                             _ \<leftarrow> RunCmd X sshClient rebootCmd;
                             modObj (setState StateInstalling);
                             requeue (5 * minute) }) })
                 })))
        })
   }"

definition stateWaitFlatcarInstall :: "'w ext \<Rightarrow> HetznerRobotCluster \<Rightarrow> string \<Rightarrow> 'w step" where
  "stateWaitFlatcarInstall X hrc serverIP = do {
     k \<leftarrow> getSSHPrivateKey X hrc;
     (case k of
        Inl e \<Rightarrow> fail (wrapErr ''get SSH private key: '' e)
      | Inr privateKey \<Rightarrow> do {
          up \<leftarrow> IsFlatcarUp X serverIP privateKey;
          (if up then do {
             modObj (setState StateBootingFlatcar);
             requeue requeueAfterShort }
           else do {
             _ \<leftarrow> IsReachable X serverIP;
             requeue requeueAfterMedium }) })
   }"

definition stateWaitFlatcarBoot :: "'w ext \<Rightarrow> Machine \<Rightarrow> HetznerRobotCluster \<Rightarrow> string \<Rightarrow> 'w step" where
  "stateWaitFlatcarBoot X machine hrc serverIP = do {
     k \<leftarrow> getSSHPrivateKey X hrc;
     (case k of
        Inl e \<Rightarrow> fail (wrapErr ''get SSH private key: '' e)
      | Inr privateKey \<Rightarrow> do {
          c \<leftarrow> CheckFlatcarBootstrapComplete X serverIP privateKey;
          (case c of
             Inl _ \<Rightarrow> requeue requeueAfterMedium
           | Inr complete \<Rightarrow>
               if \<not> complete then requeue requeueAfterMedium
               else do {
                 modObj markProvisioned;
                 ret (Returned Done) }) })
   }"

section \<open>What reaches a server\<close>

text \<open>
  \<open>aimed sid ip e\<close>: if the event reaches a physical server, it is the server with number
  \<open>sid\<close> in the Robot API and address \<open>ip\<close>. \<open>destructive\<close> are the events that change a
  server: a request to the Robot API other than a read, a command in the rescue system other
  than the probes, a reset through the Talos API. A host a state patches keeps its name, its
  state and its references (\<open>keepsClaim\<close>).
\<close>

definition keepsClaim :: "HetznerRobotHost \<Rightarrow> HetznerRobotHost \<Rightarrow> bool" where
  "keepsClaim b a \<longleftrightarrow> hostMeta a = hostMeta b \<and> hostState (hostStatus a) = hostState (hostStatus b)
     \<and> ConsumerRef (hostStatus a) = ConsumerRef (hostStatus b) \<and> MachineRef (hostStatus a) = MachineRef (hostStatus b)"

lemma keepsClaim_refl [simp]: "keepsClaim h h"
  by (simp add: keepsClaim_def)

fun aimed :: "int \<Rightarrow> string \<Rightarrow> event \<Rightarrow> bool" where
  "aimed sid ip (EvHttp m url form r) = (url = robotBaseURL @ ''/boot/'' @ itoa sid @ ''/rescue''
     \<or> url = robotBaseURL @ ''/reset/'' @ itoa sid)"
| "aimed sid ip (EvDial addr r) = (\<exists>port. addr = joinHostPort ip port)"
| "aimed sid ip (EvExec user ip' cmd out e) = (ip' = ip)"
| "aimed sid ip (EvTalosApply ip' d r) = (ip' = ip)"
| "aimed sid ip (EvTalosReset ip' r) = (ip' = ip)"
| "aimed sid ip (EvPatchHost b a r) = keepsClaim b a"
| "aimed sid ip _ = True"

definition probeCmds :: "string list" where
  "probeCmds = [wrapBash rescueModeCmd, wrapBash rescueCheckCmd, wrapBash detectHardwareCmd, flatcarSentinelCmd]"

fun destructive :: "event \<Rightarrow> bool" where
  "destructive (EvHttp m url form r) = (m \<noteq> GET)"
| "destructive (EvExec user ip cmd out e) = (cmd \<notin> set probeCmds)"
| "destructive (EvTalosReset ip r) = True"
| "destructive _ = False"

text \<open>The events of a step that leaves servers as they are.\<close>

definition harmless :: "int \<Rightarrow> string \<Rightarrow> event \<Rightarrow> bool" where
  "harmless sid ip e \<longleftrightarrow> aimed sid ip e \<and> \<not> destructive e"

lemma read_simps [simp]: "isRead e \<Longrightarrow> aimed sid ip e" "isRead e \<Longrightarrow> \<not> destructive e"
  by (cases e; simp)+

lemma harmless_simps [simp]:
  "harmless sid ip (EvDial addr r) = aimed sid ip (EvDial addr r)"
  "harmless sid ip (EvTalosApply ip' d r') = (ip' = ip)"
  "harmless sid ip (EvPatchHost h h' p) = keepsClaim h h'" "harmless sid ip (EvPatchCluster c p)"
  "isRead e \<Longrightarrow> harmless sid ip e"
  by (auto simp: harmless_def)

lemma harmless_aimed: "emits (harmless sid ip) m \<Longrightarrow> emits (aimed sid ip) m"
  by (erule emits_mono) (simp add: harmless_def)

subsection \<open>The calls\<close>

lemma results_Connect:
  "Inr c' \<in> results (Connect X (NewClient ip key)) \<Longrightarrow> clientIP c' = ip \<and> clientConnected c'"
  by (auto simp: results_def Connect_def NewClient_def Let_def calls_def split: option.splits)

lemma emits_Connect: "emits (harmless sid ip) (Connect X (NewClient ip key))"
  unfolding Connect_def NewClient_def Let_def
  by (intro emits_intro) (auto simp: calls_def intro!: emits_intro)

lemma emits_bind_Connect:
  assumes "\<And>e. emits P (f (Inl e))" and "\<And>c. clientIP c = ip \<Longrightarrow> emits P (f (Inr c))"
    and "\<And>e. harmless sid ip e \<Longrightarrow> P e"
  shows "emits P (State_Monad.bind (Connect X (NewClient ip key)) f)"
proof (rule emits_bind_results)
  show "emits P (Connect X (NewClient ip key))" by (rule emits_mono [OF emits_Connect assms(3)])
  show "x \<in> results (Connect X (NewClient ip key)) \<Longrightarrow> emits P (f x)" for x
    using assms(1,2) results_Connect [of _ X ip key] by (cases x) auto
qed

lemma emits_probes [emits_intro]:
  "emits (harmless sid ip) (IsReachable X ip)" "emits (harmless sid ip) (IsUp X ip)"
  "emits (harmless sid ip) (IsFlatcarUp X ip key)" "emits (harmless sid ip) (IsInMaintenanceMode X ip)"
  unfolding IsReachable_def isReachableAddr_def IsUp_def IsFlatcarUp_def IsInMaintenanceMode_def Let_def tcpReachable_def
  by (intro emits_intro; auto simp: calls_def intro!: emits_intro)+

lemma emits_sentinel [emits_intro]: "emits (harmless sid ip) (CheckFlatcarBootstrapComplete X ip key)"
  unfolding CheckFlatcarBootstrapComplete_def Let_def
  by (intro emits_intro; auto simp: calls_def harmless_def probeCmds_def intro!: emits_intro)

lemma emits_probe_cmd [emits_intro]:
  "clientIP c = ip \<Longrightarrow> emits (harmless sid ip) (RunCmd X c rescueModeCmd)"
  "clientIP c = ip \<Longrightarrow> emits (harmless sid ip) (RunCmd X c rescueCheckCmd)"
  "clientIP c = ip \<Longrightarrow> emits (harmless sid ip) (RunCmd X c detectHardwareCmd)"
  by (intro emits_RunCmd; simp add: harmless_def probeCmds_def)+

lemma emits_IsRescueMode [emits_intro]: "emits (harmless sid ip) (IsRescueMode X ip key)"
  unfolding IsRescueMode_def by (rule emits_bind_Connect) (auto intro!: emits_intro)

lemma emits_aimed_cmd [emits_intro]: "clientIP c = ip \<Longrightarrow> emits (aimed sid ip) (RunCmd X c cmd)"
  by (rule emits_RunCmd) simp

lemma emits_robot [emits_intro]:
  assumes "baseURL rc = robotBaseURL"
  shows "emits (harmless sid ip) (GetRescueStatus X rc sid)" "emits (aimed sid ip) (ActivateRescue X rc sid fp)"
    "emits (aimed sid ip) (ResetServer X rc sid rt)" "emits (aimed sid ip) (DeactivateRescue X rc sid)"
  unfolding GetRescueStatus_def ActivateRescue_def ResetServer_def DeactivateRescue_def
  by (intro emits_intro emits_robotGet emits_robotPost emits_http; simp add: assms harmless_def)+

lemma emits_talos [emits_intro]:
  "emits (aimed sid ip) (WipeSystemDisk X ip)" "emits (harmless sid ip) (ApplyConfig X ip d)"
  unfolding WipeSystemDisk_def ApplyConfig_def
  by (intro emits_intro; auto simp: calls_def intro!: emits_intro)+

lemma emits_read_harmless: "emits isRead m \<Longrightarrow> emits (harmless sid ip) m"
  by (erule emits_mono) simp

lemmas emits_harmless_reads [emits_intro] = emits_reads [THEN emits_read_harmless]

lemma emits_patchHostWith [emits_intro]:
  "(\<And>r. P (EvPatchHost b a r)) \<Longrightarrow> emits P (patchHostWith X m1 m2 b a)"
  unfolding patchHostWith_def patchHost_def by (intro emits_intro) auto

lemma emits_record [emits_intro]: "emits (harmless sid ip) (recordHostHardwareDetails X ns hn hw)"
  unfolding recordHostHardwareDetails_def by (intro emits_intro) (simp add: keepsClaim_def)

lemmas emits_aimed [emits_intro] = emits_probes [THEN harmless_aimed] emits_sentinel [THEN harmless_aimed]
  emits_IsRescueMode [THEN harmless_aimed] emits_record [THEN harmless_aimed]
  emits_harmless_reads [THEN harmless_aimed] emits_robot(1) [THEN harmless_aimed]

lemma emits_DetectHardware [emits_intro]: "clientIP c = ip \<Longrightarrow> emits (aimed sid ip) (DetectHardware X c)"
  unfolding DetectHardware_def by (intro emits_intro)

lemma emits_installs [emits_intro]:
  assumes "clientIP c = ip"
  shows "emits (aimed sid ip) (WipeAllDisks X c disks)" "emits (aimed sid ip) (InstallTalos X c u sch v d im)"
    "emits (aimed sid ip) (InstallFlatcar X c ch d im ign)"
  unfolding WipeAllDisks_def InstallTalos_def InstallFlatcar_def runOrFail_def Let_def
  by (intro emits_intro assms)+

subsection \<open>The states\<close>

lemma emits_activate [emits_intro]:
  "baseURL rc = robotBaseURL \<Longrightarrow> emits (aimed sid ip) (stateActivateRescue X hrc rc sid ip')"
  unfolding stateActivateRescue_def armRescueAndReset_def Let_def by (intro emits_intro)

lemma emits_checkStatus [emits_intro]:
  "baseURL rc = robotBaseURL \<Longrightarrow> emits (aimed sid ip) (checkRescueStatus X hrc rc sid ip)"
  unfolding checkRescueStatus_def by (intro emits_intro)

lemma emits_checkRescue:
  assumes "baseURL rc = robotBaseURL"
  shows "emits (aimed sid ip) (stateCheckRescueActive X hrc rc sid ip)"
  unfolding stateCheckRescueActive_def
  by (intro emits_if emits_case_sum emits_bind [where m = "IsReachable X ip"] emits_bind [where m = "getSSHPrivateKey X hrc"]
      emits_bind_Connect [where sid = sid]) (auto intro!: emits_intro assms simp: harmless_def)

lemma emits_inRescue:
  assumes "baseURL rc = robotBaseURL" and "\<And>c. clientIP c = ip \<Longrightarrow> emits (aimed sid ip) (k c)"
  shows "emits (aimed sid ip) (inVerifiedRescue X hrc rc sid ip k)"
  unfolding inVerifiedRescue_def
  by (intro emits_if emits_case_sum emits_bind [where m = "IsReachable X ip"] emits_bind [where m = "getSSHPrivateKey X hrc"]
      emits_bind [where m = "IsRescueMode X ip _"]
      emits_bind_Connect [where sid = sid])
    ((rule emits_intro assms emits_bind, (assumption | simp)?) | simp add: harmless_def)+

lemma emits_onWiped:
  assumes "clientIP c = ip" and "\<And>hw d. emits (aimed sid ip) (k hw d)"
  shows "emits (aimed sid ip) (onWipedDisks X c ip k)"
  unfolding onWipedDisks_def Let_def by (intro emits_intro assms)

lemma emits_installTalos:
  "baseURL rc = robotBaseURL \<Longrightarrow> emits (aimed sid ip) (stateInstallTalos X hrc rc sid ip)"
  unfolding stateInstallTalos_def
  by (intro emits_inRescue emits_onWiped emits_intro emits_robot)

lemma emits_case_res [emits_intro]:
  "(r = Panicked \<Longrightarrow> emits P f) \<Longrightarrow> (\<And>e. r = Failed e \<Longrightarrow> emits P (g e)) \<Longrightarrow> (\<And>x. r = Returned x \<Longrightarrow> emits P (h x))
   \<Longrightarrow> emits P (case r of Panicked \<Rightarrow> f | Failed e \<Rightarrow> g e | Returned x \<Rightarrow> h x)"
  by (cases r) auto

lemma emits_installFlatcar:
  "baseURL rc = robotBaseURL \<Longrightarrow> emits (aimed sid ip) (stateInstallFlatcar X m hrc h rc sid ip)"
  unfolding stateInstallFlatcar_def Let_def
  by (intro emits_inRescue emits_onWiped emits_intro emits_robot)

lemma emits_waitInstall:
  "baseURL rc = robotBaseURL \<Longrightarrow> emits (aimed sid ip) (stateWaitInstall X hrc rc sid ip)"
  unfolding stateWaitInstall_def by (intro emits_intro)

text \<open>After the install no state changes a server any more.\<close>

lemma emits_waitMaintenance: "emits (harmless sid ip) (stateWaitTalosMaintenanceMode X m hrc ip)"
  unfolding stateWaitTalosMaintenanceMode_def patchHRC_def
  by (intro emits_intro) auto

lemma emits_applyConfig: "emits (harmless sid ip) (stateApplyConfig X m hrc h sid' ip)"
  unfolding stateApplyConfig_def by (intro emits_intro)

lemma emits_late_states:
  "emits (harmless sid ip) (stateWaitForBoot X m ip)"
  "emits (harmless sid ip) (stateWaitFlatcarInstall X hrc ip)"
  "emits (harmless sid ip) (stateWaitFlatcarBoot X m hrc ip)"
  unfolding stateWaitForBoot_def stateWaitFlatcarInstall_def stateWaitFlatcarBoot_def
  by (intro emits_intro)+

section \<open>The state machine\<close>

text \<open>The calls the states make leave the machine's object alone.\<close>

lemma keeps_ssh [keeps_intro]:
  "keeps (Connect X c)" "keeps (RunCmd X c cmd)" "keeps (DetectHardware X c)" "keeps (WipeAllDisks X c ds)"
  "keeps (InstallTalos X c u sch v d im)" "keeps (InstallFlatcar X c ch d im ign)" "keeps (IsReachable X ip)"
  "keeps (IsFlatcarUp X ip k)" "keeps (CheckFlatcarBootstrapComplete X ip k)" "keeps (IsRescueMode X ip k)"
proof -
  show conn: "keeps (Connect X c)" for c unfolding Connect_def by (intro keeps_intro)
  show run: "keeps (RunCmd X c cmd)" for c cmd unfolding RunCmd_def by (intro keeps_intro)
  show "keeps (DetectHardware X c)" unfolding DetectHardware_def by (intro keeps_intro run)
  show "keeps (WipeAllDisks X c ds)" unfolding WipeAllDisks_def by (intro keeps_intro run)
  show "keeps (InstallTalos X c u sch v d im)" unfolding InstallTalos_def by (intro keeps_intro run)
  show "keeps (InstallFlatcar X c ch d im ign)"
    unfolding InstallFlatcar_def runOrFail_def Let_def by (intro keeps_intro run)
  show "keeps (IsReachable X ip)" unfolding IsReachable_def isReachableAddr_def by (intro keeps_intro)
  show "keeps (IsFlatcarUp X ip k)" unfolding IsFlatcarUp_def by (intro keeps_intro)
  show "keeps (CheckFlatcarBootstrapComplete X ip k)"
    unfolding CheckFlatcarBootstrapComplete_def by (intro keeps_intro)
  show "keeps (IsRescueMode X ip k)" unfolding IsRescueMode_def by (intro keeps_intro conn run)
qed

lemma keeps_clients [keeps_intro]:
  "keeps (ActivateRescue X rc sid fp)" "keeps (ResetServer X rc sid rt)" "keeps (DeactivateRescue X rc sid)"
  "keeps (GetRescueStatus X rc sid)" "keeps (IsUp X ip)" "keeps (IsInMaintenanceMode X ip)"
  "keeps (WipeSystemDisk X ip)" "keeps (ApplyConfig X ip d)"
  unfolding ActivateRescue_def ResetServer_def DeactivateRescue_def GetRescueStatus_def robotGet_def robotPost_def
    IsUp_def tcpReachable_def IsInMaintenanceMode_def WipeSystemDisk_def ApplyConfig_def
  by (intro keeps_intro)+

lemma keeps_secrets [keeps_intro]:
  "keeps (getSSHKeyFingerprint X hrc)" "keeps (getSSHPrivateKey X hrc)" "keeps (getSSHPublicKey X hrc)"
  "keeps (getBootstrapData X m)" "keeps (buildRobotClient X hrc)"
  unfolding getSSHPublicKey_def getSSHKeyFingerprint_def getSSHPrivateKey_def getBootstrapData_def
    buildRobotClient_def NewFromCluster_def
  by (intro keeps_intro)+

lemma keeps_record [keeps_intro]: "keeps (recordHostHardwareDetails X ns hn hw)"
  unfolding recordHostHardwareDetails_def patchHostWith_def by (intro keeps_intro)

text \<open>
  One step of the state machine, the flag telling Flatcar from Talos: the two part after the
  install. A state may always be kept.
\<close>

inductive advances :: "bool \<Rightarrow> ProvisioningState \<Rightarrow> ProvisioningState \<Rightarrow> bool" where
  stay: "advances fc st st"
| arm: "advances fc StateNone StateActivatingRescue"
| rescued: "advances fc StateActivatingRescue StateInRescue"
| lost: "advances fc StateInRescue StateNone"
| rearm: "advances fc StateInRescue StateActivatingRescue"
| install: "advances fc StateInRescue StateInstalling"
| old_config: "advances False StateInstalling StateActivatingRescue"
| booted: "advances False StateInstalling StateBootingTalos"
| maintained: "advances fc StateBootingTalos StateApplyingConfig"
| configured: "advances fc StateApplyingConfig StateWaitingForBoot"
| running: "advances fc StateWaitingForBoot StateProvisioned"
| flatcar_up: "advances True StateInstalling StateBootingFlatcar"
| flatcar_joined: "advances fc StateBootingFlatcar StateProvisioned"

code_pred advances .

inductive_cases advancesE: "advances fc st st'"

text \<open>The only way back leads to the start, and only from a state up to the install.\<close>

lemma advances_back:
  assumes "advances fc st st'" and "st' < st"
  shows "st \<le> StateInstalling" and "st' \<le> StateActivatingRescue"
  using assms by (auto elim!: advancesE simp: less_eq_ProvisioningState_def less_ProvisioningState_def)

text \<open>
  What a step may do to the object of the machine: its metadata, OS type and host stay, the state
  becomes \<open>st\<close> or stays, and readiness changes only together with the provisioned state.
\<close>

definition stepTo :: "ProvisioningState set \<Rightarrow> HetznerRobotMachine \<Rightarrow> HetznerRobotMachine \<Rightarrow> bool" where
  "stepTo sts m m' \<longleftrightarrow> hrmMeta m' = hrmMeta m \<and> OSType (hrmSpec m') = OSType (hrmSpec m)
     \<and> HostRef (hrmStatus m') = HostRef (hrmStatus m)
     \<and> FailureReason (hrmStatus m') = FailureReason (hrmStatus m)
     \<and> FailureMessage (hrmStatus m') = FailureMessage (hrmStatus m)
     \<and> (provState (hrmStatus m') = provState (hrmStatus m) \<or> provState (hrmStatus m') \<in> sts)
     \<and> (if provState (hrmStatus m') = StateProvisioned \<and> provState (hrmStatus m) \<noteq> StateProvisioned
        then Ready (hrmStatus m') \<and> readyMark (hrmStatus m') = Some MarkTrue
        else Ready (hrmStatus m') = Ready (hrmStatus m) \<and> readyMark (hrmStatus m') = readyMark (hrmStatus m))"

lemma stepTo_refl [simp]: "stepTo sts m m"
  by (simp add: stepTo_def)

lemma stepTo_mono: "stepTo sts m m' \<Longrightarrow> sts \<subseteq> sts' \<Longrightarrow> stepTo sts' m m'"
  by (auto simp: stepTo_def)

lemma stepTo_set:
  assumes "stepTo {} m ob" and "hrmMeta ob' = hrmMeta ob" and "OSType (hrmSpec ob') = OSType (hrmSpec ob)"
    and "HostRef (hrmStatus ob') = HostRef (hrmStatus ob)" and "Ready (hrmStatus ob') = Ready (hrmStatus ob)"
    and "FailureReason (hrmStatus ob') = FailureReason (hrmStatus ob)"
    and "FailureMessage (hrmStatus ob') = FailureMessage (hrmStatus ob)"
    and "readyMark (hrmStatus ob') = readyMark (hrmStatus ob)"
    and "provState (hrmStatus ob') = provState (hrmStatus ob)
      \<or> provState (hrmStatus ob') \<in> sts \<and> provState (hrmStatus ob') \<noteq> StateProvisioned"
  shows "stepTo sts m ob'"
  using assms unfolding stepTo_def by auto

lemmas wp_exec = wp_modObj [THEN iffD2] wp_bind_getObj [THEN iffD2] wp_bind_modObj [THEN iffD2] wp_ret [THEN iffD2] wp_intro
  wp_bind_keeps keeps_intro

lemma wp_arm:
  "StateActivatingRescue \<in> sts \<Longrightarrow> stepTo {} m ob \<Longrightarrow> wp (armRescueAndReset X hrc rc sid) ob (\<lambda>n r. stepTo sts m)"
  unfolding armRescueAndReset_def by (intro wp_exec) (auto intro: stepTo_set)

lemma wp_activate:
  "StateActivatingRescue \<in> sts \<Longrightarrow> stepTo {} m ob \<Longrightarrow> wp (stateActivateRescue X hrc rc sid ip) ob (\<lambda>n r. stepTo sts m)"
  unfolding stateActivateRescue_def Let_def by (intro wp_exec wp_arm) (auto intro: stepTo_set)

lemma wp_checkStatus:
  "StateActivatingRescue \<in> sts \<Longrightarrow> stepTo {} m ob \<Longrightarrow> wp (checkRescueStatus X hrc rc sid ip) ob (\<lambda>n r. stepTo sts m)"
  unfolding checkRescueStatus_def by (intro wp_exec wp_activate) (auto intro: stepTo_set)

lemma wp_checkRescue:
  "wp (stateCheckRescueActive X hrc rc sid ip) m (\<lambda>n r. stepTo {StateActivatingRescue, StateInRescue} m)"
  unfolding stateCheckRescueActive_def by (intro wp_exec wp_activate wp_checkStatus) (auto simp: stepTo_def)

lemma wp_inRescue:
  assumes "\<And>c. wp (k c) m (\<lambda>n r. stepTo sts m)" and "StateNone \<in> sts" and "StateActivatingRescue \<in> sts"
  shows "wp (inVerifiedRescue X hrc rc sid ip k) m (\<lambda>n r. stepTo sts m)"
  unfolding inVerifiedRescue_def by (intro wp_exec wp_activate assms(1)) (use assms in \<open>auto simp: stepTo_def\<close>)

lemma wp_onWiped:
  assumes "\<And>hw d ob. stepTo {} m ob \<Longrightarrow> wp (k hw d) ob (\<lambda>n r. stepTo sts m)"
  shows "wp (onWipedDisks X c ip k) m (\<lambda>n r. stepTo sts m)"
  unfolding onWipedDisks_def Let_def by (intro wp_exec assms) (auto simp: stepTo_def)

lemma wp_case_res [wp_intro]:
  "(r = Panicked \<Longrightarrow> wp f ob Q) \<Longrightarrow> (\<And>e. r = Failed e \<Longrightarrow> wp (g e) ob Q) \<Longrightarrow> (\<And>x. r = Returned x \<Longrightarrow> wp (h x) ob Q)
   \<Longrightarrow> wp (case r of Panicked \<Rightarrow> f | Failed e \<Rightarrow> g e | Returned x \<Rightarrow> h x) ob Q"
  by (cases r) auto

lemma wp_installTalos:
  "wp (stateInstallTalos X hrc rc sid ip) m
    (\<lambda>n r. stepTo {StateNone, StateActivatingRescue, StateInstalling} m)"
  unfolding stateInstallTalos_def Let_def
  by (intro wp_inRescue wp_onWiped wp_exec) (auto simp: stepTo_def)

lemma wp_installFlatcar:
  "wp (stateInstallFlatcar X mach hrc h rc sid ip) m
    (\<lambda>n r. stepTo {StateNone, StateActivatingRescue, StateInstalling} m)"
  unfolding stateInstallFlatcar_def Let_def
  by (intro wp_exec wp_case_res wp_inRescue wp_onWiped) (auto simp: stepTo_def)

lemma wp_waitInstall:
  "wp (stateWaitInstall X hrc rc sid ip) m (\<lambda>n r. stepTo {StateBootingTalos, StateActivatingRescue} m)"
  unfolding stateWaitInstall_def by (intro wp_exec wp_activate) (auto simp: stepTo_def)

lemma wp_late_states:
  "wp (stateWaitTalosMaintenanceMode X mach hrc ip) m (\<lambda>n r. stepTo {StateApplyingConfig} m)"
  "wp (stateApplyConfig X mach hrc h sid ip) m (\<lambda>n r. stepTo {StateWaitingForBoot} m)"
  "wp (stateWaitFlatcarInstall X hrc ip) m (\<lambda>n r. stepTo {StateBootingFlatcar} m)"
  unfolding stateWaitTalosMaintenanceMode_def stateApplyConfig_def stateWaitFlatcarInstall_def
  by (intro wp_exec wp_case_res; simp add: stepTo_def)+

lemma wp_last_states:
  assumes "provState (hrmStatus m) \<noteq> StateProvisioned"
  shows "wp (stateWaitForBoot X mach ip) m (\<lambda>n r. stepTo {StateProvisioned} m)"
    and "wp (stateWaitFlatcarBoot X mach hrc ip) m (\<lambda>n r. stepTo {StateProvisioned} m)"
  unfolding stateWaitForBoot_def stateWaitFlatcarBoot_def
  by (intro wp_exec; simp add: stepTo_def markProvisioned_def assms)+

end
