(* ===== verification/Machine_Controller.thy ===== *)
theory Machine_Controller
  imports Machine_States
begin

text \<open>
  \<^verbatim>\<open>controllers/hetznerrobotmachine_controller.go\<close>: the reconcile loop of a
  HetznerRobotMachine around the state functions, with the finalizer, the provision timeout, the
  backoff, the classification of errors, the lifecycle gate and deletion.
\<close>

section \<open>Errors and backoff\<close>

definition provisionTimeout :: int where "provisionTimeout = 30 * minute"

definition isPermanentError :: "goerr option \<Rightarrow> bool" where
  "isPermanentError eo = (case eo of None \<Rightarrow> False | Some e \<Rightarrow> (let msg = toLower (errText e) in
     if containsStr msg ''unmarshal'' \<or> containsStr msg ''invalid'' then True
     else if containsStr msg ''secret'' \<and> containsStr msg ''not found'' then True
     else if containsStr msg ''must specify either'' then True
     else False))"

text \<open>The power of two is computed in floating point, exactly for the exponents 0 to 10.\<close>

definition computeBackoff :: "int \<Rightarrow> int" where
  "computeBackoff retryCount =
     (let e0 = wrap64 (retryCount - 1); e1 = (if e0 < 0 then 0 else e0); e2 = (if 10 < e1 then 10 else e1);
          backoff = 30 * second * 2 ^ nat e2
      in if 5 * minute < backoff then 5 * minute else backoff)"

section \<open>The reconcile of a live machine\<close>

definition addressesOf :: "HetznerRobotCluster \<Rightarrow> HetznerRobotHost \<Rightarrow> (AddressType \<times> string) list" where
  "addressesOf hrc hrh =
     [(MachineExternalIP, ServerIP (hostSpec hrh))]
     @ (if InternalIP (hostSpec hrh) \<noteq> [] \<and> vlanConfig (hrcSpec hrc) \<noteq> None
        then [(MachineInternalIP, InternalIP (hostSpec hrh))] else [])
     @ (if ServerIPv6Net (hostSpec hrh) \<noteq> []
        then [(MachineExternalIP, trimSuffix (hd (splitStr (ServerIPv6Net (hostSpec hrh)) ''/'')) ''::'' @ ''::1'')] else [])"

text \<open>The branch of a machine that is already provisioned.\<close>

definition reconcileProvisioned :: "'w ext \<Rightarrow> 'w step" where
  "reconcileProvisioned X = do {
     hrm \<leftarrow> getObj;
     (if HostRef (hrmStatus hrm) = [] then do { _ \<leftarrow> backfillProvisionedHostClaim X; ret () } else ret ());
     modObj (modStatus (\<lambda>st. st\<lparr>Ready := True, Initialization := Some True, readyMark := Some MarkTrue\<rparr>));
     hrm \<leftarrow> getObj;
     (if HostRef (hrmStatus hrm) \<noteq> [] then do { _ \<leftarrow> ensureProvisionedHostStatus X; ret () } else ret ());
     (if HostRef (hrmStatus hrm) = [] then requeue requeueAfterLong
      else ret (Returned Done))
   }"

text \<open>The state machine: the function of the state the machine is in.\<close>

definition runState :: "'w ext \<Rightarrow> HetznerRobotCluster \<Rightarrow> Machine \<Rightarrow> HetznerRobotHost \<Rightarrow> RobotClient \<Rightarrow> 'w step" where
  "runState X hrc machine hrh rc = do {
     hrm \<leftarrow> getObj;
     (let serverID = ServerID (hostSpec hrh); serverIP = ServerIP (hostSpec hrh) in
      case provState (hrmStatus hrm) of
        StateNone \<Rightarrow> stateActivateRescue X hrc rc serverID serverIP
      | StateActivatingRescue \<Rightarrow> stateCheckRescueActive X hrc rc serverID serverIP
      | StateInRescue \<Rightarrow>
          if isFlatcar hrm then stateInstallFlatcar X machine hrc hrh rc serverID serverIP
          else stateInstallTalos X hrc rc serverID serverIP
      | StateInstalling \<Rightarrow>
          if isFlatcar hrm then stateWaitFlatcarInstall X hrc serverIP
          else stateWaitInstall X hrc rc serverID serverIP
      | StateBootingTalos \<Rightarrow> stateWaitTalosMaintenanceMode X machine hrc serverIP
      | StateApplyingConfig \<Rightarrow> stateApplyConfig X machine hrc hrh serverID serverIP
      | StateWaitingForBoot \<Rightarrow> stateWaitForBoot X machine serverIP
      | StateBootingFlatcar \<Rightarrow> stateWaitFlatcarBoot X machine hrc serverIP
      | StateError \<Rightarrow> ret (Returned Done)
      | _ \<Rightarrow> ret (Returned Done))
   }"

text \<open>From the gate on: what happens to a host that has been resolved.\<close>

definition provisionOn :: "'w ext \<Rightarrow> HetznerRobotCluster \<Rightarrow> Machine \<Rightarrow> HetznerRobotHost \<Rightarrow> 'w step" where
  "provisionOn X hrc machine hrh = do {
     hrm \<leftarrow> getObj;
     denied \<leftarrow> (if provisioningMayBecomeDestructive (provState (hrmStatus hrm))
       then authorizeDestructiveProvisioningFor X (Some hrm) (Some machine) (Some hrh) else ret None);
     (case denied of
        Some e \<Rightarrow> do {
          modObj (markDestructiveProvisioningDenied e);
          requeue requeueAfterLong }
      | None \<Rightarrow> do {
          rc \<leftarrow> buildRobotClient X hrc;
          (case rc of
             Inl e \<Rightarrow> fail (wrapErr ''build robot client: '' e)
           | Inr robotClient \<Rightarrow> runState X hrc machine hrh robotClient) })
   }"

definition reconcileNormal :: "'w ext \<Rightarrow> HetznerRobotCluster \<Rightarrow> Machine \<Rightarrow> Cluster \<Rightarrow> 'w step" where
  "reconcileNormal X hrc machine cluster = do {
     hrm \<leftarrow> getObj;
     (if provState (hrmStatus hrm) = StateProvisioned then reconcileProvisioned X
      else do {
        r \<leftarrow> resolveHost X;
        (case r of
           Inl e \<Rightarrow> fail (wrapErr ''resolve host: '' e)
         | Inr hrh \<Rightarrow> do {
             modObj (modStatus (Addresses_update (\<lambda>_. addressesOf hrc hrh)));
             provisionOn X hrc machine hrh }) })
   }"

section \<open>Deletion\<close>

definition drainDone :: "Machine \<Rightarrow> bool" where
  "drainDone machine \<longleftrightarrow>
     list_ex (\<lambda>c. condType c = ''DrainingSucceeded'' \<and> condStatus c = ''True'') (machineConditions machine)
     \<or> list_ex (\<lambda>c. condType c = ''DrainingSucceeded'' \<and> condReason c = ''DrainError'') (machineConditions machine)"

definition setFinalizer :: "bool \<Rightarrow> HetznerRobotMachine \<Rightarrow> HetznerRobotMachine" where
  "setFinalizer b m = m\<lparr>hrmMeta := (hrmMeta m)\<lparr>hasFinalizer := b\<rparr>\<rparr>"

definition finishDelete :: "'w step" where
  "finishDelete = do { modObj (setFinalizer False); ret (Returned Done) }"

text \<open>The reset: rescue is armed and the server reset, whatever either call answers.\<close>

definition resetForDelete :: "'w ext \<Rightarrow> HetznerRobotCluster \<Rightarrow> RobotClient \<Rightarrow> int \<Rightarrow> ('w, HetznerRobotMachine, unit) go" where
  "resetForDelete X hrc rc serverID = do {
     f \<leftarrow> getSSHKeyFingerprint X hrc;
     _ \<leftarrow> ActivateRescue X rc serverID (case f of Inl _ \<Rightarrow> [] | Inr fp \<Rightarrow> fp);
     _ \<leftarrow> ResetServer X rc serverID ResetTypeHardware;
     ret ()
   }"

definition releaseAndFinish :: "'w ext \<Rightarrow> HetznerRobotHost option \<Rightarrow> bool \<Rightarrow> 'w step" where
  "releaseAndFinish X hrho shouldRelease = do {
     hrm \<leftarrow> getObj;
     (case hrho of
        Some hrh \<Rightarrow>
          if shouldRelease then do { _ \<leftarrow> releaseHost X (Namespace (hrmMeta hrm)) (hostName hrh); ret () } else ret ()
      | None \<Rightarrow> ret ());
     finishDelete
   }"

definition reconcileDelete :: "'w ext \<Rightarrow> HetznerRobotCluster \<Rightarrow> Machine \<Rightarrow> 'w step" where
  "reconcileDelete X hrc machine = do {
     modObj (setState StateDeleting);
     r \<leftarrow> resolveHostForDelete X;
     (let (hrho, shouldRelease) = (case r of Inl _ \<Rightarrow> (None, False) | Inr x \<Rightarrow> x);
          serverID = (case hrho of None \<Rightarrow> 0 | Some hrh \<Rightarrow> ServerID (hostSpec hrh)) in
      if NodeRef machine \<noteq> None \<and> \<not> drainDone machine then requeue (15 * second)
      else do {
        c \<leftarrow> buildRobotClient X hrc;
        (case c of
           Inl _ \<Rightarrow> finishDelete
         | Inr rc \<Rightarrow>
             if serverID \<noteq> 0 then do {
               hrm \<leftarrow> getObj;
               denied \<leftarrow> (if shouldRelease \<and> hrho \<noteq> None
                 then authorizeDestructiveProvisioningFor X (Some hrm) (Some machine) hrho else ret None);
               (if denied \<noteq> None then finishDelete
                else do {
                  resetForDelete X hrc rc serverID;
                  releaseAndFinish X hrho shouldRelease }) }
             else releaseAndFinish X hrho shouldRelease)
      })
   }"

section \<open>The reconcile loop\<close>

definition provisioningStates :: "ProvisioningState \<Rightarrow> bool" where
  "provisioningStates st \<longleftrightarrow> st \<noteq> StateProvisioned \<and> st \<noteq> StateError \<and> st \<noteq> StateDeleting"

text \<open>What both terminal branches write: the reason, the message, the error state and the condition.\<close>

definition enterError :: "string \<Rightarrow> string \<Rightarrow> HetznerRobotMachine \<Rightarrow> HetznerRobotMachine" where
  "enterError reason msg = modStatus (\<lambda>st. st\<lparr>FailureMessage := Some msg, FailureReason := Some reason,
     provState := StateError, Ready := False, readyMark := Some (MarkFalse reason SeverityError msg)\<rparr>)"

text \<open>Whether the provision timeout has struck; it starts when the machine is first seen.\<close>

definition checkProvisionTimeout :: "'w ext \<Rightarrow> ('w, HetznerRobotMachine, bool) go" where
  "checkProvisionTimeout X = do {
     hrm \<leftarrow> getObj;
     (if provisioningStates (provState (hrmStatus hrm)) then (case ProvisionStarted (hrmStatus hrm) of
        None \<Rightarrow> do {
          now \<leftarrow> timeNow X;
          modObj (modStatus (ProvisionStarted_update (\<lambda>_. Some now)));
          ret False }
      | Some started \<Rightarrow> do {
          now \<leftarrow> timeNow X;
          (if provisionTimeout < timeSub now started then do {
             modObj (enterError ''ProvisionTimeout''
               (''Provision did not complete within 30m0s (started '' @ xFormatTime X started
                 @ '', current state: '' @ provisioningStateText (provState (hrmStatus hrm)) @ '')''));
             ret True }
           else ret False) })
      else ret False)
   }"

text \<open>The time left of the backoff, if it has not elapsed.\<close>

definition checkBackoff :: "'w ext \<Rightarrow> ('w, HetznerRobotMachine, int option) go" where
  "checkBackoff X = do {
     hrm \<leftarrow> getObj;
     (case LastRetryTimestamp (hrmStatus hrm) of
        Some t \<Rightarrow>
          if 0 < RetryCount (hrmStatus hrm) then do {
            now \<leftarrow> timeNow X;
            (let expectedBackoff = computeBackoff (RetryCount (hrmStatus hrm)); elapsed = timeSub now t in
             ret (if elapsed < expectedBackoff then Some (wrap64 (expectedBackoff - elapsed)) else None)) }
          else ret None
      | None \<Rightarrow> ret None)
   }"

definition recordRetry :: "int \<Rightarrow> HetznerRobotMachine \<Rightarrow> HetznerRobotMachine" where
  "recordRetry now = modStatus (LastRetryTimestamp_update (\<lambda>_. Some now))"

definition succeeded :: "HetznerRobotMachine \<Rightarrow> HetznerRobotMachine" where
  "succeeded m = modStatus (\<lambda>st. st\<lparr>RetryCount := 0, FailureMessage := None, FailureReason := None,
     LastRetryTimestamp := None,
     readyMark := (if provState st \<noteq> StateProvisioned
       then Some (MarkFalse ''Provisioning'' SeverityInfo ''Machine is being provisioned'') else readyMark st)\<rparr>) m"

text \<open>How the outcome of \<open>reconcileNormal\<close> is classified.\<close>

definition classify :: "'w ext \<Rightarrow> Result res \<Rightarrow> 'w step" where
  "classify X r = (case r of
     Panicked \<Rightarrow> ret Panicked
   | Failed e \<Rightarrow>
       if isPermanentError (Some e) then do {
         modObj (enterError ''PermanentError'' (errText e));
         ret (Returned Done) }
       else do {
         modObj (modStatus (\<lambda>st. st\<lparr>RetryCount := wrap64 (RetryCount st + 1)\<rparr>));
         now \<leftarrow> timeNow X;
         modObj (recordRetry now);
         hrm \<leftarrow> getObj;
         requeue (computeBackoff (RetryCount (hrmStatus hrm))) }
   | Returned result \<Rightarrow> do {
       modObj succeeded;
       ret (Returned result) })"

definition reconcileMachine :: "'w ext \<Rightarrow> HetznerRobotCluster \<Rightarrow> Machine \<Rightarrow> Cluster \<Rightarrow> 'w step" where
  "reconcileMachine X hrc machine cluster = do {
     hrm \<leftarrow> getObj;
     (if DeletionTimestamp (hrmMeta hrm) \<noteq> None then reconcileDelete X hrc machine
      else if \<not> hasFinalizer (hrmMeta hrm) then do {
        modObj (setFinalizer True);
        ret (Returned Done) }
      else do {
        timedOut \<leftarrow> checkProvisionTimeout X;
        (if timedOut then ret (Returned Done)
         else do {
           b \<leftarrow> checkBackoff X;
           (case b of
              Some remaining \<Rightarrow> requeue remaining
            | None \<Rightarrow> do {
                r \<leftarrow> reconcileNormal X hrc machine cluster;
                classify X r }) }) })
   }"

text \<open>
  \<^verbatim>\<open>Reconcile\<close>. The deferred patch runs on every path after the helper was made, after a
  panic too, and its error is only logged.
\<close>

definition Reconcile :: "'w ext \<Rightarrow> key \<Rightarrow> 'w step" where
  "Reconcile X k = do {
     g \<leftarrow> silent (xGetMachine X k);
     (case g of
        Inl e \<Rightarrow> ret (if isNotFound e then Returned Done else Failed e)
      | Inr hrm0 \<Rightarrow> do {
          modObj (\<lambda>_. hrm0);
          mo \<leftarrow> silent (xOwnerMachine X (hrmMeta hrm0));
          (case mo of
             Inl e \<Rightarrow> fail e
           | Inr None \<Rightarrow> requeue requeueAfterShort
           | Inr (Some machine) \<Rightarrow> do {
               c \<leftarrow> silent (xClusterOf X machine);
               (case c of
                  Inl e \<Rightarrow> fail e
                | Inr None \<Rightarrow> requeue requeueAfterShort
                | Inr (Some cluster) \<Rightarrow>
                    if Paused cluster then ret (Returned Done)
                    else (case clusterInfraRef cluster of
                      None \<Rightarrow> requeue requeueAfterShort
                    | Some ck \<Rightarrow> do {
                        h \<leftarrow> silent (xGetHRC X ck);
                        (case h of
                           Inl _ \<Rightarrow> requeue requeueAfterShort
                         | Inr hrc \<Rightarrow> do {
                             p \<leftarrow> silent (xNewHelper X);
                             (case p of
                                Some e \<Rightarrow> fail (wrapErr ''failed to init patch helper: '' e)
                              | None \<Rightarrow> do {
                                  res \<leftarrow> reconcileMachine X hrc machine cluster;
                                  hrm \<leftarrow> getObj;
                                  _ \<leftarrow> patchHRM X hrm0 hrm;
                                  ret res }) }) })) }) })
   }"

section \<open>The watch on host releases\<close>

definition ownedByReleased :: "HetznerRobotHostRelease \<Rightarrow> OwnerReference \<Rightarrow> bool" where
  "ownedByReleased release o1 \<longleftrightarrow> ownerAPIVersion o1 = ''cluster.x-k8s.io/v1beta1'' \<and> ownerKind o1 = ''Machine''
     \<and> ownerName o1 = relMachineName (relMachineRef release) \<and> ownerUID o1 = relMachineUID (relMachineRef release)"

definition mapHostReleaseToMachines :: "'w ext \<Rightarrow> HetznerRobotHostRelease \<Rightarrow> ('w, 'o, key list) go" where
  "mapHostReleaseToMachines X release = do {
     r \<leftarrow> silent (xListMachines X (Namespace (relMeta release)));
     ret (case r of
        Inl _ \<Rightarrow> []
      | Inr hrms \<Rightarrow> map (\<lambda>m. (Namespace (hrmMeta m), Name (hrmMeta m)))
          (filter (\<lambda>m. list_ex (ownedByReleased release) (OwnerReferences (hrmMeta m))) hrms))
   }"

end
