(* ===== verification/Machine_Safety.thy ===== *)
theory Machine_Safety
  imports Machine_Controller
begin

text \<open>
  What the reconcile loop of a machine may do to servers: every event that changes one comes
  after the API has shown a host that names this server and after the lifecycle gate has let that
  host through, for this machine.
\<close>

section \<open>Traces in which every event was permitted\<close>

text \<open>\<open>safeFrom G pre n\<close>: every event of \<open>n\<close> satisfies \<open>G\<close> of all the events before it, those of \<open>pre\<close> included.\<close>

fun safeFrom :: "(event list \<Rightarrow> event \<Rightarrow> bool) \<Rightarrow> event list \<Rightarrow> event list \<Rightarrow> bool" where
  "safeFrom G pre [] = True"
| "safeFrom G pre (e # n) = (G pre e \<and> safeFrom G (pre @ [e]) n)"

lemma safeFrom_append [simp]: "safeFrom G pre (a @ b) \<longleftrightarrow> safeFrom G pre a \<and> safeFrom G (pre @ a) b"
  by (induction a arbitrary: pre) auto

lemma safeFrom_all: "list_all P n \<Longrightarrow> (\<And>pre' e. P e \<Longrightarrow> G (pre @ pre') e) \<Longrightarrow> safeFrom G pre n"
proof (induction n arbitrary: pre)
  case Nil
  then show ?case by simp
next
  case (Cons e n)
  from Cons.prems(1) Cons.prems(2) [of e "[]"] have "G pre e" by simp
  moreover have "safeFrom G (pre @ [e]) n"
  proof (rule Cons.IH)
    show "list_all P n" using Cons.prems(1) by simp
    show "G ((pre @ [e]) @ pre') e'" if "P e'" for pre' e'
      using Cons.prems(2) [OF that, of "e # pre'"] by simp
  qed
  ultimately show ?case by simp
qed

lemma safeFrom_at: "safeFrom G pre n \<Longrightarrow> n = a @ e # b \<Longrightarrow> G (pre @ a) e"
  by (induction a arbitrary: pre n) auto

text \<open>
  The permission: a host the API has shown, let through for this machine, is the server the
  event is aimed at; \<open>owner\<close> is what else must hold of the host, in the light of those events.
\<close>

definition permitted :: "(event list \<Rightarrow> HetznerRobotHost \<Rightarrow> bool) \<Rightarrow> Machine \<Rightarrow> event list \<Rightarrow> event \<Rightarrow> bool" where
  "permitted owner machine pre e \<longleftrightarrow> (destructive e \<longrightarrow>
     (\<exists>h. owner pre h \<and> hostSeen pre h \<and> authorisedIn pre h machine
        \<and> aimed (ServerID (hostSpec h)) (ServerIP (hostSpec h)) e))"

lemma permitted_harmless: "\<not> destructive e \<Longrightarrow> permitted owner machine pre e"
  by (simp add: permitted_def)

lemma hostSeen_mono: "hostSeen pre h \<Longrightarrow> hostSeen (pre @ n) h"
  by simp

lemma authorisedIn_append: "authorisedIn pre h m \<Longrightarrow> authorisedIn (pre @ n) h m"
  by (rule authorisedIn_mono) auto

lemma safe_aimed:
  assumes "list_all (aimed (ServerID (hostSpec h)) (ServerIP (hostSpec h))) n"
    and "\<And>n. owner (pre @ n) h" and "hostSeen pre h" and "authorisedIn pre h m"
  shows "safeFrom (permitted owner m) pre n"
  using assms(1)
  by (rule safeFrom_all) (use assms in \<open>auto simp: permitted_def intro: authorisedIn_append\<close>)

lemma safe_quiet: "list_all (\<lambda>e. \<not> destructive e) n \<Longrightarrow> safeFrom (permitted owner m) pre n"
  by (erule safeFrom_all) (rule permitted_harmless)

section \<open>The state machine\<close>

lemma wp_buildRobotClient:
  "wp (buildRobotClient X hrc) ob (\<lambda>n r ob'. n = [] \<and> ob' = ob \<and> (case r of Inr rc \<Rightarrow> baseURL rc = robotBaseURL | _ \<Rightarrow> True))"
  unfolding buildRobotClient_def NewFromCluster_def Let_def
  by (intro wp_exec) (auto simp: NewRobot_def split: sum.split)

lemma wp_runState:
  assumes rc: "baseURL rc = robotBaseURL" and h: "sid = ServerID (hostSpec h)" "ip = ServerIP (hostSpec h)"
  shows "wp (runState X hrc m h rc) ob (\<lambda>n r ob'.
     list_all (if provisioningMayBecomeDestructive (provState (hrmStatus ob)) then aimed sid ip else harmless sid ip) n)"
proof (cases "provState (hrmStatus ob)")
  case StateInstalling
  have "wp (stateWaitFlatcarInstall X hrc ip) ob (\<lambda>n r ob'. list_all (aimed sid ip) n)"
    by (rule wp_emits, rule harmless_aimed, rule emits_late_states)
  moreover have "wp (stateWaitInstall X hrc rc sid ip) ob (\<lambda>n r ob'. list_all (aimed sid ip) n)"
    by (rule wp_emits, rule emits_waitInstall [OF rc])
  ultimately show ?thesis
    using StateInstalling by (simp add: runState_def Let_def provisioningMayBecomeDestructive_def h)
qed (simp_all add: runState_def Let_def provisioningMayBecomeDestructive_def h [symmetric]
    wp_emits emits_activate emits_checkRescue emits_installTalos emits_installFlatcar emits_waitMaintenance
    emits_applyConfig emits_late_states rc)

lemma wp_provisionOn:
  assumes "\<And>n. owner n h"
  shows "wp (provisionOn X hrc m h) ob (\<lambda>n r ob'. \<forall>pre. hostSeen pre h \<longrightarrow> safeFrom (permitted owner m) pre n)"
proof -
  let ?sid = "ServerID (hostSpec h)" and ?ip = "ServerIP (hostSpec h)"
  let ?gated = "provisioningMayBecomeDestructive (provState (hrmStatus ob))"
  let ?gate = "if ?gated then authorizeDestructiveProvisioningFor X (Some ob) (Some m) (Some h) else ret None"
  have gate: "wp ?gate ob (\<lambda>n r ob'. ob' = ob \<and> list_all isRead n \<and> (r = None \<longrightarrow> ?gated \<longrightarrow> authorisedIn n h m))"
    by (auto intro: wp_mono [OF wp_authorizeFor])
  have quiet: "safeFrom (permitted owner m) pre n" if "list_all isRead n" for pre n
    using that by (intro safe_quiet) (auto simp: list_all_iff)
  show ?thesis
    unfolding provisionOn_def wp_bind_getObj
  proof (rule wp_bindI [OF gate], intro wp_case_option, goal_cases)
    case (1 n r ob')
    then have n: "list_all isRead n" "?gated \<longrightarrow> authorisedIn n h m" "ob' = ob" by auto
    show ?case
      unfolding n(3)
    proof (rule wp_bindI [OF wp_buildRobotClient], intro wp_case_sum, goal_cases)
      case (1 n' x ob' e)
      then show ?case using n by (simp add: quiet)
    next
      case (2 n' x ob' rc)
      then have rc: "baseURL rc = robotBaseURL" and "n' = []" "ob' = ob" by auto
      moreover have "safeFrom (permitted owner m) pre (n @ n2)"
        if "list_all (if ?gated then aimed ?sid ?ip else harmless ?sid ?ip) n2" "hostSeen pre h" for n2 pre
      proof (cases ?gated)
        case True
        with n(2) have "authorisedIn n h m" by simp
        then have "authorisedIn (pre @ n) h m" by (rule authorisedIn_mono) auto
        with True that n(1) assms show ?thesis by (simp add: quiet safe_aimed)
      next
        case False
        with that n(1) show ?thesis
          by (simp add: quiet) (rule safe_quiet, simp add: list_all_iff harmless_def)
      qed
      ultimately show ?case
        using wp_runState [OF rc refl refl, of X hrc m h ob] by (auto elim!: wp_mono)
    qed
  next
    case (2 n r ob' e)
    then show ?case by (simp add: quiet)
  qed
qed

section \<open>Everything around it\<close>

definition quiet :: "event \<Rightarrow> bool" where
  "quiet e \<longleftrightarrow> \<not> destructive e"

lemma quiet_simps [simp]: "isRead e \<Longrightarrow> quiet e" "quiet (EvPatchHost b a r)" "claimPatch m e \<Longrightarrow> quiet e"
  by (auto simp: quiet_def claimPatch_def)

lemma safe_quiet_events: "list_all quiet n \<Longrightarrow> safeFrom (permitted owner m) pre n"
  by (intro safe_quiet) (auto simp: list_all_iff quiet_def)

lemma emits_quiet_reads [emits_intro]:
  "emits quiet (timeNow X)" "emits quiet (getHost X ns n)" "emits quiet (listHosts X ns sel)"
  by (rule emits_mono [OF emits_reads(1)] emits_mono [OF emits_reads(2)] emits_mono [OF emits_reads(3)], simp)+

lemma emits_quiet_hosts [emits_intro]:
  "emits quiet (backfillProvisionedHostClaim X)" "emits quiet (ensureProvisionedHostStatus X)"
  "emits quiet (releaseHost X ns hn)" "emits quiet (resolveHostForDelete X)"
  unfolding backfillProvisionedHostClaim_def resolveProvisionedAdoptionHost_def blockingHostOwnerRef_def
    ensureProvisionedHostStatus_def releaseHost_def resolveHostForDelete_def Let_def
  by (intro emits_intro; simp)+

lemma wp_quiet: "emits quiet m \<Longrightarrow> wp m ob (\<lambda>n r ob'. safeFrom (permitted owner mach) pre n)"
  by (rule wp_mono [OF wp_emits], assumption) (rule safe_quiet_events)

lemma wp_reconcileNormal:
  "wp (reconcileNormal X hrc m cl) ob (\<lambda>n r ob'. \<forall>pre. safeFrom (permitted (\<lambda>_. ownedBy ob) m) pre n)"
proof -
  have "emits quiet (reconcileProvisioned X)"
    unfolding reconcileProvisioned_def by (intro emits_intro)
  then have prov: "wp (reconcileProvisioned X) ob (\<lambda>n r ob'. \<forall>pre. safeFrom (permitted (\<lambda>_. ownedBy ob) m) pre n)"
    by (auto intro: wp_mono [OF wp_emits] safe_quiet_events)
  show ?thesis
    unfolding reconcileNormal_def wp_bind_getObj
  proof (intro wp_if prov wp_bindI [OF wp_resolveHost] wp_case_sum, goal_cases)
    case (1 n x ob' e)
    then have "list_all quiet n" by (auto simp: handsOver_def list_all_iff)
    then show ?case by (simp add: safe_quiet_events)
  next
    case (2 n x ob' h)
    then have q: "list_all quiet n" and h: "ownedBy ob h" "hostSeen n h"
      by (auto simp: handsOver_def list_all_iff)
    show ?case
      unfolding wp_bind_modObj
      by (rule wp_mono [OF wp_provisionOn [of "\<lambda>_. ownedBy ob" h, OF h(1)]]) (simp add: safe_quiet_events q h)
  qed
qed

lemma wp_resetForDelete:
  assumes "baseURL rc = robotBaseURL"
  shows "wp (resetForDelete X hrc rc sid) ob (\<lambda>n r ob'. list_all (aimed sid ip) n)"
  unfolding resetForDelete_def by (rule wp_emits) (intro emits_intro assms)

lemma emits_releaseAndFinish: "emits quiet (releaseAndFinish X ho b)"
  unfolding releaseAndFinish_def finishDelete_def by (intro emits_intro)

lemma emits_finishDelete: "emits quiet finishDelete"
  unfolding finishDelete_def by (intro emits_intro)

text \<open>Deletion acts on the host its object names, as the API has shown it under this name, or on one that names its object.\<close>

definition deleteTarget :: "HetznerRobotMachine \<Rightarrow> event list \<Rightarrow> HetznerRobotHost \<Rightarrow> bool" where
  "deleteTarget hrm pre h \<longleftrightarrow> hostIsClaimedBy h hrm
     \<or> (HostRef (hrmStatus hrm) \<noteq> [] \<and> EvGetHost (Namespace (hrmMeta hrm), HostRef (hrmStatus hrm)) (Inr h) \<in> set pre)"

lemma hostIsClaimedBy_setState [simp]: "hostIsClaimedBy h (setState st m) = hostIsClaimedBy h m"
  by (simp add: hostIsClaimedBy_def matches_iff machineReferenceFor_def)

lemma wp_resetAuthorised:
  assumes owner: "\<And>n. owner (pre @ n) h" and seen: "hostSeen pre h" and rc: "baseURL rc = robotBaseURL"
  shows "wp (do {
      hrm \<leftarrow> getObj;
      denied \<leftarrow> authorizeDestructiveProvisioningFor X (Some hrm) (Some m) (Some h);
      (if denied \<noteq> None then finishDelete
       else do { resetForDelete X hrc rc (ServerID (hostSpec h)); releaseAndFinish X (Some h) True }) }) ob
    (\<lambda>n r ob'. safeFrom (permitted owner m) pre n)"
  unfolding wp_bind_getObj
proof (rule wp_bindI [OF wp_authorizeFor], intro wp_if, goal_cases)
  case (1 n r ob')
  then have q: "list_all quiet n" by (auto simp: list_all_iff)
  show ?case
    by (rule wp_mono [OF wp_emits [OF emits_finishDelete]]) (simp add: safe_quiet_events q)
next
  case (2 n r ob')
  then have q: "list_all quiet n" and "authorisedIn n h m" by (auto simp: list_all_iff)
  then have auth: "authorisedIn (pre @ n) h m" by (auto intro: authorisedIn_mono [where tr = n])
  show ?case
  proof (rule wp_bindI [OF wp_resetForDelete [OF rc]])
    fix n' x ob2
    assume "list_all (aimed (ServerID (hostSpec h)) (ServerIP (hostSpec h))) n'"
    then have "safeFrom (permitted owner m) (pre @ n) n'"
      using owner seen auth by (intro safe_aimed) (auto simp: append_assoc)
    then show "wp (releaseAndFinish X (Some h) True) ob2 (\<lambda>n2 r ob'. safeFrom (permitted owner m) pre (n @ n' @ n2))"
      by (intro wp_mono [OF wp_emits [OF emits_releaseAndFinish]]) (simp add: safe_quiet_events q)
  qed
qed

lemma wp_reconcileDelete:
  "wp (reconcileDelete X hrc m) ob (\<lambda>n r ob'. safeFrom (permitted (deleteTarget ob) m) [] n)"
  unfolding reconcileDelete_def wp_bind_modObj
proof (rule wp_bindI [OF wp_resolveHostForDelete], goal_cases)
  case (1 n r ob')
  then have q: "list_all quiet n" by (auto simp: list_all_iff)
  have done': "wp p ob' (\<lambda>n' r ob'. safeFrom (permitted (deleteTarget ob) m) [] (n @ n'))" if "emits quiet p" for p :: "'a step"
    using that by (intro wp_mono [OF wp_emits]) (auto simp: safe_quiet_events q)
  consider "(case r of Inl _ \<Rightarrow> (None, False) | Inr x \<Rightarrow> x) = (None, False)"
    | h where "r = Inr (Some h, True)" "hostSeen n h" "\<And>n'. deleteTarget ob (n @ n') h"
    using 1 by (auto simp: deleteTarget_def split: sum.splits option.splits if_splits) (metis option.exhaust)
  then show ?case
  proof cases
    case 1
    then show ?thesis
      by (simp only: Let_def prod.case option.case simp_thms if_True if_False)
        (intro done' emits_intro emits_finishDelete emits_releaseAndFinish)
  next
    case (2 h)
    have reset: "wp (do {
        hrm \<leftarrow> getObj;
        denied \<leftarrow> authorizeDestructiveProvisioningFor X (Some hrm) (Some m) (Some h);
        (if denied \<noteq> None then finishDelete
         else do { resetForDelete X hrc rc (ServerID (hostSpec h)); releaseAndFinish X (Some h) True }) }) ob2
      (\<lambda>n' r ob'. safeFrom (permitted (deleteTarget ob) m) [] (n @ n'))" if "baseURL rc = robotBaseURL" for rc ob2
      by (rule wp_mono [OF wp_resetAuthorised [where owner = "deleteTarget ob" and h = h, OF 2(3,2) that]]) (simp add: safe_quiet_events q)
    show ?thesis
      unfolding 2(1) Let_def
      apply (simp only: sum.case prod.case option.case simp_thms option.distinct if_True if_False)
      apply (rule wp_if, rule done', rule emits_ret)
      apply (rule wp_bindI [OF wp_buildRobotClient])
      apply (intro wp_case_sum wp_if)
        apply (auto intro!: wp_mono [OF wp_emits [OF emits_finishDelete]] simp: safe_quiet_events q) [1]
       apply (use reset in \<open>auto simp del: wp_bind_getObj\<close>) [1]
      apply (auto intro!: wp_mono [OF wp_emits [OF emits_releaseAndFinish]] simp: safe_quiet_events q)
      done
  qed
qed

lemma wp_checkProvisionTimeout:
  "wp (checkProvisionTimeout X) ob (\<lambda>n r ob'. list_all quiet n \<and> hrmMeta ob' = hrmMeta ob)"
  unfolding checkProvisionTimeout_def
  by (intro wp_exec) (auto simp: enterError_def)

lemma wp_checkBackoff: "wp (checkBackoff X) ob (\<lambda>n r ob'. list_all quiet n \<and> ob' = ob)"
  unfolding checkBackoff_def Let_def by (intro wp_exec) auto

lemma emits_classify: "emits quiet (classify X r)"
  unfolding classify_def by (intro emits_intro)

definition rightfulOwner :: "HetznerRobotMachine \<Rightarrow> event list \<Rightarrow> HetznerRobotHost \<Rightarrow> bool" where
  "rightfulOwner hrm pre h \<longleftrightarrow> (if DeletionTimestamp (hrmMeta hrm) \<noteq> None then deleteTarget hrm pre h else ownedBy hrm h)"

lemma wp_reconcileMachine:
  "wp (reconcileMachine X hrc m cl) ob (\<lambda>n r ob'. safeFrom (permitted (rightfulOwner ob) m) [] n)"
proof (cases "DeletionTimestamp (hrmMeta ob) = None")
  case False
  then have "rightfulOwner ob = deleteTarget ob" by (auto simp: rightfulOwner_def fun_eq_iff)
  with False wp_reconcileDelete [of X hrc m ob] show ?thesis by (simp add: reconcileMachine_def)
next
  case True
  then have owner: "rightfulOwner ob = (\<lambda>_. ownedBy ob')" if "hrmMeta ob' = hrmMeta ob" for ob'
    using ownedBy_cong [OF that] by (auto simp: rightfulOwner_def fun_eq_iff)
  have live: "wp (do { r \<leftarrow> reconcileNormal X hrc m cl; classify X r }) ob'
      (\<lambda>n' r ob'. safeFrom (permitted (rightfulOwner ob) m) [] (n @ n'))"
    if "list_all quiet n" "hrmMeta ob' = hrmMeta ob" for n ob'
    by (rule wp_bindI [OF wp_reconcileNormal], rule wp_mono [OF wp_emits [OF emits_classify]])
      (use that in \<open>simp add: safe_quiet_events owner [OF that(2)]\<close>)
  show ?thesis
    unfolding reconcileMachine_def wp_bind_getObj using True
    apply (simp only: not_not if_False simp_thms)
    apply (intro wp_if)
     apply simp
    apply (rule wp_bindI [OF wp_checkProvisionTimeout], intro wp_if)
     apply (simp add: safe_quiet_events)
    apply (rule wp_bindI [OF wp_checkBackoff], intro wp_case_option)
     apply (subst append_assoc [symmetric], rule live)
      apply simp_all
    apply (simp add: safe_quiet_events)
    done
qed

lemma wp_Reconcile:
  "wp (Reconcile X k) ob (\<lambda>n r ob'. \<exists>m hrm. safeFrom (permitted (rightfulOwner hrm) m) [] n)"
  unfolding Reconcile_def
  by (intro wp_exec wp_bindI [OF wp_reconcileMachine]) (auto simp: permitted_def)


end
