(* ===== verification/Host_Controller.thy ===== *)
theory Host_Controller
  imports Machine_Safety
begin

text \<open>
  \<^verbatim>\<open>controllers/hetznerrobothost_controller.go\<close>: the finalizer of a host, its first state,
  the addresses detected through the Robot API, and its deletion. The object of a run is the
  HetznerRobotHost.
\<close>

section \<open>Definitions\<close>

definition clusterNameLabel :: string where
  "clusterNameLabel = ''cluster.x-k8s.io/cluster-name''"

definition getRobotClient :: "'w ext \<Rightarrow> HetznerRobotHost \<Rightarrow> ('w, 'o, goerr + RobotClient) go" where
  "getRobotClient X host = (let clusterName = label (hostMeta host) clusterNameLabel in
     if clusterName = [] then ret (Inl (errorf (''host '' @ hostName host @ '' has no cluster-name label'')))
     else do {
       l \<leftarrow> silent (xListHRCs X (Namespace (hostMeta host)));
       (case l of
          Inl e \<Rightarrow> ret (Inl (wrapErr ''list HetznerRobotClusters: '' e))
        | Inr hrcs \<Rightarrow> (case find (\<lambda>c. label (hrcMeta c) clusterNameLabel = clusterName) hrcs of
            None \<Rightarrow> ret (Inl (errorf (''no HetznerRobotCluster found for cluster '' @ clusterName)))
          | Some hrc \<Rightarrow> do {
              s \<leftarrow> silent (xGetSecret X (secretKey hrc (RobotSecretRef (hrcSpec hrc))));
              ret (case s of
                 Inl e \<Rightarrow> Inl (wrapErr ''get robot credentials secret: '' e)
               | Inr d \<Rightarrow> Inr (NewRobot (secretText d ''robot-user'') (secretText d ''robot-password''))) })) })"

definition normalizeIPv6 :: "string \<Rightarrow> string" where
  "normalizeIPv6 net = trimSuffix net ''::'' @ ''::/64''"

definition applyServerInfo :: "ServerInfo \<Rightarrow> HetznerRobotHost \<Rightarrow> HetznerRobotHost" where
  "applyServerInfo info h = (let sp = hostSpec h;
       sp1 = (if ServerIP sp = [] \<and> siServerIP info \<noteq> [] then sp\<lparr>ServerIP := siServerIP info\<rparr> else sp);
       sp2 = (if ServerIPv6Net sp1 = [] \<and> siServerIPv6Net info \<noteq> []
              then sp1\<lparr>ServerIPv6Net := normalizeIPv6 (siServerIPv6Net info)\<rparr> else sp1)
     in h\<lparr>hostSpec := sp2\<rparr>)"

definition autoDetect :: "'w ext \<Rightarrow> ('w, HetznerRobotHost, unit) go" where
  "autoDetect X = do {
     host \<leftarrow> getObj;
     (if (ServerIP (hostSpec host) = [] \<or> ServerIPv6Net (hostSpec host) = []) \<and> 0 < ServerID (hostSpec host) then do {
        c \<leftarrow> getRobotClient X host;
        (case c of
           Inl _ \<Rightarrow> ret ()
         | Inr rc \<Rightarrow> do {
             s \<leftarrow> GetServer X rc (ServerID (hostSpec host));
             (case s of Inl _ \<Rightarrow> ret () | Inr info \<Rightarrow> modObj (applyServerInfo info)) }) }
      else ret ())
   }"

definition setHostFinalizer :: "bool \<Rightarrow> HetznerRobotHost \<Rightarrow> HetznerRobotHost" where
  "setHostFinalizer b h = h\<lparr>hostMeta := (hostMeta h)\<lparr>hasFinalizer := b\<rparr>\<rparr>"

definition initState :: "HetznerRobotHost \<Rightarrow> HetznerRobotHost" where
  "initState = modHostStatus (\<lambda>st. if hostState st = HostStateNone then st\<lparr>hostState := HostStateAvailable\<rparr> else st)"

definition reconcileHost :: "'w ext \<Rightarrow> ('w, HetznerRobotHost, Result res) go" where
  "reconcileHost X = do {
     host \<leftarrow> getObj;
     (if \<not> hasFinalizer (hostMeta host) then do {
        modObj (setHostFinalizer True);
        ret (Returned Done) }
      else do {
        modObj initState;
        autoDetect X;
        host \<leftarrow> getObj;
        (if DeletionTimestamp (hostMeta host) \<noteq> None then
           (if ConsumerRef (hostStatus host) \<noteq> None \<or> MachineRef (hostStatus host) \<noteq> None then
              ret (Returned (RequeueAfter requeueAfterShort))
            else do {
              modObj (setHostFinalizer False);
              ret (Returned Done) })
         else ret (Returned Done)) })
   }"

definition ReconcileHost :: "'w ext \<Rightarrow> key \<Rightarrow> ('w, HetznerRobotHost, Result res) go" where
  "ReconcileHost X k = do {
     g \<leftarrow> getHost X (fst k) (snd k);
     (case g of
        Inl e \<Rightarrow> ret (if isNotFound e then Returned Done else Failed e)
      | Inr host0 \<Rightarrow> do {
          modObj (\<lambda>_. host0);
          p \<leftarrow> silent (xNewHelper X);
          (case p of
             Some e \<Rightarrow> ret (Failed e)
           | None \<Rightarrow> do {
               res \<leftarrow> reconcileHost X;
               host \<leftarrow> getObj;
               _ \<leftarrow> patchHost X host0 host;
               ret res }) })
   }"

section \<open>What it may change\<close>

text \<open>A field that was set stays; one that was empty may be filled.\<close>

definition filled :: "string \<Rightarrow> string \<Rightarrow> bool" where
  "filled old new \<longleftrightarrow> (old \<noteq> [] \<longrightarrow> new = old)"

definition hostStep :: "HetznerRobotHost \<Rightarrow> HetznerRobotHost \<Rightarrow> bool" where
  "hostStep h h' \<longleftrightarrow>
     (hostMeta h')\<lparr>hasFinalizer := True\<rparr> = (hostMeta h)\<lparr>hasFinalizer := True\<rparr>
   \<and> (hostStatus h')\<lparr>hostState := HostStateNone\<rparr> = (hostStatus h)\<lparr>hostState := HostStateNone\<rparr>
   \<and> (hostState (hostStatus h') = hostState (hostStatus h)
       \<or> hostState (hostStatus h) = HostStateNone \<and> hostState (hostStatus h') = HostStateAvailable)
   \<and> (hostSpec h')\<lparr>ServerIP := [], ServerIPv6Net := []\<rparr> = (hostSpec h)\<lparr>ServerIP := [], ServerIPv6Net := []\<rparr>
   \<and> filled (ServerIP (hostSpec h)) (ServerIP (hostSpec h'))
   \<and> filled (ServerIPv6Net (hostSpec h)) (ServerIPv6Net (hostSpec h'))
   \<and> (\<not> hasFinalizer (hostMeta h') \<longrightarrow> DeletionTimestamp (hostMeta h') \<noteq> None
       \<and> ConsumerRef (hostStatus h') = None \<and> MachineRef (hostStatus h') = None)"

definition readOnlyRobot :: "event \<Rightarrow> bool" where
  "readOnlyRobot e \<longleftrightarrow> (\<exists>url r. e = EvHttp GET url [] r)"

lemma keeps_host_calls [keeps_intro]: "keeps (getRobotClient X h)" "keeps (GetServer X rc sid)"
  unfolding getRobotClient_def GetServer_def robotGet_def by (intro keeps_intro)+

lemma emits_autoDetect: "emits readOnlyRobot (autoDetect X)"
  unfolding autoDetect_def getRobotClient_def GetServer_def Let_def
  by (intro emits_intro emits_robotGet) (simp add: readOnlyRobot_def)

lemma hostStep_trans_simps [simp]:
  "hostMeta (applyServerInfo info h) = hostMeta h" "hostStatus (applyServerInfo info h) = hostStatus h"
  "hostMeta (initState h) = hostMeta h" "hostSpec (initState h) = hostSpec h"
  "hostSpec (setHostFinalizer b h) = hostSpec h" "hostStatus (setHostFinalizer b h) = hostStatus h"
  "hostMeta (setHostFinalizer b h) = (hostMeta h)\<lparr>hasFinalizer := b\<rparr>"
  by (simp_all add: applyServerInfo_def initState_def setHostFinalizer_def Let_def)

lemma applyServerInfo_spec:
  "(hostSpec (applyServerInfo info h))\<lparr>ServerIP := [], ServerIPv6Net := []\<rparr> = (hostSpec h)\<lparr>ServerIP := [], ServerIPv6Net := []\<rparr>"
  "filled (ServerIP (hostSpec h)) (ServerIP (hostSpec (applyServerInfo info h)))"
  "filled (ServerIPv6Net (hostSpec h)) (ServerIPv6Net (hostSpec (applyServerInfo info h)))"
  by (simp_all add: applyServerInfo_def filled_def Let_def)

lemma initState_status:
  "(hostStatus (initState h))\<lparr>hostState := HostStateNone\<rparr> = (hostStatus h)\<lparr>hostState := HostStateNone\<rparr>"
  "hostState (hostStatus (initState h)) = (if hostState (hostStatus h) = HostStateNone then HostStateAvailable
     else hostState (hostStatus h))"
  "ConsumerRef (hostStatus (initState h)) = ConsumerRef (hostStatus h)"
  "MachineRef (hostStatus (initState h)) = MachineRef (hostStatus h)"
  by (simp_all add: initState_def)

lemma wp_autoDetect:
  "wp (autoDetect X) ob (\<lambda>n r ob'. (ob' = ob \<or> (\<exists>info. ob' = applyServerInfo info ob)) \<and> list_all readOnlyRobot n)"
proof -
  have "wp (autoDetect X) ob (\<lambda>n r ob'. ob' = ob \<or> (\<exists>info. ob' = applyServerInfo info ob))"
    unfolding autoDetect_def
    by (intro wp_exec keeps_host_calls) auto
  then show ?thesis by (rule wp_conj) (rule wp_emits [OF emits_autoDetect])
qed

lemma filled_refl [simp]: "filled t t"
  by (simp add: filled_def)

lemma hostStep_fill:
  assumes "ob' = initState h \<or> (\<exists>info. ob' = applyServerInfo info (initState h))"
  shows "hasFinalizer (hostMeta h) \<Longrightarrow> hostStep h ob'"
    and "DeletionTimestamp (hostMeta ob') \<noteq> None \<Longrightarrow> ConsumerRef (hostStatus ob') = None
      \<Longrightarrow> MachineRef (hostStatus ob') = None \<Longrightarrow> hostStep h (setHostFinalizer False ob')"
  using assms applyServerInfo_spec [where h = "initState h"]
  by (auto simp: hostStep_def initState_status split: if_splits)

lemma wp_reconcileHost:
  "wp (reconcileHost X) ob (\<lambda>n r ob'. hostStep ob ob' \<and> list_all readOnlyRobot n)"
  unfolding reconcileHost_def wp_bind_getObj wp_bind_modObj
  apply (intro wp_if)
   apply (simp add: hostStep_def)
  apply (simp only: wp_bind_modObj, rule wp_bindI [OF wp_autoDetect], simp only: wp_bind_getObj, intro wp_if)
    apply (auto simp: hostStep_fill)
  done

lemma hostStep_schema:
  assumes "hostStep h h'"
  shows "hostSpecUpdate (hostSpec h) (hostSpec h')"
proof -
  let ?f = "\<lambda>h. (hostSpec h)\<lparr>ServerIP := [], ServerIPv6Net := []\<rparr>"
  from assms have "ServerID (?f h') = ServerID (?f h)" "InternalIP (?f h') = InternalIP (?f h)"
    "hostInstallDisk (?f h') = hostInstallDisk (?f h)" by (simp_all only: hostStep_def)
  then show ?thesis using assms by (auto simp: hostSpecUpdate_def hostStep_def filled_def)
qed

text \<open>
  C30. The reconciler of hosts. Whatever the answers, one run only reads from the Robot API; it
  keeps the owner references, the policy and every address that is already set, so that the schema admits
  the update of the spec; it makes a host
  Available only if it had no state; and it takes the finalizer off only from a host that is being deleted and
  that no machine claims.
\<close>

theorem host_reconcile_keeps_claims:
  "hostStep (obj s) (obj (snd (run_state (reconcileHost X) s)))
   \<and> hostSpecUpdate (hostSpec (obj s)) (hostSpec (obj (snd (run_state (reconcileHost X) s))))
   \<and> list_all readOnlyRobot (newEvents (reconcileHost X) s)"
  using wpD(1) [OF wp_reconcileHost [of X "obj s"]] hostStep_schema by blast

text \<open>
  The network detected for a host gives one and the same IPv6 address everywhere: the
  interface address injected for Talos, the node address given to the kubelet and the address in the
  Flatcar network file agree, and it is the first address of the subnet Hetzner assigned.
\<close>

lemma detected_ipv6_consistent:
  assumes "CHR ''/'' \<notin> set p"
  shows "hd (splitStr (normalizeIPv6 (p @ ''::'')) ''/'') @ ''1/64'' = p @ ''::1/64''
    \<and> nodeIPv6Of (normalizeIPv6 (p @ ''::'')) = p @ ''::1''"
proof -
  have split: "splitAcc ''/'' acc (q @ ''/64'') = [acc @ q, ''64'']" if "CHR ''/'' \<notin> set q" for q acc
    using that by (induction q arbitrary: acc) (auto simp: hasPrefix_def)
  then have "splitStr ((p @ ''::'') @ ''/64'') ''/'' = [p @ ''::'', ''64'']"
    using assms unfolding splitStr_def by (subst split) auto
  moreover have "normalizeIPv6 (p @ ''::'') = (p @ ''::'') @ ''/64''"
    unfolding normalizeIPv6_def trimSuffix_append by simp
  ultimately show ?thesis by (simp add: nodeIPv6Of_def trimSuffix_append)
qed

end
