(* ===== verification/Machine_Loop.thy ===== *)
theory Machine_Loop
  imports Machine_Safety
begin

text \<open>
  How one reconcile moves a machine: the state machine the loop follows, the handling of errors,
  the backoff, the provision timeout and the cooldown between resets.
\<close>

section \<open>One pass of the state machine\<close>

definition advancesFrom :: "HetznerRobotMachine \<Rightarrow> ProvisioningState set" where
  "advancesFrom m = {st. advances (isFlatcar m) (provState (hrmStatus m)) st}"

lemma wp_advance:
  assumes "wp p ob (\<lambda>n r. stepTo sts ob)" and "\<And>st. st \<in> sts \<Longrightarrow> advances (isFlatcar ob) (provState (hrmStatus ob)) st"
  shows "wp p ob (\<lambda>n r. stepTo (advancesFrom ob) ob)"
  using assms(1) by (rule wp_mono) (use assms(2) in \<open>auto simp: advancesFrom_def elim!: stepTo_mono\<close>)

lemma wp_runState_step:
  assumes "provState (hrmStatus ob) \<noteq> StateProvisioned"
  shows "wp (runState X hrc m h rc) ob (\<lambda>n r. stepTo (advancesFrom ob) ob)"
proof (cases "provState (hrmStatus ob)")
  case StateNone
  show ?thesis
    by (simp only: StateNone ProvisioningState.case runState_def wp_bind_getObj Let_def, rule wp_advance [OF wp_activate [where sts = "{StateActivatingRescue}" and m = ob and ob = ob]])
      (use StateNone in \<open>auto intro: advances.intros\<close>)
next
  case StateActivatingRescue
  show ?thesis
    by (simp only: StateActivatingRescue ProvisioningState.case runState_def wp_bind_getObj Let_def, rule wp_advance [OF wp_checkRescue])
      (use StateActivatingRescue in \<open>auto intro: advances.intros\<close>)
next
  case StateBootingTalos
  show ?thesis
    by (simp only: StateBootingTalos ProvisioningState.case runState_def wp_bind_getObj Let_def, rule wp_advance [OF wp_late_states(1)])
      (use StateBootingTalos in \<open>auto intro: advances.intros\<close>)
next
  case StateApplyingConfig
  show ?thesis
    by (simp only: StateApplyingConfig ProvisioningState.case runState_def wp_bind_getObj Let_def, rule wp_advance [OF wp_late_states(2)])
      (use StateApplyingConfig in \<open>auto intro: advances.intros\<close>)
next
  case StateWaitingForBoot
  show ?thesis
    by (simp only: StateWaitingForBoot ProvisioningState.case runState_def wp_bind_getObj Let_def, rule wp_advance [OF wp_last_states(1)])
      (use StateWaitingForBoot in \<open>auto intro: advances.intros\<close>)
next
  case StateBootingFlatcar
  show ?thesis
    by (simp only: StateBootingFlatcar ProvisioningState.case runState_def wp_bind_getObj Let_def, rule wp_advance [OF wp_last_states(2)])
      (use StateBootingFlatcar in \<open>auto intro: advances.intros\<close>)
next
  case StateInRescue
  show ?thesis
    by (simp only: StateInRescue ProvisioningState.case runState_def wp_bind_getObj Let_def,
        intro wp_if wp_advance [OF wp_installFlatcar] wp_advance [OF wp_installTalos])
      (use StateInRescue in \<open>auto intro: advances.intros\<close>)
next
  case StateInstalling
  show ?thesis
    by (simp only: StateInstalling ProvisioningState.case runState_def wp_bind_getObj Let_def,
        intro wp_if wp_advance [OF wp_late_states(3)] wp_advance [OF wp_waitInstall])
      (use StateInstalling in \<open>auto intro: advances.intros\<close>)
qed (simp_all add: runState_def)

section \<open>One reconcile\<close>

text \<open>Nothing but the claim and the backfill changes before the state machine runs.\<close>

definition sameProgress :: "HetznerRobotMachine \<Rightarrow> HetznerRobotMachine \<Rightarrow> bool" where
  "sameProgress m m' \<longleftrightarrow> hrmMeta m' = hrmMeta m \<and> hrmSpec m' = hrmSpec m
     \<and> provState (hrmStatus m') = provState (hrmStatus m) \<and> Ready (hrmStatus m') = Ready (hrmStatus m)
     \<and> readyMark (hrmStatus m') = readyMark (hrmStatus m)
     \<and> RetryCount (hrmStatus m') = RetryCount (hrmStatus m)
     \<and> FailureReason (hrmStatus m') = FailureReason (hrmStatus m)
     \<and> FailureMessage (hrmStatus m') = FailureMessage (hrmStatus m)"

lemma keeps_hosts [keeps_intro]:
  "keeps (ensureHostConsumerRef X h m)" "keeps (patchHostWith X m1 m2 b a)" "keeps (ensureProvisionedHostStatus X)"
  unfolding ensureHostConsumerRef_def patchHostWith_def ensureProvisionedHostStatus_def blockingHostOwnerRef_def
  by (intro keeps_intro)+

lemma wp_resolveHost_progress: "wp (resolveHost X) ob (\<lambda>n r. sameProgress ob)"
proof -
  have claim: "wp (claimCandidate X cand) ob (\<lambda>n r. sameProgress ob)" for cand
    unfolding claimCandidate_def bindE_def
    by (intro wp_exec keeps_hosts) (auto simp: sameProgress_def split: sum.split)
  have ens: "wp (ensureHostConsumerRef X h m) ob' (\<lambda>n r. sameProgress ob)" if "sameProgress ob ob'" for h m ob'
    using wp_keeps [OF keeps_hosts(1)] by (rule wp_mono) (use that in simp)
  show ?thesis
    unfolding resolveHost_def recoverClaim_def Let_def
    by (intro wp_exec claim ens) (auto simp: sameProgress_def)
qed

text \<open>What \<open>reconcileNormal\<close> makes of a machine, however it ends.\<close>

definition progress :: "HetznerRobotMachine \<Rightarrow> HetznerRobotMachine \<Rightarrow> bool" where
  "progress m m' \<longleftrightarrow> hrmMeta m' = hrmMeta m \<and> isFlatcar m' = isFlatcar m
     \<and> FailureReason (hrmStatus m') = FailureReason (hrmStatus m)
     \<and> FailureMessage (hrmStatus m') = FailureMessage (hrmStatus m)
     \<and> advances (isFlatcar m) (provState (hrmStatus m)) (provState (hrmStatus m'))
     \<and> (provState (hrmStatus m') = StateProvisioned \<longrightarrow> provState (hrmStatus m) \<noteq> StateProvisioned \<longrightarrow>
          Ready (hrmStatus m') \<and> readyMark (hrmStatus m') = Some MarkTrue)
     \<and> (provState (hrmStatus m') \<noteq> StateProvisioned \<longrightarrow> Ready (hrmStatus m') = Ready (hrmStatus m))"

lemma progress_same: "sameProgress m m' \<Longrightarrow> progress m m'"
  by (simp add: sameProgress_def progress_def isFlatcar_def advances.stay)

lemma progress_step:
  assumes "sameProgress m m1" and "hrmMeta m2 = hrmMeta m1" "hrmSpec m2 = hrmSpec m1"
    and "provState (hrmStatus m2) = provState (hrmStatus m1)" "Ready (hrmStatus m2) = Ready (hrmStatus m1)"
    and "FailureReason (hrmStatus m2) = FailureReason (hrmStatus m1)"
    and "FailureMessage (hrmStatus m2) = FailureMessage (hrmStatus m1)"
    and "stepTo (advancesFrom m2) m2 m3"
  shows "progress m m3"
  using assms unfolding sameProgress_def progress_def stepTo_def advancesFrom_def isFlatcar_def
  by (auto split: if_splits intro: advances.stay)

lemma wp_backfill_progress: "wp (backfillProvisionedHostClaim X) ob (\<lambda>n r. sameProgress ob)"
  by (rule wp_mono [OF wp_backfill]) (auto simp: backfills_def sameProgress_def split: if_splits)

lemma wp_reconcileProvisioned:
  assumes "provState (hrmStatus ob) = StateProvisioned"
  shows "wp (reconcileProvisioned X) ob (\<lambda>n r m. progress ob m \<and> Ready (hrmStatus m) \<and> readyMark (hrmStatus m) = Some MarkTrue)"
proof -
  let ?set = "modStatus (\<lambda>st. st\<lparr>Ready := True, Initialization := Some True, readyMark := Some MarkTrue\<rparr>)"
  let ?Q = "\<lambda>n r m. progress ob m \<and> Ready (hrmStatus m) \<and> readyMark (hrmStatus m) = Some MarkTrue"
  have set: "progress ob (?set m)" if "sameProgress ob m" for m
    using that assms by (simp add: sameProgress_def progress_def isFlatcar_def advances.stay)
  have rest: "wp (do {
      modObj ?set;
      hrm \<leftarrow> getObj;
      (if HostRef (hrmStatus hrm) \<noteq> [] then do { _ \<leftarrow> ensureProvisionedHostStatus X; ret () } else ret ());
      (if HostRef (hrmStatus hrm) = [] then requeue requeueAfterLong else ret (Returned Done)) }) m
    (\<lambda>n'. ?Q (n @ n'))" if "sameProgress ob m" for m n
    unfolding wp_bind_modObj wp_bind_getObj
    by (intro wp_exec keeps_hosts) (simp_all add: set that)
  show ?thesis
    unfolding reconcileProvisioned_def wp_bind_getObj
  proof (rule wp_bindI [where M = "\<lambda>n r. sameProgress ob"])
    show "wp (if HostRef (hrmStatus ob) = [] then do { _ \<leftarrow> backfillProvisionedHostClaim X; ret () } else ret ()) ob
        (\<lambda>n r. sameProgress ob)"
      by (intro wp_if wp_bindI [OF wp_backfill_progress]) (auto simp: sameProgress_def)
  qed (rule rest)
qed

lemma wp_reconcileNormal_progress: "wp (reconcileNormal X hrc m cl) ob (\<lambda>n r. progress ob)"
proof (cases "provState (hrmStatus ob) = StateProvisioned")
  case True
  then show ?thesis
    by (simp add: reconcileNormal_def) (rule wp_mono [OF wp_reconcileProvisioned], simp_all)
next
  case False
  show ?thesis
    unfolding reconcileNormal_def wp_bind_getObj if_not_P [OF False]
  proof (intro wp_bindI [OF wp_resolveHost_progress] wp_case_sum, goal_cases)
    case (1 n x ob' e)
    then show ?case by (simp add: progress_same)
  next
    case (2 n x ob' h)
    let ?ob = "modStatus (Addresses_update (\<lambda>_. addressesOf hrc h)) ob'"
    from 2 False have np: "provState (hrmStatus ?ob) \<noteq> StateProvisioned" by (simp add: sameProgress_def)
    show ?case
      unfolding wp_bind_modObj provisionOn_def wp_bind_getObj
    proof (rule wp_bindI [where M = "\<lambda>n r ob''. ob'' = ?ob"], goal_cases)
      case 1
      show ?case by (rule wp_keeps) (intro keeps_intro keeps_authorizeFor)
    next
      case (2 n2 x2 ob2)
      note step = progress_step [OF \<open>sameProgress ob ob'\<close>, of ?ob]
      from step [of ?ob] \<open>ob2 = ?ob\<close> have stay: "progress ob (markDestructiveProvisioningDenied e ?ob)" for e
        using \<open>sameProgress ob ob'\<close> False
        by (auto simp: markDestructiveProvisioningDenied_def sameProgress_def progress_def isFlatcar_def advances.stay)
      show ?case
        unfolding \<open>ob2 = ?ob\<close>
      proof (intro wp_case_option wp_bindI [OF wp_buildRobotClient] wp_case_sum, goal_cases)
        case (1 n3 x3 ob3 e)
        then show ?case using step [of ?ob] by simp
      next
        case (2 n3 x3 ob3 rc)
        then have "ob3 = ?ob" by simp
        then show ?case using step by (auto intro: wp_mono [OF wp_runState_step [OF np]])
      next
        case (3 e)
        then show ?case using stay by simp
      qed
    qed
  qed
qed

lemma keeps_delete [keeps_intro]:
  "keeps (resolveHostForDelete X)" "keeps (releaseHost X ns n)" "keeps (resetForDelete X hrc rc sid)"
  unfolding resolveHostForDelete_def releaseHost_def resetForDelete_def
  by (intro keeps_intro)+

text \<open>What one reconcile makes of a machine.\<close>

definition loopStep :: "HetznerRobotMachine \<Rightarrow> Result res \<Rightarrow> HetznerRobotMachine \<Rightarrow> bool" where
  "loopStep m r m' \<longleftrightarrow> (\<forall>e. r \<noteq> Failed e) \<and>
     (if DeletionTimestamp (hrmMeta m) \<noteq> None then provState (hrmStatus m') = StateDeleting
      else
        (advances (isFlatcar m) (provState (hrmStatus m)) (provState (hrmStatus m'))
           \<or> provState (hrmStatus m') = StateError)
      \<and> (provState (hrmStatus m') = StateError \<longrightarrow> provState (hrmStatus m) \<noteq> StateError \<longrightarrow>
           (\<exists>reason msg. FailureReason (hrmStatus m') = Some reason \<and> FailureMessage (hrmStatus m') = Some msg
              \<and> readyMark (hrmStatus m') = Some (MarkFalse reason SeverityError msg) \<and> \<not> Ready (hrmStatus m')))
      \<and> (provState (hrmStatus m') = StateProvisioned \<longrightarrow> provState (hrmStatus m) \<noteq> StateProvisioned \<longrightarrow>
           Ready (hrmStatus m') \<and> readyMark (hrmStatus m') = Some MarkTrue))"

lemma wp_reconcileDelete_state:
  "wp (reconcileDelete X hrc m) ob (\<lambda>n r ob'. provState (hrmStatus ob') = StateDeleting \<and> (\<forall>e. r \<noteq> Failed e))"
  unfolding reconcileDelete_def finishDelete_def releaseAndFinish_def Let_def case_prod_beta
  by (intro wp_exec keeps_delete keeps_authorizeFor) (auto simp: setFinalizer_def)

lemma advances_no_error: "advances fc st st' \<Longrightarrow> st' = StateError \<Longrightarrow> st = StateError"
  by (induction rule: advances.induct) auto

lemma wp_classify:
  assumes "progress m m1" and "DeletionTimestamp (hrmMeta m) = None"
  shows "wp (classify X r) m1 (\<lambda>n. loopStep m)"
  unfolding classify_def
  by (intro wp_exec wp_case_res)
    (use assms in \<open>auto simp: loopStep_def progress_def enterError_def succeeded_def recordRetry_def dest: advances_no_error\<close>)

lemma wp_checkProvisionTimeout_progress:
  "wp (checkProvisionTimeout X) m (\<lambda>n r m1. if r then provState (hrmStatus m1) = StateError
       \<and> (\<exists>reason msg. FailureReason (hrmStatus m1) = Some reason \<and> FailureMessage (hrmStatus m1) = Some msg
            \<and> readyMark (hrmStatus m1) = Some (MarkFalse reason SeverityError msg) \<and> \<not> Ready (hrmStatus m1))
     else sameProgress m m1)"
  unfolding checkProvisionTimeout_def
  by (intro wp_exec) (auto simp: sameProgress_def enterError_def)

lemma sameProgress_progress: "sameProgress m m1 \<Longrightarrow> progress m1 m2 \<Longrightarrow> progress m m2"
  by (auto simp: sameProgress_def progress_def isFlatcar_def)

lemma wp_loop: "wp (reconcileMachine X hrc mach cl) m (\<lambda>n. loopStep m)"
proof (cases "DeletionTimestamp (hrmMeta m) = None")
  case False
  then show ?thesis
    by (simp add: reconcileMachine_def) (rule wp_mono [OF wp_reconcileDelete_state], simp add: loopStep_def)
next
  case True
  have same: "sameProgress m m1 \<Longrightarrow> loopStep m (Returned x) m1" for m1 x
    using True by (auto simp: loopStep_def sameProgress_def advances.stay)
  show ?thesis
    unfolding reconcileMachine_def wp_bind_getObj using True
    apply (simp only: not_not if_False simp_thms)
    apply (intro wp_if)
     apply (simp add: loopStep_def setFinalizer_def advances.stay)
    apply (rule wp_bindI [OF wp_checkProvisionTimeout_progress], intro wp_if)
     apply (simp add: loopStep_def)
    apply (rule wp_bindI [OF wp_checkBackoff], intro wp_case_option)
     apply (rule wp_bindI [OF wp_reconcileNormal_progress])
     apply (rule wp_classify)
      apply (auto intro: sameProgress_progress same)
    done
qed


text \<open>
  The passes over one machine, each by any cluster, Machine and state of the world, and the states they
  left the machine in, the last first. Between two passes everything but the status may be changed.
\<close>

inductive machineWalk :: "'w ext \<Rightarrow> HetznerRobotMachineStatus \<Rightarrow> ProvisioningState list
    \<Rightarrow> HetznerRobotMachineStatus \<Rightarrow> bool" for X where
  start: "machineWalk X st [] st"
| pass: "machineWalk X st sts (hrmStatus (obj s)) \<Longrightarrow>
    st' = hrmStatus (obj (snd (run_state (reconcileMachine X hrc machine cluster) s))) \<Longrightarrow>
    machineWalk X st (provState st' # sts) st'"

definition beforeInstall :: "ProvisioningState set" where
  "beforeInstall = {StateNone, StateActivatingRescue, StateInRescue, StateError, StateDeleting}"

lemma beforeInstall_step:
  assumes "loopStep m r m'" and "provState (hrmStatus m) \<in> beforeInstall" and "provState (hrmStatus m') \<noteq> StateInstalling"
  shows "provState (hrmStatus m') \<in> beforeInstall"
proof (cases "DeletionTimestamp (hrmMeta m) \<noteq> None \<or> provState (hrmStatus m') = StateError")
  case True
  then show ?thesis using assms(1) by (auto simp: loopStep_def beforeInstall_def)
next
  case False
  then have "advances (isFlatcar m) (provState (hrmStatus m)) (provState (hrmStatus m'))"
    using assms(1) by (auto simp: loopStep_def)
  then show ?thesis using assms(2,3) by (cases rule: advances.cases) (auto simp: beforeInstall_def)
qed

text \<open>
  C20. No machine becomes provisioned without an install: in every sequence of passes from a new machine that
  never leaves it in state Installing, it only ever is new, on its way into rescue, in rescue, in error or
  being deleted; in particular it is never provisioned and no configuration is applied to it.
\<close>

theorem provisioned_only_after_install:
  assumes "machineWalk X st sts st'" and "provState st = StateNone" and "StateInstalling \<notin> set sts"
  shows "provState st' \<in> {StateNone, StateActivatingRescue, StateInRescue, StateError, StateDeleting}"
proof -
  have "provState st' \<in> beforeInstall"
    using assms
  proof (induction rule: machineWalk.induct)
    case (start st)
    then show ?case by (simp add: beforeInstall_def)
  next
    case (pass st sts s st' hrc machine cluster)
    then have "provState (hrmStatus (obj s)) \<in> beforeInstall" and "provState st' \<noteq> StateInstalling" by auto
    with pass.hyps(2) show ?case
      using beforeInstall_step [OF wpD(1) [OF wp_loop [of X hrc machine cluster "obj s"]]] by blast
  qed
  then show ?thesis by (simp add: beforeInstall_def)
qed

theorem provisioned_only_after_install_witness:
  "provState (hrmStatus (obj (snd (run_state (reconcileMachine sampleExt sampleHRC sampleMachine sampleCluster)
     (sampleRun (setFinalizer False sampleHRM)))))) \<in> {StateNone, StateActivatingRescue, StateInRescue, StateError, StateDeleting}"
  (is "provState ?st \<in> _")
proof (rule provisioned_only_after_install)
  show "machineWalk (sampleExt :: unit ext) (hrmStatus (obj (sampleRun (setFinalizer False sampleHRM)))) [provState ?st] ?st"
    by (rule machineWalk.pass [where s = "sampleRun (setFinalizer False sampleHRM)", OF machineWalk.start refl])
qed (simp_all add: reconcileMachine_def setFinalizer_def sample_defs)

section \<open>Backoff and errors\<close>

lemma computeBackoff_eq:
  "computeBackoff n = (let e = max 0 (min 10 (wrap64 (n - 1))) in min (30 * second * 2 ^ nat e) (5 * minute))"
  by (auto simp: computeBackoff_def Let_def min_def max_def)

lemma backoff_large:
  assumes "4 \<le> e"
  shows "5 * minute \<le> 30 * second * 2 ^ nat e"
proof -
  have "(2 :: int) ^ 4 \<le> 2 ^ nat e" using assms by (intro power_increasing) auto
  then show ?thesis by simp
qed

text \<open>
  C28. The backoff of the n-th consecutive failure is thirty seconds doubled n - 1 times, at most
  five minutes; and it lies between thirty seconds and five minutes for every count a Go int can
  hold, zero and negative ones included.
\<close>

theorem backoff_doubles_and_is_capped:
  assumes "int64 n"
  shows "(1 \<le> n \<longrightarrow> computeBackoff n = min (30 * second * 2 ^ nat (n - 1)) (5 * minute))
    \<and> 30 * second \<le> computeBackoff n \<and> computeBackoff n \<le> 5 * minute"
proof -
  have "1 \<le> (2 :: int) ^ nat e" for e by simp
  then have low: "30 * second \<le> min (30 * second * 2 ^ nat e) (5 * minute)" for e
    by (simp add: min_def)
  have "computeBackoff n = min (30 * second * 2 ^ nat (n - 1)) (5 * minute)" if "1 \<le> n"
  proof -
    have wrap: "wrap64 (n - 1) = n - 1" using assms that by (intro wrap64_id) (simp add: int64_def)
    show ?thesis
    proof (cases "n - 1 \<le> 10")
      case True
      with that show ?thesis by (simp add: computeBackoff_eq wrap)
    next
      case False
      with backoff_large [of "n - 1"] show ?thesis by (simp add: computeBackoff_eq wrap)
    qed
  qed
  then show ?thesis using low by (auto simp: computeBackoff_eq Let_def)
qed

theorem backoff_doubles_and_is_capped_witness:
  "computeBackoff 1 = 30 * second \<and> computeBackoff 4 = 4 * minute \<and> computeBackoff 5 = 5 * minute"
  using backoff_doubles_and_is_capped [of 1] backoff_doubles_and_is_capped [of 4] backoff_doubles_and_is_capped [of 5]
  by (simp add: int64_def)

text \<open>
  C21. How an error of a pass is handled. A permanent one ends the provisioning: error state with
  the error's text as failure message, not ready, no requeue. Any other counts one more retry, notes
  the time, leaves the failure fields and the state alone and comes back after the backoff of the new count.
  Success clears the retry count and the failure fields.
\<close>

theorem errors_classified:
  "(case r of
      Panicked \<Rightarrow> obj (snd (run_state (classify X r) s)) = obj s
    | Failed e \<Rightarrow>
        (let m = hrmStatus (obj s); m' = hrmStatus (obj (snd (run_state (classify X r) s)));
             out = fst (run_state (classify X r) s) in
         if isPermanentError (Some e) then
           provState m' = StateError \<and> FailureReason m' = Some ''PermanentError'' \<and> FailureMessage m' = Some (errText e)
           \<and> \<not> Ready m' \<and> RetryCount m' = RetryCount m \<and> out = Returned Done
         else
           provState m' = provState m \<and> FailureReason m' = FailureReason m \<and> FailureMessage m' = FailureMessage m
           \<and> RetryCount m' = wrap64 (RetryCount m + 1) \<and> LastRetryTimestamp m' = Some (fst (xNow X (world s)))
           \<and> out = Returned (RequeueAfter (computeBackoff (RetryCount m'))))
    | Returned res \<Rightarrow>
        (let m' = hrmStatus (obj (snd (run_state (classify X r) s))) in
         RetryCount m' = 0 \<and> LastRetryTimestamp m' = None \<and> FailureReason m' = None \<and> FailureMessage m' = None
         \<and> provState m' = provState (hrmStatus (obj s)) \<and> fst (run_state (classify X r) s) = Returned res))"
  by (cases r)
    (simp_all add: classify_def enterError_def succeeded_def recordRetry_def timeNow_def Let_def)

text \<open>
  C26. The provision timeout. A live machine that is still being provisioned more than thirty
  minutes after its provisioning began is put into the error state with reason ProvisionTimeout
  in a pass that does nothing else: the clock is read once, nothing is requested from any service, no requeue.
\<close>

theorem provision_timeout_strikes:
  assumes "DeletionTimestamp (hrmMeta (obj s)) = None" and "hasFinalizer (hrmMeta (obj s))"
    and "provisioningStates (provState (hrmStatus (obj s)))" and "ProvisionStarted (hrmStatus (obj s)) = Some t"
    and "30 * minute < fst (xNow X (world s)) - t"
  shows "newEvents (reconcileMachine X hrc machine cluster) s = [EvNow (fst (xNow X (world s)))]
    \<and> provState (hrmStatus (obj (snd (run_state (reconcileMachine X hrc machine cluster) s)))) = StateError
    \<and> FailureReason (hrmStatus (obj (snd (run_state (reconcileMachine X hrc machine cluster) s)))) = Some ''ProvisionTimeout''
    \<and> fst (run_state (reconcileMachine X hrc machine cluster) s) = Returned Done"
proof -
  have "provisionTimeout < timeSub (fst (xNow X (world s))) t"
    using assms(5) by (simp add: provisionTimeout_def timeSub_def)
  with assms(1-4) show ?thesis
    by (simp add: reconcileMachine_def checkProvisionTimeout_def timeNow_def newEvents_def enterError_def)
qed

theorem provision_timeout_strikes_witness:
  "FailureReason (hrmStatus (obj (snd (run_state (reconcileMachine (sampleExt\<lparr>xNow := \<lambda>w. (31 * minute, w)\<rparr>) sampleHRC
     sampleMachine sampleCluster) (sampleRun (modStatus (ProvisionStarted_update (\<lambda>_. Some 0)) sampleHRM)))))) = Some ''ProvisionTimeout''"
  using provision_timeout_strikes [of "sampleRun (modStatus (ProvisionStarted_update (\<lambda>_. Some 0)) sampleHRM)" 0
      "sampleExt\<lparr>xNow := \<lambda>w. (31 * minute, w)\<rparr>" sampleHRC sampleMachine sampleCluster]
  by (simp add: sample_defs provisioningStates_def)

lemma checkProvisionTimeout_clock:
  "list_all (\<lambda>e. \<exists>t. e = EvNow t) (newEvents (checkProvisionTimeout X) s)"
  "trace (snd (run_state (checkProvisionTimeout X) s)) = trace s @ newEvents (checkProvisionTimeout X) s"
proof -
  have "emits (\<lambda>e. \<exists>t. e = EvNow t) (checkProvisionTimeout X)"
    unfolding checkProvisionTimeout_def timeNow_def by (intro emits_intro) auto
  then show "list_all (\<lambda>e. \<exists>t. e = EvNow t) (newEvents (checkProvisionTimeout X) s)"
    and "trace (snd (run_state (checkProvisionTimeout X) s)) = trace s @ newEvents (checkProvisionTimeout X) s"
    by (auto simp: list_all_iff dest: emits_new intro: emits_trace)
qed

text \<open>
  C27. The backoff is enforced. When a pass over a live machine gets past the provision timeout
  and the backoff of the current retry count has not elapsed, it ends there: it has only read the
  clock, it has not touched the machine since, and it asks to come back when the rest of the backoff is over.
\<close>

theorem backoff_enforced:
  assumes "DeletionTimestamp (hrmMeta (obj s)) = None" and "hasFinalizer (hrmMeta (obj s))"
    and "run_state (checkProvisionTimeout X) s = (False, s1)"
    and "0 < RetryCount (hrmStatus (obj s1))" and "LastRetryTimestamp (hrmStatus (obj s1)) = Some t"
    and "elapsed = fst (xNow X (world s1)) - t" and "0 \<le> elapsed"
    and "elapsed < computeBackoff (RetryCount (hrmStatus (obj s1)))" and "int64 (RetryCount (hrmStatus (obj s1)))"
  shows "list_all (\<lambda>e. \<exists>t. e = EvNow t) (newEvents (reconcileMachine X hrc machine cluster) s)
    \<and> obj (snd (run_state (reconcileMachine X hrc machine cluster) s)) = obj s1
    \<and> fst (run_state (reconcileMachine X hrc machine cluster) s)
        = Returned (RequeueAfter (computeBackoff (RetryCount (hrmStatus (obj s1))) - elapsed))"
proof -
  let ?b = "computeBackoff (RetryCount (hrmStatus (obj s1)))"
  have b: "?b \<le> 5 * minute" by (simp add: computeBackoff_eq Let_def)
  with assms have sub: "timeSub (fst (xNow X (world s1))) t = elapsed"
    by (simp add: timeSub_def)
  have wrap: "wrap64 (?b - elapsed) = ?b - elapsed"
    using assms b by (intro wrap64_id) (simp add: int64_def)
  have "length (trace s) \<le> length (trace s1)"
    using checkProvisionTimeout_clock(2) [of X s] assms(3) by (metis length_append le_add1 snd_conv)
  then show ?thesis
    using assms sub wrap checkProvisionTimeout_clock(1) [of X s]
    by (simp add: reconcileMachine_def checkBackoff_def timeNow_def newEvents_def Let_def)
qed

theorem backoff_enforced_witness:
  "let s = sampleRun (modStatus (\<lambda>st. st\<lparr>provState := StateError, RetryCount := 1, LastRetryTimestamp := Some 0\<rparr>) sampleHRM);
       X = sampleExt\<lparr>xNow := \<lambda>w. (10 * second, w)\<rparr>
   in fst (run_state (reconcileMachine X sampleHRC sampleMachine sampleCluster) s) = Returned (RequeueAfter (20 * second))"
proof -
  let ?s = "sampleRun (modStatus (\<lambda>st. st\<lparr>provState := StateError, RetryCount := 1, LastRetryTimestamp := Some 0\<rparr>) sampleHRM)"
  let ?X = "sampleExt\<lparr>xNow := \<lambda>w. (10 * second, w)\<rparr>"
  have "run_state (checkProvisionTimeout ?X) ?s = (False, ?s)"
    by (simp add: checkProvisionTimeout_def provisioningStates_def sampleRun_def)
  moreover have "computeBackoff 1 = 30 * second" by (simp add: computeBackoff_def wrap64_def)
  ultimately show ?thesis
    using backoff_enforced [of ?s ?X ?s 0 "10 * second" sampleHRC sampleMachine sampleCluster]
    by (simp add: sample_defs int64_def Let_def)
qed

section \<open>Resets\<close>

definition rescueRequest :: "RobotClient \<Rightarrow> int \<Rightarrow> event \<Rightarrow> bool" where
  "rescueRequest rc sid e \<longleftrightarrow> (\<exists>form r. e = EvHttp POST (baseURL rc @ ''/boot/'' @ itoa sid @ ''/rescue'') form r)"

lemma wp_ActivateRescue:
  "wp (ActivateRescue X rc sid fp) ob (\<lambda>n r ob'. ob' = ob \<and> (\<exists>e. n = [e] \<and> rescueRequest rc sid e))"
  unfolding wp_def by (auto simp: ActivateRescue_def robotPost_def httpDo_def rescueRequest_def)

lemma wp_ResetServer_request:
  "wp (ResetServer X rc sid ResetTypeHardware) ob (\<lambda>n r ob'. ob' = ob \<and> (\<exists>e. n = [e] \<and> resetRequest rc sid e))"
  unfolding wp_def by (auto simp: ResetServer_def robotPost_def httpDo_def resetRequest_def)

text \<open>Arming succeeds as a whole or leaves the machine as it was.\<close>

definition armed :: "RobotClient \<Rightarrow> int \<Rightarrow> HetznerRobotMachine \<Rightarrow> event list \<Rightarrow> Result res \<Rightarrow> HetznerRobotMachine \<Rightarrow> bool" where
  "armed rc sid m n r m' \<longleftrightarrow> (case r of
     Returned x \<Rightarrow> (\<exists>a b now. n = [a, b, EvNow now] \<and> rescueRequest rc sid a \<and> resetRequest rc sid b
       \<and> x = RequeueAfter (4 * minute)
       \<and> m' = modStatus (\<lambda>st. st\<lparr>LastResetTime := Some now, provState := StateActivatingRescue\<rparr>) m)
   | Failed e \<Rightarrow> m' = m
   | Panicked \<Rightarrow> False)"

lemma wp_arm_effect: "wp (armRescueAndReset X hrc rc sid) ob (armed rc sid ob)"
  unfolding armRescueAndReset_def
proof (rule wp_bindI [where M = "\<lambda>n r ob'. n = [] \<and> ob' = ob"], goal_cases)
  case 1
  show ?case unfolding getSSHKeyFingerprint_def by (intro wp_exec) simp
next
  case (2 n f ob')
  then show ?case
  proof (intro wp_case_sum wp_bindI [OF wp_ActivateRescue] wp_case_option wp_bindI [OF wp_ResetServer_request], goal_cases)
    case (3 fp n2 a ob2 i n3 r ob3)
    then show ?case by (auto intro!: wp_exec simp: armed_def)
  qed (auto simp: armed_def)
qed



end
