(* ===== verification/Host_Pool.thy ===== *)
theory Host_Pool
  imports Host_Controller Machine_Loop
begin

text \<open>
  The controllers together: many machines and the host controller work on one set of hosts.
  First every patch a machine's reconcile sends to a host is classified; then the steps of the
  whole system are runs of the two reconcilers on a shared store, and a host never gets two
  holders.
\<close>

section \<open>What a machine may do to hosts\<close>

text \<open>
  The API answers a read by name with the object of that name. \<open>honest\<close> says so of the reads
  of a trace.
\<close>

definition honest :: "event list \<Rightarrow> bool" where
  "honest tr \<longleftrightarrow> list_all (\<lambda>e. case e of EvGetHost k (Inr h) \<Rightarrow> hostName h = snd k | _ \<Rightarrow> True) tr"

lemma honest_simps [simp]:
  "honest []" "honest (a @ b) \<longleftrightarrow> honest a \<and> honest b"
  "honest (e # tr) \<longleftrightarrow> (case e of EvGetHost k (Inr h) \<Rightarrow> hostName h = snd k | _ \<Rightarrow> True) \<and> honest tr"
  by (simp_all add: honest_def)

text \<open>
  A machine knows a host when its own status names it or the API has shown it with a reference
  to the machine.
\<close>

definition knows :: "HetznerRobotMachine \<Rightarrow> event list \<Rightarrow> string \<Rightarrow> bool" where
  "knows hrm pre n \<longleftrightarrow> n \<noteq> [] \<and> n = HostRef (hrmStatus hrm)
     \<or> (\<exists>h. hostSeen pre h \<and> hostIsClaimedBy h hrm \<and> hostName h = n)"

definition takes :: "HetznerRobotMachine \<Rightarrow> HetznerRobotHost \<Rightarrow> HetznerRobotHost \<Rightarrow> bool" where
  "takes hrm b a \<longleftrightarrow> hostState (hostStatus b) = HostStateAvailable
     \<and> hostState (hostStatus a) = HostStateClaimed \<and> ownedBy hrm a"

definition adopts :: "HetznerRobotMachine \<Rightarrow> HetznerRobotHost \<Rightarrow> HetznerRobotHost \<Rightarrow> bool" where
  "adopts hrm b a \<longleftrightarrow> ConsumerRef (hostStatus b) \<in> {None, Some (machineReferenceFor hrm)}
     \<and> hostState (hostStatus a) = HostStateProvisioned \<and> ownedBy hrm a"

definition completes :: "HetznerRobotMachine \<Rightarrow> event list \<Rightarrow> HetznerRobotHost \<Rightarrow> HetznerRobotHost \<Rightarrow> bool" where
  "completes hrm pre b a \<longleftrightarrow> knows hrm pre (hostName b) \<and> freeFor hrm b
     \<and> hostState (hostStatus a) = hostState (hostStatus b) \<and> ownedBy hrm a"

definition releases :: "HetznerRobotMachine \<Rightarrow> event list \<Rightarrow> HetznerRobotHost \<Rightarrow> HetznerRobotHost \<Rightarrow> bool" where
  "releases hrm pre b a \<longleftrightarrow> knows hrm pre (hostName b) \<and> DeletionTimestamp (hrmMeta hrm) \<noteq> None \<and> a = releasedHost b"

fun lawful :: "HetznerRobotMachine \<Rightarrow> event list \<Rightarrow> event \<Rightarrow> bool" where
  "lawful hrm pre (EvPatchHost b a r) = (honest pre \<longrightarrow> hostMeta a = hostMeta b
     \<and> (keepsClaim b a \<or> takes hrm b a \<or> adopts hrm b a \<or> completes hrm pre b a \<or> releases hrm pre b a))"
| "lawful hrm pre _ = True"

subsection \<open>Composing\<close>

lemma knows_mono: "knows m pre n \<Longrightarrow> set pre \<subseteq> set pre' \<Longrightarrow> knows m pre' n"
  unfolding knows_def hostSeen_def list_ex_iff by (metis subsetD)

lemma honest_mono: "honest pre' \<Longrightarrow> set pre \<subseteq> set pre' \<Longrightarrow> honest pre"
  unfolding honest_def list_all_iff by blast

lemma lawful_mono:
  assumes "lawful m pre e" and "set pre \<subseteq> set pre'"
  shows "lawful m pre' e"
proof (cases e)
  case (EvPatchHost b a r)
  have "completes m pre b a \<Longrightarrow> completes m pre' b a" "releases m pre b a \<Longrightarrow> releases m pre' b a"
    using knows_mono [OF _ assms(2)] by (simp_all add: completes_def releases_def)
  with EvPatchHost assms(1) honest_mono [OF _ assms(2)] show ?thesis by auto
qed simp_all

lemma safe_lawful_pre: "safeFrom (lawful m) pre n \<Longrightarrow> set pre \<subseteq> set pre' \<Longrightarrow> safeFrom (lawful m) pre' n"
proof (induction n arbitrary: pre pre')
  case Nil
  then show ?case by simp
next
  case (Cons e n)
  have "safeFrom (lawful m) (pre' @ [e]) n"
    by (rule Cons.IH [of "pre @ [e]"]) (use Cons.prems in auto)
  moreover have "lawful m pre' e" by (rule lawful_mono [of m pre]) (use Cons.prems in auto)
  ultimately show ?case by simp
qed

lemma lawful_cong:
  assumes "hrmMeta m = hrmMeta m'" and "HostRef (hrmStatus m) = HostRef (hrmStatus m')"
  shows "lawful m = lawful m'"
proof (intro ext)
  fix pre e
  have "machineReferenceFor m = machineReferenceFor m'" using assms by (simp add: machineReferenceFor_def)
  with assms show "lawful m pre e = lawful m' pre e"
    by (cases e) (simp_all add: takes_def adopts_def completes_def releases_def knows_def ownedBy_def freeFor_def
        hostIsClaimedBy_def matches_iff)
qed

text \<open>Events that leave claims alone.\<close>

fun claimless :: "event \<Rightarrow> bool" where
  "claimless (EvPatchHost b a r) = keepsClaim b a"
| "claimless _ = True"

lemma claimless_simps [simp]: "isRead e \<Longrightarrow> claimless e" "aimed sid ip e \<Longrightarrow> claimless e"
  by (cases e; simp add: isRead_def)+

lemma claimless_lawful: "claimless e \<Longrightarrow> lawful m pre e"
  by (cases e) (simp_all add: keepsClaim_def)

lemma safe_claimless: "list_all claimless n \<Longrightarrow> safeFrom (lawful m) pre n"
  by (erule safeFrom_all) (rule claimless_lawful)

lemma emits_read_claimless: "emits isRead m \<Longrightarrow> emits claimless m"
  by (erule emits_mono) simp

lemmas emits_claimless [emits_intro] = emits_reads [THEN emits_read_claimless]

lemma wp_claimless: "emits claimless m \<Longrightarrow> wp m ob (\<lambda>n r ob'. safeFrom (lawful hrm) pre n)"
  by (rule wp_mono [OF wp_emits], assumption) (rule safe_claimless)

subsection \<open>A reconcile is lawful\<close>

text \<open>
  The contract of a part of a run that began with the events \<open>seen\<close>: it patches hosts lawfully,
  and when it changes the machine's HostRef, to a host the API has shown as the machine's.
\<close>

definition lawfulRun :: "HetznerRobotMachine \<Rightarrow> event list \<Rightarrow> event list \<Rightarrow> HetznerRobotMachine \<Rightarrow> bool" where
  "lawfulRun m0 seen n m \<longleftrightarrow> safeFrom (lawful m0) seen n \<and> hrmMeta m = hrmMeta m0
     \<and> (honest (seen @ n) \<longrightarrow> HostRef (hrmStatus m) = HostRef (hrmStatus m0) \<or> knows m0 (seen @ n) (HostRef (hrmStatus m)))"

lemma ownedBy_claimed: "ownedBy m h \<Longrightarrow> hostIsClaimedBy h m"
  by (simp add: ownedBy_def hostIsClaimedBy_def matches_iff)

lemma knows_shown: "hostSeen pre h \<Longrightarrow> hostIsClaimedBy h m \<Longrightarrow> knows m pre (hostName h)"
  by (auto simp: knows_def)

lemma lawfulRun_claimless: "list_all claimless n \<Longrightarrow> lawfulRun m seen n m"
  by (simp add: lawfulRun_def safe_claimless)

lemma lawfulRun_prefix: "lawfulRun m0 (seen @ n) n' m \<Longrightarrow> safeFrom (lawful m0) seen n \<Longrightarrow> lawfulRun m0 seen (n @ n') m"
  by (auto simp: lawfulRun_def)

lemma wp_ensureRef_lawful:
  assumes "hrmMeta m = hrmMeta m0" and "hrmMeta ob = hrmMeta m0" and "honest seen \<Longrightarrow> knows m0 seen (hostName h)"
    and "honest seen \<Longrightarrow> HostRef (hrmStatus ob) = HostRef (hrmStatus m0) \<or> knows m0 seen (HostRef (hrmStatus ob))"
  shows "wp (ensureHostConsumerRef X h m) ob (\<lambda>n r ob'. lawfulRun m0 seen n ob')"
proof -
  have ref: "machineReferenceFor m = machineReferenceFor m0" using assms(1) by (simp add: machineReferenceFor_def)
  have mono: "knows m0 seen x \<Longrightarrow> knows m0 (seen @ n) x" for x n by (erule knows_mono) simp
  show ?thesis
    unfolding ensureHostConsumerRef_def Let_def matches_iff ref
    by (intro wp_if wp_patchHostWith)
      (use assms mono in \<open>auto simp: lawfulRun_def completes_def freeFor_def\<close>)
qed

lemma wp_claimCandidate_lawful:
  assumes "hrmMeta ob = hrmMeta m0" and "HostRef (hrmStatus ob) = HostRef (hrmStatus m0)"
  shows "wp (claimCandidate X cand) ob (\<lambda>n r ob'. lawfulRun m0 seen n ob')"
proof -
  have own: "ownedBy m0 (claimedHost ob h)" for h
    using assms(1) ownedBy_cong [of ob m0] by (metis ownedBy_ops(2))
  have "knows m0 (seen @ [EvGetHost k (Inr h), EvPatchHost h (claimedHost ob h) None]) (hostName h)" for k h
    using knows_shown [OF _ ownedBy_claimed [OF own], of "seen @ [EvGetHost k (Inr h), EvPatchHost h (claimedHost ob h) None]" h]
    by simp
  then show ?thesis
    unfolding claimCandidate_def wp_bind_getObj
    by (intro wp_intro wp_bindE_patchHostWith) (use assms own in \<open>auto simp: lawfulRun_def takes_def\<close>)
qed

lemma wp_recoverClaim_lawful:
  assumes "hostSeen seen h" and "hostIsClaimedBy h m0" and "hrmMeta ob = hrmMeta m0"
  shows "wp (recoverClaim X h) ob (\<lambda>n r ob'. lawfulRun m0 seen n ob')"
  unfolding recoverClaim_def wp_bind_modObj wp_bind_getObj
  by (rule wp_ensureRef_lawful) (simp_all add: assms knows_shown)

lemma wp_resolveHost_lawful: "wp (resolveHost X) ob (\<lambda>n r ob'. lawfulRun ob [] n ob')"
proof -
  have step: "wp m ob' (\<lambda>n' r. lawfulRun ob [] (n @ n'))" if "wp m ob' (\<lambda>n' r. lawfulRun ob n n')" "list_all isRead n"
    for m :: "('a, HetznerRobotMachine, goerr + HetznerRobotHost) go" and ob' n
    using that(1) by (rule wp_mono) (rule lawfulRun_prefix, simp, rule safe_claimless,
      use that(2) in \<open>auto simp: list_all_iff\<close>)
  show ?thesis
    unfolding resolveHost_def Let_def wp_bind_getObj
    apply (intro wp_intro step wp_ensureRef_lawful wp_claimCandidate_lawful wp_recoverClaim_lawful)
    apply (auto simp: lawfulRun_claimless knows_def find_Some_iff)
    done
qed

lemma adoptionPatch_lawful: "adoptionPatch m e \<Longrightarrow> lawful m pre e"
  by (auto simp: adoptionPatch_def adopts_def)

lemma adoption_lawful: "list_all (\<lambda>e. isRead e \<or> adoptionPatch m e) n \<Longrightarrow> safeFrom (lawful m) pre n"
  by (erule safeFrom_all) (auto intro: adoptionPatch_lawful claimless_lawful)

lemma wp_reconcileProvisioned_lawful: "wp (reconcileProvisioned X) ob (\<lambda>n r ob'. lawfulRun ob [] n ob')"
proof -
  let ?first = "if HostRef (hrmStatus ob) = [] then do { _ \<leftarrow> backfillProvisionedHostClaim X; ret () } else ret ()"
  have first: "wp ?first ob (\<lambda>n r ob'. lawfulRun ob [] n ob' \<and> ProviderID (hrmSpec ob') = ProviderID (hrmSpec ob))"
  proof (intro wp_if wp_bindI [OF wp_backfill], goal_cases)
    case (1 n r ob')
    then have "list_all (\<lambda>e. isRead e \<or> adoptionPatch ob e) n"
      by (auto simp: backfills_def backfillPatch_def list_all_iff)
    with 1 show ?case
      by (auto simp: backfills_def lawfulRun_def adoption_lawful split: if_splits
          dest!: ownedBy_claimed knows_shown)
  qed (simp add: lawfulRun_def)
  have second: "wp (if HostRef (hrmStatus ob') \<noteq> [] then do { _ \<leftarrow> ensureProvisionedHostStatus X; ret () } else ret ()) ob'
      (\<lambda>n' r ob2. lawfulRun ob [] (n @ n') ob2)" if "lawfulRun ob [] n ob'" for n ob'
  proof (intro wp_if wp_bindI [OF wp_ensureProvisioned], goal_cases)
    case (1 n' r ob2)
    have "machineReferenceFor ob' = machineReferenceFor ob"
      using that by (simp add: lawfulRun_def machineReferenceFor_def)
    then have "lawful ob pre e" if "isRead e \<or> adoptionPatch ob' e" for pre e
      using that claimless_lawful [of e] by (auto simp: adoptionPatch_def adopts_def ownedBy_def)
    then have "safeFrom (lawful ob) n n'" using 1 by (auto intro: safeFrom_all)
    moreover have "knows ob n x \<Longrightarrow> knows ob (n @ n') x" for x by (erule knows_mono) simp
    ultimately show ?case using 1 that by (auto simp: lawfulRun_def)
  qed (use that in simp)
  show ?thesis
    unfolding reconcileProvisioned_def wp_bind_getObj
    apply (rule wp_bindI [OF first])
    apply (simp only: wp_bind_modObj wp_bind_getObj)
    apply (rule wp_bindI, rule second)
     apply (auto simp: lawfulRun_def)
    done
qed

text \<open>The states, the policy and the Robot client leave every claim alone.\<close>

lemma wp_runState_claimless:
  assumes "baseURL rc = robotBaseURL"
  shows "wp (runState X hrc m h rc) ob (\<lambda>n r ob'. list_all claimless n)"
  by (rule wp_mono [OF wp_runState [OF assms refl refl]])
    (auto simp: list_all_iff harmless_def split: if_splits)

definition sameHost :: "HetznerRobotMachine \<Rightarrow> HetznerRobotMachine \<Rightarrow> bool" where
  "sameHost m m' \<longleftrightarrow> hrmMeta m' = hrmMeta m \<and> HostRef (hrmStatus m') = HostRef (hrmStatus m)"

lemma sameHost_simps [simp]:
  "sameHost m m" "sameHost m (markDestructiveProvisioningDenied e m') = sameHost m m'"
  "sameHost m (enterError reason msg m') = sameHost m m'" "sameHost m (succeeded m') = sameHost m m'"
  "sameHost m (recordRetry t m') = sameHost m m'" "sameHost m (setState st m') = sameHost m m'"
  by (simp_all add: sameHost_def markDestructiveProvisioningDenied_def enterError_def succeeded_def recordRetry_def)

lemma lawfulRun_then:
  assumes "lawfulRun m0 [] n m" and "list_all claimless n'" and "sameHost m m'"
  shows "lawfulRun m0 [] (n @ n') m'"
  using assms knows_mono [where pre = n and pre' = "n @ n'" and m = m0]
  by (auto simp: lawfulRun_def sameHost_def safe_claimless)

lemma wp_provisionOn_quietly:
  assumes "provState (hrmStatus ob) \<noteq> StateProvisioned"
  shows "wp (provisionOn X hrc m h) ob (\<lambda>n r ob'. list_all claimless n \<and> sameHost ob ob')"
proof -
  have gate: "wp (if b then authorizeDestructiveProvisioningFor X (Some hrm) (Some m) (Some h) else ret None) ob
      (\<lambda>n r ob'. list_all claimless n \<and> ob' = ob)" for b hrm
    by (auto intro!: wp_mono [OF wp_authorizeFor] simp: list_all_iff)
  have run: "wp (runState X hrc m h rc) ob (\<lambda>n r ob'. list_all claimless n \<and> sameHost ob ob')"
    if "baseURL rc = robotBaseURL" for rc
    by (rule wp_conj [OF wp_runState_claimless [OF that] wp_mono [OF wp_runState_step [OF assms]]])
      (simp add: stepTo_def sameHost_def)
  show ?thesis
    unfolding provisionOn_def wp_bind_getObj
  proof (rule wp_bindI [OF gate], intro wp_case_option, goal_cases)
    case (1 n r ob')
    then show ?case
      by (intro wp_bindI [OF wp_buildRobotClient] wp_case_sum) (auto intro!: wp_mono [OF run])
  qed auto
qed

lemma wp_reconcileNormal_lawful: "wp (reconcileNormal X hrc m cl) ob (\<lambda>n r ob'. lawfulRun ob [] n ob')"
proof -
  have prov: "provState (hrmStatus ob') = provState (hrmStatus ob)" if "sameProgress ob ob'" for ob'
    using that by (simp add: sameProgress_def)
  show ?thesis
    unfolding reconcileNormal_def wp_bind_getObj
  proof (intro wp_if wp_reconcileProvisioned_lawful wp_bindI [OF wp_conj [OF wp_resolveHost_lawful wp_resolveHost_progress]]
      wp_case_sum, goal_cases)
    case (2 n x ob' h)
    let ?ob = "modStatus (Addresses_update (\<lambda>_. addressesOf hrc h)) ob'"
    from 2 prov have "provState (hrmStatus ?ob) \<noteq> StateProvisioned" by simp
    with 2 show ?case
      unfolding wp_bind_modObj
      by (intro wp_mono [OF wp_provisionOn_quietly] lawfulRun_then [where m = ob']) (auto simp: sameHost_def)
  qed simp
qed

lemma wp_releaseHost_lawful:
  assumes "honest seen \<Longrightarrow> knows m0 seen hn" and "DeletionTimestamp (hrmMeta m0) \<noteq> None"
  shows "wp (releaseHost X ns hn) ob (\<lambda>n r ob'. safeFrom (lawful m0) seen n \<and> ob' = ob)"
proof -
  have "knows m0 seen hn \<Longrightarrow> knows m0 (seen @ n) hn" for n by (erule knows_mono) simp
  then show ?thesis
    unfolding releaseHost_def
    by (intro wp_intro wp_bind [OF wp_patchHostWith]) (use assms in \<open>auto simp: releases_def\<close>)
qed

lemma wp_releaseAndFinish_lawful:
  assumes "\<And>h. ho = Some h \<Longrightarrow> honest seen \<Longrightarrow> knows m0 seen (hostName h)" and "DeletionTimestamp (hrmMeta m0) \<noteq> None"
  shows "wp (releaseAndFinish X ho b) ob (\<lambda>n r ob'. safeFrom (lawful m0) seen n \<and> HostRef (hrmStatus ob') = HostRef (hrmStatus ob))"
  unfolding releaseAndFinish_def finishDelete_def wp_bind_getObj
  by (rule wp_bindI [where M = "\<lambda>n r ob'. safeFrom (lawful m0) seen n \<and> ob' = ob"],
      intro wp_case_option wp_if wp_bindI [OF wp_releaseHost_lawful])
    (use assms in \<open>auto simp: setFinalizer_def\<close>)

lemma wp_resolveForDelete_knows:
  "wp (resolveHostForDelete X) ob (\<lambda>n r m. m = ob \<and> list_all isRead n \<and>
     (case r of Inr (Some h, rel) \<Rightarrow> rel \<and> (honest n \<longrightarrow> knows ob n (hostName h)) | Inr (None, rel) \<Rightarrow> \<not> rel | Inl _ \<Rightarrow> True))"
  unfolding resolveHostForDelete_def Let_def wp_bind_getObj
  by (intro wp_intro) (auto simp: find_Some_iff knows_def split: sum.split option.split, (metis nth_mem)+)

text \<open>What a whole reconcile guarantees.\<close>

definition lawfulPass :: "HetznerRobotMachine \<Rightarrow> event list \<Rightarrow> HetznerRobotMachine \<Rightarrow> bool" where
  "lawfulPass m0 n m \<longleftrightarrow> safeFrom (lawful m0) [] n
     \<and> (honest n \<longrightarrow> HostRef (hrmStatus m) = HostRef (hrmStatus m0) \<or> knows m0 n (HostRef (hrmStatus m)))"

lemma wp_finishDelete_lawful: "wp finishDelete ob (\<lambda>n r ob'. n = [] \<and> HostRef (hrmStatus ob') = HostRef (hrmStatus ob))"
  unfolding finishDelete_def by (simp add: setFinalizer_def)

lemma wp_reconcileDelete_lawful:
  assumes del: "DeletionTimestamp (hrmMeta ob) \<noteq> None"
  shows "wp (reconcileDelete X hrc m) ob (\<lambda>n r ob'. lawfulPass ob n ob')"
  unfolding reconcileDelete_def wp_bind_modObj
proof (rule wp_bindI [OF wp_resolveForDelete_knows], goal_cases)
  case (1 n r ob1)
  let ?x = "case r of Inl _ \<Rightarrow> (None, False) | Inr x \<Rightarrow> x"
  let ?Q = "\<lambda>seen n' r ob'. lawfulPass ob (seen @ n') ob'"
  from 1 have ob1: "ob1 = setState StateDeleting ob" and n: "list_all claimless n" by (auto simp: list_all_iff)
  have "lawful (setState StateDeleting ob) = lawful ob" "knows (setState StateDeleting ob) = knows ob"
    by (intro lawful_cong ext; simp add: knows_def)+
  with 1 have known: "honest n \<Longrightarrow> fst ?x = Some h \<Longrightarrow> snd ?x \<Longrightarrow> knows ob n (hostName h)"
    and rel: "fst ?x \<noteq> None \<longleftrightarrow> snd ?x" for h
    by (auto split: sum.splits option.splits)
  have safe: "safeFrom (lawful ob) [] (n @ n')" if "list_all claimless n'" for n'
    using n that by (intro safe_claimless) simp
  have fin: "wp finishDelete ob2 (?Q (n @ n'))" if "list_all claimless n'" "HostRef (hrmStatus ob2) = HostRef (hrmStatus ob)" for n' ob2
    by (rule wp_mono [OF wp_finishDelete_lawful]) (use safe [OF that(1)] that(2) in \<open>simp add: lawfulPass_def\<close>)
  have rest: "wp (releaseAndFinish X (fst ?x) b) ob2 (?Q (n @ n'))"
    if "list_all claimless n'" "HostRef (hrmStatus ob2) = HostRef (hrmStatus ob)" for b n' ob2
  proof (rule wp_mono [OF wp_releaseAndFinish_lawful [OF _ del]])
    show "knows ob (n @ n') (hostName h)" if "fst ?x = Some h" "honest (n @ n')" for h
      using known [of h] rel that by (auto intro: knows_mono [where pre = n])
    show "lawfulPass ob ((n @ n') @ n2) ob'"
      if "safeFrom (lawful ob) (n @ n') n2 \<and> HostRef (hrmStatus ob') = HostRef (hrmStatus ob2)" for n2 ob'
      using safe [OF \<open>list_all claimless n'\<close>] that \<open>HostRef (hrmStatus ob2) = _\<close> by (simp add: lawfulPass_def)
  qed
  show ?case
    unfolding ob1 Let_def case_prod_beta
  proof (intro wp_if wp_bindI [OF wp_buildRobotClient] wp_case_sum, goal_cases)
    case 1
    then show ?case using safe [of "[]"] by (simp add: lawfulPass_def)
  next
    case (2 n1 c ob2 e)
    then show ?case using fin [of "[]" ob2] by simp
  next
    case (3 n1 c ob2 rc)
    then have rc: "baseURL rc = robotBaseURL" "n1 = []" "ob2 = setState StateDeleting ob" by auto
    have gate: "wp (if b then authorizeDestructiveProvisioningFor X (Some hrm) (Some m) ho else ret None) ob3
        (\<lambda>n r ob'. list_all claimless n \<and> ob' = ob3)" if "b \<Longrightarrow> ho \<noteq> None" for b hrm ho ob3
      using that by (cases ho) (auto intro!: wp_mono [OF wp_authorizeFor] simp: list_all_iff)
    have reset: "wp (resetForDelete X hrc rc sid) ob' (\<lambda>n r ob2. list_all claimless n \<and> ob2 = ob')" for sid ob'
      by (rule wp_conj [OF wp_mono [OF wp_resetForDelete [OF rc(1), where ip = "[]"]] wp_keeps [OF keeps_delete(3)]])
        (auto simp: list_all_iff intro: claimless_simps(2))
    show ?case
      unfolding rc(2,3) wp_bind_getObj append_Nil
    proof (intro wp_bindI [OF gate] wp_if wp_bindI [OF reset], goal_cases)
      case (2 n2 d ob3)
      then show ?case using fin [of n2 ob3] by simp
    next
      case (3 n2 d ob3 n3 u ob4)
      then show ?case using rest [of "n2 @ n3" ob4] by simp
    qed simp
  next
    case (4 n1 c ob2 rc)
    then show ?case using rest [of "[]" ob2] by simp
  qed
qed

lemma wp_checkProvisionTimeout_lawful:
  "wp (checkProvisionTimeout X) ob (\<lambda>n r ob'. list_all claimless n \<and> sameHost ob ob')"
  unfolding checkProvisionTimeout_def
  by (intro wp_exec) (auto simp: sameHost_def enterError_def)

lemma wp_checkBackoff_lawful: "wp (checkBackoff X) ob (\<lambda>n r ob'. list_all claimless n \<and> ob' = ob)"
  unfolding checkBackoff_def Let_def by (intro wp_exec) auto

lemma wp_classify_lawful: "wp (classify X r) ob (\<lambda>n r ob'. list_all claimless n \<and> sameHost ob ob')"
  unfolding classify_def by (intro wp_exec wp_case_res) (auto simp: sameHost_def enterError_def succeeded_def recordRetry_def)

lemma lawfulRun_pass:
  assumes "sameHost m0 m1" and "list_all claimless pre" and "lawfulRun m1 [] n m2" and "list_all claimless n'" and "sameHost m2 m3"
  shows "lawfulPass m0 (pre @ n @ n') m3"
proof -
  have eq: "lawful m1 = lawful m0" using assms(1) by (intro lawful_cong) (simp_all add: sameHost_def)
  have "safeFrom (lawful m0) pre n" using assms(3) by (auto simp: lawfulRun_def eq intro: safe_lawful_pre)
  moreover have "knows m0 (pre @ n @ n') x" if "knows m1 n x" for x
  proof -
    have "machineReferenceFor m1 = machineReferenceFor m0" using assms(1) by (simp add: sameHost_def machineReferenceFor_def)
    then have "knows m0 n x" using that assms(1) by (auto simp: knows_def sameHost_def hostIsClaimedBy_def matches_iff)
    then show ?thesis by (rule knows_mono) auto
  qed
  ultimately show ?thesis
    using assms by (auto simp: lawfulPass_def lawfulRun_def sameHost_def safe_claimless)
qed

lemma wp_reconcileMachine_lawful: "wp (reconcileMachine X hrc m cl) ob (\<lambda>n r ob'. lawfulPass ob n ob')"
proof (cases "DeletionTimestamp (hrmMeta ob) = None")
  case False
  with wp_reconcileDelete_lawful [of ob X hrc m] show ?thesis by (simp add: reconcileMachine_def)
next
  case True
  have quiet: "lawfulPass ob n ob'" if "list_all claimless n" "sameHost ob ob'" for n ob'
    using that by (simp add: lawfulPass_def safe_claimless sameHost_def)
  have live: "wp (do { r \<leftarrow> reconcileNormal X hrc m cl; classify X r }) ob' (\<lambda>n' r ob2. lawfulPass ob (n @ n') ob2)"
    if "list_all claimless n" "sameHost ob ob'" for n ob'
    by (intro wp_bindI [OF wp_reconcileNormal_lawful] wp_mono [OF wp_classify_lawful] lawfulRun_pass [OF that(2,1)])
      auto
  show ?thesis
    unfolding reconcileMachine_def wp_bind_getObj using True
    apply (simp only: not_not if_False simp_thms)
    apply (intro wp_if)
     apply (simp add: quiet sameHost_def setFinalizer_def lawfulPass_def)
    apply (rule wp_bindI [OF wp_checkProvisionTimeout_lawful], intro wp_if)
     apply (simp add: quiet)
    apply (rule wp_bindI [OF wp_checkBackoff_lawful], intro wp_case_option)
     apply (subst append_assoc [symmetric], rule live)
      apply (auto simp: quiet)
    done
qed

text \<open>
  C13. Whatever the API, the Robot service, SSH and Talos answer, a reconcile of a machine patches
  hosts in five ways only: it leaves state and references alone; it claims an Available host; it adopts
  a host whose ConsumerRef names nobody else; it completes the references of a host it knows and nobody else
  owns; or, in deletion, it releases a host it knows. And when it changes the HostRef of the machine, then to
  a host the API has shown with a reference to the machine.
\<close>

theorem reconcile_patches_lawfully:
  "lawfulPass (obj s) (newEvents (reconcileMachine X hrc machine cluster) s)
     (obj (snd (run_state (reconcileMachine X hrc machine cluster) s)))"
  using wpD(1) [OF wp_reconcileMachine_lawful [of X hrc machine cluster "obj s"]] .

section \<open>The pool\<close>

text \<open>
  The state all controllers share: the hosts of a namespace by name, and the hosts each machine
  holds, that is the ones the API has shown with a reference to it since it last released them.
\<close>

record pool =
  store :: "string \<Rightarrow> HetznerRobotHost option"
  held :: "MachineReference \<Rightarrow> string set"

definition emptyPool :: pool where
  "emptyPool = \<lparr>store = (\<lambda>_. None), held = (\<lambda>_. {})\<rparr>"

text \<open>A host record as an administrator creates it: without status.\<close>

definition blankHost :: "HetznerRobotHost \<Rightarrow> bool" where
  "blankHost h \<longleftrightarrow> hostState (hostStatus h) = HostStateNone \<and> ConsumerRef (hostStatus h) = None
     \<and> MachineRef (hostStatus h) = None"

definition letGo :: "MachineReference \<Rightarrow> HetznerRobotHost \<Rightarrow> pool \<Rightarrow> pool" where
  "letGo r a p = (if ConsumerRef (hostStatus a) = Some r then p
     else p\<lparr>held := (held p)(r := held p r - {hostName a})\<rparr>)"

text \<open>
  The steps of the system. Administrators create blank hosts, edit specs and labels and have unreferenced hosts
  removed; the host controller replaces a host by what its reconcile made of it; a machine
  notices a host with a reference to it; and a reconcile of a machine, after the events
  \<open>pre\<close>, has one of its host patches accepted. A patch is accepted only on top of the host it was
  made from, and the machine's HostRef and the hosts it was shown as its own are hosts it holds.
\<close>

inductive poolStep :: "'w ext \<Rightarrow> pool \<Rightarrow> pool \<Rightarrow> bool" for X :: "'w ext" where
  create: "store p (hostName h) = None \<Longrightarrow> blankHost h \<Longrightarrow>
     poolStep X p (p\<lparr>store := (store p)(hostName h \<mapsto> h)\<rparr>)"
| edit: "store p (hostName h') = Some h \<Longrightarrow> hostStatus h' = hostStatus h \<Longrightarrow>
     poolStep X p (p\<lparr>store := (store p)(hostName h' \<mapsto> h')\<rparr>)"
| remove: "store p n = Some h \<Longrightarrow> ConsumerRef (hostStatus h) = None \<Longrightarrow>
     poolStep X p (p\<lparr>store := (store p)(n := None)\<rparr>)"
| hostPass: "store p (hostName (obj s)) = Some (obj s) \<Longrightarrow> a = obj (snd (run_state (reconcileHost X) s)) \<Longrightarrow>
     poolStep X p (p\<lparr>store := (store p)(hostName a \<mapsto> a)\<rparr>)"
| notice: "store p n = Some h \<Longrightarrow> hostIsClaimedBy h hrm \<Longrightarrow> r = machineReferenceFor hrm \<Longrightarrow>
     poolStep X p (p\<lparr>held := (held p)(r := insert n (held p r))\<rparr>)"
| machinePass: "newEvents (reconcileMachine X hrc machine cluster) s = pre @ EvPatchHost b a None # post \<Longrightarrow>
     honest pre \<Longrightarrow> r = machineReferenceFor (obj s) \<Longrightarrow>
     (\<forall>n. knows (obj s) pre n \<longrightarrow> n \<in> held p r) \<Longrightarrow> store p (hostName b) = Some b \<Longrightarrow>
     poolStep X p ((letGo r a p)\<lparr>store := (store p)(hostName a \<mapsto> a)\<rparr>)"

definition hostOk :: "string \<Rightarrow> HetznerRobotHost \<Rightarrow> bool" where
  "hostOk n h \<longleftrightarrow> hostName h = n \<and> MachineRef (hostStatus h) = ConsumerRef (hostStatus h)
     \<and> (hostState (hostStatus h) = HostStateNone \<or> hostState (hostStatus h) = HostStateAvailable
         \<longrightarrow> ConsumerRef (hostStatus h) = None)"

definition poolOk :: "pool \<Rightarrow> bool" where
  "poolOk p \<longleftrightarrow> (\<forall>n h. store p n = Some h \<longrightarrow> hostOk n h)
   \<and> (\<forall>r n. n \<in> held p r \<longrightarrow> (\<exists>h. store p n = Some h \<and> ConsumerRef (hostStatus h) = Some r))"

lemma poolOk_host: "poolOk p \<Longrightarrow> store p n = Some h \<Longrightarrow> hostOk n h"
  by (simp add: poolOk_def)

lemma poolOk_held: "poolOk p \<Longrightarrow> n \<in> held p r \<Longrightarrow> \<exists>h. store p n = Some h \<and> ConsumerRef (hostStatus h) = Some r"
  by (simp add: poolOk_def)

lemma poolOk_update:
  assumes "poolOk p" and "hostOk n a" and "\<And>r. n \<in> held p r \<Longrightarrow> ConsumerRef (hostStatus a) = Some r"
  shows "poolOk (p\<lparr>store := (store p)(n \<mapsto> a)\<rparr>)"
  using assms unfolding poolOk_def by simp

lemma poolOk_less: "poolOk p \<Longrightarrow> (\<And>r. h r \<subseteq> held p r) \<Longrightarrow> poolOk (p\<lparr>held := h\<rparr>)"
  unfolding poolOk_def by (simp, blast)

lemma poolOk_remove:
  assumes "poolOk p" and "\<And>r. n \<notin> held p r"
  shows "poolOk (p\<lparr>store := (store p)(n := None)\<rparr>)"
proof -
  have "m \<noteq> n" if "m \<in> held p r" for m r using that assms(2) [of r] by blast
  then have "((store p)(n := None)) m = store p m" if "m \<in> held p r" for m r using that by simp
  with assms(1) show ?thesis unfolding poolOk_def by simp
qed

lemma lawful_step:
  assumes ok: "poolOk p" and b: "store p (hostName b) = Some b" and r: "r = machineReferenceFor hrm"
    and known: "\<forall>n. knows hrm pre n \<longrightarrow> n \<in> held p r" and law: "lawful hrm pre (EvPatchHost b a None)" "honest pre"
  shows "poolOk ((letGo r a p)\<lparr>store := (store p)(hostName a \<mapsto> a)\<rparr>)"
proof -
  let ?p = "if ConsumerRef (hostStatus a) = Some r then p else p\<lparr>held := (held p)(r := held p r - {hostName a})\<rparr>"
  have name: "hostName a = hostName b" using law by simp
  have mine: "ConsumerRef (hostStatus b) = Some r" if "knows hrm pre (hostName b)"
    using poolOk_held [OF ok, of "hostName b" r] known that b by auto
  have holder: "ConsumerRef (hostStatus b) = Some q" if "hostName b \<in> held p q" for q
    using poolOk_held [OF ok that] b by simp
  note host = poolOk_host [OF ok b]
  have "poolOk (?p\<lparr>store := (store ?p)(hostName a \<mapsto> a)\<rparr>)"
  proof (rule poolOk_update)
    show "poolOk ?p" using ok poolOk_less [OF ok, of "(held p)(r := held p r - {hostName a})"] by auto
    show "hostOk (hostName a) a"
      using law host mine by (auto simp: hostOk_def keepsClaim_def takes_def adopts_def completes_def releases_def ownedBy_def
          releasedHost_def clearHostConsumerRef_def)
    show "ConsumerRef (hostStatus a) = Some q" if "hostName a \<in> held ?p q" for q
    proof -
      from that name have "hostName b \<in> held p q" and "q = r \<Longrightarrow> ConsumerRef (hostStatus a) = Some r"
        by (auto split: if_splits)
      with holder [of q] have q: "ConsumerRef (hostStatus b) = Some q" by simp
      show ?thesis
        using law host mine q \<open>q = r \<Longrightarrow> _\<close> r
        by (auto simp: hostOk_def keepsClaim_def takes_def adopts_def completes_def releases_def ownedBy_def)
    qed
  qed
  then show ?thesis by (cases "ConsumerRef (hostStatus a) = Some r") (simp_all add: letGo_def)
qed

lemma hostStep_same:
  assumes "hostStep h h'"
  shows "hostName h' = hostName h" and "ConsumerRef (hostStatus h') = ConsumerRef (hostStatus h)"
    and "MachineRef (hostStatus h') = MachineRef (hostStatus h)"
proof -
  from assms have "Name ((hostMeta h')\<lparr>hasFinalizer := True\<rparr>) = Name ((hostMeta h)\<lparr>hasFinalizer := True\<rparr>)"
    and "ConsumerRef ((hostStatus h')\<lparr>hostState := HostStateNone\<rparr>) = ConsumerRef ((hostStatus h)\<lparr>hostState := HostStateNone\<rparr>)"
    and "MachineRef ((hostStatus h')\<lparr>hostState := HostStateNone\<rparr>) = MachineRef ((hostStatus h)\<lparr>hostState := HostStateNone\<rparr>)"
    by (simp_all only: hostStep_def)
  then show "hostName h' = hostName h" "ConsumerRef (hostStatus h') = ConsumerRef (hostStatus h)"
    "MachineRef (hostStatus h') = MachineRef (hostStatus h)" by simp_all
qed

lemma poolStep_ok: "poolStep X p p' \<Longrightarrow> poolOk p \<Longrightarrow> poolOk p'"
proof (induction rule: poolStep.induct)
  case (create p h)
  then show ?case
    by (intro poolOk_update) (auto simp: blankHost_def hostOk_def dest: poolOk_held)
next
  case (edit p h' h)
  then show ?case
    using poolOk_host [OF edit(3,1)] by (intro poolOk_update) (auto simp: hostOk_def dest: poolOk_held)
next
  case (remove p n h)
  have "n \<notin> held p r" for r using poolOk_held [OF remove(3), of n r] remove(1,2) by auto
  with remove(3) show ?case by (rule poolOk_remove)
next
  case (hostPass p s a)
  have step: "hostStep (obj s) a" using wpD(1) [OF wp_reconcileHost [of X "obj s"]] hostPass(2) by simp
  note same = hostStep_same [OF this]
  show ?case
  proof (rule poolOk_update [OF hostPass(3)])
    show "hostOk (hostName a) a"
      using poolOk_host [OF hostPass(3,1)] step same by (auto simp: hostOk_def hostStep_def)
    show "ConsumerRef (hostStatus a) = Some r" if "hostName a \<in> held p r" for r
      using poolOk_held [OF hostPass(3) that] hostPass(1) same by simp
  qed
next
  case (notice p n h hrm r)
  then show ?case using poolOk_host [OF notice(4,1)]
    unfolding poolOk_def by (auto simp: hostIsClaimedBy_def matches_iff hostOk_def)
next
  case (machinePass hrc machine cluster s pre b a post r p)
  have "safeFrom (lawful (obj s)) [] (pre @ EvPatchHost b a None # post)"
    using wpD(1) [OF wp_reconcileMachine_lawful [of X hrc machine cluster "obj s"]] machinePass(1)
    by (simp add: lawfulPass_def)
  then have "lawful (obj s) pre (EvPatchHost b a None)" by simp
  with machinePass show ?case by (intro lawful_step) auto
qed

interpretation pool: kept_invariant "poolStep X" poolOk for X
  by unfold_locales (rule poolStep_ok)

lemma reachable_ok: "(poolStep X)\<^sup>*\<^sup>* emptyPool p \<Longrightarrow> poolOk p"
  by (erule pool.always) (simp add: poolOk_def emptyPool_def)


definition blankSample :: HetznerRobotHost where
  "blankSample = modHostStatus (hostState_update (\<lambda>_. HostStateNone)) (setHostFinalizer False sampleHost)"

definition poolExt :: "unit ext" where
  "poolExt = sampleExt\<lparr>xGetSecret := \<lambda>k w. (Inl (errorf ''unavailable''), w)\<rparr>"

lemma sample_claim:
  "\<exists>post. newEvents (reconcileMachine poolExt sampleHRC sampleMachine sampleCluster) (sampleRun sampleHRM)
     = [EvNow 0, EvGetHost (''ns'', ''node6'') (Inr sampleHost), EvGetHost (''ns'', ''node6'') (Inr sampleHost)]
         @ EvPatchHost sampleHost (claimedHost sampleHRM sampleHost) None # post"
proof -
  have sels: "xNow poolExt = (\<lambda>w. (0, w))" "xGetHost poolExt = (\<lambda>k w. (Inr sampleHost, w))"
    "xNewHelper poolExt = (\<lambda>w. (None, w))" "xPatchHost poolExt = (\<lambda>a b w. (None, w))"
    "xGetSecret poolExt = (\<lambda>k w. (Inl (errorf ''unavailable''), w))"
    by (simp_all add: poolExt_def sampleExt_def)
  have hrm: "DeletionTimestamp (hrmMeta sampleHRM) = None" "hasFinalizer (hrmMeta sampleHRM)"
    "Namespace (hrmMeta sampleHRM) = ''ns''" "provState (hrmStatus sampleHRM) = StateNone"
    "HostRef (hrmStatus sampleHRM) = []" "specHostRef (hrmSpec sampleHRM) = Some ''node6''"
    "ProvisionStarted (hrmStatus sampleHRM) = None" "LastRetryTimestamp (hrmStatus sampleHRM) = None"
    by (simp_all add: sampleHRM_def sampleMeta_def)
  have host: "hostState (hostStatus sampleHost) = HostStateAvailable" "\<not> MaintenanceMode (hostSpec sampleHost)"
    "ConsumerRef (hostStatus sampleHost) = None" "MachineRef (hostStatus sampleHost) = None"
    "LifecycleClass (hostSpec sampleHost) = HostLifecycleClassCompute"
    "DestructivePolicy (hostSpec sampleHost) = PolicyAlwaysCleanSlate"
    by (simp_all add: sampleHost_def)
  have cls: "trace (snd (run_state (classify poolExt r) s)) = trace s @ newEvents (classify poolExt r) s" for r s
    by (rule wpD(2) [OF wp_classify_lawful])
  show ?thesis
    by (subst newEvents_def) (simp add: reconcileMachine_def checkProvisionTimeout_def checkBackoff_def reconcileNormal_def resolveHost_def
      claimCandidate_def patchHostWith_def bindE_def calls_def provisionOn_def buildRobotClient_def NewFromCluster_def
      authorizeDestructiveProvisioningFor_def authorizeDestructiveProvisioning_def Let_def provisioningStates_def
      provisioningMayBecomeDestructive_def hostIsClaimedBy_def matches_iff claimedHost_def setHostConsumerRef_def machineReferenceFor_def
      sels hrm host cls sampleRun_def)
qed

definition poolOf :: "HetznerRobotHost \<Rightarrow> pool" where
  "poolOf h = \<lparr>store = [''node6'' \<mapsto> h], held = (\<lambda>_. {})\<rparr>"

definition samplePool :: pool where
  "samplePool = (poolOf (claimedHost sampleHRM sampleHost))\<lparr>held := (\<lambda>_. {})(machineReferenceFor sampleHRM := {''node6''})\<rparr>"

lemma poolOf_update: "hostName a = ''node6'' \<Longrightarrow> (poolOf h)\<lparr>store := (store (poolOf h))(hostName a \<mapsto> a)\<rparr> = poolOf a"
  by (simp add: poolOf_def)

lemma sampleName: "hostName sampleHost = ''node6''"
  by (simp add: sampleHost_def)

text \<open>A host is created, taken in by the host controller, claimed, and noticed by its machine.\<close>

lemma samplePool_reached: "(poolStep poolExt)\<^sup>*\<^sup>* emptyPool samplePool"
proof -
  let ?h1 = "setHostFinalizer True blankSample" and ?h3 = "claimedHost sampleHRM sampleHost"
  have names: "hostName blankSample = ''node6''" "hostName ?h1 = ''node6''" "hostName ?h3 = ''node6''"
    by (simp_all add: blankSample_def sampleName setHostFinalizer_def)
  have s1: "poolStep poolExt emptyPool (poolOf blankSample)"
    using poolStep.create [of emptyPool blankSample] names
    by (simp add: emptyPool_def poolOf_def blankHost_def blankSample_def sampleHost_def setHostFinalizer_def)
  have s2: "poolStep poolExt (poolOf blankSample) (poolOf ?h1)"
    using poolStep.hostPass [of "poolOf blankSample" "sampleRun blankSample" ?h1 poolExt] names poolOf_update [of ?h1]
    by (simp add: poolOf_def reconcileHost_def sampleRun_def blankSample_def setHostFinalizer_def)
  have s3: "poolStep poolExt (poolOf ?h1) (poolOf sampleHost)"
    using poolStep.hostPass [of "poolOf ?h1" "sampleRun ?h1" sampleHost poolExt] names poolOf_update [of sampleHost]
    by (simp add: poolOf_def reconcileHost_def sampleRun_def blankSample_def setHostFinalizer_def initState_def
        autoDetect_def sampleHost_def sampleMeta_def)
  have s4: "poolStep poolExt (poolOf sampleHost) (poolOf ?h3)"
  proof -
    from sample_claim obtain post where run: "newEvents (reconcileMachine poolExt sampleHRC sampleMachine sampleCluster)
      (sampleRun sampleHRM) = [EvNow 0, EvGetHost (''ns'', ''node6'') (Inr sampleHost), EvGetHost (''ns'', ''node6'') (Inr sampleHost)]
         @ EvPatchHost sampleHost ?h3 None # post" by blast
    have "\<not> knows sampleHRM [EvNow 0, EvGetHost (''ns'', ''node6'') (Inr sampleHost), EvGetHost (''ns'', ''node6'') (Inr sampleHost)] n" for n
      by (simp add: knows_def sampleHRM_def hostIsClaimedBy_def matches_iff) (simp add: sampleHost_def)
    moreover have "letGo (machineReferenceFor sampleHRM) ?h3 (poolOf sampleHost) = poolOf sampleHost"
      by (simp add: letGo_def claimedHost_def setHostConsumerRef_def)
    ultimately show ?thesis
      using poolStep.machinePass [OF run _ refl, of "poolOf sampleHost"] names poolOf_update [of ?h3 sampleHost]
      by (simp add: poolOf_def sampleRun_def sampleName)
  qed
  have s5: "poolStep poolExt (poolOf ?h3) samplePool"
    using poolStep.notice [of "poolOf ?h3" "''node6''" ?h3 sampleHRM "machineReferenceFor sampleHRM" poolExt]
    by (simp add: poolOf_def samplePool_def ownedBy_claimed)
  show ?thesis
    by (rule s1 s2 s3 s4 s5 converse_rtranclp_into_rtranclp rtranclp.rtrancl_refl)+
qed


end
