(* ===== verification/Api_Schema.thy ===== *)
theory Api_Schema
  imports Host_Pool
begin

text \<open>
  The writes of a machine's reconcile against the rules of the API schema: what may happen to the spec of
  the machine, and to the specs of the hosts it patches.
\<close>

section \<open>The spec of the machine\<close>

text \<open>What may happen to the spec of a machine.\<close>

definition setsProviderID :: "int \<Rightarrow> HetznerRobotMachine \<Rightarrow> HetznerRobotMachine \<Rightarrow> bool" where
  "setsProviderID sid m m' \<longleftrightarrow> hrmSpec m' = hrmSpec m
     \<or> hrmSpec m' = (hrmSpec m)\<lparr>ProviderID := Some (providerIDFor sid)\<rparr>"

lemma setsProviderID_star: "(setsProviderID sid)\<^sup>*\<^sup>* m m' \<Longrightarrow> setsProviderID sid m m'"
  by (induction rule: rtranclp_induct) (auto simp: setsProviderID_def)

lemma setsProviderID_intros [simp]:
  "setsProviderID sid m m" "setsProviderID sid m (modStatus f m)"
  "setsProviderID sid m (m\<lparr>hrmSpec := (hrmSpec m)\<lparr>ProviderID := Some (providerIDFor sid)\<rparr>\<rparr>)"
  by (simp_all add: setsProviderID_def)


lemmas moves_leaves [moves_intro] = keeps_calls [THEN moves_keeps] keeps_ssh [THEN moves_keeps] keeps_clients [THEN moves_keeps]
  keeps_secrets [THEN moves_keeps] keeps_record [THEN moves_keeps] keeps_hosts [THEN moves_keeps]

lemma moves_setStatus [moves_intro]:
  "moves (setsProviderID sid) (modObj (modStatus f))"
  by (intro moves_modObj r_into_rtranclp setsProviderID_intros)

lemma moves_setProviderID [moves_intro]:
  "moves (setsProviderID sid) (modObj (\<lambda>m. m\<lparr>hrmSpec := (hrmSpec m)\<lparr>ProviderID := Some (providerIDFor sid)\<rparr>\<rparr>))"
  by (intro moves_modObj r_into_rtranclp setsProviderID_intros)

lemma moves_arm [moves_intro]:
  "moves (setsProviderID sid) (armRescueAndReset X hrc rc sid')"
  "moves (setsProviderID sid) (stateActivateRescue X hrc rc sid' ip)"
  "moves (setsProviderID sid) (checkRescueStatus X hrc rc sid' ip)"
proof -
  show arm: "moves (setsProviderID sid) (armRescueAndReset X hrc rc sid')"
    unfolding armRescueAndReset_def by (intro moves_intro)
  show act: "moves (setsProviderID sid) (stateActivateRescue X hrc rc sid' ip)"
    unfolding stateActivateRescue_def by (intro moves_intro arm)
  show "moves (setsProviderID sid) (checkRescueStatus X hrc rc sid' ip)"
    unfolding checkRescueStatus_def by (intro moves_intro act)
qed

lemma moves_inRescue [moves_intro]:
  "(\<And>c. moves (setsProviderID sid) (k c)) \<Longrightarrow> moves (setsProviderID sid) (inVerifiedRescue X hrc rc sid' ip k)"
  "(\<And>hw d. moves (setsProviderID sid) (k2 hw d)) \<Longrightarrow> moves (setsProviderID sid) (onWipedDisks X c ip k2)"
  unfolding inVerifiedRescue_def onWipedDisks_def by (intro moves_intro; assumption)+

lemma moves_states [moves_intro]:
  "moves (setsProviderID sid) (stateCheckRescueActive X hrc rc sid' ip)"
  "moves (setsProviderID sid) (stateInstallTalos X hrc rc sid' ip)"
  "moves (setsProviderID sid) (stateWaitInstall X hrc rc sid' ip)"
  "moves (setsProviderID sid) (stateWaitTalosMaintenanceMode X mach hrc ip)"
  "moves (setsProviderID sid) (stateApplyConfig X mach hrc h sid ip)"
  "moves (setsProviderID sid) (stateWaitForBoot X mach ip)"
  "moves (setsProviderID sid) (stateInstallFlatcar X mach hrc h rc sid ip)"
  "moves (setsProviderID sid) (stateWaitFlatcarInstall X hrc ip)"
  "moves (setsProviderID sid) (stateWaitFlatcarBoot X mach hrc ip)"
  unfolding stateCheckRescueActive_def stateInstallTalos_def stateWaitInstall_def stateWaitTalosMaintenanceMode_def
    stateApplyConfig_def stateWaitForBoot_def stateInstallFlatcar_def stateWaitFlatcarInstall_def stateWaitFlatcarBoot_def
    markProvisioned_def Let_def
  by (intro moves_intro)+

lemma moves_provisionOn: "moves (setsProviderID (ServerID (hostSpec h))) (provisionOn X hrc m h)"
proof -
  have "moves (setsProviderID (ServerID (hostSpec h))) (runState X hrc m h rc)" for rc
    unfolding runState_def Let_def
    by (intro moves_bind moves_getObj) (auto intro: moves_intro split: ProvisioningState.split)
  then show ?thesis
    unfolding provisionOn_def markDestructiveProvisioningDenied_def
    by (intro moves_intro keeps_authorizeFor [THEN moves_keeps])
qed

section \<open>The specs of hosts\<close>

text \<open>The events: no patch of a machine's reconcile touches the spec of a host.\<close>

fun hostSpecKept :: "event \<Rightarrow> bool" where
  "hostSpecKept (EvPatchHost b a r) = (hostSpec a = hostSpec b)"
| "hostSpecKept _ = True"

lemma read_keeps_spec: "isRead e \<Longrightarrow> hostSpecKept e"
  by (cases e) simp_all

lemma emits_hostSpecKept [emits_intro]:
  "emits hostSpecKept (timeNow X)" "emits hostSpecKept (getHost X ns n)" "emits hostSpecKept (listHosts X ns sel)"
  "emits hostSpecKept (listReleases X ns)" "emits hostSpecKept (patchHRC X c)" "emits hostSpecKept (httpDo X au me u f)"
  "emits hostSpecKept (tcpDial X ad)" "emits hostSpecKept (sshExec X us ip cmd)" "emits hostSpecKept (talosApply X ip d)"
  "emits hostSpecKept (talosReset X ip)"
  by (auto simp: calls_def intro!: emits_intro)

lemma emits_hostSpecKept_hosts [emits_intro]:
  "emits hostSpecKept (resolveHost X)" "emits hostSpecKept (backfillProvisionedHostClaim X)"
  "emits hostSpecKept (ensureProvisionedHostStatus X)" "emits hostSpecKept (releaseHost X ns hn)"
  "emits hostSpecKept (resolveHostForDelete X)" "emits hostSpecKept (recordHostHardwareDetails X ns hn hw)"
  unfolding resolveHost_def recoverClaim_def claimCandidate_def ensureHostConsumerRef_def backfillProvisionedHostClaim_def
    resolveProvisionedAdoptionHost_def blockingHostOwnerRef_def ensureProvisionedHostStatus_def releaseHost_def
    resolveHostForDelete_def recordHostHardwareDetails_def Let_def
  by (intro emits_intro; simp)+

lemma emits_hostSpecKept_clients [emits_intro]:
  "emits hostSpecKept (Connect X c)" "emits hostSpecKept (DetectHardware X c)" "emits hostSpecKept (WipeAllDisks X c ds)"
  "emits hostSpecKept (InstallTalos X c u sch v d im)" "emits hostSpecKept (InstallFlatcar X c ch d im ign)"
  "emits hostSpecKept (IsReachable X ip)" "emits hostSpecKept (IsFlatcarUp X ip k)"
  "emits hostSpecKept (CheckFlatcarBootstrapComplete X ip k)" "emits hostSpecKept (IsRescueMode X ip k)"
  "emits hostSpecKept (ActivateRescue X rc sid fp)" "emits hostSpecKept (ResetServer X rc sid rt)"
  "emits hostSpecKept (DeactivateRescue X rc sid)" "emits hostSpecKept (GetRescueStatus X rc sid)"
  "emits hostSpecKept (IsUp X ip)" "emits hostSpecKept (IsInMaintenanceMode X ip)"
  "emits hostSpecKept (WipeSystemDisk X ip)" "emits hostSpecKept (ApplyConfig X ip dt)"
  unfolding Connect_def DetectHardware_def WipeAllDisks_def InstallTalos_def InstallFlatcar_def runOrFail_def
    IsReachable_def isReachableAddr_def IsFlatcarUp_def CheckFlatcarBootstrapComplete_def IsRescueMode_def Let_def
    ActivateRescue_def ResetServer_def DeactivateRescue_def GetRescueStatus_def robotGet_def robotPost_def
    IsUp_def tcpReachable_def IsInMaintenanceMode_def WipeSystemDisk_def ApplyConfig_def
  by (intro emits_intro; simp)+

lemma emits_hostSpecKept_arm [emits_intro]: "emits hostSpecKept (stateActivateRescue X hrc rc sid ip)"
  unfolding stateActivateRescue_def armRescueAndReset_def Let_def by (intro emits_intro)

lemma emits_hostSpecKept_rescue [emits_intro]:
  "emits hostSpecKept (checkRescueStatus X hrc rc sid ip)"
  "(\<And>c. emits hostSpecKept (k c)) \<Longrightarrow> emits hostSpecKept (inVerifiedRescue X hrc rc sid ip k)"
  "(\<And>hw d. emits hostSpecKept (k2 hw d)) \<Longrightarrow> emits hostSpecKept (onWipedDisks X c ip k2)"
  unfolding checkRescueStatus_def inVerifiedRescue_def onWipedDisks_def Let_def
  by (intro emits_intro; simp)+

lemma emits_hostSpecKept_states [emits_intro]:
  "emits hostSpecKept (stateCheckRescueActive X hrc rc sid ip)"
  "emits hostSpecKept (stateInstallTalos X hrc rc sid ip)"
  "emits hostSpecKept (stateWaitInstall X hrc rc sid ip)"
  "emits hostSpecKept (stateWaitTalosMaintenanceMode X mach hrc ip)"
  "emits hostSpecKept (stateApplyConfig X mach hrc h sid ip)"
  "emits hostSpecKept (stateWaitForBoot X mach ip)"
  "emits hostSpecKept (stateInstallFlatcar X mach hrc h rc sid ip)"
  "emits hostSpecKept (stateWaitFlatcarInstall X hrc ip)"
  "emits hostSpecKept (stateWaitFlatcarBoot X mach hrc ip)"
  unfolding stateCheckRescueActive_def stateInstallTalos_def stateWaitInstall_def stateWaitTalosMaintenanceMode_def
    stateApplyConfig_def stateWaitForBoot_def stateInstallFlatcar_def stateWaitFlatcarInstall_def stateWaitFlatcarBoot_def Let_def
  by (intro emits_intro; simp)+

lemma emits_hostSpecKept_machine: "emits hostSpecKept (reconcileMachine X hrc m cl)"
proof -
  have auth: "emits hostSpecKept (authorizeDestructiveProvisioningFor X a b c)" for a b c
    by (rule emits_mono [OF emits_authorizeFor read_keeps_spec])
  have run: "emits hostSpecKept (runState X hrc m h rc)" for h rc
    unfolding runState_def Let_def
    by (intro emits_bind emits_getObj) (auto intro: emits_intro split: ProvisioningState.split)
  have normal: "emits hostSpecKept (reconcileNormal X hrc m cl)"
    unfolding reconcileNormal_def provisionOn_def reconcileProvisioned_def by (intro emits_intro auth run)
  have delete: "emits hostSpecKept (reconcileDelete X hrc m)"
    unfolding reconcileDelete_def releaseAndFinish_def finishDelete_def resetForDelete_def Let_def case_prod_beta
    by (intro emits_intro auth)
  show ?thesis
    unfolding reconcileMachine_def checkProvisionTimeout_def checkBackoff_def classify_def Let_def
    by (intro emits_intro normal delete)
qed

section \<open>One reconcile\<close>

definition specStep :: "HetznerRobotMachine \<Rightarrow> event list \<Rightarrow> HetznerRobotMachine \<Rightarrow> bool" where
  "specStep m n m' \<longleftrightarrow> hrmSpec m' = hrmSpec m
     \<or> (\<exists>h. hostSeen n h \<and> ownedBy m h
          \<and> hrmSpec m' = (hrmSpec m)\<lparr>ProviderID := Some (providerIDFor (ServerID (hostSpec h)))\<rparr>)"

lemma specStep_same: "hrmSpec m' = hrmSpec m \<Longrightarrow> specStep m n m'"
  by (simp add: specStep_def)

lemma wp_provisionOn_spec: "wp (provisionOn X hrc m h) ob (\<lambda>n r. setsProviderID (ServerID (hostSpec h)) ob)"
  by (rule wp_mono [OF wp_moves [OF moves_provisionOn]]) (rule setsProviderID_star)

lemma wp_reconcileNormal_spec: "wp (reconcileNormal X hrc m cl) ob (\<lambda>n r. specStep ob n)"
  unfolding reconcileNormal_def wp_bind_getObj
proof (intro wp_if wp_bindI [OF wp_conj [OF wp_resolveHost wp_resolveHost_progress]] wp_case_sum, goal_cases)
  case 1
  have "wp (reconcileProvisioned X) ob (\<lambda>n r m. hrmSpec m = hrmSpec ob)"
    unfolding reconcileProvisioned_def wp_bind_getObj
  proof (rule wp_bindI [where M = "\<lambda>n r ob'. hrmSpec ob' = hrmSpec ob"])
    show "wp (if HostRef (hrmStatus ob) = [] then do { _ \<leftarrow> backfillProvisionedHostClaim X; ret () } else ret ()) ob
        (\<lambda>n r ob'. hrmSpec ob' = hrmSpec ob)"
      by (intro wp_if wp_bindI [OF wp_backfill_progress]) (auto simp: sameProgress_def)
  qed (unfold wp_bind_modObj wp_bind_getObj, (intro wp_exec keeps_hosts; simp))
  then show ?case by (rule wp_mono) (rule specStep_same)
next
  case (2 n x ob' e)
  then show ?case by (simp add: specStep_def sameProgress_def)
next
  case (3 n x ob' h)
  then have h: "ownedBy ob h" "hostSeen n h" and same: "hrmSpec ob' = hrmSpec ob"
    by (auto simp: handsOver_def sameProgress_def)
  show ?case
    unfolding wp_bind_modObj
    by (rule wp_mono [OF wp_provisionOn_spec]) (use h same in \<open>auto simp: specStep_def setsProviderID_def\<close>)
qed

lemma specStep_around:
  assumes "hrmSpec m1 = hrmSpec m" and "hrmMeta m1 = hrmMeta m" and "specStep m1 n m2" and "hrmSpec m3 = hrmSpec m2"
  shows "specStep m (pre @ n @ post) m3"
  using assms ownedBy_cong [of m1 m] by (auto simp: specStep_def)

lemma wp_classify_spec: "wp (classify X r) ob (\<lambda>n r m. hrmSpec m = hrmSpec ob)"
  unfolding classify_def by (intro wp_exec wp_case_res) (auto simp: enterError_def recordRetry_def succeeded_def)

lemma wp_reconcileDelete_spec: "wp (reconcileDelete X hrc m) ob (\<lambda>n r m. hrmSpec m = hrmSpec ob)"
  unfolding reconcileDelete_def finishDelete_def releaseAndFinish_def Let_def case_prod_beta
  by (intro wp_exec keeps_delete keeps_authorizeFor) (auto simp: setFinalizer_def)

lemma wp_reconcileMachine_spec: "wp (reconcileMachine X hrc m cl) ob (\<lambda>n r. specStep ob n)"
proof (cases "DeletionTimestamp (hrmMeta ob) = None")
  case False
  then show ?thesis
    by (simp add: reconcileMachine_def) (rule wp_mono [OF wp_reconcileDelete_spec], rule specStep_same)
next
  case True
  have live: "wp (do { r \<leftarrow> reconcileNormal X hrc m cl; classify X r }) ob' (\<lambda>n' r. specStep ob (n @ n'))"
    if "hrmSpec ob' = hrmSpec ob" "hrmMeta ob' = hrmMeta ob" for n ob'
    by (intro wp_bindI [OF wp_reconcileNormal_spec] wp_mono [OF wp_classify_spec] specStep_around [OF that])
  have timeout: "wp (checkProvisionTimeout X) ob (\<lambda>n r ob'. hrmSpec ob' = hrmSpec ob \<and> hrmMeta ob' = hrmMeta ob)"
    unfolding checkProvisionTimeout_def by (intro wp_exec) (auto simp: enterError_def)
  show ?thesis
    unfolding reconcileMachine_def wp_bind_getObj using True
    apply (simp only: not_not if_False simp_thms)
    apply (intro wp_if)
     apply (simp add: specStep_def setFinalizer_def)
    apply (rule wp_bindI [OF timeout], intro wp_if)
     apply (simp add: specStep_same)
    apply (rule wp_bindI [OF wp_checkBackoff], intro wp_case_option)
     apply (subst append_assoc [symmetric], rule live)
      apply (auto simp: specStep_same)
    done
qed


end
