(* ===== verification/Manager.thy ===== *)
theory Manager
  imports Runtime
begin

text \<open>
  \<^verbatim>\<open>main.go\<close>: the start of the controller manager, and the \<^verbatim>\<open>SetupWithManager\<close> of the four
  controllers. The manager itself is external: what each of its calls answers is a parameter. The flags
  come parsed.
\<close>

section \<open>Definitions\<close>

record flags =
  metricsAddr :: string
  probeAddr :: string
  enableLeaderElection :: bool
  leaderElectionNamespace :: string

definition defaultFlags :: flags where
  "defaultFlags = \<lparr>metricsAddr = '':8080'', probeAddr = '':8081'', enableLeaderElection = False,
     leaderElectionNamespace = []\<rparr>"

record ManagerOptions =
  BindAddress :: string
  HealthProbeBindAddress :: string
  LeaderElection :: bool
  LeaderElectionID :: string
  optLeaderElectionNamespace :: string

definition managerOptions :: "flags \<Rightarrow> ManagerOptions" where
  "managerOptions fl = \<lparr>BindAddress = metricsAddr fl, HealthProbeBindAddress = probeAddr fl,
     LeaderElection = enableLeaderElection fl, LeaderElectionID = ''caphr.infrastructure.cluster.x-k8s.io'',
     optLeaderElectionNamespace = leaderElectionNamespace fl\<rparr>"

text \<open>
  The API group, and the kinds the \<^verbatim>\<open>init\<close> functions of the types register with its scheme builder, which
  \<^verbatim>\<open>AddToScheme\<close> adds to the scheme.
\<close>

record GroupVersion =
  group :: string
  version :: string

definition groupVersion :: GroupVersion where
  "groupVersion = \<lparr>group = ''infrastructure.cluster.x-k8s.io'', version = ''v1alpha1''\<rparr>"

definition clusterKinds :: "string list" where
  "clusterKinds = [''HetznerRobotCluster'', ''HetznerRobotClusterList'']"

definition hostKinds :: "string list" where
  "hostKinds = [''HetznerRobotHost'', ''HetznerRobotHostList'']"

definition releaseKinds :: "string list" where
  "releaseKinds = [''HetznerRobotHostRelease'', ''HetznerRobotHostReleaseList'']"

definition machineKinds :: "string list" where
  "machineKinds = [''HetznerRobotMachine'', ''HetznerRobotMachineList'']"

definition templateKinds :: "string list" where
  "templateKinds = [''HetznerRobotMachineTemplate'', ''HetznerRobotMachineTemplateList'']"

definition remediationKinds :: "string list" where
  "remediationKinds = [''HetznerRobotRemediation'', ''HetznerRobotRemediationList'', ''HetznerRobotRemediationTemplate'',
     ''HetznerRobotRemediationTemplateList'']"

definition schemeBuilder :: "(GroupVersion \<times> string) list" where
  "schemeBuilder = map (Pair groupVersion)
     (concat [clusterKinds, hostKinds, releaseKinds, machineKinds, templateKinds, remediationKinds])"

text \<open>The type a controller reconciles and the further types it watches.\<close>

record controller =
  reconciles :: string
  watched :: "string list"

definition clusterController :: controller where
  "clusterController = \<lparr>reconciles = ''HetznerRobotCluster'', watched = []\<rparr>"

definition machineController :: controller where
  "machineController = \<lparr>reconciles = ''HetznerRobotMachine'', watched = [''HetznerRobotHostRelease'']\<rparr>"

definition hostController :: controller where
  "hostController = \<lparr>reconciles = ''HetznerRobotHost'', watched = []\<rparr>"

definition remediationController :: controller where
  "remediationController = \<lparr>reconciles = ''HetznerRobotRemediation'', watched = []\<rparr>"

datatype start_call = AddToScheme string | GetConfig | NewManager ManagerOptions | Complete controller
  | AddHealthzCheck string | AddReadyzCheck string | Start

text \<open>
  How the process ends: by the panic of a scheme, inside \<^verbatim>\<open>GetConfigOrDie\<close>, by exit code 1 after a
  logged message, or by returning.
\<close>

datatype ending = PanicEnd | LibraryExit | ExitOne string | ReturnEnd

text \<open>Calls in order, each with the end its error leads to; the first error ends the process.\<close>

fun runCalls :: "(start_call \<Rightarrow> goerr option) \<Rightarrow> (start_call \<times> ending) list \<Rightarrow> start_call list \<times> ending" where
  "runCalls answer [] = ([], ReturnEnd)"
| "runCalls answer ((c, bad) # rest) =
     (if answer c \<noteq> None then ([c], bad)
      else (case runCalls answer rest of (cs, e) \<Rightarrow> (c # cs, e)))"

definition initCalls :: "(start_call \<times> ending) list" where
  "initCalls = map (\<lambda>s. (AddToScheme s, PanicEnd)) [''client-go'', ''cluster-api'', ''infrastructure'']"

definition mainCalls :: "flags \<Rightarrow> (start_call \<times> ending) list" where
  "mainCalls fl =
     [(GetConfig, LibraryExit), (NewManager (managerOptions fl), ExitOne ''unable to start manager'')]
     @ map (\<lambda>c. (Complete c, ExitOne ''unable to create controller''))
         [clusterController, machineController, hostController, remediationController]
     @ [(AddHealthzCheck ''healthz'', ExitOne ''unable to set up health check''),
        (AddReadyzCheck ''readyz'', ExitOne ''unable to set up ready check''),
        (Start, ExitOne ''problem running manager'')]"

definition mainProgram :: "(start_call \<Rightarrow> goerr option) \<Rightarrow> flags \<Rightarrow> start_call list \<times> ending" where
  "mainProgram answer fl = runCalls answer (initCalls @ mainCalls fl)"

section \<open>The order of the start\<close>

text \<open>No kind is registered twice, and every kind a controller reconciles or watches is registered.\<close>

lemma controllers_know_their_kinds:
  "distinct schemeBuilder"
  "c \<in> {clusterController, machineController, hostController, remediationController} \<Longrightarrow>
    k \<in> set (reconciles c # watched c) \<Longrightarrow> (groupVersion, k) \<in> set schemeBuilder"
  by (auto simp: schemeBuilder_def clusterKinds_def hostKinds_def releaseKinds_def machineKinds_def templateKinds_def remediationKinds_def
      clusterController_def machineController_def hostController_def remediationController_def)

text \<open>The first call that fails is the last one made, and decides the end.\<close>

lemma runCalls_ending:
  "snd (runCalls answer cs) = (case find (\<lambda>c. answer (fst c) \<noteq> None) cs of None \<Rightarrow> ReturnEnd | Some c \<Rightarrow> snd c)"
  by (induction answer cs rule: runCalls.induct) (auto split: prod.split)

lemma runCalls_reached:
  "c \<in> set (fst (runCalls answer (as @ [(c, bad)]))) \<Longrightarrow> c \<notin> fst ` set as \<Longrightarrow> list_all (\<lambda>a. answer (fst a) = None) as"
proof (induction as)
  case (Cons a as)
  then show ?case by (cases a) (auto split: if_splits prod.splits)
qed simp

text \<open>
  The manager starts only after the schemes, the manager and all four controllers are in place, and the process returns
  only if nothing failed.
\<close>

lemma manager_starts_last:
  assumes "Start \<in> set (fst (mainProgram answer fl))"
  shows "\<forall>c \<in> {clusterController, machineController, hostController, remediationController}. answer (Complete c) = None"
    and "answer (NewManager (managerOptions fl)) = None"
proof -
  have plan: "initCalls @ mainCalls fl = (initCalls @ butlast (mainCalls fl)) @ [(Start, ExitOne ''problem running manager'')]"
    by (simp add: mainCalls_def)
  have "list_all (\<lambda>a. answer (fst a) = None) (initCalls @ butlast (mainCalls fl))"
    using assms unfolding mainProgram_def plan
    by (rule runCalls_reached) (simp add: initCalls_def mainCalls_def)
  then show "\<forall>c \<in> {clusterController, machineController, hostController, remediationController}. answer (Complete c) = None"
    and "answer (NewManager (managerOptions fl)) = None"
    by (simp_all add: mainCalls_def)
qed

lemma manager_returns_iff:
  "snd (mainProgram answer fl) = ReturnEnd \<longleftrightarrow> (\<forall>c \<in> fst ` set (initCalls @ mainCalls fl). answer c = None)"
proof -
  have plan: "\<forall>c \<in> set (initCalls @ mainCalls fl). snd c \<noteq> ReturnEnd"
    by (auto simp: initCalls_def mainCalls_def)
  have "snd (runCalls answer cs) = ReturnEnd \<longleftrightarrow> (\<forall>c \<in> fst ` set cs. answer c = None)"
    if "\<forall>c \<in> set cs. snd c \<noteq> ReturnEnd" for cs
    using that unfolding runCalls_ending by (induction cs) auto
  from this [OF plan] show ?thesis by (simp add: mainProgram_def)
qed

end
