(* ===== verification/Pool_Safety.thy ===== *)
theory Pool_Safety
  imports Host_Pool
begin

text \<open>
  The safety of one reconcile and the exclusive claims of the pool together: what happens to a server is done by the one
  machine that holds its host.
\<close>

text \<open>A host on which a reconcile may act is one the machine knows.\<close>

lemma rightfulOwner_known:
  assumes "rightfulOwner m pre h" and "hostSeen pre h" and "honest pre"
  shows "knows m pre (hostName h)"
proof -
  have "hostName h = HostRef (hrmStatus m)" if "EvGetHost (ns, HostRef (hrmStatus m)) (Inr h) \<in> set pre" for ns
    using that assms(3) by (auto simp: honest_def list_all_iff)
  then show ?thesis
    using assms(1,2) ownedBy_claimed [of m h] by (auto simp: rightfulOwner_def deleteTarget_def knows_def split: if_splits)
qed


text \<open>A machine under deletion resets the host it holds.\<close>

definition doomedHRM :: HetznerRobotMachine where
  "doomedHRM = modStatus (HostRef_update (\<lambda>_. ''node6'')) (sampleHRM\<lparr>hrmMeta := (hrmMeta sampleHRM)\<lparr>DeletionTimestamp := Some 1\<rparr>\<rparr>)"

definition resetExt :: "unit ext" where
  "resetExt = sampleExt\<lparr>xGetHost := \<lambda>k w. (Inr (claimedHost sampleHRM sampleHost), w)\<rparr>"

lemma doomed_resets:
  "\<exists>f post. newEvents (reconcileMachine resetExt sampleHRC sampleMachine sampleCluster) (sampleRun doomedHRM)
     = [EvGetHost (''ns'', ''node6'') (Inr (claimedHost sampleHRM sampleHost))]
         @ EvHttp POST (robotBaseURL @ ''/boot/'' @ itoa (ServerID (hostSpec sampleHost)) @ ''/rescue'') f (HttpResponse 200 []) # post"
proof -
  have sels: "xGetHost resetExt = (\<lambda>k w. (Inr (claimedHost sampleHRM sampleHost), w))"
    "xHttp resetExt = (\<lambda>a m u f w. (HttpResponse 200 [], w))" "xAnyJSON resetExt = (\<lambda>b. None)"
    "xRescueJSON resetExt = (\<lambda>b. Inr \<lparr>riServerIP = [], riServerNumber = 0, Active = False, Password = []\<rparr>)"
    "xGetSecret resetExt = (\<lambda>k w. (Inr [''ssh-privatekey'' \<mapsto> ''KEY'', ''value'' \<mapsto> ''DATA''], w))"
    by (simp_all add: resetExt_def sampleExt_def)
  have hrm: "DeletionTimestamp (hrmMeta doomedHRM) = Some 1" "Namespace (hrmMeta doomedHRM) = ''ns''"
    "HostRef (hrmStatus doomedHRM) = ''node6''" "NodeRef sampleMachine = None"
    by (simp_all add: doomedHRM_def sampleHRM_def sampleMeta_def sampleMachine_def)
  have host: "\<not> MaintenanceMode (hostSpec sampleHost)" "ServerID (hostSpec sampleHost) \<noteq> 0"
    "LifecycleClass (hostSpec sampleHost) = HostLifecycleClassCompute"
    "DestructivePolicy (hostSpec sampleHost) = PolicyAlwaysCleanSlate" "hostSpec (claimedHost sampleHRM sampleHost) = hostSpec sampleHost"
    by (simp_all add: sampleHost_def claimedHost_def setHostConsumerRef_def)
  have rest: "trace (snd (run_state (releaseAndFinish resetExt ho b) s)) = trace s @ newEvents (releaseAndFinish resetExt ho b) s" for ho b s
    by (rule wpD(2) [OF wp_emits [OF emits_releaseAndFinish]])
  show ?thesis
    by (subst newEvents_def) (simp add: reconcileMachine_def reconcileDelete_def resolveHostForDelete_def calls_def Let_def
      buildRobotClient_def NewFromCluster_def NewRobot_def authorizeDestructiveProvisioningFor_def authorizeDestructiveProvisioning_def
      resetForDelete_def getSSHKeyFingerprint_def ActivateRescue_def ResetServer_def robotPost_def sampleRun_def sels hrm host rest)
qed


end
