(* ===== verification/Go_Memory.thy ===== *)
theory Go_Memory
  imports Prelude "HOL-Library.AList"
begin

text \<open>
  Go values with their pointers, for the one part of the program that is about sharing: the deep copies of the
  API types. A value is a scalar (anything without references), a nil or non-nil reference (pointer, slice or map), or
  a struct with named fields; memory is the list of what was allocated, addressed by position. Types
  tell what a reference leads to. A copier is what runs between \<^verbatim>\<open>in\<close> and \<^verbatim>\<open>out\<close>: from the contents of
  \<^verbatim>\<open>*in\<close> it makes those of \<^verbatim>\<open>*out\<close>, allocating on the way.
\<close>

section \<open>Values, memory and types\<close>

datatype govalue = Scalar string | NilRef | At nat | Struct "(string \<times> govalue) list"

text \<open>What an address holds: the pointee or the elements of a slice, or the entries of a map of strings.\<close>

datatype cell = Elems "govalue list" | Entries "(string \<times> string) list"

type_synonym memory = "cell list"

definition load :: "memory \<Rightarrow> nat \<Rightarrow> cell option" where
  "load m a = (if a < length m then Some (m ! a) else None)"

definition alloc :: "cell \<Rightarrow> (memory, govalue) state" where
  "alloc c = State (\<lambda>m. (At (length m), m @ [c]))"

fun sel :: "govalue \<Rightarrow> string \<Rightarrow> govalue" where
  "sel (Struct vs) f = (case map_of vs f of Some w \<Rightarrow> w | None \<Rightarrow> NilRef)"
| "sel _ f = NilRef"

fun upd :: "string \<Rightarrow> govalue \<Rightarrow> govalue \<Rightarrow> govalue" where
  "upd f w (Struct vs) = Struct (AList.update f w vs)"
| "upd f w v = v"

datatype gotype = TScalar | TPtr gotype | TSlice gotype | TStringMap | TStruct "(string \<times> gotype) list"

lemma size_field [simp]: "(f, t) \<in> set fs \<Longrightarrow> size t < Suc (size_list (size_prod (\<lambda>_. 0) size) fs)"
  by (induction fs) auto

text \<open>The contents of the cell a reference leads to.\<close>

definition elems :: "memory \<Rightarrow> govalue \<Rightarrow> govalue list option" where
  "elems m v = (case v of At a \<Rightarrow> (case load m a of Some (Elems ws) \<Rightarrow> Some ws | _ \<Rightarrow> None) | _ \<Rightarrow> None)"

definition entries :: "memory \<Rightarrow> govalue \<Rightarrow> (string \<times> string) list option" where
  "entries m v = (case v of At a \<Rightarrow> (case load m a of Some (Entries es) \<Rightarrow> Some es | _ \<Rightarrow> None) | _ \<Rightarrow> None)"

definition fieldsAre :: "(string \<times> gotype) list \<Rightarrow> govalue \<Rightarrow> bool" where
  "fieldsAre fs v \<longleftrightarrow> distinct (map fst fs) \<and> (case v of Struct vs \<Rightarrow> map fst vs = map fst fs | _ \<Rightarrow> False)"

function hasType :: "memory \<Rightarrow> gotype \<Rightarrow> govalue \<Rightarrow> bool" where
  "hasType m TScalar v = (case v of Scalar _ \<Rightarrow> True | _ \<Rightarrow> False)"
| "hasType m (TPtr t) v = (v = NilRef \<or> (case elems m v of Some [w] \<Rightarrow> hasType m t w | _ \<Rightarrow> False))"
| "hasType m (TSlice t) v = (v = NilRef \<or> (case elems m v of Some ws \<Rightarrow> list_all (\<lambda>w. hasType m t w) ws | _ \<Rightarrow> False))"
| "hasType m TStringMap v = (v = NilRef \<or> (case entries m v of Some es \<Rightarrow> distinct (map fst es) | _ \<Rightarrow> False))"
| "hasType m (TStruct fs) v = (fieldsAre fs v \<and> (\<forall>(f, t) \<in> set fs. hasType m t (sel v f)))"
  by pat_completeness auto
termination by (relation "measure (\<lambda>(m, t, v). size t)") auto

text \<open>The value a reader sees who follows every reference.\<close>

datatype tree = LeafT string | NilT | PtrT tree | SliceT "tree list" | MapT "(string \<times> string) list"
  | StructT "(string \<times> tree) list"

function deref :: "memory \<Rightarrow> gotype \<Rightarrow> govalue \<Rightarrow> tree" where
  "deref m TScalar v = (case v of Scalar s \<Rightarrow> LeafT s | _ \<Rightarrow> NilT)"
| "deref m (TPtr t) v = (case elems m v of Some (w # ws) \<Rightarrow> PtrT (deref m t w) | _ \<Rightarrow> NilT)"
| "deref m (TSlice t) v = (case elems m v of Some ws \<Rightarrow> SliceT (map (\<lambda>w. deref m t w) ws) | _ \<Rightarrow> NilT)"
| "deref m TStringMap v = (case entries m v of Some es \<Rightarrow> MapT es | _ \<Rightarrow> NilT)"
| "deref m (TStruct fs) v = StructT (map (\<lambda>(f, t). (f, deref m t (sel v f))) fs)"
  by pat_completeness auto
termination by (relation "measure (\<lambda>(m, t, v). size t)") auto

text \<open>The addresses on the way.\<close>

fun addressOf :: "govalue \<Rightarrow> nat set" where
  "addressOf (At a) = {a}"
| "addressOf _ = {}"

function reach :: "memory \<Rightarrow> gotype \<Rightarrow> govalue \<Rightarrow> nat set" where
  "reach m TScalar v = {}"
| "reach m (TPtr t) v = addressOf v \<union> (case elems m v of Some ws \<Rightarrow> (\<Union>w\<in>set ws. reach m t w) | _ \<Rightarrow> {})"
| "reach m (TSlice t) v = addressOf v \<union> (case elems m v of Some ws \<Rightarrow> (\<Union>w\<in>set ws. reach m t w) | _ \<Rightarrow> {})"
| "reach m TStringMap v = addressOf v"
| "reach m (TStruct fs) v = (\<Union>(f, t)\<in>set fs. reach m t (sel v f))"
  by pat_completeness auto
termination by (relation "measure (\<lambda>(m, t, v). size t)") auto

section \<open>Copiers\<close>

type_synonym copier = "govalue \<Rightarrow> (memory, govalue) state"

text \<open>\<^verbatim>\<open>*out = *in\<close>: references are taken over as they are.\<close>

definition assign :: copier where
  "assign v = State_Monad.return v"

fun copyEach :: "copier \<Rightarrow> govalue list \<Rightarrow> (memory, govalue list) state" where
  "copyEach c [] = State_Monad.return []"
| "copyEach c (w # ws) = do { w' \<leftarrow> c w; ws' \<leftarrow> copyEach c ws; State_Monad.return (w' # ws') }"

text \<open>
  A reference that is not nil gets a cell of its own, filled by the copier from the old one: \<^verbatim>\<open>new\<close> and the assignment or
  \<^verbatim>\<open>DeepCopyInto\<close> for a pointer, \<^verbatim>\<open>make\<close> and \<^verbatim>\<open>copy\<close> or the loop for a slice.
\<close>

definition copyElems :: "copier \<Rightarrow> copier" where
  "copyElems c v = do {
     m \<leftarrow> State_Monad.get;
     (case elems m v of
        Some ws \<Rightarrow> do { ws' \<leftarrow> copyEach c ws; alloc (Elems ws') }
      | None \<Rightarrow> State_Monad.return v)
   }"

text \<open>\<^verbatim>\<open>make\<close> of a map, and the loop that sets its entries.\<close>

definition copyEntries :: copier where
  "copyEntries v = do {
     m \<leftarrow> State_Monad.get;
     (case entries m v of
        Some es \<Rightarrow> alloc (Entries (fold (\<lambda>(k, s) out. AList.update k s out) es []))
      | None \<Rightarrow> State_Monad.return v)
   }"

text \<open>\<^verbatim>\<open>*out = *in\<close>, then the statements for single fields in their order.\<close>

fun intoFields :: "(string \<times> copier) list \<Rightarrow> copier" where
  "intoFields [] v = State_Monad.return v"
| "intoFields ((f, c) # steps) v = do { w \<leftarrow> c (sel v f); intoFields steps (upd f w v) }"

text \<open>
  \<^verbatim>\<open>DeepCopy\<close> of a pointer, and \<^verbatim>\<open>DeepCopyObject\<close>, which returns it as an interface that is nil when the pointer is.
\<close>

definition deepCopy :: "copier \<Rightarrow> copier" where
  "deepCopy into p = (if p = NilRef then State_Monad.return NilRef else copyElems into p)"

definition deepCopyObject :: "copier \<Rightarrow> copier" where
  "deepCopyObject into p = do {
     c \<leftarrow> deepCopy into p;
     (if c \<noteq> NilRef then State_Monad.return c else State_Monad.return NilRef)
   }"

section \<open>What a copy promises\<close>

text \<open>
  After a copy the memory has only grown, the result is a value of the same type that reads the same, and of the old addresses
  it reaches exactly those of \<open>sh\<close>, the part that is shared. A deep copy shares nothing.
\<close>

definition copyShares :: "gotype \<Rightarrow> (memory \<Rightarrow> govalue \<Rightarrow> nat set) \<Rightarrow> copier \<Rightarrow> bool" where
  "copyShares t sh c \<longleftrightarrow> (\<forall>m v. hasType m t v \<longrightarrow>
     (\<forall>m'. prefix m m' \<longrightarrow> sh m' v = sh m v) \<and> sh m v \<subseteq> {..<length m} \<and>
     (case run_state (c v) m of (v', m') \<Rightarrow>
        prefix m m' \<and> hasType m' t v' \<and> deref m' t v' = deref m t v
        \<and> sh m v \<subseteq> reach m' t v' \<and> reach m' t v' \<subseteq> sh m v \<union> {length m..<length m'}))"

definition copies :: "gotype \<Rightarrow> copier \<Rightarrow> bool" where
  "copies t c = copyShares t (\<lambda>m v. {}) c"

lemma copySharesI:
  assumes "\<And>m m' v. hasType m t v \<Longrightarrow> prefix m m' \<Longrightarrow> sh m' v = sh m v"
    and "\<And>m v. hasType m t v \<Longrightarrow> sh m v \<subseteq> {..<length m}"
    and "\<And>m v v' m'. hasType m t v \<Longrightarrow> run_state (c v) m = (v', m') \<Longrightarrow>
      prefix m m' \<and> hasType m' t v' \<and> deref m' t v' = deref m t v
      \<and> sh m v \<subseteq> reach m' t v' \<and> reach m' t v' \<subseteq> sh m v \<union> {length m..<length m'}"
  shows "copyShares t sh c"
  unfolding copyShares_def
proof (intro allI impI conjI)
  fix m v
  assume v: "hasType m t v"
  show "case run_state (c v) m of (v', m') \<Rightarrow> prefix m m' \<and> hasType m' t v' \<and> deref m' t v' = deref m t v
      \<and> sh m v \<subseteq> reach m' t v' \<and> reach m' t v' \<subseteq> sh m v \<union> {length m..<length m'}"
    using assms(3) [OF v] by (cases "run_state (c v) m") simp
qed (use assms(1,2) in blast)+

lemma copySharesD:
  assumes "copyShares t sh c" and "hasType m t v"
  shows "prefix m m' \<Longrightarrow> sh m' v = sh m v" and "sh m v \<subseteq> {..<length m}"
    and "run_state (c v) m = (v', m') \<Longrightarrow> prefix m m' \<and> hasType m' t v' \<and> deref m' t v' = deref m t v
      \<and> sh m v \<subseteq> reach m' t v' \<and> reach m' t v' \<subseteq> sh m v \<union> {length m..<length m'}"
proof -
  note law = assms(1) [unfolded copyShares_def, rule_format, OF assms(2)]
  from law show "prefix m m' \<Longrightarrow> sh m' v = sh m v" by blast
  from law show "sh m v \<subseteq> {..<length m}" by blast
  assume "run_state (c v) m = (v', m')"
  with law [THEN conjunct2, THEN conjunct2] show "prefix m m' \<and> hasType m' t v' \<and> deref m' t v' = deref m t v
      \<and> sh m v \<subseteq> reach m' t v' \<and> reach m' t v' \<subseteq> sh m v \<union> {length m..<length m'}" by simp
qed

subsection \<open>Reading in a memory that has grown or was written elsewhere\<close>

lemma load_prefix: "prefix m m' \<Longrightarrow> a < length m \<Longrightarrow> load m' a = load m a"
  by (auto simp: load_def prefix_def nth_append)

lemma elems_simps [simp]:
  "elems m NilRef = None" "elems m (Scalar x) = None" "elems m (Struct vs) = None"
  "entries m NilRef = None" "entries m (Scalar x) = None" "entries m (Struct vs) = None"
  by (simp_all add: elems_def entries_def)

lemma elems_allocated: "elems m v = Some ws \<Longrightarrow> addressOf v \<subseteq> {..<length m}"
  "entries m v = Some es \<Longrightarrow> addressOf v \<subseteq> {..<length m}"
  by (cases v; auto simp: elems_def entries_def load_def split: if_splits)+

lemma reach_allocated: "hasType m t v \<Longrightarrow> reach m t v \<subseteq> {..<length m}"
proof (induction m t v rule: hasType.induct)
  case (2 m t v)
  then show ?case using elems_allocated(1) [of m v] by (auto split: option.splits list.splits)
next
  case (3 m t v)
  then show ?case using elems_allocated(1) [of m v] by (auto simp: list_all_iff split: option.splits)
next
  case (4 m v)
  then show ?case using elems_allocated(2) [of m v] by (auto split: option.splits)
next
  case (5 m fs v)
  then have "reach m t (sel v f) \<subseteq> {..<length m}" if "(f, t) \<in> set fs" for f t
    using that by (intro 5(1) [OF that refl]) auto
  then show ?case by auto
qed simp

text \<open>A value reads the same in two memories that agree on what it reaches.\<close>

lemma cells_cong:
  assumes "\<And>a. a \<in> addressOf v \<Longrightarrow> load m' a = load m a"
  shows "elems m' v = elems m v" and "entries m' v = entries m v"
  using assms by (cases v; simp add: elems_def entries_def)+

lemma frame_all:
  "(\<forall>a \<in> reach m t v. load m' a = load m a) \<Longrightarrow>
    hasType m' t v = hasType m t v \<and> deref m' t v = deref m t v \<and> reach m' t v = reach m t v"
proof (induction m t v rule: reach.induct)
  case (2 m t v)
  then have eq: "elems m' v = elems m v" by (intro cells_cong) auto
  have each: "hasType m' t w = hasType m t w \<and> deref m' t w = deref m t w \<and> reach m' t w = reach m t w"
    if "elems m v = Some ws" "w \<in> set ws" for w ws
    by (rule 2(1) [OF that]) (use 2(2) that in auto)
  show ?case by (cases "elems m v") (use each eq in \<open>auto split: list.split\<close>)
next
  case (3 m t v)
  then have eq: "elems m' v = elems m v" by (intro cells_cong) auto
  have each: "hasType m' t w = hasType m t w \<and> deref m' t w = deref m t w \<and> reach m' t w = reach m t w"
    if "elems m v = Some ws" "w \<in> set ws" for w ws
    by (rule 3(1) [OF that]) (use 3(2) that in auto)
  show ?case by (cases "elems m v") (use each eq in \<open>auto simp: list_all_iff\<close>)
next
  case (4 m v)
  then have "entries m' v = entries m v" by (intro cells_cong) auto
  then show ?case by simp
next
  case (5 m fs v)
  have "hasType m' t (sel v f) = hasType m t (sel v f) \<and> deref m' t (sel v f) = deref m t (sel v f)
      \<and> reach m' t (sel v f) = reach m t (sel v f)" if "(f, t) \<in> set fs" for f t
    by (rule 5(1) [OF that refl]) (use 5(2) that in auto)
  then show ?case by (auto simp: split_beta)
qed simp

lemma grown:
  assumes "hasType m t v" and "prefix m m'"
  shows "hasType m' t v" and "deref m' t v = deref m t v" and "reach m' t v = reach m t v"
proof -
  have "load m' a = load m a" if "a \<in> reach m t v" for a
    using reach_allocated [OF assms(1)] that by (intro load_prefix [OF assms(2)]) auto
  with frame_all [of m t v m'] assms(1)
  show "hasType m' t v" "deref m' t v = deref m t v" "reach m' t v = reach m t v" by simp_all
qed

subsection \<open>Copiers that keep the promise\<close>

named_theorems copies_intro

lemma copyShares_assign: "copyShares t (\<lambda>m. reach m t) assign"
proof (rule copySharesI)
  show "reach m' t v = reach m t v" if "hasType m t v" "prefix m m'" for m m' v using that by (rule grown(3))
  show "reach m t v \<subseteq> {..<length m}" if "hasType m t v" for m v using that by (rule reach_allocated)
qed (simp add: assign_def)

text \<open>Types without references.\<close>

function isFlat :: "gotype \<Rightarrow> bool" where
  "isFlat TScalar = True"
| "isFlat (TPtr t) = False"
| "isFlat (TSlice t) = False"
| "isFlat TStringMap = False"
| "isFlat (TStruct fs) = (\<forall>(f, t) \<in> set fs. isFlat t)"
  by pat_completeness auto
termination by (relation "measure size") auto

lemma reach_flat: "isFlat t \<Longrightarrow> reach m t v = {}"
proof (induction m t v rule: reach.induct)
  case (5 m fs v)
  have "reach m t (sel v f) = {}" if "(f, t) \<in> set fs" for f t
    by (rule 5(1) [OF that refl]) (use 5(2) that in auto)
  then show ?case by auto
qed simp_all

lemma copies_assign [copies_intro]: "isFlat t \<Longrightarrow> copies t assign"
proof -
  assume "isFlat t"
  then have "(\<lambda>m. reach m t) = (\<lambda>m v. {})" by (intro ext reach_flat)
  then show "copies t assign" using copyShares_assign [of t] by (simp add: copies_def)
qed

definition through :: "(memory \<Rightarrow> govalue \<Rightarrow> nat set) \<Rightarrow> memory \<Rightarrow> govalue \<Rightarrow> nat set" where
  "through sh m v = (case elems m v of Some ws \<Rightarrow> (\<Union>w\<in>set ws. sh m w) | None \<Rightarrow> {})"

lemma elems_At [simp]: "elems (m @ [Elems ws]) (At (length m)) = Some ws"
  "entries (m @ [Entries es]) (At (length m)) = Some es"
  by (simp_all add: elems_def entries_def load_def)

lemma elems_grown:
  assumes "prefix m m'"
  shows "elems m v = Some ws \<Longrightarrow> elems m' v = Some ws" and "entries m v = Some es \<Longrightarrow> entries m' v = Some es"
proof -
  have "elems m' v = elems m v \<and> entries m' v = entries m v" if "addressOf v \<subseteq> {..<length m}"
    using that load_prefix [OF assms] by (intro conjI cells_cong) auto
  then show "elems m v = Some ws \<Longrightarrow> elems m' v = Some ws" "entries m v = Some es \<Longrightarrow> entries m' v = Some es"
    using elems_allocated by metis+
qed

lemma run_copyEach:
  assumes "copyShares t sh c" and "\<forall>w \<in> set ws. hasType m t w" and "run_state (copyEach c ws) m = (ws', m')"
  shows "prefix m m' \<and> length ws' = length ws \<and> (\<forall>w \<in> set ws'. hasType m' t w) \<and> map (deref m' t) ws' = map (deref m t) ws
    \<and> (\<Union>w\<in>set ws. sh m w) \<subseteq> (\<Union>w\<in>set ws'. reach m' t w)
    \<and> (\<Union>w\<in>set ws'. reach m' t w) \<subseteq> (\<Union>w\<in>set ws. sh m w) \<union> {length m..<length m'}"
  using assms(2,3)
proof (induction ws arbitrary: m ws')
  case Nil
  then show ?case by simp
next
  case (Cons w ws)
  obtain w' m1 where w: "run_state (c w) m = (w', m1)" by fastforce
  obtain us where us: "run_state (copyEach c ws) m1 = (us, m')" "ws' = w' # us"
    using Cons.prems(2) w by (auto split: prod.splits)
  have hw: "hasType m t w" using Cons.prems(1) by simp
  note one = copySharesD(3) [OF assms(1) hw w]
  have m1: "prefix m m1" using one by blast
  have later: "hasType m1 t u" "deref m1 t u = deref m t u" "sh m1 u = sh m u" if "u \<in> set ws" for u
  proof -
    have u: "hasType m t u" using Cons.prems(1) that by simp
    show "hasType m1 t u" "deref m1 t u = deref m t u" by (rule grown [OF u m1])+
    show "sh m1 u = sh m u" by (rule copySharesD(1) [OF assms(1) u m1])
  qed
  have rest: "prefix m1 m' \<and> length us = length ws \<and> (\<forall>w \<in> set us. hasType m' t w) \<and> map (deref m' t) us = map (deref m1 t) ws
    \<and> (\<Union>w\<in>set ws. sh m1 w) \<subseteq> (\<Union>w\<in>set us. reach m' t w)
    \<and> (\<Union>w\<in>set us. reach m' t w) \<subseteq> (\<Union>w\<in>set ws. sh m1 w) \<union> {length m1..<length m'}"
    by (rule Cons.IH) (use later us in auto)
  have w': "hasType m1 t w'" and m': "prefix m1 m'" using one rest by blast+
  have first: "hasType m' t w'" "deref m' t w' = deref m t w" "reach m' t w' = reach m1 t w'"
    using grown [OF w' m'] one by simp_all
  have len: "length m \<le> length m1" "length m1 \<le> length m'" using m1 m' by (simp_all add: prefix_length_le)
  have sh: "(\<Union>w\<in>set ws. sh m1 w) = (\<Union>w\<in>set ws. sh m w)" and maps: "map (deref m1 t) ws = map (deref m t) ws"
    using later(2,3) by simp_all
  show ?case
  proof (intro conjI)
    show "prefix m m'" using m1 m' by (rule prefix_order.trans)
    show "(\<Union>w\<in>set (w # ws). sh m w) \<subseteq> (\<Union>w\<in>set ws'. reach m' t w)"
      using one rest [unfolded sh] first us(2) by auto
    show "(\<Union>w\<in>set ws'. reach m' t w) \<subseteq> (\<Union>w\<in>set (w # ws). sh m w) \<union> {length m..<length m'}"
      using one rest [unfolded sh] first us(2) len by fastforce
  qed (use rest [unfolded maps] first us(2) in auto)
qed

lemma copyElems_laws:
  assumes "copyShares t sh c" and "elems m v = Some ws" and "\<forall>w \<in> set ws. hasType m t w" and "run_state (copyElems c v) m = (v', m')"
  shows "\<exists>ws'. elems m' v' = Some ws' \<and> length ws' = length ws \<and> (\<forall>w \<in> set ws'. hasType m' t w)
    \<and> map (deref m' t) ws' = map (deref m t) ws \<and> prefix m m'
    \<and> through sh m v \<subseteq> (\<Union>w\<in>set ws'. reach m' t w)
    \<and> addressOf v' \<union> (\<Union>w\<in>set ws'. reach m' t w) \<subseteq> through sh m v \<union> {length m..<length m'}"
proof -
  obtain ws' m1 where run: "run_state (copyEach c ws) m = (ws', m1)" by fastforce
  with assms(2,4) have v': "v' = At (length m1)" "m' = m1 @ [Elems ws']"
    by (auto simp: copyElems_def alloc_def)
  note laws = run_copyEach [OF assms(1,3) run]
  have m1: "prefix m1 m'" by (simp add: v')
  have same: "hasType m' t w" "deref m' t w = deref m1 t w" "reach m' t w = reach m1 t w" if "w \<in> set ws'" for w
    using grown [OF _ m1, of t w] laws that by simp_all
  have "map (deref m' t) ws' = map (deref m1 t) ws'" using same(2) by simp
  then have "map (deref m' t) ws' = map (deref m t) ws" using laws by simp
  moreover have "(\<Union>w\<in>set ws'. reach m' t w) = (\<Union>w\<in>set ws'. reach m1 t w)" using same by auto
  moreover have "length m \<le> length m1" using laws by (simp add: prefix_length_le)
  ultimately show ?thesis
    using laws same assms(2) by (intro exI [of _ ws']) (auto simp: v' through_def intro: prefix_order.trans)
qed

lemma through_stable:
  assumes "copyShares t sh c" and "\<And>ws. elems m v = Some ws \<Longrightarrow> \<forall>w \<in> set ws. hasType m t w"
    and "addressOf v = {} \<or> elems m v \<noteq> None"
  shows "prefix m m' \<Longrightarrow> through sh m' v = through sh m v" and "through sh m v \<subseteq> {..<length m}"
proof -
  show "through sh m v \<subseteq> {..<length m}"
    using copySharesD(2) [OF assms(1)] assms(2) by (auto simp: through_def split: option.split)
  assume m': "prefix m m'"
  show "through sh m' v = through sh m v"
  proof (cases "elems m v")
    case None
    then have "addressOf v = {}" using assms(3) by simp
    then have "elems m' v = elems m v" by (intro cells_cong) simp
    with None show ?thesis by (simp add: through_def)
  next
    case (Some ws)
    then have "sh m' w = sh m w" if "w \<in> set ws" for w
      using assms(2) [OF Some] that by (intro copySharesD(1) [OF assms(1) _ m']) simp
    then show ?thesis using Some elems_grown(1) [OF m' Some] by (simp add: through_def)
  qed
qed

lemma copyElems_nil: "elems m v = None \<Longrightarrow> run_state (copyElems c v) m = (v, m)"
  by (simp add: copyElems_def)

lemma copyShares_elems:
  assumes "copyShares t sh c"
  shows "copyShares (TPtr t) (through sh) (copyElems c)" and "copyShares (TSlice t) (through sh) (copyElems c)"
proof -
  have parts: "\<forall>w \<in> set ws. hasType m t w" "addressOf v = {} \<or> elems m v \<noteq> None"
    if "hasType m (TPtr t) v \<or> hasType m (TSlice t) v" "elems m v = Some ws \<or> ws = []" for m v ws
    using that by (auto simp: list_all_iff split: option.splits list.splits)
  show "copyShares (TPtr t) (through sh) (copyElems c)"
  proof (rule copySharesI)
    fix m m' v v'
    assume v: "hasType m (TPtr t) v"
    show "prefix m m' \<Longrightarrow> through sh m' v = through sh m v" "through sh m v \<subseteq> {..<length m}"
      using through_stable(1) [OF assms, of m v m'] through_stable(2) [OF assms, of m v] parts [of m v] v by blast+
    assume run: "run_state (copyElems c v) m = (v', m')"
    show "prefix m m' \<and> hasType m' (TPtr t) v' \<and> deref m' (TPtr t) v' = deref m (TPtr t) v
      \<and> through sh m v \<subseteq> reach m' (TPtr t) v' \<and> reach m' (TPtr t) v' \<subseteq> through sh m v \<union> {length m..<length m'}"
    proof (cases "elems m v")
      case None
      with v have "v = NilRef" by simp
      with run show ?thesis by (simp add: copyElems_nil through_def)
    next
      case (Some ws)
      then obtain w where w: "ws = [w]" "hasType m t w" using v by (auto split: list.splits)
      from copyElems_laws [OF assms Some _ run] w obtain ws' where ws': "elems m' v' = Some ws'" "length ws' = 1"
        "\<forall>w \<in> set ws'. hasType m' t w" "map (deref m' t) ws' = [deref m t w]" "prefix m m'"
        "through sh m v \<subseteq> (\<Union>w\<in>set ws'. reach m' t w)"
        "addressOf v' \<union> (\<Union>w\<in>set ws'. reach m' t w) \<subseteq> through sh m v \<union> {length m..<length m'}" by auto
      then obtain w' where "ws' = [w']" by (auto simp: length_Suc_conv)
      with ws' Some w show ?thesis by auto
    qed
  qed
  show "copyShares (TSlice t) (through sh) (copyElems c)"
  proof (rule copySharesI)
    fix m m' v v'
    assume v: "hasType m (TSlice t) v"
    show "prefix m m' \<Longrightarrow> through sh m' v = through sh m v" "through sh m v \<subseteq> {..<length m}"
      using through_stable(1) [OF assms, of m v m'] through_stable(2) [OF assms, of m v] parts [of m v] v by blast+
    assume run: "run_state (copyElems c v) m = (v', m')"
    show "prefix m m' \<and> hasType m' (TSlice t) v' \<and> deref m' (TSlice t) v' = deref m (TSlice t) v
      \<and> through sh m v \<subseteq> reach m' (TSlice t) v' \<and> reach m' (TSlice t) v' \<subseteq> through sh m v \<union> {length m..<length m'}"
    proof (cases "elems m v")
      case None
      with v have "v = NilRef" by simp
      with run show ?thesis by (simp add: copyElems_nil through_def)
    next
      case (Some ws)
      with v have ws: "\<forall>w \<in> set ws. hasType m t w" by (auto simp: list_all_iff)
      from copyElems_laws [OF assms Some ws run] obtain ws' where "elems m' v' = Some ws'"
        "\<forall>w \<in> set ws'. hasType m' t w" "map (deref m' t) ws' = map (deref m t) ws" "prefix m m'"
        "through sh m v \<subseteq> (\<Union>w\<in>set ws'. reach m' t w)"
        "addressOf v' \<union> (\<Union>w\<in>set ws'. reach m' t w) \<subseteq> through sh m v \<union> {length m..<length m'}" by auto
      with Some show ?thesis by (auto simp: list_all_iff)
    qed
  qed
qed

lemma through_empty [simp]: "through (\<lambda>m v. {}) = (\<lambda>m v. {})"
  by (auto simp: through_def fun_eq_iff split: option.split)

lemma copies_elems [copies_intro]: "copies t c \<Longrightarrow> copies (TPtr t) (copyElems c)" "copies t c \<Longrightarrow> copies (TSlice t) (copyElems c)"
  using copyShares_elems [of t "\<lambda>m v. {}" c] by (simp_all add: copies_def)

lemma copied_entries: "distinct (map fst es) \<Longrightarrow> fold (\<lambda>(k, s) out. AList.update k s out) es [] = es"
  for es :: "(string \<times> string) list"
proof -
  have new: "k \<notin> fst ` set out \<Longrightarrow> AList.update k s out = out @ [(k, s)]" for k s and out :: "(string \<times> string) list"
    by (induction out) auto
  have "distinct (map fst es) \<Longrightarrow> fst ` set es \<inter> fst ` set out = {} \<Longrightarrow>
      fold (\<lambda>(k, s) out. AList.update k s out) es out = out @ es" for es and out :: "(string \<times> string) list"
    by (induction es arbitrary: out) (auto simp: new)
  from this [of es "[]"] show "distinct (map fst es) \<Longrightarrow> fold (\<lambda>(k, s) out. AList.update k s out) es [] = es" by simp
qed

lemma copies_entries [copies_intro]: "copies TStringMap copyEntries"
  unfolding copies_def
proof (rule copySharesI, simp_all, goal_cases)
  case (1 m v v' m')
  then show ?case
    by (cases "entries m v") (auto simp: copyEntries_def alloc_def copied_entries)
qed

subsection \<open>Structs\<close>

lemma upd_field:
  assumes "fieldsAre fs v" and "(f, t) \<in> set fs"
  shows "fieldsAre fs (upd f w v)" and "sel (upd f w v) g = (if g = f then w else sel v g)"
proof -
  obtain vs where vs: "v = Struct vs" "map fst vs = map fst fs" "distinct (map fst fs)"
    using assms(1) by (cases v) (auto simp: fieldsAre_def)
  have "f \<in> fst ` set vs" using vs(2) assms(2) by (metis fst_conv imageI list.set_map)
  then have "map fst (AList.update f w vs) = map fst vs" by (simp add: update_keys)
  then show "fieldsAre fs (upd f w v)" using vs by (simp add: fieldsAre_def)
  show "sel (upd f w v) g = (if g = f then w else sel v g)" by (simp add: vs(1) update_conv')
qed

text \<open>What is known of a field once its step has run.\<close>

definition fieldCopied :: "(memory \<Rightarrow> govalue \<Rightarrow> nat set) \<Rightarrow> gotype \<Rightarrow> memory \<Rightarrow> govalue \<Rightarrow> memory \<Rightarrow> govalue \<Rightarrow> bool" where
  "fieldCopied sh t m w m' w' \<longleftrightarrow> hasType m' t w' \<and> deref m' t w' = deref m t w
     \<and> sh m w \<subseteq> reach m' t w' \<and> reach m' t w' \<subseteq> sh m w \<union> {length m..<length m'}"

lemma fieldCopied_grow:
  assumes "fieldCopied sh t m w m1 w1" and "prefix m1 m'"
  shows "fieldCopied sh t m w m' w1"
proof -
  have w1: "hasType m1 t w1" using assms(1) by (simp add: fieldCopied_def)
  have "length m1 \<le> length m'" using assms(2) by (rule prefix_length_le)
  then show ?thesis
    using assms(1) grown [OF w1 assms(2)] by (auto simp: fieldCopied_def)
qed

lemma fieldCopied_before:
  assumes "fieldCopied sh t m1 w m' w'" and "copyShares t sh c" and "hasType m t w" and "prefix m m1"
  shows "fieldCopied sh t m w m' w'"
proof -
  have "sh m1 w = sh m w" by (rule copySharesD(1) [OF assms(2-4)])
  moreover have "deref m1 t w = deref m t w" by (rule grown(2) [OF assms(3,4)])
  moreover have "length m \<le> length m1" using assms(4) by (rule prefix_length_le)
  ultimately show ?thesis using assms(1) by (auto simp: fieldCopied_def)
qed

lemma run_intoFields:
  assumes "distinct (map fst steps)" and "\<forall>(f, c) \<in> set steps. \<exists>t. (f, t) \<in> set fs \<and> copyShares t (sh f) c"
    and "hasType m (TStruct fs) v" and "run_state (intoFields steps v) m = (v', m')"
  shows "prefix m m' \<and> fieldsAre fs v' \<and> (\<forall>f. f \<notin> fst ` set steps \<longrightarrow> sel v' f = sel v f)
    \<and> (\<forall>(f, t) \<in> set fs. f \<in> fst ` set steps \<longrightarrow> fieldCopied (sh f) t m (sel v f) m' (sel v' f))"
  using assms
proof (induction steps arbitrary: v m)
  case Nil
  then show ?case by simp
next
  case (Cons step steps)
  obtain f c where fc: "step = (f, c)" by fastforce
  obtain t where t: "(f, t) \<in> set fs" "copyShares t (sh f) c" using Cons.prems(2) fc by auto
  have fs: "fieldsAre fs v" and typed: "hasType m s (sel v g)" if "(g, s) \<in> set fs" for g s
    using Cons.prems(3) that by auto
  have unique: "s = t" if "(f, s) \<in> set fs" for s
    using fs [OF t(1)] t(1) that by (auto simp: fieldsAre_def eq_key_imp_eq_value)
  obtain w m1 where w: "run_state (c (sel v f)) m = (w, m1)" by fastforce
  have later: "run_state (intoFields steps (upd f w v)) m1 = (v', m')" using Cons.prems(4) w fc by simp
  note one = copySharesD(3) [OF t(2) typed [OF t(1)] w]
  have m1: "prefix m m1" using one by blast
  note sel = upd_field [OF fs [OF t(1)] t(1), of w]
  have "hasType m1 s (sel (upd f w v) g)" if "(g, s) \<in> set fs" for g s
    using unique that one grown(1) [OF typed [OF that] m1] by (auto simp: sel(2))
  then have "hasType m1 (TStruct fs) (upd f w v)" using sel(1) by auto
  from Cons.IH [OF _ _ this later] Cons.prems(1,2)
  have rest: "prefix m1 m'" "fieldsAre fs v'" "\<forall>g. g \<notin> fst ` set steps \<longrightarrow> sel v' g = sel (upd f w v) g"
    "\<forall>(g, s) \<in> set fs. g \<in> fst ` set steps \<longrightarrow> fieldCopied (sh g) s m1 (sel (upd f w v) g) m' (sel v' g)" by auto
  have notin: "f \<notin> fst ` set steps" using Cons.prems(1) fc by simp
  have "fieldCopied (sh g) s m (sel v g) m' (sel v' g)" if g: "(g, s) \<in> set fs" "g \<in> fst ` set (step # steps)" for g s
  proof (cases "g = f")
    case True
    with unique g have "s = t" by simp
    moreover have "sel v' f = w" using rest(3) notin sel(2) by simp
    moreover have "fieldCopied (sh f) t m (sel v f) m1 w" using one by (simp add: fieldCopied_def)
    ultimately show ?thesis using True rest(1) by (simp add: fieldCopied_grow)
  next
    case False
    then have "g \<in> fst ` set steps" using g(2) fc by auto
    then obtain d where "(g, d) \<in> set steps" by auto
    then obtain s' where "(g, s') \<in> set fs" "copyShares s' (sh g) d" using Cons.prems(2) by auto
    moreover have "s' = s" using calculation(1) g(1) fs [OF t(1)] by (auto simp: fieldsAre_def eq_key_imp_eq_value)
    moreover have "fieldCopied (sh g) s m1 (sel v g) m' (sel v' g)"
      using rest(4) g(1) \<open>g \<in> fst ` set steps\<close> False sel(2) by fastforce
    ultimately show ?thesis using fieldCopied_before typed [OF g(1)] m1 by blast
  qed
  moreover have "prefix m m'" using m1 rest(1) by (rule prefix_order.trans)
  moreover have "sel v' g = sel v g" if "g \<notin> fst ` set (step # steps)" for g
    using rest(3) sel(2) that fc by simp
  ultimately show ?case using rest(2) by auto
qed

text \<open>
  A struct shares what its fields share: what the step of the field leaves shared, or everything the field reaches
  where there is no step.
\<close>

lemma copyShares_struct:
  assumes "distinct (map fst steps)" and "fst ` set steps \<subseteq> fst ` set fs"
    and "\<forall>(f, t) \<in> set fs. (case map_of steps f of Some c \<Rightarrow> copyShares t (sh f) c | None \<Rightarrow> sh f = (\<lambda>m. reach m t))"
  shows "copyShares (TStruct fs) (\<lambda>m v. \<Union>(f, t)\<in>set fs. sh f m (sel v f)) (intoFields steps)"
proof (rule copySharesI)
  have step: "copyShares t (sh f) c" if "(f, t) \<in> set fs" "(f, c) \<in> set steps" for f t c
    using assms(3) that map_of_is_SomeI [OF assms(1) that(2)] by fastforce
  have some: "\<exists>c. copyShares t (sh f) c" if "(f, t) \<in> set fs" for f t
    using assms(3) that copyShares_assign [of t] by (cases "map_of steps f") fastforce+
  fix m m' v v'
  assume v: "hasType m (TStruct fs) v"
  then have typed: "hasType m t (sel v f)" if "(f, t) \<in> set fs" for f t using that by auto
  show "(\<Union>(f, t)\<in>set fs. sh f m' (sel v f)) = (\<Union>(f, t)\<in>set fs. sh f m (sel v f))" if "prefix m m'"
  proof -
    have "sh f m' (sel v f) = sh f m (sel v f)" if f: "(f, t) \<in> set fs" for f t
      using some [OF f] copySharesD(1) [OF _ typed [OF f] \<open>prefix m m'\<close>] by blast
    then show ?thesis by auto
  qed
  show "(\<Union>(f, t)\<in>set fs. sh f m (sel v f)) \<subseteq> {..<length m}"
    using some copySharesD(2) [OF _ typed] by (auto simp: subset_iff) blast
  assume run: "run_state (intoFields steps v) m = (v', m')"
  have steps: "\<forall>(f, c) \<in> set steps. \<exists>t. (f, t) \<in> set fs \<and> copyShares t (sh f) c"
  proof (clarify)
    fix f c
    assume c: "(f, c) \<in> set steps"
    with assms(2) obtain t where "(f, t) \<in> set fs" by force
    with step c show "\<exists>t. (f, t) \<in> set fs \<and> copyShares t (sh f) c" by blast
  qed
  note laws = run_intoFields [OF assms(1) steps v run]
  have field: "fieldCopied (sh f) t m (sel v f) m' (sel v' f)" if f: "(f, t) \<in> set fs" for f t
  proof (cases "f \<in> fst ` set steps")
    case True
    with laws f show ?thesis by auto
  next
    case False
    then have "map_of steps f = None" by (simp add: map_of_eq_None_iff)
    then have sh: "sh f = (\<lambda>m. reach m t)" using assms(3) f by fastforce
    have "sel v' f = sel v f" using laws False by blast
    then show ?thesis
      using grown [OF typed [OF f], of m'] laws by (simp add: sh fieldCopied_def)
  qed
  show "prefix m m' \<and> hasType m' (TStruct fs) v' \<and> deref m' (TStruct fs) v' = deref m (TStruct fs) v
    \<and> (\<Union>(f, t)\<in>set fs. sh f m (sel v f)) \<subseteq> reach m' (TStruct fs) v'
    \<and> reach m' (TStruct fs) v' \<subseteq> (\<Union>(f, t)\<in>set fs. sh f m (sel v f)) \<union> {length m..<length m'}"
  proof (intro conjI)
    show "hasType m' (TStruct fs) v'" using laws field by (auto simp: fieldCopied_def)
    show "deref m' (TStruct fs) v' = deref m (TStruct fs) v" using field by (auto simp: fieldCopied_def)
    show "(\<Union>(f, t)\<in>set fs. sh f m (sel v f)) \<subseteq> reach m' (TStruct fs) v'"
      unfolding reach.simps by (rule UN_mono) (use field in \<open>auto simp: fieldCopied_def\<close>)
    have "reach m' t (sel v' f) \<subseteq> sh f m (sel v f) \<union> {length m..<length m'}" if "(f, t) \<in> set fs" for f t
      using field [OF that] by (simp add: fieldCopied_def)
    then show "reach m' (TStruct fs) v' \<subseteq> (\<Union>(f, t)\<in>set fs. sh f m (sel v f)) \<union> {length m..<length m'}"
      unfolding reach.simps by (intro UN_least) auto
  qed (use laws in blast)
qed

lemma copies_struct [copies_intro]:
  assumes "distinct (map fst steps)" and "fst ` set steps \<subseteq> fst ` set fs"
    and "list_all (\<lambda>(f, t). case map_of steps f of Some c \<Rightarrow> copies t c | None \<Rightarrow> isFlat t) fs"
  shows "copies (TStruct fs) (intoFields steps)"
proof -
  have flat: "isFlat t \<Longrightarrow> (\<lambda>m v. {}) = (\<lambda>m. reach m t)" for t by (intro ext) (simp add: reach_flat)
  have "\<forall>(f, t) \<in> set fs. (case map_of steps f of Some c \<Rightarrow> copyShares t (\<lambda>m v. {}) c
      | None \<Rightarrow> (\<lambda>m v. {}) = (\<lambda>m. reach m t))"
    using assms(3) flat by (fastforce simp: list_all_iff copies_def split: option.splits)
  from copyShares_struct [OF assms(1,2) this] show ?thesis by (simp add: copies_def case_prod_beta)
qed

lemma deepCopy_copyElems: "deepCopy c = copyElems c"
  by (rule ext, rule state_ext) (simp add: deepCopy_def copyElems_def)

lemma deepCopyObject_eq: "deepCopyObject c = deepCopy c"
  by (rule ext, rule state_ext) (auto simp: deepCopyObject_def split: prod.split)

lemma copyShares_deepCopy: "copyShares t sh c \<Longrightarrow> copyShares (TPtr t) (through sh) (deepCopy c)"
  unfolding deepCopy_copyElems by (rule copyShares_elems)

section \<open>The interface of a deep copy\<close>

text \<open>
  What a client of \<^verbatim>\<open>DeepCopy\<close> relies on: the copy reads the same, and whatever is written through one of the two is not
  seen through the other.
\<close>

lemma load_elsewhere: "b \<noteq> a \<Longrightarrow> load (m[a := x]) b = load m b"
  by (simp add: load_def)

lemma write_elsewhere: "a \<notin> reach m t v \<Longrightarrow> deref (m[a := x]) t v = deref m t v"
  by (rule frame_all [THEN conjunct2, THEN conjunct1]) (metis load_elsewhere)

locale deep_copier =
  fixes T :: gotype and into :: copier
  assumes copies: "copies T into"
begin

lemma pointer: "copyShares (TPtr T) (\<lambda>m v. {}) (deepCopy into)"
  using copyShares_deepCopy [OF copies [unfolded copies_def]] by simp

lemma same:
  assumes "hasType m (TPtr T) p" and "run_state (deepCopy into p) m = (q, m')"
  shows "deref m' (TPtr T) q = deref m (TPtr T) p" and "deref m' (TPtr T) p = deref m (TPtr T) p"
proof -
  note law = copySharesD(3) [OF pointer assms]
  from law show "deref m' (TPtr T) q = deref m (TPtr T) p" by blast
  from law have "prefix m m'" by blast
  then show "deref m' (TPtr T) p = deref m (TPtr T) p" by (rule grown(2) [OF assms(1)])
qed

lemma apart:
  assumes "hasType m (TPtr T) p" and "run_state (deepCopy into p) m = (q, m')"
  shows "reach m' (TPtr T) p \<inter> reach m' (TPtr T) q = {}"
proof -
  note law = copySharesD(3) [OF pointer assms]
  then have "prefix m m'" by blast
  then have "reach m' (TPtr T) p = reach m (TPtr T) p" by (rule grown(3) [OF assms(1)])
  moreover have "reach m (TPtr T) p \<subseteq> {..<length m}" by (rule reach_allocated [OF assms(1)])
  moreover have "reach m' (TPtr T) q \<subseteq> {length m..<length m'}" using law by blast
  ultimately show ?thesis by fastforce
qed

lemma writes_unseen:
  assumes "hasType m (TPtr T) p" and "run_state (deepCopy into p) m = (q, m')"
  shows "a \<in> reach m' (TPtr T) q \<Longrightarrow> deref (m'[a := x]) (TPtr T) p = deref m (TPtr T) p"
    and "a \<in> reach m' (TPtr T) p \<Longrightarrow> deref (m'[a := x]) (TPtr T) q = deref m (TPtr T) p"
  using apart [OF assms] same [OF assms] write_elsewhere by (metis disjoint_iff)+

end

end
