(* ===== verification/Deep_Copies.thy ===== *)
theory Deep_Copies
  imports Go_Memory
begin

text \<open>
  \<^verbatim>\<open>api/v1alpha1/zz_generated.deepcopy.go\<close>: how the API types are copied. Everything else in this development treats
  an object as a value; this is right as long as two holders of an object do not share memory. The file carries no generator mark and the
  Makefile has no target for it: it is maintained by hand.

  For each type X, \<open>goX\<close> is its struct as a memory type, \<open>intoX\<close> its \<^verbatim>\<open>DeepCopyInto\<close>,
  \<open>deepCopyX\<close> its \<^verbatim>\<open>DeepCopy\<close> and \<open>objectX\<close> its \<^verbatim>\<open>DeepCopyObject\<close>.
  The library types that have copiers of their own (ObjectMeta, ListMeta, LabelSelector, Condition, Time) are parameters, the ones
  without references (TypeMeta, SecretReference, Duration, and so on) are scalars, as are enumerations, numbers and flags.
\<close>

section \<open>Definitions\<close>

record library =
  libType :: "string \<Rightarrow> gotype"
  libInto :: "string \<Rightarrow> copier"

text \<open>What the deep copies rely on: the library's own are deep.\<close>

definition deepLibrary :: "library \<Rightarrow> bool" where
  "deepLibrary F \<longleftrightarrow> list_all (\<lambda>n. copies (libType F n) (libInto F n)) [''ObjectMeta'', ''ListMeta'', ''LabelSelector'', ''Condition'', ''Time'']"

definition goVLANConfig :: "gotype" where
  "goVLANConfig = TStruct [(''ID'', TScalar), (''PrefixLength'', TScalar)]"

definition intoVLANConfig :: "copier" where
  "intoVLANConfig = assign"

definition deepCopyVLANConfig :: "copier" where
  "deepCopyVLANConfig = deepCopy intoVLANConfig"

definition goHetznerRobotClusterSpec :: "gotype" where
  "goHetznerRobotClusterSpec = TStruct [(''ControlPlaneEndpoint'', TScalar), (''RobotSecretRef'', TScalar), (''SSHSecretRef'', TScalar),
     (''TalosFactoryBaseURL'', TScalar), (''VLANConfig'', TPtr goVLANConfig)]"

definition intoHetznerRobotClusterSpec :: "copier" where
  "intoHetznerRobotClusterSpec = intoFields [(''ControlPlaneEndpoint'', assign), (''RobotSecretRef'', assign), (''SSHSecretRef'', assign),
     (''VLANConfig'', copyElems assign)]"

definition deepCopyHetznerRobotClusterSpec :: "copier" where
  "deepCopyHetznerRobotClusterSpec = deepCopy intoHetznerRobotClusterSpec"

definition goHetznerRobotClusterInitialization :: "gotype" where
  "goHetznerRobotClusterInitialization = TStruct [(''Provisioned'', TScalar)]"

definition intoHetznerRobotClusterInitialization :: "copier" where
  "intoHetznerRobotClusterInitialization = assign"

definition deepCopyHetznerRobotClusterInitialization :: "copier" where
  "deepCopyHetznerRobotClusterInitialization = deepCopy intoHetznerRobotClusterInitialization"

definition goHetznerRobotClusterStatus :: "library \<Rightarrow> gotype" where
  "goHetznerRobotClusterStatus F = TStruct [(''Ready'', TScalar), (''Initialization'', TPtr goHetznerRobotClusterInitialization),
     (''Conditions'', TSlice (libType F ''Condition''))]"

definition intoHetznerRobotClusterStatus :: "library \<Rightarrow> copier" where
  "intoHetznerRobotClusterStatus F = intoFields [(''Initialization'', copyElems assign), (''Conditions'', copyElems (libInto F ''Condition''))]"

definition deepCopyHetznerRobotClusterStatus :: "library \<Rightarrow> copier" where
  "deepCopyHetznerRobotClusterStatus F = deepCopy (intoHetznerRobotClusterStatus F)"

definition goHetznerRobotCluster :: "library \<Rightarrow> gotype" where
  "goHetznerRobotCluster F = TStruct [(''TypeMeta'', TScalar), (''ObjectMeta'', libType F ''ObjectMeta''), (''Spec'', goHetznerRobotClusterSpec),
     (''Status'', goHetznerRobotClusterStatus F)]"

definition intoHetznerRobotCluster :: "library \<Rightarrow> copier" where
  "intoHetznerRobotCluster F = intoFields [(''TypeMeta'', assign), (''ObjectMeta'', libInto F ''ObjectMeta''), (''Spec'', intoHetznerRobotClusterSpec),
     (''Status'', intoHetznerRobotClusterStatus F)]"

definition deepCopyHetznerRobotCluster :: "library \<Rightarrow> copier" where
  "deepCopyHetznerRobotCluster F = deepCopy (intoHetznerRobotCluster F)"

definition objectHetznerRobotCluster :: "library \<Rightarrow> copier" where
  "objectHetznerRobotCluster F = deepCopyObject (intoHetznerRobotCluster F)"

definition goHetznerRobotClusterList :: "library \<Rightarrow> gotype" where
  "goHetznerRobotClusterList F = TStruct [(''TypeMeta'', TScalar), (''ListMeta'', libType F ''ListMeta''), (''Items'', TSlice (goHetznerRobotCluster F))]"

definition intoHetznerRobotClusterList :: "library \<Rightarrow> copier" where
  "intoHetznerRobotClusterList F = intoFields [(''TypeMeta'', assign), (''ListMeta'', libInto F ''ListMeta''),
     (''Items'', copyElems (intoHetznerRobotCluster F))]"

definition deepCopyHetznerRobotClusterList :: "library \<Rightarrow> copier" where
  "deepCopyHetznerRobotClusterList F = deepCopy (intoHetznerRobotClusterList F)"

definition objectHetznerRobotClusterList :: "library \<Rightarrow> copier" where
  "objectHetznerRobotClusterList F = deepCopyObject (intoHetznerRobotClusterList F)"

definition goHetznerRobotMachineSpec :: "library \<Rightarrow> gotype" where
  "goHetznerRobotMachineSpec F = TStruct [(''ProviderID'', TPtr TScalar), (''HostRef'', TPtr TScalar),
     (''HostSelector'', TPtr (libType F ''LabelSelector'')), (''OSType'', TScalar), (''TalosSchematic'', TScalar),
     (''TalosVersion'', TScalar), (''FlatcarChannel'', TScalar), (''InstallDisk'', TScalar),
     (''CustomImageURL'', TScalar), (''EphemeralSize'', TScalar)]"

definition intoHetznerRobotMachineSpec :: "library \<Rightarrow> copier" where
  "intoHetznerRobotMachineSpec F = intoFields [(''ProviderID'', copyElems assign), (''HostRef'', copyElems assign),
     (''HostSelector'', copyElems (libInto F ''LabelSelector''))]"

definition deepCopyHetznerRobotMachineSpec :: "library \<Rightarrow> copier" where
  "deepCopyHetznerRobotMachineSpec F = deepCopy (intoHetznerRobotMachineSpec F)"

definition goInfrastructureMachineInitialization :: "gotype" where
  "goInfrastructureMachineInitialization = TStruct [(''Provisioned'', TScalar)]"

definition intoInfrastructureMachineInitialization :: "copier" where
  "intoInfrastructureMachineInitialization = assign"

definition deepCopyInfrastructureMachineInitialization :: "copier" where
  "deepCopyInfrastructureMachineInitialization = deepCopy intoInfrastructureMachineInitialization"

definition goHetznerRobotMachineStatus :: "library \<Rightarrow> gotype" where
  "goHetznerRobotMachineStatus F = TStruct [(''Ready'', TScalar), (''Initialization'', TPtr goInfrastructureMachineInitialization),
     (''Addresses'', TSlice TScalar), (''ProvisioningState'', TScalar), (''HostRef'', TScalar),
     (''PrimaryMAC'', TScalar), (''GatewayIP'', TScalar), (''ResolvedInstallDisk'', TScalar),
     (''FailureReason'', TPtr TScalar), (''FailureMessage'', TPtr TScalar),
     (''ProvisionStarted'', TPtr (libType F ''Time'')), (''RetryCount'', TScalar),
     (''LastRetryTimestamp'', TPtr (libType F ''Time'')), (''LastResetTime'', TPtr (libType F ''Time'')),
     (''Conditions'', TSlice (libType F ''Condition''))]"

definition intoHetznerRobotMachineStatus :: "library \<Rightarrow> copier" where
  "intoHetznerRobotMachineStatus F = intoFields [(''Initialization'', copyElems assign), (''Addresses'', copyElems assign),
     (''FailureReason'', copyElems assign), (''FailureMessage'', copyElems assign),
     (''LastRetryTimestamp'', copyElems (libInto F ''Time'')),
     (''Conditions'', copyElems (libInto F ''Condition''))]"

definition deepCopyHetznerRobotMachineStatus :: "library \<Rightarrow> copier" where
  "deepCopyHetznerRobotMachineStatus F = deepCopy (intoHetznerRobotMachineStatus F)"

definition goHetznerRobotMachine :: "library \<Rightarrow> gotype" where
  "goHetznerRobotMachine F = TStruct [(''TypeMeta'', TScalar), (''ObjectMeta'', libType F ''ObjectMeta''), (''Spec'', goHetznerRobotMachineSpec F),
     (''Status'', goHetznerRobotMachineStatus F)]"

definition intoHetznerRobotMachine :: "library \<Rightarrow> copier" where
  "intoHetznerRobotMachine F = intoFields [(''TypeMeta'', assign), (''ObjectMeta'', libInto F ''ObjectMeta''),
     (''Spec'', intoHetznerRobotMachineSpec F), (''Status'', intoHetznerRobotMachineStatus F)]"

definition deepCopyHetznerRobotMachine :: "library \<Rightarrow> copier" where
  "deepCopyHetznerRobotMachine F = deepCopy (intoHetznerRobotMachine F)"

definition objectHetznerRobotMachine :: "library \<Rightarrow> copier" where
  "objectHetznerRobotMachine F = deepCopyObject (intoHetznerRobotMachine F)"

definition goHetznerRobotMachineList :: "library \<Rightarrow> gotype" where
  "goHetznerRobotMachineList F = TStruct [(''TypeMeta'', TScalar), (''ListMeta'', libType F ''ListMeta''), (''Items'', TSlice (goHetznerRobotMachine F))]"

definition intoHetznerRobotMachineList :: "library \<Rightarrow> copier" where
  "intoHetznerRobotMachineList F = intoFields [(''TypeMeta'', assign), (''ListMeta'', libInto F ''ListMeta''),
     (''Items'', copyElems (intoHetznerRobotMachine F))]"

definition deepCopyHetznerRobotMachineList :: "library \<Rightarrow> copier" where
  "deepCopyHetznerRobotMachineList F = deepCopy (intoHetznerRobotMachineList F)"

definition objectHetznerRobotMachineList :: "library \<Rightarrow> copier" where
  "objectHetznerRobotMachineList F = deepCopyObject (intoHetznerRobotMachineList F)"

definition goHetznerRobotMachineTemplateResource :: "library \<Rightarrow> gotype" where
  "goHetznerRobotMachineTemplateResource F = TStruct [(''ObjectMeta'', libType F ''ObjectMeta''), (''Spec'', goHetznerRobotMachineSpec F)]"

definition intoHetznerRobotMachineTemplateResource :: "library \<Rightarrow> copier" where
  "intoHetznerRobotMachineTemplateResource F = intoFields [(''ObjectMeta'', libInto F ''ObjectMeta''), (''Spec'', intoHetznerRobotMachineSpec F)]"

definition deepCopyHetznerRobotMachineTemplateResource :: "library \<Rightarrow> copier" where
  "deepCopyHetznerRobotMachineTemplateResource F = deepCopy (intoHetznerRobotMachineTemplateResource F)"

definition goHetznerRobotMachineTemplateSpec :: "library \<Rightarrow> gotype" where
  "goHetznerRobotMachineTemplateSpec F = TStruct [(''Template'', goHetznerRobotMachineTemplateResource F)]"

definition intoHetznerRobotMachineTemplateSpec :: "library \<Rightarrow> copier" where
  "intoHetznerRobotMachineTemplateSpec F = intoFields [(''Template'', intoHetznerRobotMachineTemplateResource F)]"

definition deepCopyHetznerRobotMachineTemplateSpec :: "library \<Rightarrow> copier" where
  "deepCopyHetznerRobotMachineTemplateSpec F = deepCopy (intoHetznerRobotMachineTemplateSpec F)"

definition goHetznerRobotMachineTemplateStatus :: "gotype" where
  "goHetznerRobotMachineTemplateStatus = TStruct []"

definition intoHetznerRobotMachineTemplateStatus :: "copier" where
  "intoHetznerRobotMachineTemplateStatus = assign"

definition deepCopyHetznerRobotMachineTemplateStatus :: "copier" where
  "deepCopyHetznerRobotMachineTemplateStatus = deepCopy intoHetznerRobotMachineTemplateStatus"

definition goHetznerRobotMachineTemplate :: "library \<Rightarrow> gotype" where
  "goHetznerRobotMachineTemplate F = TStruct [(''TypeMeta'', TScalar), (''ObjectMeta'', libType F ''ObjectMeta''),
     (''Spec'', goHetznerRobotMachineTemplateSpec F), (''Status'', goHetznerRobotMachineTemplateStatus)]"

definition intoHetznerRobotMachineTemplate :: "library \<Rightarrow> copier" where
  "intoHetznerRobotMachineTemplate F = intoFields [(''TypeMeta'', assign), (''ObjectMeta'', libInto F ''ObjectMeta''),
     (''Spec'', intoHetznerRobotMachineTemplateSpec F), (''Status'', intoHetznerRobotMachineTemplateStatus)]"

definition deepCopyHetznerRobotMachineTemplate :: "library \<Rightarrow> copier" where
  "deepCopyHetznerRobotMachineTemplate F = deepCopy (intoHetznerRobotMachineTemplate F)"

definition objectHetznerRobotMachineTemplate :: "library \<Rightarrow> copier" where
  "objectHetznerRobotMachineTemplate F = deepCopyObject (intoHetznerRobotMachineTemplate F)"

definition goHetznerRobotMachineTemplateList :: "library \<Rightarrow> gotype" where
  "goHetznerRobotMachineTemplateList F = TStruct [(''TypeMeta'', TScalar), (''ListMeta'', libType F ''ListMeta''),
     (''Items'', TSlice (goHetznerRobotMachineTemplate F))]"

definition intoHetznerRobotMachineTemplateList :: "library \<Rightarrow> copier" where
  "intoHetznerRobotMachineTemplateList F = intoFields [(''TypeMeta'', assign), (''ListMeta'', libInto F ''ListMeta''),
     (''Items'', copyElems (intoHetznerRobotMachineTemplate F))]"

definition deepCopyHetznerRobotMachineTemplateList :: "library \<Rightarrow> copier" where
  "deepCopyHetznerRobotMachineTemplateList F = deepCopy (intoHetznerRobotMachineTemplateList F)"

definition objectHetznerRobotMachineTemplateList :: "library \<Rightarrow> copier" where
  "objectHetznerRobotMachineTemplateList F = deepCopyObject (intoHetznerRobotMachineTemplateList F)"

definition goMachineReference :: "gotype" where
  "goMachineReference = TStruct [(''Name'', TScalar), (''Namespace'', TScalar)]"

definition intoMachineReference :: "copier" where
  "intoMachineReference = assign"

definition deepCopyMachineReference :: "copier" where
  "deepCopyMachineReference = deepCopy intoMachineReference"

definition goHostHardwareDetails :: "gotype" where
  "goHostHardwareDetails = TStruct [(''PrimaryMAC'', TScalar), (''GatewayIP'', TScalar), (''NVMeDisks'', TSlice TScalar),
     (''CephDisks'', TSlice TScalar), (''ByIDPaths'', TStringMap)]"

definition intoHostHardwareDetails :: "copier" where
  "intoHostHardwareDetails = intoFields [(''NVMeDisks'', copyElems assign), (''CephDisks'', copyElems assign), (''ByIDPaths'', copyEntries)]"

definition deepCopyHostHardwareDetails :: "copier" where
  "deepCopyHostHardwareDetails = deepCopy intoHostHardwareDetails"

definition goHetznerRobotHostSpec :: "gotype" where
  "goHetznerRobotHostSpec = TStruct [(''ServerID'', TScalar), (''ServerIP'', TScalar), (''ServerIPv6Net'', TScalar), (''InternalIP'', TScalar),
     (''InstallDisk'', TScalar), (''LifecycleClass'', TScalar), (''MaintenanceMode'', TScalar),
     (''DestructiveProvisioningPolicy'', TScalar)]"

definition intoHetznerRobotHostSpec :: "copier" where
  "intoHetznerRobotHostSpec = assign"

definition deepCopyHetznerRobotHostSpec :: "copier" where
  "deepCopyHetznerRobotHostSpec = deepCopy intoHetznerRobotHostSpec"

definition goHetznerRobotHostStatus :: "gotype" where
  "goHetznerRobotHostStatus = TStruct [(''State'', TScalar), (''ConsumerRef'', TPtr goMachineReference), (''MachineRef'', TPtr goMachineReference),
     (''HardwareDetails'', TPtr goHostHardwareDetails), (''LastConsumerRef'', TPtr goMachineReference),
     (''DirtyReason'', TScalar), (''ErrorMessage'', TScalar)]"

definition intoHetznerRobotHostStatus :: "copier" where
  "intoHetznerRobotHostStatus = intoFields [(''ConsumerRef'', copyElems assign), (''MachineRef'', copyElems assign),
     (''HardwareDetails'', copyElems intoHostHardwareDetails), (''LastConsumerRef'', copyElems assign)]"

definition deepCopyHetznerRobotHostStatus :: "copier" where
  "deepCopyHetznerRobotHostStatus = deepCopy intoHetznerRobotHostStatus"

definition goHetznerRobotHost :: "library \<Rightarrow> gotype" where
  "goHetznerRobotHost F = TStruct [(''TypeMeta'', TScalar), (''ObjectMeta'', libType F ''ObjectMeta''), (''Spec'', goHetznerRobotHostSpec),
     (''Status'', goHetznerRobotHostStatus)]"

definition intoHetznerRobotHost :: "library \<Rightarrow> copier" where
  "intoHetznerRobotHost F = intoFields [(''TypeMeta'', assign), (''ObjectMeta'', libInto F ''ObjectMeta''), (''Spec'', assign),
     (''Status'', intoHetznerRobotHostStatus)]"

definition deepCopyHetznerRobotHost :: "library \<Rightarrow> copier" where
  "deepCopyHetznerRobotHost F = deepCopy (intoHetznerRobotHost F)"

definition objectHetznerRobotHost :: "library \<Rightarrow> copier" where
  "objectHetznerRobotHost F = deepCopyObject (intoHetznerRobotHost F)"

definition goHetznerRobotHostList :: "library \<Rightarrow> gotype" where
  "goHetznerRobotHostList F = TStruct [(''TypeMeta'', TScalar), (''ListMeta'', libType F ''ListMeta''), (''Items'', TSlice (goHetznerRobotHost F))]"

definition intoHetznerRobotHostList :: "library \<Rightarrow> copier" where
  "intoHetznerRobotHostList F = intoFields [(''TypeMeta'', assign), (''ListMeta'', libInto F ''ListMeta''),
     (''Items'', copyElems (intoHetznerRobotHost F))]"

definition deepCopyHetznerRobotHostList :: "library \<Rightarrow> copier" where
  "deepCopyHetznerRobotHostList F = deepCopy (intoHetznerRobotHostList F)"

definition objectHetznerRobotHostList :: "library \<Rightarrow> copier" where
  "objectHetznerRobotHostList F = deepCopyObject (intoHetznerRobotHostList F)"

definition goReleasedMachineReference :: "gotype" where
  "goReleasedMachineReference = TStruct [(''Name'', TScalar), (''Namespace'', TScalar), (''UID'', TScalar)]"

definition intoReleasedMachineReference :: "copier" where
  "intoReleasedMachineReference = assign"

definition deepCopyReleasedMachineReference :: "copier" where
  "deepCopyReleasedMachineReference = deepCopy intoReleasedMachineReference"

definition goHetznerRobotHostReleaseSpec :: "gotype" where
  "goHetznerRobotHostReleaseSpec = TStruct [(''HostRef'', TScalar), (''MachineRef'', goReleasedMachineReference), (''ApprovedAction'', TScalar),
     (''ExpiresAt'', TScalar), (''Reason'', TScalar)]"

definition intoHetznerRobotHostReleaseSpec :: "copier" where
  "intoHetznerRobotHostReleaseSpec = intoFields [(''HostRef'', assign), (''ExpiresAt'', assign)]"

definition deepCopyHetznerRobotHostReleaseSpec :: "copier" where
  "deepCopyHetznerRobotHostReleaseSpec = deepCopy intoHetznerRobotHostReleaseSpec"

definition goHetznerRobotHostReleaseStatus :: "library \<Rightarrow> gotype" where
  "goHetznerRobotHostReleaseStatus F = TStruct [(''Authorized'', TScalar), (''Reason'', TScalar), (''LastObservedTime'', TPtr (libType F ''Time''))]"

definition intoHetznerRobotHostReleaseStatus :: "library \<Rightarrow> copier" where
  "intoHetznerRobotHostReleaseStatus F = intoFields [(''LastObservedTime'', copyElems (libInto F ''Time''))]"

definition deepCopyHetznerRobotHostReleaseStatus :: "library \<Rightarrow> copier" where
  "deepCopyHetznerRobotHostReleaseStatus F = deepCopy (intoHetznerRobotHostReleaseStatus F)"

definition goHetznerRobotHostRelease :: "library \<Rightarrow> gotype" where
  "goHetznerRobotHostRelease F = TStruct [(''TypeMeta'', TScalar), (''ObjectMeta'', libType F ''ObjectMeta''),
     (''Spec'', goHetznerRobotHostReleaseSpec), (''Status'', goHetznerRobotHostReleaseStatus F)]"

definition intoHetznerRobotHostRelease :: "library \<Rightarrow> copier" where
  "intoHetznerRobotHostRelease F = intoFields [(''TypeMeta'', assign), (''ObjectMeta'', libInto F ''ObjectMeta''),
     (''Spec'', intoHetznerRobotHostReleaseSpec), (''Status'', intoHetznerRobotHostReleaseStatus F)]"

definition deepCopyHetznerRobotHostRelease :: "library \<Rightarrow> copier" where
  "deepCopyHetznerRobotHostRelease F = deepCopy (intoHetznerRobotHostRelease F)"

definition objectHetznerRobotHostRelease :: "library \<Rightarrow> copier" where
  "objectHetznerRobotHostRelease F = deepCopyObject (intoHetznerRobotHostRelease F)"

definition goHetznerRobotHostReleaseList :: "library \<Rightarrow> gotype" where
  "goHetznerRobotHostReleaseList F = TStruct [(''TypeMeta'', TScalar), (''ListMeta'', libType F ''ListMeta''),
     (''Items'', TSlice (goHetznerRobotHostRelease F))]"

definition intoHetznerRobotHostReleaseList :: "library \<Rightarrow> copier" where
  "intoHetznerRobotHostReleaseList F = intoFields [(''TypeMeta'', assign), (''ListMeta'', libInto F ''ListMeta''),
     (''Items'', copyElems (intoHetznerRobotHostRelease F))]"

definition deepCopyHetznerRobotHostReleaseList :: "library \<Rightarrow> copier" where
  "deepCopyHetznerRobotHostReleaseList F = deepCopy (intoHetznerRobotHostReleaseList F)"

definition objectHetznerRobotHostReleaseList :: "library \<Rightarrow> copier" where
  "objectHetznerRobotHostReleaseList F = deepCopyObject (intoHetznerRobotHostReleaseList F)"

definition goRemediationStrategy :: "gotype" where
  "goRemediationStrategy = TStruct [(''Type'', TScalar), (''RetryLimit'', TScalar), (''Timeout'', TScalar)]"

definition intoRemediationStrategy :: "copier" where
  "intoRemediationStrategy = assign"

definition deepCopyRemediationStrategy :: "copier" where
  "deepCopyRemediationStrategy = deepCopy intoRemediationStrategy"

definition goHetznerRobotRemediationSpec :: "gotype" where
  "goHetznerRobotRemediationSpec = TStruct [(''Strategy'', goRemediationStrategy)]"

definition intoHetznerRobotRemediationSpec :: "copier" where
  "intoHetznerRobotRemediationSpec = assign"

definition deepCopyHetznerRobotRemediationSpec :: "copier" where
  "deepCopyHetznerRobotRemediationSpec = deepCopy intoHetznerRobotRemediationSpec"

definition goHetznerRobotRemediationStatus :: "library \<Rightarrow> gotype" where
  "goHetznerRobotRemediationStatus F = TStruct [(''Phase'', TScalar), (''RetryCount'', TScalar), (''LastRemediated'', TPtr (libType F ''Time''))]"

definition intoHetznerRobotRemediationStatus :: "library \<Rightarrow> copier" where
  "intoHetznerRobotRemediationStatus F = intoFields [(''LastRemediated'', copyElems (libInto F ''Time''))]"

definition deepCopyHetznerRobotRemediationStatus :: "library \<Rightarrow> copier" where
  "deepCopyHetznerRobotRemediationStatus F = deepCopy (intoHetznerRobotRemediationStatus F)"

definition goHetznerRobotRemediation :: "library \<Rightarrow> gotype" where
  "goHetznerRobotRemediation F = TStruct [(''TypeMeta'', TScalar), (''ObjectMeta'', libType F ''ObjectMeta''),
     (''Spec'', goHetznerRobotRemediationSpec), (''Status'', goHetznerRobotRemediationStatus F)]"

definition intoHetznerRobotRemediation :: "library \<Rightarrow> copier" where
  "intoHetznerRobotRemediation F = intoFields [(''TypeMeta'', assign), (''ObjectMeta'', libInto F ''ObjectMeta''), (''Spec'', assign),
     (''Status'', intoHetznerRobotRemediationStatus F)]"

definition deepCopyHetznerRobotRemediation :: "library \<Rightarrow> copier" where
  "deepCopyHetznerRobotRemediation F = deepCopy (intoHetznerRobotRemediation F)"

definition objectHetznerRobotRemediation :: "library \<Rightarrow> copier" where
  "objectHetznerRobotRemediation F = deepCopyObject (intoHetznerRobotRemediation F)"

definition goHetznerRobotRemediationList :: "library \<Rightarrow> gotype" where
  "goHetznerRobotRemediationList F = TStruct [(''TypeMeta'', TScalar), (''ListMeta'', libType F ''ListMeta''),
     (''Items'', TSlice (goHetznerRobotRemediation F))]"

definition intoHetznerRobotRemediationList :: "library \<Rightarrow> copier" where
  "intoHetznerRobotRemediationList F = intoFields [(''TypeMeta'', assign), (''ListMeta'', libInto F ''ListMeta''),
     (''Items'', copyElems (intoHetznerRobotRemediation F))]"

definition deepCopyHetznerRobotRemediationList :: "library \<Rightarrow> copier" where
  "deepCopyHetznerRobotRemediationList F = deepCopy (intoHetznerRobotRemediationList F)"

definition objectHetznerRobotRemediationList :: "library \<Rightarrow> copier" where
  "objectHetznerRobotRemediationList F = deepCopyObject (intoHetznerRobotRemediationList F)"

definition goHetznerRobotRemediationTemplateResource :: "library \<Rightarrow> gotype" where
  "goHetznerRobotRemediationTemplateResource F = TStruct [(''ObjectMeta'', libType F ''ObjectMeta''), (''Spec'', goHetznerRobotRemediationSpec)]"

definition intoHetznerRobotRemediationTemplateResource :: "library \<Rightarrow> copier" where
  "intoHetznerRobotRemediationTemplateResource F = intoFields [(''ObjectMeta'', libInto F ''ObjectMeta''), (''Spec'', assign)]"

definition deepCopyHetznerRobotRemediationTemplateResource :: "library \<Rightarrow> copier" where
  "deepCopyHetznerRobotRemediationTemplateResource F = deepCopy (intoHetznerRobotRemediationTemplateResource F)"

definition goHetznerRobotRemediationTemplateSpec :: "library \<Rightarrow> gotype" where
  "goHetznerRobotRemediationTemplateSpec F = TStruct [(''Template'', goHetznerRobotRemediationTemplateResource F)]"

definition intoHetznerRobotRemediationTemplateSpec :: "library \<Rightarrow> copier" where
  "intoHetznerRobotRemediationTemplateSpec F = intoFields [(''Template'', intoHetznerRobotRemediationTemplateResource F)]"

definition deepCopyHetznerRobotRemediationTemplateSpec :: "library \<Rightarrow> copier" where
  "deepCopyHetznerRobotRemediationTemplateSpec F = deepCopy (intoHetznerRobotRemediationTemplateSpec F)"

definition goHetznerRobotRemediationTemplate :: "library \<Rightarrow> gotype" where
  "goHetznerRobotRemediationTemplate F = TStruct [(''TypeMeta'', TScalar), (''ObjectMeta'', libType F ''ObjectMeta''),
     (''Spec'', goHetznerRobotRemediationTemplateSpec F)]"

definition intoHetznerRobotRemediationTemplate :: "library \<Rightarrow> copier" where
  "intoHetznerRobotRemediationTemplate F = intoFields [(''TypeMeta'', assign), (''ObjectMeta'', libInto F ''ObjectMeta''), (''Spec'', assign)]"

definition deepCopyHetznerRobotRemediationTemplate :: "library \<Rightarrow> copier" where
  "deepCopyHetznerRobotRemediationTemplate F = deepCopy (intoHetznerRobotRemediationTemplate F)"

definition objectHetznerRobotRemediationTemplate :: "library \<Rightarrow> copier" where
  "objectHetznerRobotRemediationTemplate F = deepCopyObject (intoHetznerRobotRemediationTemplate F)"

definition goHetznerRobotRemediationTemplateList :: "library \<Rightarrow> gotype" where
  "goHetznerRobotRemediationTemplateList F = TStruct [(''TypeMeta'', TScalar), (''ListMeta'', libType F ''ListMeta''),
     (''Items'', TSlice (goHetznerRobotRemediationTemplate F))]"

definition intoHetznerRobotRemediationTemplateList :: "library \<Rightarrow> copier" where
  "intoHetznerRobotRemediationTemplateList F = intoFields [(''TypeMeta'', assign), (''ListMeta'', libInto F ''ListMeta''),
     (''Items'', copyElems (intoHetznerRobotRemediationTemplate F))]"

definition deepCopyHetznerRobotRemediationTemplateList :: "library \<Rightarrow> copier" where
  "deepCopyHetznerRobotRemediationTemplateList F = deepCopy (intoHetznerRobotRemediationTemplateList F)"

definition objectHetznerRobotRemediationTemplateList :: "library \<Rightarrow> copier" where
  "objectHetznerRobotRemediationTemplateList F = deepCopyObject (intoHetznerRobotRemediationTemplateList F)"


section \<open>The copies that are deep\<close>

lemma copies_library [simp]:
  assumes "deepLibrary F"
  shows "copies (libType F ''ObjectMeta'') (libInto F ''ObjectMeta'')" "copies (libType F ''ListMeta'') (libInto F ''ListMeta'')"
    "copies (libType F ''LabelSelector'') (libInto F ''LabelSelector'')" "copies (libType F ''Condition'') (libInto F ''Condition'')"
    "copies (libType F ''Time'') (libInto F ''Time'')"
  using assms by (simp_all add: deepLibrary_def)

declare copies_elems [simp] copies_entries [simp] copies_assign [simp]

lemma flat_VLANConfig [simp]: "isFlat goVLANConfig"
  by (simp add: goVLANConfig_def)

lemma copies_VLANConfig [simp]: "copies goVLANConfig intoVLANConfig"
  unfolding intoVLANConfig_def by (rule copies_assign) simp

lemma copies_HetznerRobotClusterSpec [simp]: "copies goHetznerRobotClusterSpec intoHetznerRobotClusterSpec"
  unfolding goHetznerRobotClusterSpec_def intoHetznerRobotClusterSpec_def by (rule copies_struct) simp_all

lemma flat_HetznerRobotClusterInitialization [simp]: "isFlat goHetznerRobotClusterInitialization"
  by (simp add: goHetznerRobotClusterInitialization_def)

lemma copies_HetznerRobotClusterInitialization [simp]: "copies goHetznerRobotClusterInitialization intoHetznerRobotClusterInitialization"
  unfolding intoHetznerRobotClusterInitialization_def by (rule copies_assign) simp

lemma copies_HetznerRobotClusterStatus [simp]: "deepLibrary F \<Longrightarrow> copies (goHetznerRobotClusterStatus F) (intoHetznerRobotClusterStatus F)"
  unfolding goHetznerRobotClusterStatus_def intoHetznerRobotClusterStatus_def by (rule copies_struct) simp_all

lemma copies_HetznerRobotCluster [simp]: "deepLibrary F \<Longrightarrow> copies (goHetznerRobotCluster F) (intoHetznerRobotCluster F)"
  unfolding goHetznerRobotCluster_def intoHetznerRobotCluster_def by (rule copies_struct) simp_all

lemma copies_HetznerRobotClusterList [simp]: "deepLibrary F \<Longrightarrow> copies (goHetznerRobotClusterList F) (intoHetznerRobotClusterList F)"
  unfolding goHetznerRobotClusterList_def intoHetznerRobotClusterList_def by (rule copies_struct) simp_all

lemma copies_HetznerRobotMachineSpec [simp]: "deepLibrary F \<Longrightarrow> copies (goHetznerRobotMachineSpec F) (intoHetznerRobotMachineSpec F)"
  unfolding goHetznerRobotMachineSpec_def intoHetznerRobotMachineSpec_def by (rule copies_struct) simp_all

lemma flat_InfrastructureMachineInitialization [simp]: "isFlat goInfrastructureMachineInitialization"
  by (simp add: goInfrastructureMachineInitialization_def)

lemma copies_InfrastructureMachineInitialization [simp]: "copies goInfrastructureMachineInitialization intoInfrastructureMachineInitialization"
  unfolding intoInfrastructureMachineInitialization_def by (rule copies_assign) simp

lemma copies_HetznerRobotMachineTemplateResource [simp]: "deepLibrary F \<Longrightarrow> copies (goHetznerRobotMachineTemplateResource F) (intoHetznerRobotMachineTemplateResource F)"
  unfolding goHetznerRobotMachineTemplateResource_def intoHetznerRobotMachineTemplateResource_def by (rule copies_struct) simp_all

lemma copies_HetznerRobotMachineTemplateSpec [simp]: "deepLibrary F \<Longrightarrow> copies (goHetznerRobotMachineTemplateSpec F) (intoHetznerRobotMachineTemplateSpec F)"
  unfolding goHetznerRobotMachineTemplateSpec_def intoHetznerRobotMachineTemplateSpec_def by (rule copies_struct) simp_all

lemma flat_HetznerRobotMachineTemplateStatus [simp]: "isFlat goHetznerRobotMachineTemplateStatus"
  by (simp add: goHetznerRobotMachineTemplateStatus_def)

lemma copies_HetznerRobotMachineTemplateStatus [simp]: "copies goHetznerRobotMachineTemplateStatus intoHetznerRobotMachineTemplateStatus"
  unfolding intoHetznerRobotMachineTemplateStatus_def by (rule copies_assign) simp

lemma copies_HetznerRobotMachineTemplate [simp]: "deepLibrary F \<Longrightarrow> copies (goHetznerRobotMachineTemplate F) (intoHetznerRobotMachineTemplate F)"
  unfolding goHetznerRobotMachineTemplate_def intoHetznerRobotMachineTemplate_def by (rule copies_struct) simp_all

lemma copies_HetznerRobotMachineTemplateList [simp]: "deepLibrary F \<Longrightarrow> copies (goHetznerRobotMachineTemplateList F) (intoHetznerRobotMachineTemplateList F)"
  unfolding goHetznerRobotMachineTemplateList_def intoHetznerRobotMachineTemplateList_def by (rule copies_struct) simp_all

lemma flat_MachineReference [simp]: "isFlat goMachineReference"
  by (simp add: goMachineReference_def)

lemma copies_MachineReference [simp]: "copies goMachineReference intoMachineReference"
  unfolding intoMachineReference_def by (rule copies_assign) simp

lemma copies_HostHardwareDetails [simp]: "copies goHostHardwareDetails intoHostHardwareDetails"
  unfolding goHostHardwareDetails_def intoHostHardwareDetails_def by (rule copies_struct) simp_all

lemma flat_HetznerRobotHostSpec [simp]: "isFlat goHetznerRobotHostSpec"
  by (simp add: goHetznerRobotHostSpec_def)

lemma copies_HetznerRobotHostSpec [simp]: "copies goHetznerRobotHostSpec intoHetznerRobotHostSpec"
  unfolding intoHetznerRobotHostSpec_def by (rule copies_assign) simp

lemma copies_HetznerRobotHostStatus [simp]: "copies goHetznerRobotHostStatus intoHetznerRobotHostStatus"
  unfolding goHetznerRobotHostStatus_def intoHetznerRobotHostStatus_def by (rule copies_struct) simp_all

lemma copies_HetznerRobotHost [simp]: "deepLibrary F \<Longrightarrow> copies (goHetznerRobotHost F) (intoHetznerRobotHost F)"
  unfolding goHetznerRobotHost_def intoHetznerRobotHost_def by (rule copies_struct) simp_all

lemma copies_HetznerRobotHostList [simp]: "deepLibrary F \<Longrightarrow> copies (goHetznerRobotHostList F) (intoHetznerRobotHostList F)"
  unfolding goHetznerRobotHostList_def intoHetznerRobotHostList_def by (rule copies_struct) simp_all

lemma flat_ReleasedMachineReference [simp]: "isFlat goReleasedMachineReference"
  by (simp add: goReleasedMachineReference_def)

lemma copies_ReleasedMachineReference [simp]: "copies goReleasedMachineReference intoReleasedMachineReference"
  unfolding intoReleasedMachineReference_def by (rule copies_assign) simp

lemma flat_HetznerRobotHostReleaseSpec [simp]: "isFlat goHetznerRobotHostReleaseSpec"
  by (simp add: goHetznerRobotHostReleaseSpec_def)

lemma copies_HetznerRobotHostReleaseSpec [simp]: "copies goHetznerRobotHostReleaseSpec intoHetznerRobotHostReleaseSpec"
  unfolding goHetznerRobotHostReleaseSpec_def intoHetznerRobotHostReleaseSpec_def by (rule copies_struct) simp_all

lemma copies_HetznerRobotHostReleaseStatus [simp]: "deepLibrary F \<Longrightarrow> copies (goHetznerRobotHostReleaseStatus F) (intoHetznerRobotHostReleaseStatus F)"
  unfolding goHetznerRobotHostReleaseStatus_def intoHetznerRobotHostReleaseStatus_def by (rule copies_struct) simp_all

lemma copies_HetznerRobotHostRelease [simp]: "deepLibrary F \<Longrightarrow> copies (goHetznerRobotHostRelease F) (intoHetznerRobotHostRelease F)"
  unfolding goHetznerRobotHostRelease_def intoHetznerRobotHostRelease_def by (rule copies_struct) simp_all

lemma copies_HetznerRobotHostReleaseList [simp]: "deepLibrary F \<Longrightarrow> copies (goHetznerRobotHostReleaseList F) (intoHetznerRobotHostReleaseList F)"
  unfolding goHetznerRobotHostReleaseList_def intoHetznerRobotHostReleaseList_def by (rule copies_struct) simp_all

lemma flat_RemediationStrategy [simp]: "isFlat goRemediationStrategy"
  by (simp add: goRemediationStrategy_def)

lemma copies_RemediationStrategy [simp]: "copies goRemediationStrategy intoRemediationStrategy"
  unfolding intoRemediationStrategy_def by (rule copies_assign) simp

lemma flat_HetznerRobotRemediationSpec [simp]: "isFlat goHetznerRobotRemediationSpec"
  by (simp add: goHetznerRobotRemediationSpec_def)

lemma copies_HetznerRobotRemediationSpec [simp]: "copies goHetznerRobotRemediationSpec intoHetznerRobotRemediationSpec"
  unfolding intoHetznerRobotRemediationSpec_def by (rule copies_assign) simp

lemma copies_HetznerRobotRemediationStatus [simp]: "deepLibrary F \<Longrightarrow> copies (goHetznerRobotRemediationStatus F) (intoHetznerRobotRemediationStatus F)"
  unfolding goHetznerRobotRemediationStatus_def intoHetznerRobotRemediationStatus_def by (rule copies_struct) simp_all

lemma copies_HetznerRobotRemediation [simp]: "deepLibrary F \<Longrightarrow> copies (goHetznerRobotRemediation F) (intoHetznerRobotRemediation F)"
  unfolding goHetznerRobotRemediation_def intoHetznerRobotRemediation_def by (rule copies_struct) simp_all

lemma copies_HetznerRobotRemediationList [simp]: "deepLibrary F \<Longrightarrow> copies (goHetznerRobotRemediationList F) (intoHetznerRobotRemediationList F)"
  unfolding goHetznerRobotRemediationList_def intoHetznerRobotRemediationList_def by (rule copies_struct) simp_all

lemma copies_HetznerRobotRemediationTemplateResource [simp]: "deepLibrary F \<Longrightarrow> copies (goHetznerRobotRemediationTemplateResource F) (intoHetznerRobotRemediationTemplateResource F)"
  unfolding goHetznerRobotRemediationTemplateResource_def intoHetznerRobotRemediationTemplateResource_def by (rule copies_struct) simp_all

lemma copies_HetznerRobotRemediationTemplateSpec [simp]: "deepLibrary F \<Longrightarrow> copies (goHetznerRobotRemediationTemplateSpec F) (intoHetznerRobotRemediationTemplateSpec F)"
  unfolding goHetznerRobotRemediationTemplateSpec_def intoHetznerRobotRemediationTemplateSpec_def by (rule copies_struct) simp_all


text \<open>The types with their copiers, without the five that share.\<close>

definition deepTypes :: "library \<Rightarrow> (gotype \<times> copier) list" where
  "deepTypes F =
     [(goVLANConfig, intoVLANConfig), (goHetznerRobotClusterSpec, intoHetznerRobotClusterSpec),
      (goHetznerRobotClusterInitialization, intoHetznerRobotClusterInitialization),
      (goHetznerRobotClusterStatus F, intoHetznerRobotClusterStatus F),
      (goHetznerRobotCluster F, intoHetznerRobotCluster F),
      (goHetznerRobotClusterList F, intoHetznerRobotClusterList F),
      (goHetznerRobotMachineSpec F, intoHetznerRobotMachineSpec F),
      (goInfrastructureMachineInitialization, intoInfrastructureMachineInitialization),
      (goHetznerRobotMachineTemplateResource F, intoHetznerRobotMachineTemplateResource F),
      (goHetznerRobotMachineTemplateSpec F, intoHetznerRobotMachineTemplateSpec F),
      (goHetznerRobotMachineTemplateStatus, intoHetznerRobotMachineTemplateStatus),
      (goHetznerRobotMachineTemplate F, intoHetznerRobotMachineTemplate F),
      (goHetznerRobotMachineTemplateList F, intoHetznerRobotMachineTemplateList F),
      (goMachineReference, intoMachineReference), (goHostHardwareDetails, intoHostHardwareDetails),
      (goHetznerRobotHostSpec, intoHetznerRobotHostSpec), (goHetznerRobotHostStatus, intoHetznerRobotHostStatus),
      (goHetznerRobotHost F, intoHetznerRobotHost F), (goHetznerRobotHostList F, intoHetznerRobotHostList F),
      (goReleasedMachineReference, intoReleasedMachineReference),
      (goHetznerRobotHostReleaseSpec, intoHetznerRobotHostReleaseSpec),
      (goHetznerRobotHostReleaseStatus F, intoHetznerRobotHostReleaseStatus F),
      (goHetznerRobotHostRelease F, intoHetznerRobotHostRelease F),
      (goHetznerRobotHostReleaseList F, intoHetznerRobotHostReleaseList F),
      (goRemediationStrategy, intoRemediationStrategy),
      (goHetznerRobotRemediationSpec, intoHetznerRobotRemediationSpec),
      (goHetznerRobotRemediationStatus F, intoHetznerRobotRemediationStatus F),
      (goHetznerRobotRemediation F, intoHetznerRobotRemediation F),
      (goHetznerRobotRemediationList F, intoHetznerRobotRemediationList F),
      (goHetznerRobotRemediationTemplateResource F, intoHetznerRobotRemediationTemplateResource F),
      (goHetznerRobotRemediationTemplateSpec F, intoHetznerRobotRemediationTemplateSpec F)]"

lemma deepTypes_copy: "deepLibrary F \<Longrightarrow> list_all (\<lambda>(T, into). copies T into) (deepTypes F)"
  by (simp add: deepTypes_def)

interpretation machineReference: deep_copier goMachineReference intoMachineReference
  by unfold_locales simp

interpretation hardwareDetails: deep_copier goHostHardwareDetails intoHostHardwareDetails
  by unfold_locales simp

interpretation hostStatus: deep_copier goHetznerRobotHostStatus intoHetznerRobotHostStatus
  by unfold_locales simp

text \<open>
  The claim of a host, \<^verbatim>\<open>host.Status.ConsumerRef = ref.DeepCopy()\<close> and the same for \<^verbatim>\<open>MachineRef\<close>: the two
  references of the host are equal but not the same memory, so the record model may treat them as two values.
\<close>

lemma claim_references_apart:
  assumes "hasType m (TPtr goMachineReference) p"
    and "run_state (deepCopyMachineReference p) m = (q1, m1)" and "run_state (deepCopyMachineReference p) m1 = (q2, m2)"
  shows "reach m2 (TPtr goMachineReference) q1 \<inter> reach m2 (TPtr goMachineReference) q2 = {}"
    and "deref m2 (TPtr goMachineReference) q1 = deref m2 (TPtr goMachineReference) q2"
proof -
  note laws = copySharesD(3) [OF machineReference.pointer]
  note run = assms(2,3) [unfolded deepCopyMachineReference_def]
  have one: "prefix m m1" "hasType m1 (TPtr goMachineReference) q1"
      "deref m1 (TPtr goMachineReference) q1 = deref m (TPtr goMachineReference) p"
    using laws [OF assms(1) run(1)] by blast+
  have p: "hasType m1 (TPtr goMachineReference) p" "deref m1 (TPtr goMachineReference) p = deref m (TPtr goMachineReference) p"
    by (rule grown [OF assms(1) one(1)])+
  have two: "prefix m1 m2" "deref m2 (TPtr goMachineReference) q2 = deref m1 (TPtr goMachineReference) p"
      "reach m2 (TPtr goMachineReference) q2 \<subseteq> {length m1..<length m2}"
    using laws [OF p(1) run(2)] by blast+
  have "reach m2 (TPtr goMachineReference) q1 = reach m1 (TPtr goMachineReference) q1"
    and same: "deref m2 (TPtr goMachineReference) q1 = deref m1 (TPtr goMachineReference) q1"
    by (rule grown [OF one(2) two(1)])+
  with reach_allocated [OF one(2)] two(3) show "reach m2 (TPtr goMachineReference) q1 \<inter> reach m2 (TPtr goMachineReference) q2 = {}"
    by fastforce
  show "deref m2 (TPtr goMachineReference) q1 = deref m2 (TPtr goMachineReference) q2"
    using same one(3) p(2) two(2) by simp
qed

text \<open>
  C15. Deep copies are independent. For every API type but the machine and the remediation template (with their lists and
  the machine's status), if the library's own copiers are deep: \<^verbatim>\<open>DeepCopy\<close> of a pointer reads the same as the
  original, the two have no memory in common, and nothing written through one of them is seen through the other.
\<close>

theorem deep_copies_unseen:
  assumes "deepLibrary F" and "(T, into) \<in> set (deepTypes F)"
    and "hasType m (TPtr T) p" and "run_state (deepCopy into p) m = (q, m')"
  shows "deref m' (TPtr T) q = deref m (TPtr T) p \<and> reach m' (TPtr T) p \<inter> reach m' (TPtr T) q = {}
    \<and> (\<forall>a x. (a \<in> reach m' (TPtr T) q \<longrightarrow> deref (m'[a := x]) (TPtr T) p = deref m (TPtr T) p)
        \<and> (a \<in> reach m' (TPtr T) p \<longrightarrow> deref (m'[a := x]) (TPtr T) q = deref m (TPtr T) p))"
proof -
  have "copies T into" using deepTypes_copy [OF assms(1)] assms(2) by (auto simp: list_all_iff)
  then have copier: "deep_copier T into" by (rule deep_copier.intro)
  note laws = deep_copier.same(1) [OF copier assms(3,4)] deep_copier.apart [OF copier assms(3,4)]
    deep_copier.writes_unseen [OF copier assms(3,4)]
  show ?thesis by (intro conjI allI impI laws; assumption)
qed

text \<open>A library whose types have no references, and a claimed host status in memory.\<close>

definition flatLibrary :: library where
  "flatLibrary = \<lparr>libType = (\<lambda>_. TScalar), libInto = (\<lambda>_. assign)\<rparr>"

lemma deep_flatLibrary [simp]: "deepLibrary flatLibrary"
  by (simp add: deepLibrary_def flatLibrary_def)

definition claimedMemory :: memory where
  "claimedMemory =
     [Elems [Struct [(''Name'', Scalar ''worker-0''), (''Namespace'', Scalar ''ns'')]],
      Elems [Struct [(''State'', Scalar ''Claimed''), (''ConsumerRef'', At 0), (''MachineRef'', At 0), (''HardwareDetails'', NilRef),
        (''LastConsumerRef'', NilRef), (''DirtyReason'', Scalar []), (''ErrorMessage'', Scalar [])]]]"

theorem deep_copies_unseen_witness:
  "case run_state (deepCopyHetznerRobotHostStatus (At 1)) claimedMemory of (q, m') \<Rightarrow>
     reach m' (TPtr goHetznerRobotHostStatus) (At 1) \<inter> reach m' (TPtr goHetznerRobotHostStatus) q = {}"
proof -
  have "hasType claimedMemory (TPtr goHetznerRobotHostStatus) (At 1)"
    by (simp add: claimedMemory_def goHetznerRobotHostStatus_def goMachineReference_def elems_def load_def fieldsAre_def)
  moreover have "(goHetznerRobotHostStatus, intoHetznerRobotHostStatus) \<in> set (deepTypes flatLibrary)"
    by (simp add: deepTypes_def)
  ultimately show ?thesis
    using deep_copies_unseen [OF deep_flatLibrary, of goHetznerRobotHostStatus intoHetznerRobotHostStatus claimedMemory "At 1"]
    unfolding deepCopyHetznerRobotHostStatus_def by (simp only: split: prod.split) blast
qed

section \<open>The copies that share\<close>

text \<open>What the status of a machine leaves shared: two of its timestamps have no statement in \<^verbatim>\<open>DeepCopyInto\<close>.\<close>

definition sharedStamps :: "library \<Rightarrow> memory \<Rightarrow> govalue \<Rightarrow> nat set" where
  "sharedStamps F m st = reach m (TPtr (libType F ''Time'')) (sel st ''ProvisionStarted'')
     \<union> reach m (TPtr (libType F ''Time'')) (sel st ''LastResetTime'')"

text \<open>A remediation template assigns its spec, which holds the metadata of the template.\<close>

definition sharedMeta :: "library \<Rightarrow> memory \<Rightarrow> govalue \<Rightarrow> nat set" where
  "sharedMeta F m v = reach m (goHetznerRobotRemediationTemplateSpec F) (sel v ''Spec'')"

definition leakyTypes :: "library \<Rightarrow> (gotype \<times> copier \<times> (memory \<Rightarrow> govalue \<Rightarrow> nat set)) list" where
  "leakyTypes F =
     [(goHetznerRobotMachineStatus F, intoHetznerRobotMachineStatus F, sharedStamps F),
      (goHetznerRobotMachine F, intoHetznerRobotMachine F, \<lambda>m v. sharedStamps F m (sel v ''Status'')),
      (goHetznerRobotMachineList F, intoHetznerRobotMachineList F,
        \<lambda>m v. through (\<lambda>m v. sharedStamps F m (sel v ''Status'')) m (sel v ''Items'')),
      (goHetznerRobotRemediationTemplate F, intoHetznerRobotRemediationTemplate F, sharedMeta F),
      (goHetznerRobotRemediationTemplateList F, intoHetznerRobotRemediationTemplateList F,
        \<lambda>m v. through (sharedMeta F) m (sel v ''Items''))]"

lemma nothing_shared: "copyShares t (\<lambda>m v. {}) c \<longleftrightarrow> copies t c" and reach_scalar: "reach m TScalar = (\<lambda>v. {})"
  by (simp_all add: copies_def fun_eq_iff)

lemma leaky_status:
  assumes "deepLibrary F"
  shows "copyShares (goHetznerRobotMachineStatus F) (sharedStamps F) (intoHetznerRobotMachineStatus F)"
proof -
  let ?sh = "\<lambda>f. if f \<in> {''ProvisionStarted'', ''LastResetTime''} then \<lambda>m. reach m (TPtr (libType F ''Time'')) else (\<lambda>m v. {})"
  let ?fs = "case goHetznerRobotMachineStatus F of TStruct fs \<Rightarrow> fs | _ \<Rightarrow> []"
  have "copyShares (TStruct ?fs) (\<lambda>m v. \<Union>(f, t)\<in>set ?fs. ?sh f m (sel v f)) (intoHetznerRobotMachineStatus F)"
    unfolding intoHetznerRobotMachineStatus_def
    by (rule copyShares_struct) (simp_all add: goHetznerRobotMachineStatus_def nothing_shared reach_scalar assms)
  moreover have "(\<lambda>m v. \<Union>(f, t)\<in>set ?fs. ?sh f m (sel v f)) = sharedStamps F"
    by (intro ext) (simp add: goHetznerRobotMachineStatus_def sharedStamps_def)
  ultimately show ?thesis by (simp add: goHetznerRobotMachineStatus_def)
qed

lemma leaky_machine:
  assumes "deepLibrary F"
  shows "copyShares (goHetznerRobotMachine F) (\<lambda>m v. sharedStamps F m (sel v ''Status'')) (intoHetznerRobotMachine F)"
proof -
  let ?sh = "\<lambda>f. if f = ''Status'' then sharedStamps F else (\<lambda>m v. {})"
  let ?fs = "case goHetznerRobotMachine F of TStruct fs \<Rightarrow> fs | _ \<Rightarrow> []"
  have "copyShares (TStruct ?fs) (\<lambda>m v. \<Union>(f, t)\<in>set ?fs. ?sh f m (sel v f)) (intoHetznerRobotMachine F)"
    unfolding intoHetznerRobotMachine_def
    by (rule copyShares_struct) (simp_all add: goHetznerRobotMachine_def nothing_shared reach_scalar leaky_status assms)
  moreover have "(\<lambda>m v. \<Union>(f, t)\<in>set ?fs. ?sh f m (sel v f)) = (\<lambda>m v. sharedStamps F m (sel v ''Status''))"
    by (intro ext) (simp add: goHetznerRobotMachine_def)
  ultimately show ?thesis by (simp add: goHetznerRobotMachine_def)
qed

lemma leaky_template:
  assumes "deepLibrary F"
  shows "copyShares (goHetznerRobotRemediationTemplate F) (sharedMeta F) (intoHetznerRobotRemediationTemplate F)"
proof -
  let ?spec = "goHetznerRobotRemediationTemplateSpec F"
  let ?sh = "\<lambda>f. if f = ''Spec'' then \<lambda>m. reach m ?spec else (\<lambda>m v. {})"
  let ?fs = "case goHetznerRobotRemediationTemplate F of TStruct fs \<Rightarrow> fs | _ \<Rightarrow> []"
  have "copyShares (TStruct ?fs) (\<lambda>m v. \<Union>(f, t)\<in>set ?fs. ?sh f m (sel v f)) (intoHetznerRobotRemediationTemplate F)"
    unfolding intoHetznerRobotRemediationTemplate_def
    by (rule copyShares_struct) (simp_all add: goHetznerRobotRemediationTemplate_def nothing_shared reach_scalar copyShares_assign assms)
  moreover have "(\<lambda>m v. \<Union>(f, t)\<in>set ?fs. ?sh f m (sel v f)) = sharedMeta F"
    by (intro ext) (simp add: goHetznerRobotRemediationTemplate_def sharedMeta_def)
  ultimately show ?thesis by (simp add: goHetznerRobotRemediationTemplate_def)
qed

text \<open>A list shares what its items share.\<close>

lemma leaky_items:
  assumes "deepLibrary F" and "copyShares T sh into"
  shows "copyShares (TStruct [(''TypeMeta'', TScalar), (''ListMeta'', libType F ''ListMeta''), (''Items'', TSlice T)])
    (\<lambda>m v. through sh m (sel v ''Items''))
    (intoFields [(''TypeMeta'', assign), (''ListMeta'', libInto F ''ListMeta''), (''Items'', copyElems into)])"
proof -
  let ?sh = "\<lambda>f. if f = ''Items'' then through sh else (\<lambda>m v. {})"
  let ?fs = "[(''TypeMeta'', TScalar), (''ListMeta'', libType F ''ListMeta''), (''Items'', TSlice T)]"
  have "copyShares (TStruct ?fs) (\<lambda>m v. \<Union>(f, t)\<in>set ?fs. ?sh f m (sel v f))
      (intoFields [(''TypeMeta'', assign), (''ListMeta'', libInto F ''ListMeta''), (''Items'', copyElems into)])"
    by (rule copyShares_struct) (simp_all add: nothing_shared copyShares_elems(2) assms)
  moreover have "(\<lambda>m v. \<Union>(f, t)\<in>set ?fs. ?sh f m (sel v f)) = (\<lambda>m v. through sh m (sel v ''Items''))"
    by (intro ext) simp
  ultimately show ?thesis by (simp only:)
qed

lemma leaky_lists:
  assumes "deepLibrary F"
  shows "copyShares (goHetznerRobotMachineList F)
      (\<lambda>m v. through (\<lambda>m v. sharedStamps F m (sel v ''Status'')) m (sel v ''Items'')) (intoHetznerRobotMachineList F)"
    and "copyShares (goHetznerRobotRemediationTemplateList F)
      (\<lambda>m v. through (sharedMeta F) m (sel v ''Items'')) (intoHetznerRobotRemediationTemplateList F)"
  unfolding goHetznerRobotMachineList_def intoHetznerRobotMachineList_def
    goHetznerRobotRemediationTemplateList_def intoHetznerRobotRemediationTemplateList_def
  by (intro leaky_items leaky_machine leaky_template assms)+

text \<open>
  C16. The copies that are not deep. \<^verbatim>\<open>DeepCopy\<close> of a machine, of its status, of a remediation template or of a list of either reads the
  same as the original, but the memory of the original it still reaches is exactly the start of provisioning and
  the time of the last reset of the machine's status, respectively what the template's spec refers to, the metadata inside it.
\<close>

theorem machine_copy_shares_timestamps:
  assumes "deepLibrary F" and "(T, into, shared) \<in> set (leakyTypes F)"
    and "hasType m (TPtr T) p" and "run_state (deepCopy into p) m = (q, m')"
  shows "deref m' (TPtr T) q = deref m (TPtr T) p \<and> {a \<in> reach m' (TPtr T) q. a < length m} = through shared m p"
proof -
  have "copyShares T shared into"
    using assms(2) leaky_status leaky_machine leaky_template leaky_lists assms(1) by (auto simp: leakyTypes_def)
  then have law: "copyShares (TPtr T) (through shared) (deepCopy into)" by (rule copyShares_deepCopy)
  from copySharesD(2,3) [OF law assms(3)] assms(4) show ?thesis by fastforce
qed

text \<open>A machine that began at a time stored at address 0: the copy of its status points there too.\<close>

definition startedMemory :: memory where
  "startedMemory =
     [Elems [Scalar ''12:00''],
      Elems [Struct (map (\<lambda>f. (f, if f = ''ProvisionStarted'' then At 0
        else if f \<in> {''Initialization'', ''Addresses'', ''FailureReason'', ''FailureMessage'', ''LastRetryTimestamp'', ''LastResetTime'', ''Conditions''}
          then NilRef else Scalar []))
        [''Ready'', ''Initialization'', ''Addresses'', ''ProvisioningState'', ''HostRef'', ''PrimaryMAC'', ''GatewayIP'',
         ''ResolvedInstallDisk'', ''FailureReason'', ''FailureMessage'', ''ProvisionStarted'', ''RetryCount'', ''LastRetryTimestamp'',
         ''LastResetTime'', ''Conditions''])]]"

theorem machine_copy_shares_timestamps_witness:
  "case run_state (deepCopyHetznerRobotMachineStatus flatLibrary (At 1)) startedMemory of (q, m') \<Rightarrow>
     0 \<in> reach m' (TPtr (goHetznerRobotMachineStatus flatLibrary)) q"
proof -
  have typed: "hasType startedMemory (TPtr (goHetznerRobotMachineStatus flatLibrary)) (At 1)"
    by (simp add: startedMemory_def goHetznerRobotMachineStatus_def flatLibrary_def elems_def load_def fieldsAre_def)
  have shared: "through (sharedStamps flatLibrary) startedMemory (At 1) = {0}"
    by (simp add: through_def sharedStamps_def startedMemory_def flatLibrary_def elems_def load_def)
  have leaky: "(goHetznerRobotMachineStatus flatLibrary, intoHetznerRobotMachineStatus flatLibrary, sharedStamps flatLibrary)
      \<in> set (leakyTypes flatLibrary)" by (simp add: leakyTypes_def)
  obtain q m' where run: "run_state (deepCopyHetznerRobotMachineStatus flatLibrary (At 1)) startedMemory = (q, m')" by fastforce
  from machine_copy_shares_timestamps [OF deep_flatLibrary leaky typed run [unfolded deepCopyHetznerRobotMachineStatus_def]]
  show ?thesis unfolding run shared by blast
qed

end
