(* ===== verification/Talos_Certs.thy ===== *)
theory Talos_Certs
  imports Talos_Client
begin

text \<open>
  \<^verbatim>\<open>pkg/talos/bundle.go\<close> and the authenticated half of
  \<^verbatim>\<open>pkg/talos/client.go\<close>: the certificate authority of a Talos machine configuration, the
  admin certificate signed with it, and the etcd bootstrap call that uses it.

  Certificates, keys and the codecs around them belong to the crypto libraries; they are the functions of
  one record. A parsed certificate is its raw bytes, a private key is an opaque \<open>'k\<close>; drawing
  randomness and signing change the world.
\<close>

section \<open>The crypto libraries\<close>

record cert_template =
  serialNumber :: int
  organization :: "string list"
  notBefore :: int
  notAfter :: int
  keyUsage :: string
  extKeyUsage :: "string list"

record tls_config =
  RootCAs :: "string list"
  Certificates :: "(string \<times> string) list"
  MinVersion :: int

record ('w, 'k) crypto =
  cDecodeCA :: "string \<Rightarrow> goerr + string \<times> string"
  cCorruptInput :: "string \<Rightarrow> goerr"
  cPemDecode :: "string \<Rightarrow> string option"
  cParseCertificate :: "string \<Rightarrow> goerr + string"
  cParsePKCS8 :: "string \<Rightarrow> goerr + 'k"
  cIsEd25519 :: "'k \<Rightarrow> bool"
  cTypeName :: "'k \<Rightarrow> string"
  cGenerateKey :: "'w \<Rightarrow> (goerr + 'k \<times> 'k) \<times> 'w"
  cRandInt :: "int \<Rightarrow> 'w \<Rightarrow> (goerr + int) \<times> 'w"
  cCreateCertificate :: "cert_template \<Rightarrow> string \<Rightarrow> 'k \<Rightarrow> 'k \<Rightarrow> 'w \<Rightarrow> (goerr + string) \<times> 'w"
  cMarshalPKCS8 :: "'k \<Rightarrow> goerr + string"
  cPemEncode :: "string \<Rightarrow> string \<Rightarrow> string"
  cKeyPairError :: "string \<Rightarrow> string \<Rightarrow> goerr option"
  cAppendCert :: "string \<Rightarrow> bool"
  cAuthConn :: "string \<Rightarrow> tls_config \<Rightarrow> 'w \<Rightarrow> goerr option \<times> 'w"
  cBootstrap :: "string \<Rightarrow> 'w \<Rightarrow> goerr option \<times> 'w"

section \<open>The machine's certificate authority\<close>

definition orElse :: "string \<Rightarrow> goerr + 'a \<Rightarrow> ('a \<Rightarrow> goerr + 'b) \<Rightarrow> goerr + 'b" where
  "orElse msg r f = (case r of Inl e \<Rightarrow> Inl (wrapErr msg e) | Inr x \<Rightarrow> f x)"

text \<open>The text of a base64 error names the offset of the bad byte; it is left to the library.\<close>

definition decodeString :: "('w, 'k) crypto \<Rightarrow> string \<Rightarrow> goerr + string" where
  "decodeString C s = (case base64Decode s of None \<Rightarrow> Inl (cCorruptInput C s) | Some bs \<Rightarrow> Inr bs)"

definition decodeCAPKCS8Ed25519 :: "('w, 'k) crypto \<Rightarrow> string \<Rightarrow> string \<Rightarrow> goerr + string \<times> 'k" where
  "decodeCAPKCS8Ed25519 C crtB64 keyB64 =
     orElse ''decode ca cert base64: '' (decodeString C crtB64) (\<lambda>caCertPEM.
       case cPemDecode C caCertPEM of
         None \<Rightarrow> Inl (errorf ''ca cert: no PEM block found'')
       | Some certBytes \<Rightarrow> orElse ''parse CA certificate: '' (cParseCertificate C certBytes) (\<lambda>caCert.
           orElse ''decode ca key base64: '' (decodeString C keyB64) (\<lambda>caKeyPEM.
             case cPemDecode C caKeyPEM of
               None \<Rightarrow> Inl (errorf ''ca key: no PEM block found'')
             | Some keyBytes \<Rightarrow> orElse ''parse CA private key (PKCS#8): '' (cParsePKCS8 C keyBytes) (\<lambda>caKey.
                 if \<not> cIsEd25519 C caKey then
                   Inl (errorf (''CA key is not Ed25519 (got '' @ cTypeName C caKey @ '')''))
                 else Inr (caCert, caKey)))))"

definition MachineCAFromMachineConfig :: "('w, 'k) crypto \<Rightarrow> string \<Rightarrow> goerr + string \<times> 'k" where
  "MachineCAFromMachineConfig C machineConfigYAML =
     orElse ''parse machineconfig YAML: '' (cDecodeCA C machineConfigYAML) (\<lambda>(crt, key).
       if crt = [] \<or> key = [] then Inl (errorf ''machineconfig missing machine.ca.crt or machine.ca.key'')
       else decodeCAPKCS8Ed25519 C crt key)"

section \<open>The admin certificate\<close>

text \<open>The two readings of the clock are those of the two fields; a day has \<open>24 * 60\<close> minutes.\<close>

definition adminTemplate :: "int \<Rightarrow> int \<Rightarrow> int \<Rightarrow> cert_template" where
  "adminTemplate serial now1 now2 = \<lparr>serialNumber = serial, organization = [''os:admin''],
     notBefore = now1 - 5 * minute, notAfter = now2 + 24 * 60 * minute,
     keyUsage = ''DigitalSignature'', extKeyUsage = [''ClientAuth'']\<rparr>"

text \<open>From the signed certificate on nothing is random.\<close>

definition tlsConfigOf :: "('w, 'k) crypto \<Rightarrow> string \<Rightarrow> string \<Rightarrow> 'k \<Rightarrow> goerr + tls_config" where
  "tlsConfigOf C caRaw clientCertDER clientPriv =
     (let clientCertPEM = cPemEncode C ''CERTIFICATE'' clientCertDER in
      orElse ''marshal client key: '' (cMarshalPKCS8 C clientPriv) (\<lambda>clientKeyDER.
        let clientKeyPEM = cPemEncode C ''PRIVATE KEY'' clientKeyDER in
        case cKeyPairError C clientCertPEM clientKeyPEM of
          Some e \<Rightarrow> Inl (wrapErr ''build TLS key pair: '' e)
        | None \<Rightarrow>
            (let caCertPEM = cPemEncode C ''CERTIFICATE'' caRaw in
             if \<not> cAppendCert C caCertPEM then Inl (errorf ''failed to add machine CA to cert pool'')
             else Inr \<lparr>RootCAs = [caCertPEM], Certificates = [(clientCertPEM, clientKeyPEM)], MinVersion = 0x0303\<rparr>)))"

definition adminTLSConfigFromCA :: "'w ext \<Rightarrow> ('w, 'k) crypto \<Rightarrow> string \<Rightarrow> 'k \<Rightarrow> ('w, 'o, goerr + tls_config) go" where
  "adminTLSConfigFromCA X C caCert caKey = do {
     g \<leftarrow> silent (cGenerateKey C);
     (case g of
        Inl e \<Rightarrow> ret (Inl (wrapErr ''generate client Ed25519 key: '' e))
      | Inr (clientPub, clientPriv) \<Rightarrow> do {
          s \<leftarrow> silent (cRandInt C (2 ^ 128));
          (case s of
             Inl e \<Rightarrow> ret (Inl (wrapErr ''generate serial: '' e))
           | Inr serial \<Rightarrow> do {
               now1 \<leftarrow> timeNow X;
               now2 \<leftarrow> timeNow X;
               c \<leftarrow> silent (cCreateCertificate C (adminTemplate serial now1 now2) caCert clientPub caKey);
               ret (orElse ''sign client certificate: '' c (\<lambda>der. tlsConfigOf C caCert der clientPriv)) }) })
   }"

definition AdminTLSConfig :: "'w ext \<Rightarrow> ('w, 'k) crypto \<Rightarrow> string \<Rightarrow> ('w, 'o, goerr + tls_config) go" where
  "AdminTLSConfig X C machineConfigYAML = (case MachineCAFromMachineConfig C machineConfigYAML of
     Inl e \<Rightarrow> ret (Inl (wrapErr ''read machine CA from machineconfig: '' e))
   | Inr (caCert, caKey) \<Rightarrow> adminTLSConfigFromCA X C caCert caKey)"

section \<open>Bootstrapping etcd\<close>

definition Bootstrap :: "('w, 'k) crypto \<Rightarrow> string \<Rightarrow> tls_config \<Rightarrow> ('w, 'o, goerr option) go" where
  "Bootstrap C ip tlsCfg = do {
     c \<leftarrow> silent (cAuthConn C ip tlsCfg);
     (case c of
        Some e \<Rightarrow> ret (Some (wrapErr (''connect to '' @ ip @ '' (authenticated): '') e))
      | None \<Rightarrow> do {
          r \<leftarrow> silent (cBootstrap C ip);
          ret (case r of
             Some e \<Rightarrow> if isAlreadyBootstrapped (Some e) then None
               else Some (wrapErr (''Bootstrap on '' @ ip @ '': '') e)
           | None \<Rightarrow> None) })
   }"

section \<open>Properties\<close>

lemma orElse_Inr: "orElse msg r f = Inr y \<longleftrightarrow> (\<exists>x. r = Inr x \<and> f x = Inr y)"
  by (cases r) (auto simp: orElse_def)

lemma decodeString_Inr: "decodeString C s = Inr bs \<longleftrightarrow> base64Decode s = Some bs"
  by (simp add: decodeString_def split: option.split)

lemma decodeCA_Inr:
  assumes "decodeCAPKCS8Ed25519 C crt key = Inr (ca, k)"
  shows "\<exists>p1 b1 p2 b2. base64Decode crt = Some p1 \<and> cPemDecode C p1 = Some b1 \<and> cParseCertificate C b1 = Inr ca
     \<and> base64Decode key = Some p2 \<and> cPemDecode C p2 = Some b2 \<and> cParsePKCS8 C b2 = Inr k \<and> cIsEd25519 C k"
  using assms unfolding decodeCAPKCS8Ed25519_def
  by (auto simp: orElse_Inr decodeString_Inr split: option.splits if_splits)

text \<open>
  The TLS configuration made for a node trusts exactly the certificate authority of the node's own
  machine configuration. When AdminTLSConfig returns one, the configuration held a certificate and an Ed25519 key
  of its machine CA; that certificate is the only root; the client certificate and key are the only pair,
  and the certificate was created by the library from the admin template (role os:admin, client
  authentication, from five minutes before to a day after) under that CA and its key; TLS 1.2 is the minimum.
\<close>

lemma admin_tls_from_machine_ca:
  assumes "fst (run_state (AdminTLSConfig X C yaml) s) = Inr conf"
  shows "\<exists>crt key pem bs ca k pub priv der kder serial t1 t2 w.
     cDecodeCA C yaml = Inr (crt, key) \<and> base64Decode crt = Some pem \<and> cPemDecode C pem = Some bs
     \<and> cParseCertificate C bs = Inr ca \<and> cIsEd25519 C k
     \<and> fst (cCreateCertificate C (adminTemplate serial t1 t2) ca pub k w) = Inr der \<and> cMarshalPKCS8 C priv = Inr kder
     \<and> conf = \<lparr>RootCAs = [cPemEncode C ''CERTIFICATE'' ca],
         Certificates = [(cPemEncode C ''CERTIFICATE'' der, cPemEncode C ''PRIVATE KEY'' kder)], MinVersion = 0x0303\<rparr>"
proof -
  from assms obtain ca k where ca: "MachineCAFromMachineConfig C yaml = Inr (ca, k)"
    and run: "fst (run_state (adminTLSConfigFromCA X C ca k) s) = Inr conf"
    by (auto simp: AdminTLSConfig_def split: sum.splits)
  from ca obtain crt key where src: "cDecodeCA C yaml = Inr (crt, key)" "decodeCAPKCS8Ed25519 C crt key = Inr (ca, k)"
    by (auto simp: MachineCAFromMachineConfig_def orElse_Inr split: if_splits)
  from decodeCA_Inr [OF this(2)] obtain pem bs where ed: "base64Decode crt = Some pem" "cPemDecode C pem = Some bs"
    "cParseCertificate C bs = Inr ca" "cIsEd25519 C k" by blast
  from run obtain pub priv serial t1 t2 w der where sign: "fst (cCreateCertificate C (adminTemplate serial t1 t2) ca pub k w) = Inr der"
    and conf: "tlsConfigOf C ca der priv = Inr conf"
    by (auto simp: adminTLSConfigFromCA_def calls_def orElse_Inr split: sum.splits prod.splits)
  from conf obtain kder where "cMarshalPKCS8 C priv = Inr kder"
    and "conf = \<lparr>RootCAs = [cPemEncode C ''CERTIFICATE'' ca],
         Certificates = [(cPemEncode C ''CERTIFICATE'' der, cPemEncode C ''PRIVATE KEY'' kder)], MinVersion = 0x0303\<rparr>"
    by (auto simp: tlsConfigOf_def Let_def orElse_Inr split: option.splits if_splits)
  with src(1) ed sign show ?thesis by blast
qed

text \<open>Libraries in which every step succeeds and a PEM block is the text around its type.\<close>

definition sampleCrypto :: "(unit, string) crypto" where
  "sampleCrypto = \<lparr>cDecodeCA = \<lambda>yaml. Inr (''Q0E='', ''S0VZ''), cCorruptInput = \<lambda>s. errorf ''illegal base64 data'',
     cPemDecode = Some, cParseCertificate = Inr, cParsePKCS8 = Inr, cIsEd25519 = \<lambda>k. True, cTypeName = \<lambda>k. ''ed25519'',
     cGenerateKey = \<lambda>w. (Inr (''pub'', ''priv''), w), cRandInt = \<lambda>n w. (Inr 7, w),
     cCreateCertificate = \<lambda>t ca pub key w. (Inr (ca @ pub), w), cMarshalPKCS8 = Inr,
     cPemEncode = \<lambda>t bs. t @ bs, cKeyPairError = \<lambda>c k. None, cAppendCert = \<lambda>c. True,
     cAuthConn = \<lambda>ip c w. (None, w), cBootstrap = \<lambda>ip w. (None, w)\<rparr>"

lemma sampleDecoded: "base64Decode ''Q0E='' = Some ''CA''" "base64Decode ''S0VZ'' = Some ''KEY''"
  by code_simp+

lemma admin_tls_from_machine_ca_witness:
  "\<exists>crt key pem. cDecodeCA sampleCrypto [] = Inr (crt, key) \<and> base64Decode crt = Some pem
     \<and> cParseCertificate sampleCrypto pem = Inr ''CA''"
proof -
  have "fst (run_state (AdminTLSConfig sampleExt sampleCrypto []) (sampleRun sampleHRM))
    = Inr \<lparr>RootCAs = [''CERTIFICATECA''], Certificates = [(''CERTIFICATECApub'', ''PRIVATE KEYpriv'')], MinVersion = 0x0303\<rparr>"
    by (simp add: AdminTLSConfig_def MachineCAFromMachineConfig_def decodeCAPKCS8Ed25519_def decodeString_def sampleDecoded
        adminTLSConfigFromCA_def tlsConfigOf_def orElse_def calls_def sampleCrypto_def Let_def)
  from admin_tls_from_machine_ca [OF this] show ?thesis by (auto simp: sampleCrypto_def)
qed

end
