(* ===== verification/Machine_Hazards.thy ===== *)
theory Machine_Hazards
  imports Machine_Loop
begin

text \<open>
  Behaviours of the reconcile loop that its comments do not promise: what a success writes over
  the record of an error or of a denial, and how far deletion trusts the recorded HostRef.
\<close>

section \<open>A pass over a host the machine owns\<close>

text \<open>A machine whose status names a host it owns resolves to it without a patch.\<close>

lemma resolve_owned:
  assumes "HostRef (hrmStatus (obj s)) \<noteq> []" and "\<And>k w. fst (xGetHost X k w) = Inr h" and "ownedBy (obj s) h"
  shows "run_state (resolveHost X) s = (Inr h, s\<lparr>
    world := snd (xGetHost X (Namespace (hrmMeta (obj s)), HostRef (hrmStatus (obj s))) (world s)),
    trace := trace s @ [EvGetHost (Namespace (hrmMeta (obj s)), HostRef (hrmStatus (obj s))) (Inr h)]\<rparr>)"
  using assms
  by (simp add: resolveHost_def ensureHostConsumerRef_def currentHostConsumerRef_def ownedBy_def matches_iff calls_def Let_def)

lemma denied_maintenance:
  assumes "MaintenanceMode (hostSpec h)"
  shows "authorizeDestructiveProvisioningFor X (Some hrm) mo (Some h) = ret (Some (errorf
    (''destructive provisioning denied for host '' @ hostName h @ '': maintenanceMode=true'')))"
  using assms by (simp add: authorizeDestructiveProvisioningFor_def authorizeDestructiveProvisioning_def)

text \<open>
  C39. The error state does not keep its error. A pass over a live machine in StateError whose host
  is there and whose Robot credentials can be read does nothing, which counts as a success: the failure reason and
  message that put it there are cleared and its Ready condition says it is being provisioned, while the
  state stays StateError and no further pass is asked for.
\<close>

theorem error_state_forgotten:
  assumes "DeletionTimestamp (hrmMeta (obj s)) = None" and "hasFinalizer (hrmMeta (obj s))"
    and "provState (hrmStatus (obj s)) = StateError" and "RetryCount (hrmStatus (obj s)) = 0"
    and "HostRef (hrmStatus (obj s)) \<noteq> []" and "\<And>k w. fst (xGetHost X k w) = Inr h" and "ownedBy (obj s) h"
    and "\<And>k w. fst (xGetSecret X k w) = Inr d"
  shows "let (r, s') = run_state (reconcileMachine X hrc machine cluster) s; st = hrmStatus (obj s') in
     r = Returned Done \<and> provState st = StateError \<and> FailureReason st = None \<and> FailureMessage st = None
     \<and> readyMark st = Some (MarkFalse ''Provisioning'' SeverityInfo ''Machine is being provisioned'')"
proof -
  have "run_state (checkProvisionTimeout X) s = (False, s)" "run_state (checkBackoff X) s = (None, s)"
    using assms(3,4) by (simp_all add: checkProvisionTimeout_def checkBackoff_def provisioningStates_def split: option.split)
  moreover obtain s1 where "run_state (resolveHost X) s = (Inr h, s1)" "obj s1 = obj s"
    using resolve_owned [OF assms(5-7)] by force
  ultimately show ?thesis
    using assms(1-3) assms(8)
    by (simp add: reconcileMachine_def reconcileNormal_def provisionOn_def provisioningMayBecomeDestructive_def
        buildRobotClient_def NewFromCluster_def silent_def runState_def classify_def succeeded_def Let_def)
qed

theorem error_state_forgotten_witness:
  "FailureReason (hrmStatus (obj (snd (run_state (reconcileMachine
      (sampleExt\<lparr>xGetHost := \<lambda>k w. (Inr (claimedHost sampleHRM sampleHost), w)\<rparr>) sampleHRC sampleMachine sampleCluster)
      (sampleRun (enterError ''PermanentError'' ''invalid disk'' (modStatus (HostRef_update (\<lambda>_. ''node6'')) sampleHRM))))))) = None"
proof -
  let ?X = "sampleExt\<lparr>xGetHost := \<lambda>k w. (Inr (claimedHost sampleHRM sampleHost), w)\<rparr> :: unit ext"
  let ?m = "enterError ''PermanentError'' ''invalid disk'' (modStatus (HostRef_update (\<lambda>_. ''node6'')) sampleHRM)"
  have "ownedBy ?m (claimedHost sampleHRM sampleHost)"
    using ownedBy_cong [of ?m sampleHRM] by (simp add: enterError_def)
  then show ?thesis
    using error_state_forgotten [of "sampleRun ?m" ?X "claimedHost sampleHRM sampleHost"
        "[''ssh-privatekey'' \<mapsto> ''KEY'', ''value'' \<mapsto> ''DATA'']" sampleHRC sampleMachine sampleCluster]
    by (simp add: sampleRun_def enterError_def sampleHRM_def sampleMeta_def sampleExt_def Let_def case_prod_beta)
qed



section \<open>Deletion trusts the recorded host\<close>

lemma resolve_recorded:
  assumes "HostRef (hrmStatus (obj s)) \<noteq> []" and "\<And>k w. fst (xGetHost X k w) = Inr h"
  shows "run_state (resolveHostForDelete X) s = (Inr (Some h, True), s\<lparr>
    world := snd (xGetHost X (Namespace (hrmMeta (obj s)), HostRef (hrmStatus (obj s))) (world s)),
    trace := trace s @ [EvGetHost (Namespace (hrmMeta (obj s)), HostRef (hrmStatus (obj s))) (Inr h)]\<rparr>)"
  using assms by (simp add: resolveHostForDelete_def calls_def Let_def)

text \<open>
  C38. Deletion acts on the host the machine's status names without looking at the references of that
  host. If the host has been handed to another machine (the release of an earlier pass was written and the
  removal of the finalizer was not), a further pass over the deleted machine resets the server of the other
  machine and takes the host from it.
\<close>

theorem delete_trusts_host_ref:
  assumes "DeletionTimestamp (hrmMeta (obj s)) \<noteq> None" and "HostRef (hrmStatus (obj s)) \<noteq> []" and "NodeRef machine = None"
    and "\<And>k w. fst (xGetHost X k w) = Inr h" and "\<not> hostIsClaimedBy h (obj s)"
    and "LifecycleClass (hostSpec h) = HostLifecycleClassCompute" and "DestructivePolicy (hostSpec h) = PolicyAlwaysCleanSlate"
    and "\<not> MaintenanceMode (hostSpec h)" and "ServerID (hostSpec h) \<noteq> 0"
    and "\<And>k w. fst (xGetSecret X k w) = Inr d" and "\<And>w. fst (xNewHelper X w) = None" and "\<And>a w. fst (xPatchHost X h a w) = None"
  shows "EvPatchHost h (releasedHost h) None \<in> set (newEvents (reconcileMachine X hrc machine cluster) s)
    \<and> (\<exists>e \<in> set (newEvents (reconcileMachine X hrc machine cluster) s).
         resetRequest (NewRobot (secretText d ''robot-user'') (secretText d ''robot-password'')) (ServerID (hostSpec h)) e)
    \<and> ConsumerRef (hostStatus (releasedHost h)) = None"
  using assms
  by (simp add: reconcileMachine_def reconcileDelete_def resolve_recorded buildRobotClient_def NewFromCluster_def
      authorizeDestructiveProvisioningFor_def authorizeDestructiveProvisioning_def resetForDelete_def getSSHKeyFingerprint_def
      ActivateRescue_def ResetServer_def robotPost_def releaseAndFinish_def finishDelete_def releaseHost_def patchHostWith_def
      resetRequest_def calls_def newEvents_def releasedHost_def clearHostConsumerRef_def Let_def)

text \<open>Machine worker-0 is deleted and its HostRef still names node6, which worker-1 has claimed.\<close>

definition reclaimedHost :: HetznerRobotHost where
  "reclaimedHost = setHostConsumerRef \<lparr>refName = ''worker-1'', refNamespace = ''ns''\<rparr> sampleHost"

definition deletedHRM :: HetznerRobotMachine where
  "deletedHRM = (modStatus (HostRef_update (\<lambda>_. ''node6'')) sampleHRM)\<lparr>hrmMeta := (hrmMeta sampleHRM)\<lparr>DeletionTimestamp := Some 0\<rparr>\<rparr>"

theorem delete_trusts_host_ref_witness:
  "EvPatchHost reclaimedHost (releasedHost reclaimedHost) None \<in> set (newEvents (reconcileMachine
     (sampleExt\<lparr>xGetHost := \<lambda>k w. (Inr reclaimedHost, w)\<rparr>) sampleHRC sampleMachine sampleCluster) (sampleRun deletedHRM))"
  using delete_trusts_host_ref [of "sampleRun deletedHRM" sampleMachine "sampleExt\<lparr>xGetHost := \<lambda>k w. (Inr reclaimedHost, w)\<rparr>"
      reclaimedHost "[''ssh-privatekey'' \<mapsto> ''KEY'', ''value'' \<mapsto> ''DATA'']" sampleHRC sampleCluster]
  by (simp add: sample_defs deletedHRM_def reclaimedHost_def setHostConsumerRef_def hostIsClaimedBy_def matches_iff machineReferenceFor_def)

end
