(* ===== verification/Machine_Progress.thy ===== *)
theory Machine_Progress
  imports Machine_Hazards
begin

text \<open>
  The way of a machine to a provisioned node: in a world that cooperates every pass of the
  reconcile loop takes it one state further.
\<close>

section \<open>A world that cooperates\<close>

definition apiAnswers :: "'w ext \<Rightarrow> Machine \<Rightarrow> HetznerRobotHost \<Rightarrow> int \<Rightarrow> bool" where
  "apiAnswers X machine h t0 \<longleftrightarrow>
     (\<forall>w. t0 \<le> fst (xNow X w) \<and> fst (xNow X w) \<le> t0 + provisionTimeout)
   \<and> (\<forall>k w. fst (xGetHost X k w) = Inr h)
   \<and> (\<forall>k w. \<exists>d. fst (xGetSecret X k w) = Inr d \<and> d ''value'' \<noteq> None \<and> d ''ssh-privatekey'' \<noteq> None)
   \<and> DataSecretName machine \<noteq> None
   \<and> (\<forall>w. fst (xNewHelper X w) = None) \<and> (\<forall>c w. fst (xPatchHRC X c w) = None)
   \<and> (\<forall>au me u f w. \<exists>code body. fst (xHttp X au me u f w) = HttpResponse code body \<and> code < 400
        \<and> xAnyJSON X body = None \<and> (\<exists>i. xRescueJSON X body = Inr i))"

definition wipeable :: "'w ext \<Rightarrow> HetznerRobotHost \<Rightarrow> HardwareInfo \<Rightarrow> bool" where
  "wipeable X h hw \<longleftrightarrow> NVMeDisks hw \<noteq> [] \<and> (\<forall>w. set (NVMeDisks hw)
     \<subseteq> set (wipedDisks (fst (fst (xExec X ''root'' (ServerIP (hostSpec h)) (wrapBash (wipeCmd (NVMeDisks hw))) w)))))"

definition serverAnswers :: "'w ext \<Rightarrow> HetznerRobotHost \<Rightarrow> bool" where
  "serverAnswers X h \<longleftrightarrow> (let ip = ServerIP (hostSpec h); out = (\<lambda>us cmd w. fst (fst (xExec X us ip cmd w))) in
     (\<forall>k. xParseKey X k = None) \<and> (\<forall>a w. fst (xDial X a w) = None)
   \<and> (\<forall>us a k w. fst (xHandshake X us a k w) = None) \<and> (\<forall>us a w. fst (xSession X us a w) = None)
   \<and> (\<forall>us cmd w. snd (fst (xExec X us ip cmd w)) = None)
   \<and> (\<forall>w. trimSpace (out ''root'' (wrapBash rescueCheckCmd) w) = ''RESCUE'')
   \<and> (\<forall>w. trimSpace (out ''root'' (wrapBash rescueModeCmd) w) = ''RESCUE'')
   \<and> (\<forall>w. \<exists>hw. ParseHardwareOutput (out ''root'' (wrapBash detectHardwareCmd) w) = Inr hw \<and> wipeable X h hw)
   \<and> (\<forall>w. trimSpace (out ''core'' flatcarSentinelCmd w) = ''READY'')
   \<and> (\<forall>a w. fst (xTalosConn X a w) = None) \<and> (\<forall>a d w. fst (xTalosApply X a d w) = None))"

abbreviation flatcarConfigFor ::
    "'w ext \<Rightarrow> HetznerRobotCluster \<Rightarrow> HetznerRobotHost \<Rightarrow> string \<Rightarrow> string \<Rightarrow> string \<Rightarrow> string \<Rightarrow> string res" where
  "flatcarConfigFor X hrc h d mac pub gw \<equiv> injectFlatcarConfig X d (providerIDFor (ServerID (hostSpec h)))
     (if vlanConfig (hrcSpec hrc) = None then [] else InternalIP (hostSpec h)) (ServerIPv6Net (hostSpec h)) mac
     (vlanConfig (hrcSpec hrc)) pub (ServerIP (hostSpec h)) gw"

text \<open>The bootstrap data a secret may hold.\<close>

definition bootData :: "'w ext \<Rightarrow> string \<Rightarrow> bool" where
  "bootData X d \<longleftrightarrow> (\<exists>k w s. fst (xGetSecret X k w) = Inr s \<and> s ''value'' = Some d)"

definition configBuilds :: "'w ext \<Rightarrow> HetznerRobotCluster \<Rightarrow> HetznerRobotHost \<Rightarrow> bool \<Rightarrow> bool" where
  "configBuilds X hrc h fc \<longleftrightarrow> (if fc
     then \<forall>d mac pub gw. bootData X d \<and> mac \<noteq> [] \<and> gw \<noteq> [] \<longrightarrow> (\<exists>c. flatcarConfigFor X hrc h d mac pub gw = Returned c)
     else \<forall>d m. bootData X d \<and> PrimaryMAC (hrmStatus m) \<noteq> [] \<and> GatewayIP (hrmStatus m) \<noteq> [] \<longrightarrow>
       (\<exists>c. buildMachineConfig X m hrc h (ServerID (hostSpec h)) (ServerIP (hostSpec h)) d = Returned c))"

lemma config_built:
  "configBuilds X hrc h False \<Longrightarrow> bootData X d \<Longrightarrow> PrimaryMAC (hrmStatus m) \<noteq> [] \<Longrightarrow> GatewayIP (hrmStatus m) \<noteq> [] \<Longrightarrow>
     \<exists>c. buildMachineConfig X m hrc h (ServerID (hostSpec h)) (ServerIP (hostSpec h)) d = Returned c"
  "configBuilds X hrc h True \<Longrightarrow> bootData X d \<Longrightarrow> mac \<noteq> [] \<Longrightarrow> gw \<noteq> [] \<Longrightarrow>
     \<exists>c. flatcarConfigFor X hrc h d mac pub gw = Returned c"
  unfolding configBuilds_def if_True if_False by blast+

definition cooperative :: "'w ext \<Rightarrow> HetznerRobotCluster \<Rightarrow> Machine \<Rightarrow> HetznerRobotHost \<Rightarrow> int \<Rightarrow> bool \<Rightarrow> bool" where
  "cooperative X hrc machine h t0 fc \<longleftrightarrow>
     disposable h \<and> apiAnswers X machine h t0 \<and> serverAnswers X h \<and> configBuilds X hrc h fc"

fun nextStage :: "bool \<Rightarrow> ProvisioningState \<Rightarrow> ProvisioningState" where
  "nextStage fc StateNone = StateActivatingRescue"
| "nextStage fc StateActivatingRescue = StateInRescue"
| "nextStage fc StateInRescue = StateInstalling"
| "nextStage fc StateInstalling = (if fc then StateBootingFlatcar else StateBootingTalos)"
| "nextStage fc StateBootingTalos = StateApplyingConfig"
| "nextStage fc StateApplyingConfig = StateWaitingForBoot"
| "nextStage fc StateWaitingForBoot = StateProvisioned"
| "nextStage fc StateBootingFlatcar = StateProvisioned"
| "nextStage fc st = st"

fun passesLeft :: "bool \<Rightarrow> ProvisioningState \<Rightarrow> nat" where
  "passesLeft fc StateNone = (if fc then 5 else 7)"
| "passesLeft fc StateActivatingRescue = (if fc then 4 else 6)"
| "passesLeft fc StateInRescue = (if fc then 3 else 5)"
| "passesLeft fc StateInstalling = (if fc then 2 else 4)"
| "passesLeft fc StateBootingTalos = 3"
| "passesLeft fc StateApplyingConfig = 2"
| "passesLeft fc StateWaitingForBoot = 1"
| "passesLeft fc StateBootingFlatcar = 1"
| "passesLeft fc st = 0"

definition underway :: "HetznerRobotHost \<Rightarrow> int \<Rightarrow> HetznerRobotMachine \<Rightarrow> bool" where
  "underway h t0 m \<longleftrightarrow> DeletionTimestamp (hrmMeta m) = None \<and> hasFinalizer (hrmMeta m) \<and> ownedBy m h
   \<and> HostRef (hrmStatus m) \<noteq> [] \<and> RetryCount (hrmStatus m) = 0
   \<and> (\<forall>t. ProvisionStarted (hrmStatus m) = Some t \<longrightarrow> t0 \<le> t \<and> t \<le> t0 + provisionTimeout)
   \<and> (provState (hrmStatus m) = StateNone \<longrightarrow> LastResetTime (hrmStatus m) = None)
   \<and> (provState (hrmStatus m) \<in> {StateInstalling, StateBootingTalos, StateApplyingConfig} \<longrightarrow>
        PrimaryMAC (hrmStatus m) \<noteq> [] \<and> GatewayIP (hrmStatus m) \<noteq> [])
   \<and> (provState (hrmStatus m) \<in> {StateBootingTalos, StateApplyingConfig} \<longrightarrow> \<not> isFlatcar m)
   \<and> provState (hrmStatus m) \<notin> {StateDeleting, StateError} \<and> (\<forall>t. provState (hrmStatus m) \<noteq> StateOther t)"

definition advanced :: "HetznerRobotHost \<Rightarrow> int \<Rightarrow> HetznerRobotMachine \<Rightarrow> HetznerRobotMachine \<Rightarrow> bool" where
  "advanced h t0 m m' \<longleftrightarrow> underway h t0 m' \<and> isFlatcar m' = isFlatcar m
     \<and> provState (hrmStatus m') = nextStage (isFlatcar m) (provState (hrmStatus m))
     \<and> (provState (hrmStatus m') = StateProvisioned \<longrightarrow> Ready (hrmStatus m') \<and> readyMark (hrmStatus m') = Some MarkTrue)"

definition reached :: "HetznerRobotHost \<Rightarrow> int \<Rightarrow> HetznerRobotMachine \<Rightarrow> Result res \<Rightarrow> HetznerRobotMachine \<Rightarrow> bool" where
  "reached h t0 m r m' \<longleftrightarrow> (\<exists>x. r = Returned x) \<and> advanced h t0 m m'"

section \<open>The calls\<close>

lemma answered_secrets:
  assumes "apiAnswers X machine h t0"
  shows "answered (getBootstrapData X machine) (\<lambda>r. \<exists>d. r = Inr d \<and> bootData X d)" and "answered (buildRobotClient X hrc) (\<lambda>r. \<exists>c. r = Inr c)"
    and "answered (getSSHPrivateKey X hrc) (\<lambda>r. \<exists>d. r = Inr d)" and "answered (getSSHKeyFingerprint X hrc) (\<lambda>r. \<exists>d. r = Inr d)"
proof -
  have sec: "answered (silent (xGetSecret X k)) (\<lambda>r. \<exists>s d. r = Inr s \<and> s ''value'' = Some d \<and> bootData X d \<and> s ''ssh-privatekey'' \<noteq> None)" for k
  proof (rule answered_calls(6))
    fix w
    from assms have "\<exists>s. fst (xGetSecret X k w) = Inr s \<and> s ''value'' \<noteq> None \<and> s ''ssh-privatekey'' \<noteq> None"
      unfolding apiAnswers_def by blast
    then obtain s d where "fst (xGetSecret X k w) = Inr s" "s ''value'' = Some d" "s ''ssh-privatekey'' \<noteq> None" by blast
    moreover from this have "bootData X d" unfolding bootData_def by blast
    ultimately show "\<exists>s d. fst (xGetSecret X k w) = Inr s \<and> s ''value'' = Some d \<and> bootData X d \<and> s ''ssh-privatekey'' \<noteq> None" by blast
  qed
  show "answered (getBootstrapData X machine) (\<lambda>r. \<exists>d. r = Inr d \<and> bootData X d)"
    using assms unfolding getBootstrapData_def apiAnswers_def
    by (auto split: option.split intro!: answered_bind [OF sec] answered_ret)
  show "answered (buildRobotClient X hrc) (\<lambda>r. \<exists>c. r = Inr c)"
    unfolding buildRobotClient_def NewFromCluster_def Let_def
    by (rule answered_bind [OF sec]) (auto intro: answered_ret)
  show "answered (getSSHPrivateKey X hrc) (\<lambda>r. \<exists>d. r = Inr d)"
    unfolding getSSHPrivateKey_def Let_def
    by (rule answered_bind [OF sec]) (auto intro!: answered_ret split: option.split)
  show "answered (getSSHKeyFingerprint X hrc) (\<lambda>r. \<exists>d. r = Inr d)"
    unfolding getSSHKeyFingerprint_def
    by (rule answered_bind [OF sec]) (auto intro: answered_ret)
qed

lemma answered_robot:
  assumes "apiAnswers X machine h t0"
  shows "answered (ActivateRescue X rc sid fp) (\<lambda>r. \<exists>i. r = Inr i)" and "answered (ResetServer X rc sid rt) (\<lambda>r. r = None)"
proof -
  have post: "answered (robotPost X rc path form) (\<lambda>r. \<exists>b. r = Inr b \<and> xAnyJSON X b = None \<and> (\<exists>i. xRescueJSON X b = Inr i))" for path form
    unfolding robotPost_def
  proof (rule answered_bind [OF answered_calls(2)])
    show "\<exists>code body. fst (xHttp X (robotAuth rc) POST (baseURL rc @ path) form w) = HttpResponse code body \<and> code < 400
        \<and> xAnyJSON X body = None \<and> (\<exists>i. xRescueJSON X body = Inr i)" for w
      using assms unfolding apiAnswers_def by blast
  qed (auto intro!: answered_ret)
  show "answered (ActivateRescue X rc sid fp) (\<lambda>r. \<exists>i. r = Inr i)"
    unfolding ActivateRescue_def by (rule answered_bind [OF post]) (auto intro: answered_ret)
  show "answered (ResetServer X rc sid rt) (\<lambda>r. r = None)"
    unfolding ResetServer_def by (rule answered_bind [OF post]) (auto intro: answered_ret)
qed

lemma answered_probes:
  assumes "serverAnswers X h"
  shows "answered (IsReachable X ip) (\<lambda>r. r)" and "answered (IsUp X ip) (\<lambda>r. r)"
    and "answered (IsInMaintenanceMode X ip) (\<lambda>r. r)" and "answered (ApplyConfig X ip d) (\<lambda>r. r = None)"
    and "answered (IsFlatcarUp X ip k) (\<lambda>r. r)"
    and "answered (Connect X (NewClient ip k)) (\<lambda>r. \<exists>c. r = Inr c \<and> clientIP c = ip \<and> clientConnected c)"
proof -
  have dial: "answered (tcpDial X a) (\<lambda>r. r = None)" for a
    using assms by (intro answered_calls) (simp add: serverAnswers_def Let_def)
  have shake: "answered (silent (xHandshake X us a k)) (\<lambda>r. r = None)" for us a k
    using assms by (intro answered_calls) (simp add: serverAnswers_def Let_def)
  have key: "xParseKey X k = None" for k using assms by (simp add: serverAnswers_def Let_def)
  have conn: "answered (silent (xTalosConn X ip)) (\<lambda>r. r = None)" "answered (talosApply X ip dt) (\<lambda>r. r = None)" for dt
    using assms by (auto intro!: answered_calls simp: serverAnswers_def Let_def)
  show "answered (IsReachable X ip) (\<lambda>r. r)"
    unfolding IsReachable_def isReachableAddr_def by (rule answered_bind [OF dial]) (simp add: answered_ret)
  show "answered (IsUp X ip) (\<lambda>r. r)"
    unfolding IsUp_def tcpReachable_def by (rule answered_bind [OF dial]) (simp add: answered_ret)
  show "answered (IsInMaintenanceMode X ip) (\<lambda>r. r)"
    unfolding IsInMaintenanceMode_def
    by (rule answered_bind [OF conn(1)]) (auto intro!: answered_bind [OF conn(2)] answered_ret simp: maintenanceAnswer_def)
  show "answered (ApplyConfig X ip d) (\<lambda>r. r = None)"
    unfolding ApplyConfig_def
    by (rule answered_bind [OF conn(1)]) (auto intro!: answered_bind [OF conn(2)] answered_ret)
  show "answered (IsFlatcarUp X ip k) (\<lambda>r. r)"
    unfolding IsFlatcarUp_def key Let_def option.case
    by (rule answered_bind [OF dial]) (auto intro!: answered_bind [OF shake] answered_ret)
  show "answered (Connect X (NewClient ip k)) (\<lambda>r. \<exists>c. r = Inr c \<and> clientIP c = ip \<and> clientConnected c)"
    unfolding Connect_def key Let_def option.case
    by (rule answered_bind [OF dial]) (auto intro!: answered_bind [OF shake] answered_ret simp: NewClient_def)
qed

lemma answered_RunCmd:
  assumes "serverAnswers X h" and "clientIP c = ServerIP (hostSpec h)" and "clientConnected c"
  shows "answered (RunCmd X c cmd) (\<lambda>r. \<exists>w. r = (fst (fst (xExec X ''root'' (ServerIP (hostSpec h)) (wrapBash cmd) w)), None))"
proof -
  have "answered (silent (xSession X us a)) (\<lambda>r. r = None)" for us a
    using assms by (intro answered_calls) (simp add: serverAnswers_def Let_def)
  note session = this
  have exec: "answered (sshExec X us (ServerIP (hostSpec h)) cm)
      (\<lambda>r. \<exists>w. r = (fst (fst (xExec X us (ServerIP (hostSpec h)) cm w)), None))" for us cm
    using assms by (intro answered_calls) (auto simp: serverAnswers_def Let_def prod_eq_iff)
  show ?thesis
    using assms(2,3) unfolding RunCmd_def
    by (auto intro!: answered_bind [OF session] answered_bind [OF exec] answered_ret) (rule exI, rule refl)
qed

lemma ParseHardware_found: "ParseHardwareOutput out = Inr hw \<Longrightarrow> hwPrimaryMAC hw \<noteq> [] \<and> hwGatewayIP hw \<noteq> []"
  by (auto simp: ParseHardwareOutput_def Let_def split: if_splits)

lemma answered_rescue:
  assumes "serverAnswers X h" and "clientIP c = ServerIP (hostSpec h)" and "clientConnected c"
  shows "answered (RunCmd X c rescueCheckCmd) (\<lambda>r. trimSpace (fst r) = ''RESCUE'')"
    and "answered (DetectHardware X c) (\<lambda>r. \<exists>hw. r = Inr hw \<and> hwPrimaryMAC hw \<noteq> [] \<and> hwGatewayIP hw \<noteq> [] \<and> wipeable X h hw)"
    and "wipeable X h hw \<Longrightarrow> answered (WipeAllDisks X c (NVMeDisks hw)) (\<lambda>r. snd r = None)"
    and "answered (InstallTalos X c u sch v d im) (\<lambda>r. r = None)"
    and "answered (InstallFlatcar X c ch d im ign) (\<lambda>r. r = None)"
proof -
  note run = answered_RunCmd [OF assms]
  note laws = assms(1) [unfolded serverAnswers_def Let_def]
  show "answered (RunCmd X c rescueCheckCmd) (\<lambda>r. trimSpace (fst r) = ''RESCUE'')"
    by (rule answered_mono [OF run]) (use laws in auto)
  show "answered (DetectHardware X c) (\<lambda>r. \<exists>hw. r = Inr hw \<and> hwPrimaryMAC hw \<noteq> [] \<and> hwGatewayIP hw \<noteq> [] \<and> wipeable X h hw)"
    unfolding DetectHardware_def
  proof (rule answered_bind [OF run], goal_cases)
    case (1 r)
    then obtain w where r: "r = (fst (fst (xExec X ''root'' (ServerIP (hostSpec h)) (wrapBash detectHardwareCmd) w)), None)" by blast
    from laws have "\<exists>hw. ParseHardwareOutput (fst r) = Inr hw \<and> wipeable X h hw"
      unfolding r fst_conv by simp
    then obtain hw where "ParseHardwareOutput (fst r) = Inr hw" "wipeable X h hw" by blast
    then show ?case using ParseHardware_found [of _ hw] by (auto simp: r intro!: answered_ret)
  qed
  show "answered (WipeAllDisks X c (NVMeDisks hw)) (\<lambda>r. snd r = None)" if "wipeable X h hw"
    unfolding WipeAllDisks_def if_not_P [OF that [unfolded wipeable_def, THEN conjunct1]]
  proof (rule answered_bind [OF run], goal_cases)
    case (1 r)
    then obtain w where r: "r = (fst (fst (xExec X ''root'' (ServerIP (hostSpec h)) (wrapBash (wipeCmd (NVMeDisks hw))) w)), None)"
      by blast
    have "set (NVMeDisks hw) \<subseteq> set (wipedDisks (fst r))" using that unfolding wipeable_def r by simp
    then have "filter (\<lambda>d. d \<notin> set (wipedDisks (fst r))) (NVMeDisks hw) = []" and "snd r = None"
      by (auto simp: filter_empty_conv r)
    then show ?case by (cases r) (simp add: answered_ret)
  qed
  show "answered (InstallTalos X c u sch v d im) (\<lambda>r. r = None)"
    unfolding InstallTalos_def by (rule answered_bind [OF run]) (auto intro: answered_ret)
  have ok: "answered (runOrFail X c msg cmd kk) (\<lambda>r. r = None)" if "answered kk (\<lambda>r. r = None)" for msg cmd kk
    unfolding runOrFail_def by (rule answered_bind [OF run]) (use that in auto)
  show "answered (InstallFlatcar X c ch d im ign) (\<lambda>r. r = None)"
    unfolding InstallFlatcar_def Let_def by (auto intro!: ok answered_ret)
qed

lemma answered_rescue_mode:
  assumes "serverAnswers X h"
  shows "answered (IsRescueMode X (ServerIP (hostSpec h)) k) (\<lambda>r. r = Inr True)"
    and "answered (CheckFlatcarBootstrapComplete X (ServerIP (hostSpec h)) k) (\<lambda>r. r = Inr True)"
proof -
  note laws = assms [unfolded serverAnswers_def Let_def]
  show "answered (IsRescueMode X (ServerIP (hostSpec h)) k) (\<lambda>r. r = Inr True)"
    unfolding IsRescueMode_def
  proof (rule answered_bind [OF answered_probes(6) [OF assms]], goal_cases)
    case (1 r)
    then obtain c where c: "r = Inr c" "clientIP c = ServerIP (hostSpec h)" "clientConnected c" by blast
    show ?case
      unfolding c(1) sum.case
      by (rule answered_bind [OF answered_RunCmd [OF assms c(2,3)]]) (use laws in \<open>auto intro!: answered_ret\<close>)
  qed
  have "answered (tcpDial X a) (\<lambda>r. r = None)" "answered (silent (xHandshake X us a kk)) (\<lambda>r. r = None)"
    "answered (silent (xSession X us a)) (\<lambda>r. r = None)"
    "answered (sshExec X ''core'' (ServerIP (hostSpec h)) flatcarSentinelCmd) (\<lambda>r. snd r = None \<and> trimSpace (fst r) = ''READY'')" for us a kk
    using laws by (auto intro!: answered_calls)
  note calls = this
  have key: "xParseKey X k = None" using laws by simp
  show "answered (CheckFlatcarBootstrapComplete X (ServerIP (hostSpec h)) k) (\<lambda>r. r = Inr True)"
    unfolding CheckFlatcarBootstrapComplete_def key Let_def option.case
    by (rule answered_bind [OF calls(1)])
      (auto intro!: answered_bind [OF calls(2)] answered_bind [OF calls(3)] answered_bind [OF calls(4)] answered_ret)
qed

section \<open>The states\<close>

lemma disk_resolved: "cfg \<noteq> [] \<Longrightarrow> \<exists>d. ResolveInstallDiskFromInfo hw cfg = Inr d"
  by (auto simp: ResolveInstallDiskFromInfo_def Let_def split: list.split)

lemma underway_cong:
  assumes "underway h t0 m" and "hrmMeta m' = hrmMeta m" and "isFlatcar m' = isFlatcar m" and "HostRef (hrmStatus m') = HostRef (hrmStatus m)"
    and "RetryCount (hrmStatus m') = RetryCount (hrmStatus m)" and "ProvisionStarted (hrmStatus m') = ProvisionStarted (hrmStatus m)"
    and "provState (hrmStatus m') = nextStage (isFlatcar m) (provState (hrmStatus m))"
    and "provState (hrmStatus m') \<in> {StateInstalling, StateBootingTalos, StateApplyingConfig} \<Longrightarrow>
        PrimaryMAC (hrmStatus m') \<noteq> [] \<and> GatewayIP (hrmStatus m') \<noteq> []"
  shows "underway h t0 m'"
  using assms ownedBy_cong [of m' m] unfolding underway_def
  by (cases "provState (hrmStatus m)") auto

lemma wp_arm_coop:
  assumes "apiAnswers X machine h t0" and "underway h t0 m" and "provState (hrmStatus m) = StateNone"
  shows "wp (stateActivateRescue X hrc rc sid ip) m (\<lambda>n. reached h t0 m)"
proof -
  have "LastResetTime (hrmStatus m) = None" using assms(2,3) by (simp add: underway_def)
  moreover have "advanced h t0 m (modStatus (\<lambda>st. st\<lparr>LastResetTime := Some now, provState := StateActivatingRescue\<rparr>) m)" for now
    using assms(2,3) by (auto simp: advanced_def intro!: underway_cong [of h t0 m])
  ultimately show ?thesis
    unfolding stateActivateRescue_def armRescueAndReset_def wp_bind_getObj
    apply (simp only: option.case)
    apply (rule wp_bind_answered [OF answered_secrets(4) [OF assms(1)]], elim exE, simp only: sum.case)
    apply (rule wp_bind_answered [OF answered_robot(1) [OF assms(1)]], elim exE, simp only: sum.case)
    apply (rule wp_bind_answered [OF answered_robot(2) [OF assms(1)]], simp only: option.case)
    apply (rule wp_bind_answered [OF answered_any [OF keeps_calls(1)]], simp add: reached_def)
    done
qed

lemma wp_checkRescue_coop:
  assumes "apiAnswers X machine h t0" and "serverAnswers X h" and "underway h t0 m" and "provState (hrmStatus m) = StateActivatingRescue"
  shows "wp (stateCheckRescueActive X hrc rc sid (ServerIP (hostSpec h))) m (\<lambda>n. reached h t0 m)"
proof -
  have adv: "advanced h t0 m (setState StateInRescue m)"
    using assms(3,4) by (auto simp: advanced_def intro!: underway_cong [of h t0 m])
  show ?thesis
    unfolding stateCheckRescueActive_def
    apply (rule wp_bind_answered [OF answered_probes(1) [OF assms(2)]], simp)
    apply (rule wp_bind_answered [OF answered_secrets(3) [OF assms(1)]], elim exE, simp)
    apply (rule wp_bind_answered [OF answered_probes(6) [OF assms(2)]], elim exE conjE, simp)
    apply (rule wp_bind_answered [OF answered_rescue(1) [OF assms(2)]], assumption, assumption, simp add: adv reached_def)
    done
qed

lemma wp_inRescue_coop:
  assumes "apiAnswers X machine h t0" and "serverAnswers X h"
    and "\<And>c n. clientIP c = ServerIP (hostSpec h) \<Longrightarrow> clientConnected c \<Longrightarrow> wp (k c) m (\<lambda>n. Q)"
  shows "wp (inVerifiedRescue X hrc rc sid (ServerIP (hostSpec h)) k) m (\<lambda>n. Q)"
  unfolding inVerifiedRescue_def
  apply (rule wp_bind_answered [OF answered_probes(1) [OF assms(2)]], simp)
  apply (rule wp_bind_answered [OF answered_secrets(3) [OF assms(1)]], elim exE, simp)
  apply (rule wp_bind_answered [OF answered_rescue_mode(1) [OF assms(2)]], simp)
  apply (rule wp_bind_answered [OF answered_probes(6) [OF assms(2)]], elim exE conjE, simp add: assms(3))
  done

text \<open>What detecting and wiping leaves of the machine.\<close>

definition detected :: "HetznerRobotMachine \<Rightarrow> HetznerRobotMachine \<Rightarrow> bool" where
  "detected m m' \<longleftrightarrow> (\<exists>mac gw d. mac \<noteq> [] \<and> gw \<noteq> []
     \<and> m' = modStatus (\<lambda>st. st\<lparr>PrimaryMAC := mac, GatewayIP := gw, ResolvedInstallDisk := d\<rparr>) m)"

lemma wp_onWiped_coop:
  assumes "serverAnswers X h" and "clientIP c = ServerIP (hostSpec h)" and "clientConnected c"
    and "\<And>hw d m'. detected m m' \<Longrightarrow> hwPrimaryMAC hw \<noteq> [] \<Longrightarrow> hwGatewayIP hw \<noteq> [] \<Longrightarrow> wp (k hw d) m' (\<lambda>n. Q)"
  shows "wp (onWipedDisks X c (ServerIP (hostSpec h)) k) m (\<lambda>n. Q)"
  unfolding onWipedDisks_def
proof (rule wp_bind_answered [OF answered_rescue(2) [OF assms(1-3)]], elim exE conjE, goal_cases)
  case (1 n r hw)
  let ?m1 = "modStatus (\<lambda>st. st\<lparr>PrimaryMAC := hwPrimaryMAC hw, GatewayIP := hwGatewayIP hw\<rparr>) m"
  have det: "detected m (modStatus (ResolvedInstallDisk_update (\<lambda>_. d)) ?m1)" for d
    unfolding detected_def by (rule exI [of _ "hwPrimaryMAC hw"], rule exI [of _ "hwGatewayIP hw"], rule exI [of _ d])
      (simp add: 1 modStatus_def)
  have "(if InstallDisk (hrmSpec m) = [] then ''/dev/nvme0n1'' else InstallDisk (hrmSpec m)) \<noteq> []" by simp
  then obtain d where d: "ResolveInstallDiskFromInfo hw
      (if InstallDisk (hrmSpec m) = [] then ''/dev/nvme0n1'' else InstallDisk (hrmSpec m)) = Inr d"
    by (rule disk_resolved [THEN exE])
  have disks: "NVMeDisks hw \<noteq> []" using 1 by (simp add: wipeable_def)
  show ?case
    unfolding 1(1) sum.case wp_bind_modObj wp_bind_getObj
    apply (rule wp_bind_answered [OF answered_any], rule keeps_intro)
    apply (simp only: modStatus_simps d Let_def sum.case if_not_P [OF disks] wp_bind_modObj)
    apply (rule wp_bind_answered [OF answered_rescue(3) [OF assms(1-3)]], rule 1)
    apply (simp add: case_prod_beta assms(4) [OF det] 1)
    done
qed

lemma installing_advanced:
  assumes "underway h t0 m" and "provState (hrmStatus m) = StateInRescue" and "detected m m'"
  shows "advanced h t0 m (setState StateInstalling m')"
    and "advanced h t0 m (setState StateInstalling (m'\<lparr>hrmSpec := (hrmSpec m')\<lparr>ProviderID := p\<rparr>\<rparr>))"
proof -
  obtain mac gw d where "mac \<noteq> []" "gw \<noteq> []"
    and m': "m' = modStatus (\<lambda>st. st\<lparr>PrimaryMAC := mac, GatewayIP := gw, ResolvedInstallDisk := d\<rparr>) m"
    using assms(3) unfolding detected_def by blast
  then show "advanced h t0 m (setState StateInstalling m')"
    "advanced h t0 m (setState StateInstalling (m'\<lparr>hrmSpec := (hrmSpec m')\<lparr>ProviderID := p\<rparr>\<rparr>))"
    using assms(1,2) unfolding advanced_def m' by (auto simp: isFlatcar_def intro!: underway_cong [of h t0 m])
qed

lemma wp_installTalos_coop:
  assumes "apiAnswers X machine h t0" and "serverAnswers X h" and "underway h t0 m" and "provState (hrmStatus m) = StateInRescue"
  shows "wp (stateInstallTalos X hrc rc sid (ServerIP (hostSpec h))) m (\<lambda>n. reached h t0 m)"
  unfolding stateInstallTalos_def
  apply (rule wp_inRescue_coop [OF assms(1,2)])
  apply (rule wp_onWiped_coop [OF assms(2)], assumption+)
  apply (simp only: wp_bind_getObj Let_def)
  apply (rule wp_bind_answered [OF answered_rescue(4) [OF assms(2)]], assumption, assumption, simp only: option.case)
  apply (rule wp_bind_keeps [OF keeps_ssh(2)], rule wp_bind_keeps [OF keeps_clients(3)], rule wp_bind_keeps [OF keeps_ssh(2)])
  apply (simp add: reached_def installing_advanced [OF assms(3,4)])
  done

lemma wp_installFlatcar_coop:
  assumes "apiAnswers X machine h t0" and "serverAnswers X h" and "configBuilds X hrc h True"
    and "underway h t0 m" and "provState (hrmStatus m) = StateInRescue"
  shows "wp (stateInstallFlatcar X machine hrc h rc (ServerID (hostSpec h)) (ServerIP (hostSpec h))) m (\<lambda>n. reached h t0 m)"
proof -
  have key: "answered (getSSHPublicKey X hrc) (\<lambda>r. \<exists>p. r = Inr p)"
    unfolding getSSHPublicKey_def
    by (rule answered_bind [OF answered_secrets(3) [OF assms(1)]])
      (use assms(2) in \<open>auto simp: serverAnswers_def Let_def intro!: answered_ret\<close>)
  have stuck: G if "wrapR msg (flatcarConfigFor X hrc h d (hwPrimaryMAC hw) pub (hwGatewayIP hw)) = r"
      "bootData X d" "hwPrimaryMAC hw \<noteq> []" "hwGatewayIP hw \<noteq> []" "r = Panicked \<or> (\<exists>e. r = Failed e)" for msg d pub hw r G
    using config_built(2) [OF assms(3) that(2-4), of pub] that(1,5) by (auto simp: wrapR_def)
  show ?thesis
    unfolding stateInstallFlatcar_def
    apply (rule wp_bind_answered [OF answered_secrets(1) [OF assms(1)]], elim exE conjE, simp only: sum.case)
    apply (rule wp_bind_answered [OF key], elim exE, simp only: sum.case)
    apply (rule wp_inRescue_coop [OF assms(1,2)])
    apply (rule wp_onWiped_coop [OF assms(2)], assumption+)
    apply (simp only: wp_bind_getObj Let_def)
    apply (rule wp_case_res, erule (3) stuck, simp, erule (3) stuck, simp)
    apply (rule wp_bind_answered [OF answered_rescue(5) [OF assms(2)]], assumption, assumption, simp only: option.case)
    apply (rule wp_bind_keeps [OF keeps_ssh(2)], rule wp_bind_keeps [OF keeps_clients(3)])
    apply (simp only: wp_bind_modObj, rule wp_bind_keeps [OF keeps_ssh(2)])
    apply (simp add: reached_def installing_advanced [OF assms(4,5)])
    done
qed

lemma advanced_setState:
  assumes "underway h t0 m" and "provState (hrmStatus m) = StateInstalling \<or> provState (hrmStatus m) = StateBootingTalos"
  shows "advanced h t0 m (setState (nextStage (isFlatcar m) (provState (hrmStatus m))) m)"
proof -
  have "underway h t0 (setState (nextStage (isFlatcar m) (provState (hrmStatus m))) m)"
    by (rule underway_cong [OF assms(1)]) (use assms in \<open>auto simp: underway_def\<close>)
  then show ?thesis using assms(2) by (auto simp: advanced_def split: if_splits)
qed

lemma advanced_markProvisioned:
  assumes "underway h t0 m" and "provState (hrmStatus m) = StateWaitingForBoot \<or> provState (hrmStatus m) = StateBootingFlatcar"
  shows "advanced h t0 m (markProvisioned m)"
proof -
  have "underway h t0 (markProvisioned m)"
    by (rule underway_cong [OF assms(1)]) (use assms(2) in \<open>auto simp: markProvisioned_def\<close>)
  then show ?thesis using assms(2) by (auto simp: advanced_def isFlatcar_def markProvisioned_def)
qed

lemma wp_late_coop:
  assumes "apiAnswers X machine h t0" and "serverAnswers X h" and "configBuilds X hrc h (isFlatcar m)" and "underway h t0 m"
  shows "provState (hrmStatus m) = StateInstalling \<Longrightarrow> \<not> isFlatcar m \<Longrightarrow>
      wp (stateWaitInstall X hrc rc sid ip) m (\<lambda>n. reached h t0 m)"
    and "provState (hrmStatus m) = StateInstalling \<Longrightarrow> isFlatcar m \<Longrightarrow>
      wp (stateWaitFlatcarInstall X hrc ip) m (\<lambda>n. reached h t0 m)"
    and "provState (hrmStatus m) = StateBootingTalos \<Longrightarrow>
      wp (stateWaitTalosMaintenanceMode X machine hrc ip) m (\<lambda>n. reached h t0 m)"
    and "provState (hrmStatus m) = StateApplyingConfig \<Longrightarrow> \<not> isFlatcar m \<Longrightarrow>
      wp (stateApplyConfig X machine hrc h (ServerID (hostSpec h)) (ServerIP (hostSpec h))) m (\<lambda>n. reached h t0 m)"
    and "provState (hrmStatus m) = StateWaitingForBoot \<Longrightarrow> wp (stateWaitForBoot X machine ip) m (\<lambda>n. reached h t0 m)"
    and "provState (hrmStatus m) = StateBootingFlatcar \<Longrightarrow>
      wp (stateWaitFlatcarBoot X machine hrc (ServerIP (hostSpec h))) m (\<lambda>n. reached h t0 m)"
proof -
  note probe = answered_probes [OF assms(2)] and secret = answered_secrets [OF assms(1)]
  have next': "reached h t0 m (Returned x) (setState st m)"
    if "st = nextStage (isFlatcar m) (provState (hrmStatus m))" "provState (hrmStatus m) = StateInstalling \<or> provState (hrmStatus m) = StateBootingTalos" for x st
    unfolding reached_def using advanced_setState [OF assms(4) that(2)] that(1) by simp
  have done': "reached h t0 m (Returned x) (markProvisioned m)"
    if "provState (hrmStatus m) = StateWaitingForBoot \<or> provState (hrmStatus m) = StateBootingFlatcar" for x
    unfolding reached_def using advanced_markProvisioned [OF assms(4) that] by simp
  show "wp (stateWaitInstall X hrc rc sid ip) m (\<lambda>n. reached h t0 m)" if "provState (hrmStatus m) = StateInstalling" "\<not> isFlatcar m"
    unfolding stateWaitInstall_def by (rule wp_bind_answered [OF probe(3)]) (use that in \<open>simp add: next'\<close>)
  show "wp (stateWaitFlatcarInstall X hrc ip) m (\<lambda>n. reached h t0 m)" if "provState (hrmStatus m) = StateInstalling" "isFlatcar m"
    unfolding stateWaitFlatcarInstall_def
    by (rule wp_bind_answered [OF secret(3)], elim exE, simp only: sum.case, rule wp_bind_answered [OF probe(5)])
      (use that in \<open>simp add: next'\<close>)
  show "wp (stateWaitTalosMaintenanceMode X machine hrc ip) m (\<lambda>n. reached h t0 m)" if "provState (hrmStatus m) = StateBootingTalos"
  proof -
    have calls: "answered (silent (xNewHelper X)) (\<lambda>r. r = None)" "answered (patchHRC X c) (\<lambda>r. r = None)" for c
      using assms(1) by (auto intro!: answered_calls simp: apiAnswers_def)
    show ?thesis
      unfolding stateWaitTalosMaintenanceMode_def
      apply (rule wp_bind_answered [OF probe(3)], simp only: not_True_eq_False simp_thms if_False)
      apply (intro wp_if wp_bind_answered [OF calls(1)])
       apply (simp only: option.case)
       apply (rule wp_bind_answered [OF calls(2)])
       apply (use that in \<open>simp_all add: next'\<close>)
      done
  qed
  show "wp (stateApplyConfig X machine hrc h (ServerID (hostSpec h)) (ServerIP (hostSpec h))) m (\<lambda>n. reached h t0 m)"
    if "provState (hrmStatus m) = StateApplyingConfig" "\<not> isFlatcar m"
  proof -
    have "PrimaryMAC (hrmStatus m) \<noteq> []" "GatewayIP (hrmStatus m) \<noteq> []" using assms(4) that by (auto simp: underway_def)
    moreover have "configBuilds X hrc h False" using assms(3) that(2) by simp
    ultimately have builds: "bootData X d \<Longrightarrow> \<exists>c. buildMachineConfig X m hrc h (ServerID (hostSpec h)) (ServerIP (hostSpec h)) d = Returned c" for d
      by (intro config_built)
    have adv: "advanced h t0 m (setState StateWaitingForBoot (m\<lparr>hrmSpec := (hrmSpec m)\<lparr>ProviderID := p\<rparr>\<rparr>))" for p
      using assms(4) that by (auto simp: advanced_def intro!: underway_cong [of h t0 m])
    show ?thesis
      unfolding stateApplyConfig_def
    proof (rule wp_bind_answered [OF secret(1)], elim exE conjE, goal_cases)
      case (1 n r d)
      obtain c where c: "buildMachineConfig X m hrc h (ServerID (hostSpec h)) (ServerIP (hostSpec h)) d = Returned c"
        using builds 1 by blast
      show ?case
        unfolding 1(1) sum.case wp_bind_getObj c res.case
        by (rule wp_bind_answered [OF probe(4)]) (simp add: reached_def adv)
    qed
  qed
  show "wp (stateWaitForBoot X machine ip) m (\<lambda>n. reached h t0 m)" if "provState (hrmStatus m) = StateWaitingForBoot"
    unfolding stateWaitForBoot_def by (rule wp_bind_answered [OF probe(2)]) (use that in \<open>simp add: done'\<close>)
  show "wp (stateWaitFlatcarBoot X machine hrc (ServerIP (hostSpec h))) m (\<lambda>n. reached h t0 m)"
    if "provState (hrmStatus m) = StateBootingFlatcar"
    unfolding stateWaitFlatcarBoot_def
    by (rule wp_bind_answered [OF secret(3)], elim exE, simp only: sum.case,
        rule wp_bind_answered [OF answered_rescue_mode(2) [OF assms(2)]]) (use that in \<open>simp add: done'\<close>)
qed

section \<open>The passes\<close>

lemma wp_runState_coop:
  assumes "cooperative X hrc machine h t0 (isFlatcar m)" and "underway h t0 m" and "provState (hrmStatus m) \<noteq> StateProvisioned"
  shows "wp (runState X hrc machine h rc) m (\<lambda>n. reached h t0 m)"
proof -
  from assms(1) have api: "apiAnswers X machine h t0" and srv: "serverAnswers X h" and cfg: "configBuilds X hrc h (isFlatcar m)"
    by (simp_all add: cooperative_def)
  note late = wp_late_coop [OF api srv cfg assms(2)]
  show ?thesis
    unfolding runState_def wp_bind_getObj Let_def
  proof (cases "provState (hrmStatus m)", goal_cases)
    case 1
    then show ?case using wp_arm_coop [OF api assms(2) 1] by simp
  next
    case 2
    then show ?case using wp_checkRescue_coop [OF api srv assms(2) 2] by simp
  next
    case 3
    then show ?case
      using wp_installTalos_coop [OF api srv assms(2) 3] wp_installFlatcar_coop [OF api srv _ assms(2) 3] cfg
      by (cases "isFlatcar m") simp_all
  qed (use assms(2,3) late in \<open>simp_all add: underway_def\<close>)
qed

lemma authorize_disposable: "disposable h \<Longrightarrow> authorizeDestructiveProvisioningFor X (Some hrm) mo (Some h) = ret None"
  by (simp add: disposable_def authorizeDestructiveProvisioningFor_def authorizeDestructiveProvisioning_def)

lemma wp_provisionOn_coop:
  assumes "cooperative X hrc machine h t0 (isFlatcar m)" and "underway h t0 m" and "provState (hrmStatus m) \<noteq> StateProvisioned"
  shows "wp (provisionOn X hrc machine h) m (\<lambda>n. reached h t0 m)"
proof -
  from assms(1) have disp: "disposable h" and api: "apiAnswers X machine h t0" by (simp_all add: cooperative_def)
  have gate: "answered (if b then authorizeDestructiveProvisioningFor X (Some m) (Some machine) (Some h) else ret None)
      (\<lambda>r. r = None)" for b
    by (simp add: authorize_disposable [OF disp] answered_ret)
  show ?thesis
    unfolding provisionOn_def wp_bind_getObj
    by (rule wp_bind_answered [OF gate], simp only: option.case,
        rule wp_bind_answered [OF answered_secrets(2) [OF api]], elim exE, simp only: sum.case,
        rule wp_runState_coop [OF assms])
qed

lemma wp_resolve_coop:
  assumes "apiAnswers X machine h t0" and "underway h t0 m"
  shows "wp (resolveHost X) m (\<lambda>n r m'. r = Inr h \<and> m' = m)"
proof -
  have "fst (xGetHost X k w) = Inr h" for k w using assms(1) unfolding apiAnswers_def by blast
  then show ?thesis
    using assms(2) by (auto simp: wp_def underway_def resolve_owned)
qed

lemma onTime: "t0 \<le> started \<Longrightarrow> now \<le> t0 + provisionTimeout \<Longrightarrow> \<not> provisionTimeout < timeSub now started"
  by (auto simp: timeSub_def provisionTimeout_def)

lemma wp_timeout_coop:
  assumes "apiAnswers X machine h t0" and "underway h t0 m"
  shows "wp (checkProvisionTimeout X) m (\<lambda>n r m'. r = False \<and> underway h t0 m' \<and> isFlatcar m' = isFlatcar m
    \<and> provState (hrmStatus m') = provState (hrmStatus m) \<and> RetryCount (hrmStatus m') = 0)"
proof -
  have clock: "answered (timeNow X) (\<lambda>t. t0 \<le> t \<and> t \<le> t0 + provisionTimeout)"
    using assms(1) unfolding apiAnswers_def by (intro answered_calls) blast
  have start: "underway h t0 (modStatus (ProvisionStarted_update (\<lambda>_. Some t)) m)" if "t0 \<le> t" "t \<le> t0 + provisionTimeout" for t
    using assms(2) that ownedBy_cong [of "modStatus (ProvisionStarted_update (\<lambda>_. Some t)) m" m] by (simp add: underway_def)
  show ?thesis
    unfolding checkProvisionTimeout_def wp_bind_getObj
    by (intro wp_if wp_case_option wp_bind_answered [OF clock])
      (use assms(2) start onTime in \<open>auto simp: underway_def\<close>)
qed

lemma wp_backoff_coop: "RetryCount (hrmStatus m) = 0 \<Longrightarrow> wp (checkBackoff X) m (\<lambda>n r m'. r = None \<and> m' = m)"
  unfolding checkBackoff_def wp_bind_getObj by (simp split: option.split)

lemma advanced_succeeded:
  assumes "advanced h t0 m m'"
  shows "advanced h t0 m (succeeded m')"
proof -
  have "underway h t0 m' \<Longrightarrow> underway h t0 (succeeded m')"
    using ownedBy_cong [of "succeeded m'" m'] by (simp add: underway_def succeeded_def)
  then show ?thesis using assms by (auto simp: advanced_def succeeded_def)
qed

lemma advanced_from:
  "advanced h t0 m1 m' \<Longrightarrow> isFlatcar m1 = isFlatcar m \<Longrightarrow> provState (hrmStatus m1) = provState (hrmStatus m) \<Longrightarrow> advanced h t0 m m'"
  by (simp add: advanced_def)

lemma wp_pass_coop:
  assumes "cooperative X hrc machine h t0 (isFlatcar m)" and "underway h t0 m" and "provState (hrmStatus m) \<noteq> StateProvisioned"
  shows "wp (reconcileMachine X hrc machine cluster) m (\<lambda>n. reached h t0 m)"
proof -
  from assms(1) have api: "apiAnswers X machine h t0" by (simp add: cooperative_def)
  have meta: "DeletionTimestamp (hrmMeta m) = None" "hasFinalizer (hrmMeta m)" using assms(2) by (simp_all add: underway_def)
  have normal: "wp (do { r \<leftarrow> reconcileNormal X hrc machine cluster; classify X r }) m1 (\<lambda>n. reached h t0 m)"
    if m1: "underway h t0 m1" "isFlatcar m1 = isFlatcar m" "provState (hrmStatus m1) = provState (hrmStatus m)" for m1
  proof -
    let ?m2 = "modStatus (Addresses_update (\<lambda>_. addressesOf hrc h)) m1"
    have m2: "underway h t0 ?m2" using m1(1) ownedBy_cong [of ?m2 m1] by (simp add: underway_def)
    have coop: "cooperative X hrc machine h t0 (isFlatcar ?m2)" using assms(1) m1(2) by simp
    have run: "wp (reconcileNormal X hrc machine cluster) m1 (\<lambda>n. reached h t0 m)"
      unfolding reconcileNormal_def wp_bind_getObj m1(3) if_not_P [OF assms(3)]
      apply (rule wp_bindI [OF wp_resolve_coop [OF api m1(1)]], simp only: sum.case wp_bind_modObj)
      apply (rule wp_mono [OF wp_provisionOn_coop [OF coop m2]])
       apply (use m1 assms(3) in \<open>auto simp: reached_def elim!: advanced_from\<close>)
      done
    show ?thesis
      by (rule wp_bindI [OF run]) (auto simp: reached_def classify_def advanced_succeeded)
  qed
  show ?thesis
    unfolding reconcileMachine_def wp_bind_getObj
    apply (simp only: meta simp_thms if_False)
    apply (rule wp_bindI [OF wp_timeout_coop [OF api assms(2)]], simp only: if_False)
    apply (rule wp_bindI [OF wp_backoff_coop], simp)
    apply (simp only: option.case)
    apply (rule normal, simp_all)
    done
qed

definition onePass :: "'w ext \<Rightarrow> HetznerRobotCluster \<Rightarrow> Machine \<Rightarrow> Cluster
    \<Rightarrow> ('w, HetznerRobotMachine) rt \<Rightarrow> ('w, HetznerRobotMachine) rt" where
  "onePass X hrc machine cluster s = snd (run_state (reconcileMachine X hrc machine cluster) s)"

lemma passesLeft_next: "st \<noteq> StateProvisioned \<Longrightarrow> passesLeft fc st = Suc k \<Longrightarrow> passesLeft fc (nextStage fc st) = k"
  by (cases st) (auto split: if_splits)

lemma passes_coop:
  assumes "cooperative X hrc machine h t0 fc"
  shows "underway h t0 (obj s) \<Longrightarrow> isFlatcar (obj s) = fc \<Longrightarrow> provState (hrmStatus (obj s)) \<noteq> StateProvisioned \<Longrightarrow>
    passesLeft fc (provState (hrmStatus (obj s))) = Suc k \<Longrightarrow>
    (let m = obj ((onePass X hrc machine cluster ^^ Suc k) s) in
       provState (hrmStatus m) = StateProvisioned \<and> Ready (hrmStatus m) \<and> readyMark (hrmStatus m) = Some MarkTrue)"
proof (induction k arbitrary: s)
  case (0 s)
  have "advanced h t0 (obj s) (obj (onePass X hrc machine cluster s))"
    using wpD(1) [OF wp_pass_coop [OF assms [folded 0(2)] 0(1,3)], of cluster] by (simp add: reached_def onePass_def)
  then show ?case using 0 by (cases "provState (hrmStatus (obj s))") (auto simp: advanced_def Let_def split: if_splits)
next
  case (Suc k s)
  let ?s = "onePass X hrc machine cluster s"
  have adv: "advanced h t0 (obj s) (obj ?s)"
    using wpD(1) [OF wp_pass_coop [OF assms [folded Suc.prems(2)] Suc.prems(1,3)], of cluster] by (simp add: reached_def onePass_def)
  then have left: "passesLeft fc (provState (hrmStatus (obj ?s))) = Suc k"
    using passesLeft_next [OF Suc.prems(3,4)] Suc.prems(2) by (simp add: advanced_def)
  then have "provState (hrmStatus (obj ?s)) \<noteq> StateProvisioned" by auto
  from Suc.IH [OF _ _ this left] adv Suc.prems(2) show ?case by (simp add: advanced_def funpow_Suc_right del: funpow.simps)
qed


text \<open>A world that cooperates with the sample machine.\<close>

definition sampleReport :: string where
  "sampleReport = ''MAC=aa:bb:cc:00:11:22\<newline>GATEWAY=192.0.2.1\<newline>DISK=/dev/nvme0n1\<newline>WIPED=/dev/nvme0n1''"

definition coopExt :: "unit ext" where
  "coopExt = sampleExt\<lparr>xGetHost := \<lambda>k w. (Inr (claimedHost sampleHRM sampleHost), w),
     xExec := \<lambda>us ip cmd w. ((if cmd = wrapBash rescueCheckCmd \<or> cmd = wrapBash rescueModeCmd then ''RESCUE''
       else if cmd = flatcarSentinelCmd then ''READY'' else sampleReport, None), w),
     xYamlMarshal := \<lambda>m. Inr ''DATA''\<rparr>"

lemma sample_commands:
  "detectHardwareCmd \<noteq> rescueCheckCmd" "detectHardwareCmd \<noteq> rescueModeCmd" "wipeCmd ds \<noteq> rescueCheckCmd" "wipeCmd ds \<noteq> rescueModeCmd"
  "flatcarSentinelCmd \<noteq> wrapBash c" "flatcarSentinelCmd \<noteq> rescueCheckCmd" 
  by (simp_all add: detectHardwareCmd_def rescueCheckCmd_def rescueModeCmd_def wipeCmd_def flatcarSentinelCmd_def wrapBash_def)

lemma sample_parse: "ParseHardwareOutput sampleReport = Inr \<lparr>hwPrimaryMAC = ''aa:bb:cc:00:11:22'', hwGatewayIP = ''192.0.2.1'',
   NVMeDisks = [''/dev/nvme0n1''], CephDisks = [], ByIDPaths = []\<rparr>"
  by code_simp

lemma sample_wiped: "wipedDisks sampleReport = [''/dev/nvme0n1'']"
  by code_simp

lemma coop_server: "serverAnswers coopExt (claimedHost sampleHRM sampleHost)"
proof -
  have "trimSpace ''RESCUE'' = ''RESCUE''" "trimSpace ''READY'' = ''READY''" by code_simp+
  then show ?thesis
    by (simp add: serverAnswers_def wipeable_def coopExt_def sampleExt_def wrapBash_eq_iff sample_commands sample_commands [symmetric]
        sample_parse sample_wiped)
qed

lemma coop_api: "apiAnswers coopExt sampleMachine (claimedHost sampleHRM sampleHost) 0"
  by (simp add: apiAnswers_def coopExt_def sampleExt_def sampleMachine_def provisionTimeout_def)

lemma sample_docs: "splitYAMLDocuments ''DATA'' = [''DATA'']"
  by code_simp

lemma coop_config: "configBuilds coopExt sampleHRC (claimedHost sampleHRM sampleHost) False"
proof -
  have "modifyFirstDocument coopExt ''DATA'' f = Returned ''DATA''" for f
    by (simp add: modifyFirstDocument_def sample_docs coopExt_def sampleExt_def restText_def)
  then have "\<exists>c. buildMachineConfig coopExt m sampleHRC (claimedHost sampleHRM sampleHost)
      (ServerID (hostSpec (claimedHost sampleHRM sampleHost))) (ServerIP (hostSpec (claimedHost sampleHRM sampleHost))) ''DATA'' = Returned c"
    if "PrimaryMAC (hrmStatus m) \<noteq> []" for m
    using that by (simp add: buildMachineConfig_def injectInstallDisk_def injectIPv6Config_def injectKubeletNodeIP_def
        injectProviderID_def wrapR_def Let_def sampleHRC_def)
  moreover have "bootData coopExt d \<Longrightarrow> d = ''DATA''" for d
    by (auto simp: bootData_def coopExt_def sampleExt_def)
  ultimately show ?thesis by (auto simp: configBuilds_def)
qed

end
