(* ===== verification/Machine_Settled.thy ===== *)
theory Machine_Settled
  imports Machine_Loop
begin

text \<open>
  A machine past the install: no pass of the reconcile loop changes its server or leads it back before
  the install, as long as it is not being deleted.
\<close>

definition settled :: "HetznerRobotMachineStatus \<Rightarrow> bool" where
  "settled st \<longleftrightarrow> StateInstalling < provState st"

lemma settled_iff: "settled st \<longleftrightarrow> \<not> provisioningMayBecomeDestructive (provState st)"
  by (simp add: settled_def destructive_states_first not_le)

lemma loopStep_settled:
  assumes "loopStep m r m'" and "settled (hrmStatus m)"
  shows "settled (hrmStatus m')"
proof (cases "provState (hrmStatus m') = StateError \<or> provState (hrmStatus m') = StateDeleting")
  case True
  then show ?thesis by (auto simp: settled_iff provisioningMayBecomeDestructive_def)
next
  case False
  then have "advances (isFlatcar m) (provState (hrmStatus m)) (provState (hrmStatus m'))"
    using assms(1) by (simp add: loopStep_def split: if_splits)
  then show ?thesis
    using advances_back(1) assms(2) unfolding settled_def by (meson not_le order.strict_trans2)
qed

lemma wp_runState_settled:
  assumes "settled (hrmStatus ob)" and "baseURL rc = robotBaseURL"
  shows "wp (runState X hrc m h rc) ob (\<lambda>n r ob'. list_all quiet n)"
  using wp_runState [OF assms(2) refl refl, of X hrc m h ob] assms(1)
  by (auto elim!: wp_mono simp: settled_iff harmless_def quiet_def list_all_iff)

lemma wp_provisionOn_settled:
  assumes "settled (hrmStatus ob)"
  shows "wp (provisionOn X hrc m h) ob (\<lambda>n r ob'. list_all quiet n)"
proof -
  have gate: "\<not> provisioningMayBecomeDestructive (provState (hrmStatus ob))" using assms by (simp add: settled_iff)
  have run: "wp (do { rc \<leftarrow> buildRobotClient X hrc; (case rc of
      Inl e \<Rightarrow> fail (wrapErr ''build robot client: '' e) | Inr rc \<Rightarrow> runState X hrc m h rc) }) ob (\<lambda>n r ob'. list_all quiet n)"
    by (rule wp_bindI [OF wp_buildRobotClient], intro wp_case_sum)
      (use wp_runState_settled [OF assms] in auto)
  then show ?thesis unfolding provisionOn_def wp_bind_getObj if_not_P [OF gate] by simp
qed

lemma wp_reconcileNormal_settled:
  assumes "settled (hrmStatus ob)"
  shows "wp (reconcileNormal X hrc m cl) ob (\<lambda>n r ob'. list_all quiet n)"
  unfolding reconcileNormal_def wp_bind_getObj
proof (intro wp_if wp_bindI [OF wp_conj [OF wp_resolveHost wp_resolveHost_progress]] wp_case_sum, goal_cases)
  case 1
  show ?case unfolding reconcileProvisioned_def by (rule wp_emits) (intro emits_intro)
next
  case (2 n x ob' e)
  then show ?case by (auto simp: handsOver_def list_all_iff)
next
  case (3 n x ob' h)
  then have q: "list_all quiet n" and "settled (hrmStatus ob')"
    using assms by (auto simp: handsOver_def list_all_iff sameProgress_def settled_def)
  then show ?case
    unfolding wp_bind_modObj by (intro wp_mono [OF wp_provisionOn_settled]) (simp_all add: settled_def)
qed

lemma wp_reconcileMachine_settled:
  assumes "settled (hrmStatus ob)" and "DeletionTimestamp (hrmMeta ob) = None"
  shows "wp (reconcileMachine X hrc m cl) ob (\<lambda>n r ob'. list_all quiet n)"
  unfolding reconcileMachine_def wp_bind_getObj
  apply (simp only: assms(2) not_not if_False simp_thms)
  apply (intro wp_if)
   apply simp
  apply (rule wp_bindI [OF wp_conj [OF wp_checkProvisionTimeout wp_checkProvisionTimeout_progress]], intro wp_if)
   apply simp
  apply (rule wp_bindI [OF wp_checkBackoff], intro wp_case_option)
   apply (rule wp_bindI [OF wp_reconcileNormal_settled])
    apply (use assms(1) in \<open>simp add: sameProgress_def settled_def\<close>) [1]
   apply (rule wp_mono [OF wp_emits [OF emits_classify]])
   apply simp_all
  done


section \<open>Passes while the machine is not being deleted\<close>

definition livePass :: "'w ext \<Rightarrow> HetznerRobotMachineStatus \<Rightarrow> HetznerRobotMachineStatus \<Rightarrow> bool" where
  "livePass X st st' \<longleftrightarrow> (\<exists>hrc machine cluster s. DeletionTimestamp (hrmMeta (obj s)) = None \<and> hrmStatus (obj s) = st
     \<and> st' = hrmStatus (obj (snd (run_state (reconcileMachine X hrc machine cluster) s))))"

interpretation installed: kept_invariant "livePass X" settled for X
proof
  fix st st' :: HetznerRobotMachineStatus
  assume "livePass X st st'" and "settled st"
  then show "settled st'"
    using loopStep_settled [OF wpD(1) [OF wp_loop]] unfolding livePass_def by blast
qed



end
