(* ===== verification/Machine_Install.thy ===== *)
theory Machine_Install
  imports Machine_States
begin

text \<open>
  What has happened on a server when a machine enters the state Installing, and what the Talos
  configuration that is applied to it holds.
\<close>

section \<open>Commands that succeeded\<close>

lemma subseq_extend: "subseq xs ys \<Longrightarrow> subseq xs (ys @ zs)"
  using list_emb_append_mono [of "(=)" xs ys "[]" zs] by simp

lemma wp_RunCmd_ok:
  "wp (RunCmd X c cmd) ob (\<lambda>n (out, eo) ob'. ob' = ob
     \<and> (eo = None \<longrightarrow> subseq [EvExec ''root'' (clientIP c) (wrapBash cmd) out None] n))"
  unfolding RunCmd_def sshExec_def
  by (intro wp_exec wp_bind_call) (auto simp: subseq_singleton_left split: option.splits)

lemma wp_Connect_client:
  "wp (Connect X (NewClient ip key)) ob (\<lambda>n r ob'. ob' = ob \<and> (\<forall>c. r = Inr c \<longrightarrow> clientIP c = ip))"
  unfolding Connect_def NewClient_def Let_def tcpDial_def
  by (intro wp_exec wp_bind_call) auto

definition rootExec :: "string \<Rightarrow> string \<Rightarrow> string \<Rightarrow> event" where
  "rootExec ip cmd out = EvExec ''root'' ip (wrapBash cmd) out None"

lemma wp_IsRescueMode_ok:
  "wp (IsRescueMode X ip key) ob (\<lambda>n r ob'. ob' = ob
     \<and> (r = Inr True \<longrightarrow> (\<exists>out. subseq [rootExec ip rescueModeCmd out] n \<and> trimSpace out = ''RESCUE'')))"
  unfolding IsRescueMode_def
proof (rule wp_bindI [OF wp_Connect_client], intro wp_case_sum, goal_cases)
  case (2 n r ob' c)
  then show ?case
    by (intro wp_bindI [OF wp_RunCmd_ok])
      (force simp: rootExec_def split: option.splits intro: list_emb_append2)
qed simp

lemma wp_DetectHardware_ok:
  "wp (DetectHardware X c) ob (\<lambda>n r ob'. ob' = ob \<and> (\<forall>hw. r = Inr hw \<longrightarrow>
     (\<exists>out. subseq [rootExec (clientIP c) detectHardwareCmd out] n \<and> ParseHardwareOutput out = Inr hw)))"
  unfolding DetectHardware_def
  by (intro wp_bindI [OF wp_RunCmd_ok]) (auto simp: rootExec_def split: option.splits)

lemma wp_WipeAllDisks_ok:
  "wp (WipeAllDisks X c disks) ob (\<lambda>n (out, eo) ob'. ob' = ob \<and> (eo = None \<longrightarrow>
     disks \<noteq> [] \<and> set disks \<subseteq> set (wipedDisks out) \<and> subseq [rootExec (clientIP c) (wipeCmd disks) out] n))"
  unfolding WipeAllDisks_def Let_def
  by (intro wp_if wp_bindI [OF wp_RunCmd_ok])
    (auto simp: rootExec_def filter_empty_conv split: option.splits)

lemma wp_InstallTalos_ok:
  "wp (InstallTalos X c url sch v disk img) ob (\<lambda>n r ob'. ob' = ob \<and> (r = None \<longrightarrow>
     (\<exists>out. subseq [rootExec (clientIP c) (installTalosCmd url sch v disk img) out] n)))"
  unfolding InstallTalos_def
  by (intro wp_bindI [OF wp_RunCmd_ok]) (auto simp: rootExec_def split: option.splits)

section \<open>Installing Talos\<close>

text \<open>
  The commands of an install, in their order and each answered without error: the rescue system
  was verified, the hardware was read, every NVMe disk found was wiped and confirmed, and the image was
  written to the disk the choice gives for that hardware.
\<close>

definition talosInstalled :: "HetznerRobotCluster \<Rightarrow> HetznerRobotMachine \<Rightarrow> string \<Rightarrow> event list \<Rightarrow> bool" where
  "talosInstalled hrc m ip n \<longleftrightarrow> (\<exists>o1 o2 o3 o4 hw disk url.
     subseq [rootExec ip rescueModeCmd o1, rootExec ip detectHardwareCmd o2, rootExec ip (wipeCmd (NVMeDisks hw)) o3,
       rootExec ip (installTalosCmd url (TalosSchematic (hrmSpec m)) (TalosVersion (hrmSpec m)) disk
         (CustomImageURL (hrmSpec m))) o4] n
     \<and> trimSpace o1 = ''RESCUE'' \<and> ParseHardwareOutput o2 = Inr hw
     \<and> NVMeDisks hw \<noteq> [] \<and> set (NVMeDisks hw) \<subseteq> set (wipedDisks o3)
     \<and> ResolveInstallDiskFromInfo hw (if InstallDisk (hrmSpec m) = [] then ''/dev/nvme0n1'' else InstallDisk (hrmSpec m))
         = Inr disk
     \<and> url = (if TalosFactoryBaseURL (hrcSpec hrc) = [] then talosFactoryDefaultBaseURL else TalosFactoryBaseURL (hrcSpec hrc)))"

lemma wp_inRescue_ok:
  assumes k: "\<And>c out n0. clientIP c = ip \<Longrightarrow> subseq [rootExec ip rescueModeCmd out] n0 \<Longrightarrow> trimSpace out = ''RESCUE'' \<Longrightarrow>
      wp (k c) m (\<lambda>n. Q (n0 @ n))"
    and exits: "\<And>n r m'. stepTo {StateNone, StateActivatingRescue} m m' \<Longrightarrow> Q n r m'"
  shows "wp (inVerifiedRescue X hrc rc sid ip k) m Q"
proof -
  have exit: "wp (stateActivateRescue X hrc rc sid ip) m (\<lambda>n. Q (n0 @ n))" for n0
    by (rule wp_mono [OF wp_activate [where sts = "{StateNone, StateActivatingRescue}" and m = m]]) (auto intro: exits)
  show ?thesis
    unfolding inVerifiedRescue_def
  proof (intro wp_bindI [OF wp_keeps [OF keeps_ssh(7)]] wp_if wp_bindI [OF wp_keeps [OF keeps_secrets(2)]] wp_case_sum
      wp_bindI [OF wp_IsRescueMode_ok], goal_cases)
    case 1
    then show ?case by (auto intro!: exits simp: stepTo_def)
  next
    case (2 n x ob' n2 x2 ob2 e)
    then show ?case by (auto intro!: exits)
  next
    case (3 n x ob' n2 x2 ob2 key n3 x3 ob3 e)
    then show ?case by (auto intro!: exits)
  next
    case (4 n x ob' n2 x2 ob2 key n3 x3 ob3 b)
    then show ?case using exit [of "n @ n2 @ n3"] by simp
  next
    case (5 n x ob' n2 x2 ob2 key n3 x3 ob3 b)
    then obtain out where out: "subseq [rootExec ip rescueModeCmd out] n3" "trimSpace out = ''RESCUE''"
      and ob3: "ob3 = m" by auto
    show ?case
      unfolding ob3
    proof (intro wp_bindI [OF wp_Connect_client] wp_case_sum, goal_cases)
      case (1 n4 x4 ob4 e)
      then show ?case by (auto intro!: exits)
    next
      case (2 n4 x4 ob4 c)
      then have "subseq [rootExec ip rescueModeCmd out] (n @ n2 @ n3 @ n4)" "clientIP c = ip" "ob4 = m"
        using out(1) by (auto intro: list_emb_append2)
      with k [OF this(2,1) out(2)] show ?case by simp
    qed
  qed
qed

definition wipedHardware :: "HetznerRobotMachine \<Rightarrow> string \<Rightarrow> HardwareInfo \<Rightarrow> string \<Rightarrow> event list \<Rightarrow> bool" where
  "wipedHardware m ip hw disk n \<longleftrightarrow> (\<exists>o2 o3.
     subseq [rootExec ip detectHardwareCmd o2, rootExec ip (wipeCmd (NVMeDisks hw)) o3] n
     \<and> ParseHardwareOutput o2 = Inr hw \<and> NVMeDisks hw \<noteq> [] \<and> set (NVMeDisks hw) \<subseteq> set (wipedDisks o3)
     \<and> ResolveInstallDiskFromInfo hw (if InstallDisk (hrmSpec m) = [] then ''/dev/nvme0n1'' else InstallDisk (hrmSpec m))
         = Inr disk)"

lemma wp_onWiped_ok:
  assumes k: "\<And>hw disk ob n0. wipedHardware m ip hw disk n0 \<Longrightarrow> stepTo {} m ob \<Longrightarrow> hrmSpec ob = hrmSpec m \<Longrightarrow>
      wp (k hw disk) ob (\<lambda>n. Q (n0 @ n))"
    and exits: "\<And>n r m'. stepTo {} m m' \<Longrightarrow> Q n r m'" and ip: "clientIP c = ip"
  shows "wp (onWipedDisks X c ip k) m Q"
  unfolding onWipedDisks_def Let_def
proof (intro wp_bindI [OF wp_DetectHardware_ok] wp_case_sum, goal_cases)
  case (1 n x ob' e)
  then show ?case by (simp add: exits)
next
  case (2 n x ob' hw)
  then obtain o2 where o2: "subseq [rootExec ip detectHardwareCmd o2] n" "ParseHardwareOutput o2 = Inr hw" and "ob' = m"
    using ip by auto
  let ?ob1 = "modStatus (\<lambda>st. st\<lparr>PrimaryMAC := hwPrimaryMAC hw, GatewayIP := hwGatewayIP hw\<rparr>) m"
  have ob1: "stepTo {} m ?ob1" "hrmSpec ?ob1 = hrmSpec m" by (simp_all add: stepTo_def)
  show ?case
    unfolding wp_bind_modObj wp_bind_getObj \<open>ob' = m\<close>
  proof (intro wp_bindI [OF wp_keeps [OF keeps_record]] wp_case_sum, goal_cases)
    case (1 n1 x1 ob1' e)
    then show ?case using ob1 by (simp add: exits)
  next
    case (2 n1 x1 ob1' disk)
    then have disk: "ResolveInstallDiskFromInfo hw
        (if InstallDisk (hrmSpec m) = [] then ''/dev/nvme0n1'' else InstallDisk (hrmSpec m)) = Inr disk"
      by (cases "InstallDisk (hrmSpec m) = []") simp_all
    have ob2: "stepTo {} m (modStatus (ResolvedInstallDisk_update f) ob1')"
      "hrmSpec (modStatus (ResolvedInstallDisk_update f) ob1') = hrmSpec m" for f
      using 2(1) by (simp_all add: stepTo_def)
    show ?case
      unfolding wp_bind_modObj
    proof (intro wp_if wp_bindI [OF wp_WipeAllDisks_ok] wp_case_prod wp_case_option, goal_cases)
      case 1
      then show ?case using ob2 by (simp add: exits)
    next
      case (2 n3 x3 ob3 out eo)
      then have "subseq [rootExec ip (wipeCmd (NVMeDisks hw)) out] n3" and w: "NVMeDisks hw \<noteq> []"
        "set (NVMeDisks hw) \<subseteq> set (wipedDisks out)" and "stepTo {} m ob3" "hrmSpec ob3 = hrmSpec m"
        using ip ob2 by auto
      moreover have "wipedHardware m ip hw disk (n @ n1 @ n3)"
        unfolding wipedHardware_def
        using list_emb_append_mono [OF o2(1) list_emb_append2 [OF calculation(1), of n1]] o2(2) w disk by auto
      ultimately show ?case
        using k [of hw disk "n @ n1 @ n3" ob3] by simp
    next
      case (3 n3 x3 ob3 out eo e)
      then show ?case using ob2 by (auto simp: exits)
    qed
  qed
qed

definition installsTalos :: "HetznerRobotCluster \<Rightarrow> string \<Rightarrow> HetznerRobotMachine \<Rightarrow> event list \<Rightarrow> 'r
    \<Rightarrow> HetznerRobotMachine \<Rightarrow> bool" where
  "installsTalos hrc ip m n r m' \<longleftrightarrow> (provState (hrmStatus m') = StateInstalling \<longrightarrow>
     provState (hrmStatus m) = StateInstalling \<or> talosInstalled hrc m ip n)"

lemma installsTalos_exit: "stepTo sts m m' \<Longrightarrow> StateInstalling \<notin> sts \<Longrightarrow> installsTalos hrc ip m n r m'"
  by (auto simp: installsTalos_def stepTo_def)

lemma wp_installTalos_ok: "wp (stateInstallTalos X hrc rc sid ip) m (installsTalos hrc ip m)"
  unfolding stateInstallTalos_def
proof (intro wp_inRescue_ok wp_onWiped_ok, goal_cases)
  case (1 c o1 n0 hw disk ob n1)
  let ?url = "if TalosFactoryBaseURL (hrcSpec hrc) = [] then talosFactoryDefaultBaseURL else TalosFactoryBaseURL (hrcSpec hrc)"
  from 1(4) obtain o2 o3 where w: "subseq [rootExec ip detectHardwareCmd o2, rootExec ip (wipeCmd (NVMeDisks hw)) o3] n1"
    "ParseHardwareOutput o2 = Inr hw" "NVMeDisks hw \<noteq> []" "set (NVMeDisks hw) \<subseteq> set (wipedDisks o3)"
    "ResolveInstallDiskFromInfo hw (if InstallDisk (hrmSpec m) = [] then ''/dev/nvme0n1'' else InstallDisk (hrmSpec m)) = Inr disk"
    unfolding wipedHardware_def by blast
  show ?case
    unfolding wp_bind_getObj Let_def
  proof (intro wp_bindI [OF wp_InstallTalos_ok] wp_case_option, goal_cases)
    case (1 n2 r ob2)
    then obtain o4 where o4: "subseq [rootExec ip (installTalosCmd ?url (TalosSchematic (hrmSpec m)) (TalosVersion (hrmSpec m))
        disk (CustomImageURL (hrmSpec m))) o4] n2"
      using \<open>clientIP c = ip\<close> \<open>hrmSpec ob = hrmSpec m\<close> by auto
    have "talosInstalled hrc m ip (n0 @ n1 @ n2 @ n3)" for n3
      unfolding talosInstalled_def
      by (rule exI [of _ o1], rule exI [of _ o2], rule exI [of _ o3], rule exI [of _ o4], rule exI [of _ hw],
          rule exI [of _ disk], rule exI [of _ ?url])
        (use list_emb_append_mono [OF \<open>subseq [rootExec ip rescueModeCmd o1] n0\<close>
          list_emb_append_mono [OF w(1) subseq_extend [OF o4]]] w(2-5) \<open>trimSpace o1 = ''RESCUE''\<close> in \<open>simp del: subseq_Cons2\<close>)
    then show ?case
      by (intro wp_exec) (simp add: installsTalos_def)
  next
    case (2 n2 r ob2 e)
    then show ?case using \<open>stepTo {} m ob\<close> by (simp add: installsTalos_exit)
  qed
qed (auto intro: installsTalos_exit)

section \<open>Installing Flatcar\<close>

lemma wp_runOrFail:
  assumes "\<And>n0 out. subseq [rootExec (clientIP c) cmd out] n0 \<Longrightarrow> wp k ob (\<lambda>n. Q (n0 @ n))"
    and "\<And>n e. Q n (Some e) ob"
  shows "wp (runOrFail X c msg cmd k) ob Q"
  unfolding runOrFail_def
  by (intro wp_bindI [OF wp_RunCmd_ok] wp_case_prod wp_case_option)
    (use assms in \<open>auto simp: rootExec_def split: option.splits\<close>)

lemma subseq_then: "subseq [a] n \<Longrightarrow> subseq xs ys \<Longrightarrow> subseq (a # xs) (n @ ys)"
  using list_emb_append_mono [of "(=)" "[a]" n xs ys] by simp

text \<open>The Ignition file is written, then the image, then the data partition.\<close>

lemma wp_InstallFlatcar_ok:
  assumes "ch \<noteq> []"
  shows "wp (InstallFlatcar X c ch disk img ign) ob (\<lambda>n r ob'. ob' = ob \<and> (r = None \<longrightarrow> (\<exists>o1 o2 o3.
     subseq [rootExec (clientIP c) (ignitionCmd ign) o1, rootExec (clientIP c) (flatcarInstallCmd ch disk img) o2,
       rootExec (clientIP c) (createPartCmd disk) o3] n)))" (is "wp _ _ ?Q")
proof -
  have done1: "?Q (n0 @ n1 @ n2 @ n3 @ []) None ob"
    if "subseq [rootExec (clientIP c) (ignitionCmd ign) o1] n1" "subseq [rootExec (clientIP c) (flatcarInstallCmd ch disk img) o2] n2"
      "subseq [rootExec (clientIP c) (createPartCmd disk) o3] n3" for n0 n1 n2 n3 o1 o2 o3
    using list_emb_append2 [OF subseq_then [OF that(1) subseq_then [OF that(2) subseq_extend [OF that(3)]]]] by blast
  show ?thesis
    unfolding InstallFlatcar_def Let_def if_not_P [OF assms]
  proof (intro wp_if wp_runOrFail, goal_cases)
    case (1 n0 o0 n1 o1 n4 o4 n2 o2 n3 o3)
    then show ?case using done1 [of o1 "n1 @ n4" o2 n2 o3 n3 n0, OF subseq_extend] by simp
  next
    case (5 n0 o0 n1 o1 n2 o2 n3 o3)
    then show ?case using done1 [of o1 n1 o2 n2 o3 n3 n0] by simp
  qed auto
qed

definition flatcarInstalled :: "'w ext \<Rightarrow> HetznerRobotCluster \<Rightarrow> HetznerRobotMachine \<Rightarrow> HetznerRobotHost \<Rightarrow> int
    \<Rightarrow> string \<Rightarrow> event list \<Rightarrow> bool" where
  "flatcarInstalled X hrc m h sid ip n \<longleftrightarrow> (\<exists>o1 o2 o3 o4 o5 o6 hw disk ign data key.
     subseq [rootExec ip rescueModeCmd o1, rootExec ip detectHardwareCmd o2, rootExec ip (wipeCmd (NVMeDisks hw)) o3,
       rootExec ip (ignitionCmd ign) o4,
       rootExec ip (flatcarInstallCmd (if FlatcarChannel (hrmSpec m) = [] then ''stable'' else FlatcarChannel (hrmSpec m))
         disk (CustomImageURL (hrmSpec m))) o5,
       rootExec ip (createPartCmd disk) o6] n
     \<and> trimSpace o1 = ''RESCUE'' \<and> ParseHardwareOutput o2 = Inr hw
     \<and> NVMeDisks hw \<noteq> [] \<and> set (NVMeDisks hw) \<subseteq> set (wipedDisks o3)
     \<and> ResolveInstallDiskFromInfo hw (if InstallDisk (hrmSpec m) = [] then ''/dev/nvme0n1'' else InstallDisk (hrmSpec m))
         = Inr disk
     \<and> injectFlatcarConfig X data (providerIDFor sid) (if vlanConfig (hrcSpec hrc) = None then [] else InternalIP (hostSpec h))
         (ServerIPv6Net (hostSpec h)) (hwPrimaryMAC hw) (vlanConfig (hrcSpec hrc)) key ip (hwGatewayIP hw) = Returned ign)"

definition installsFlatcar :: "'w ext \<Rightarrow> HetznerRobotCluster \<Rightarrow> HetznerRobotHost \<Rightarrow> int \<Rightarrow> string \<Rightarrow> HetznerRobotMachine
    \<Rightarrow> event list \<Rightarrow> 'r \<Rightarrow> HetznerRobotMachine \<Rightarrow> bool" where
  "installsFlatcar X hrc h sid ip m n r m' \<longleftrightarrow> (provState (hrmStatus m') = StateInstalling \<longrightarrow>
     provState (hrmStatus m) = StateInstalling
     \<or> flatcarInstalled X hrc m h sid ip n \<and> ProviderID (hrmSpec m') = Some (providerIDFor sid))"

lemma installsFlatcar_exit: "stepTo sts m m' \<Longrightarrow> StateInstalling \<notin> sts \<Longrightarrow> installsFlatcar X hrc h sid ip m n r m'"
  by (auto simp: installsFlatcar_def stepTo_def)

lemma wp_installFlatcar_ok: "wp (stateInstallFlatcar X mach hrc h rc sid ip) m (installsFlatcar X hrc h sid ip m)"
proof -
  have exit: "installsFlatcar X hrc h sid ip m n r m'" if "stepTo {} m m'" for n r m'
    using that by (rule installsFlatcar_exit) simp
  show ?thesis
    unfolding stateInstallFlatcar_def
  proof (intro wp_bindI [OF wp_keeps [OF keeps_secrets(4)]] wp_case_sum wp_bindI [OF wp_keeps [OF keeps_secrets(3)]], goal_cases)
    case (3 n x ob data n2 x2 ob2 key)
    then have ob2: "ob2 = m" by simp
    show ?case
      unfolding ob2
    proof (intro wp_inRescue_ok wp_onWiped_ok, goal_cases)
      case (1 c o1 n3 hw disk ob3 n4)
      show ?case
        unfolding wp_bind_getObj Let_def
      proof (intro wp_case_res wp_bindI [OF wp_InstallFlatcar_ok] wp_case_option, goal_cases)
        case 1
        then show ?case using \<open>stepTo {} m ob3\<close> by (simp add: exit)
      next
        case (2 e)
        then show ?case using \<open>stepTo {} m ob3\<close> by (simp add: exit)
      next
        case (3 ign)
        then show ?case by simp
      next
        case (4 ign n5 r ob4)
        let ?ch = "if FlatcarChannel (hrmSpec m) = [] then ''stable'' else FlatcarChannel (hrmSpec m)"
        from 1(4) obtain o2 o3 where w: "subseq [rootExec ip detectHardwareCmd o2, rootExec ip (wipeCmd (NVMeDisks hw)) o3] n4"
          "ParseHardwareOutput o2 = Inr hw" "NVMeDisks hw \<noteq> []" "set (NVMeDisks hw) \<subseteq> set (wipedDisks o3)"
          "ResolveInstallDiskFromInfo hw (if InstallDisk (hrmSpec m) = [] then ''/dev/nvme0n1'' else InstallDisk (hrmSpec m)) = Inr disk"
          unfolding wipedHardware_def by blast
        from 4(2,3) obtain o4 o5 o6 where i: "subseq [rootExec ip (ignitionCmd ign) o4,
            rootExec ip (flatcarInstallCmd ?ch disk (CustomImageURL (hrmSpec m))) o5, rootExec ip (createPartCmd disk) o6] n5"
          unfolding \<open>clientIP c = ip\<close> \<open>hrmSpec ob3 = hrmSpec m\<close> by blast
        have "injectFlatcarConfig X data (providerIDFor sid) (if vlanConfig (hrcSpec hrc) = None then [] else InternalIP (hostSpec h))
           (ServerIPv6Net (hostSpec h)) (hwPrimaryMAC hw) (vlanConfig (hrcSpec hrc)) key ip (hwGatewayIP hw) = Returned ign"
          using 4(1) by (auto simp: wrapR_def split: res.splits)
        note facts = list_emb_append2 [OF subseq_extend [OF subseq_then [OF 1(2) list_emb_append_mono [OF w(1) i]]], of "n @ n2"]
          w(2-5) 1(3) this
        have "flatcarInstalled X hrc m h sid ip ((n @ n2) @ (n3 @ n4 @ n5) @ n6)" for n6
          unfolding flatcarInstalled_def
          by (rule exI [of _ o1], rule exI [of _ o2], rule exI [of _ o3], rule exI [of _ o4], rule exI [of _ o5],
              rule exI [of _ o6], rule exI [of _ hw], rule exI [of _ disk], rule exI [of _ ign], rule exI [of _ data],
              rule exI [of _ key], intro conjI) (use facts in \<open>simp_all del: subseq_Cons2\<close>)
        then show ?case
          by (intro wp_exec keeps_clients keeps_ssh) (simp add: installsFlatcar_def)
      next
        case (5 ign n5 r ob4 e)
        then show ?case using \<open>stepTo {} m ob3\<close> by (simp add: exit)
      qed
    qed (auto intro: installsFlatcar_exit)
  qed (auto intro!: exit)
qed

section \<open>A rescue system that answers the check, the report and the wipe as they come\<close>

definition rescueReply :: "nat \<Rightarrow> string" where
  "rescueReply w = (
     if w = 0 then ''RESCUE''
     else if w = 1 then ''MAC=aa:bb\<newline>GATEWAY=192.0.2.1\<newline>DISK=/dev/nvme0n1''
     else ''WIPED=/dev/nvme0n1'')"

definition rescueExt :: "nat ext" where
  "rescueExt = sampleExt\<lparr>xExec := \<lambda>u i c w. ((rescueReply w, None), Suc w)\<rparr>"

definition rescueHardware :: HardwareInfo where
  "rescueHardware = \<lparr>hwPrimaryMAC = ''aa:bb'', hwGatewayIP = ''192.0.2.1'', NVMeDisks = [''/dev/nvme0n1''],
     CephDisks = [], ByIDPaths = []\<rparr>"

definition rescueRun :: "(nat, HetznerRobotMachine) rt" where
  "rescueRun = \<lparr>world = 0, trace = [], obj = setState StateInRescue sampleHRM\<rparr>"

lemma run_rescueCmd: "clientConnected c \<Longrightarrow> run_state (RunCmd rescueExt c cmd) s =
   ((rescueReply (world s), None), s\<lparr>world := Suc (world s),
      trace := trace s @ [EvExec ''root'' (clientIP c) (wrapBash cmd) (rescueReply (world s)) None]\<rparr>)"
  by (simp add: RunCmd_def sshExec_def silent_def rescueExt_def sampleExt_def)

lemma run_rescueConnect: "run_state (Connect rescueExt c) s = (Inr (c\<lparr>clientConnected := True\<rparr>),
   s\<lparr>trace := trace s @ [EvDial (joinHostPort (clientIP c) rescueSSHPort) None]\<rparr>)"
  by (simp add: Connect_def calls_def rescueExt_def sampleExt_def Let_def)

lemma rescueReplies:
  "trimSpace (rescueReply 0) = ''RESCUE''" "ParseHardwareOutput (rescueReply (Suc 0)) = Inr rescueHardware"
  "wipedDisks (rescueReply (Suc (Suc 0))) = [''/dev/nvme0n1'']"
  "ResolveInstallDiskFromInfo rescueHardware ''/dev/nvme0n1'' = Inr ''/dev/nvme0n1''"
  by code_simp+

lemma run_rescueProbe: "run_state (IsReachable rescueExt ip) s = (True, s\<lparr>trace := trace s @ [EvDial (joinHostPort ip rescueSSHPort) None]\<rparr>)"
  by (simp add: IsReachable_def isReachableAddr_def calls_def rescueExt_def sampleExt_def)

lemma run_rescueKey: "run_state (getSSHPrivateKey rescueExt sampleHRC) s = (Inr ''KEY'', s)"
  by (simp add: getSSHPrivateKey_def calls_def rescueExt_def sampleExt_def secretKey_def Let_def)

lemma obj_deactivate: "obj (snd (run_state (DeactivateRescue X rc sid) s)) = obj s"
  using keeps_clients unfolding keeps_def by metis

lemma obj_record: "obj (snd (run_state (recordHostHardwareDetails X ns h hw) s)) = obj s"
  using keeps_record unfolding keeps_def by metis

lemma rescueHardware_fields: "NVMeDisks rescueHardware = [''/dev/nvme0n1'']" "ByIDPaths rescueHardware = []"
  by (simp_all add: rescueHardware_def)

lemma run_rescueVerified:
  assumes "world s = 0"
  shows "\<exists>s' c. run_state (inVerifiedRescue rescueExt sampleHRC rc sid ip k) s = run_state (k c) s'
    \<and> world s' = 1 \<and> obj s' = obj s \<and> clientConnected c"
  using assms
  by (simp add: inVerifiedRescue_def run_rescueCmd run_rescueConnect run_rescueProbe run_rescueKey IsRescueMode_def
      NewClient_def rescueReplies case_prod_beta) (intro exI conjI, rule refl, simp_all)

lemma run_rescueWiped:
  assumes "world s = 1" "clientConnected c" "hrmSpec (obj s) = hrmSpec sampleHRM" "HostRef (hrmStatus (obj s)) = []"
  shows "\<exists>s'. run_state (onWipedDisks rescueExt c ip k) s = run_state (k rescueHardware ''/dev/nvme0n1'') s' \<and> world s' = 3"
proof -
  have "InstallDisk (hrmSpec sampleHRM) = ''/dev/nvme0n1''" by (simp add: sampleHRM_def)
  then show ?thesis
    using assms
    by (simp add: onWipedDisks_def DetectHardware_def run_rescueCmd rescueReplies recordHostHardwareDetails_def Let_def
        WipeAllDisks_def case_prod_beta rescueHardware_fields) (intro exI conjI, rule refl, simp_all)
qed

lemma rescueVerifiedI:
  assumes "world s = 0" and "\<And>s' c. world s' = 1 \<Longrightarrow> obj s' = obj s \<Longrightarrow> clientConnected c \<Longrightarrow> P (run_state (k c) s')"
  shows "P (run_state (inVerifiedRescue rescueExt sampleHRC rc sid ip k) s)"
  using run_rescueVerified [OF assms(1), of rc sid ip k] assms(2) by (elim exE conjE) simp

lemma rescueWipedI:
  assumes "world s = 1" "clientConnected c" "hrmSpec (obj s) = hrmSpec sampleHRM" "HostRef (hrmStatus (obj s)) = []"
    and "\<And>s'. world s' = 3 \<Longrightarrow> P (run_state (k rescueHardware ''/dev/nvme0n1'') s')"
  shows "P (run_state (onWipedDisks rescueExt c ip k) s)"
  using run_rescueWiped [OF assms(1-4), of ip k] assms(5) by (elim exE conjE) simp

lemma run_rescueInstall:
  "provState (hrmStatus (obj (snd (run_state (stateInstallTalos rescueExt sampleHRC rc 321 ip) rescueRun)))) = StateInstalling"
  unfolding stateInstallTalos_def
proof (rule rescueVerifiedI [where P = "\<lambda>r. provState (hrmStatus (obj (snd r))) = StateInstalling"], goal_cases)
  case (2 s' c)
  then show ?case
    by (intro rescueWipedI [where P = "\<lambda>r. provState (hrmStatus (obj (snd r))) = StateInstalling"])
      (simp_all add: rescueRun_def sampleHRM_def InstallTalos_def Let_def run_rescueCmd case_prod_beta obj_deactivate)
qed (simp add: rescueRun_def)

lemma run_rescueInject:
  "injectFlatcarConfig rescueExt ''DATA'' (providerIDFor 321) [] (ServerIPv6Net (hostSpec sampleHost)) (hwPrimaryMAC rescueHardware)
     None ''KEY'' ''192.0.2.10'' (hwGatewayIP rescueHardware) = Returned []"
  by code_simp

lemma rescueFields: "vlanConfig (hrcSpec sampleHRC) = None" "trimSpace ''KEY'' = ''KEY''"
  by (simp add: sampleHRC_def, code_simp)

lemma run_rescueFlatcar:
  "provState (hrmStatus (obj (snd (run_state
     (stateInstallFlatcar rescueExt sampleMachine sampleHRC sampleHost rc 321 ''192.0.2.10'') rescueRun)))) = StateInstalling"
proof -
  let ?P = "\<lambda>r. provState (hrmStatus (obj (snd r))) = StateInstalling"
  have b: "run_state (getBootstrapData rescueExt sampleMachine) s = (Inr ''DATA'', s)"
    and k: "run_state (getSSHPublicKey rescueExt sampleHRC) s = (Inr ''KEY'', s)" for s
    by (simp_all add: getBootstrapData_def getSSHPublicKey_def getSSHPrivateKey_def calls_def rescueFields rescueExt_def
        sampleExt_def sampleMachine_def secretKey_def Let_def)
  show ?thesis
    unfolding stateInstallFlatcar_def
    apply (simp add: b k rescueFields)
    apply (rule rescueVerifiedI [where P = ?P])
     apply (simp add: rescueRun_def)
    apply (rule rescueWipedI [where P = ?P])
        apply (simp_all add: rescueRun_def sampleHRM_def rescueFields run_rescueInject wrapR_def InstallFlatcar_def
        runOrFail_def Let_def run_rescueCmd case_prod_beta obj_deactivate)
    done
qed

section \<open>The properties\<close>

text \<open>
  C10. Installing means wiped and written. When a pass over a machine in rescue leaves it in state Installing, the
  trace of that pass holds, in this order and each answered without error by the server's
  address: the check that verified the rescue system, the hardware report, the wipe of every
  NVMe disk of that report with a confirmation for each, and the command that wrote the machine's image to
  the disk chosen from that report.
\<close>

theorem installing_means_wiped_and_written:
  assumes "provState (hrmStatus (obj s)) = StateInRescue"
    and "provState (hrmStatus (obj (snd (run_state (stateInstallTalos X hrc rc sid ip) s)))) = StateInstalling"
  shows "talosInstalled hrc (obj s) ip (newEvents (stateInstallTalos X hrc rc sid ip) s)"
  using wpD(1) [where s = s, OF wp_installTalos_ok [of X hrc rc sid ip]] assms by (simp add: installsTalos_def)

theorem installing_means_wiped_and_written_witness:
  "talosInstalled sampleHRC (obj rescueRun) ''192.0.2.10''
     (newEvents (stateInstallTalos rescueExt sampleHRC (NewRobot ''u'' ''p'') 321 ''192.0.2.10'') rescueRun)"
  by (rule installing_means_wiped_and_written) (simp add: rescueRun_def, rule run_rescueInstall)

text \<open>
  C11. The same for Flatcar. When a pass over a machine in rescue leaves it in state Installing, the trace of
  that pass holds, in this order and each answered without error: the rescue check, the hardware
  report, the confirmed wipe of every NVMe disk, the writing of an Ignition file, the Flatcar installer
  with that file on the disk chosen from the report, and the data partition. The Ignition file is the result of
  injecting this server's providerID, addresses and detected network card, and the providerID is recorded.
\<close>

theorem flatcar_installing_means_written:
  assumes "provState (hrmStatus (obj s)) = StateInRescue"
    and "provState (hrmStatus (obj (snd (run_state (stateInstallFlatcar X machine hrc hrh rc sid ip) s)))) = StateInstalling"
  shows "flatcarInstalled X hrc (obj s) hrh sid ip (newEvents (stateInstallFlatcar X machine hrc hrh rc sid ip) s)
    \<and> ProviderID (hrmSpec (obj (snd (run_state (stateInstallFlatcar X machine hrc hrh rc sid ip) s)))) = Some (providerIDFor sid)"
  using wpD(1) [where s = s, OF wp_installFlatcar_ok [of X machine hrc hrh rc sid ip]] assms by (simp add: installsFlatcar_def)

theorem flatcar_installing_means_written_witness:
  "flatcarInstalled rescueExt sampleHRC (obj rescueRun) sampleHost 321 ''192.0.2.10''
     (newEvents (stateInstallFlatcar rescueExt sampleMachine sampleHRC sampleHost (NewRobot ''u'' ''p'') 321 ''192.0.2.10'') rescueRun)"
  using flatcar_installing_means_written [of rescueRun rescueExt sampleMachine sampleHRC sampleHost "NewRobot ''u'' ''p''" 321 "''192.0.2.10''"]
  by (simp add: run_rescueFlatcar) (simp add: rescueRun_def)

end
