(* ===== verification/Talos_Config.thy ===== *)
theory Talos_Config
  imports Machine_States
begin

text \<open>
  What the configuration that is applied to a Talos machine holds, read back through the YAML codec.
\<close>

section \<open>The injected values\<close>

definition installDiskFor :: "HetznerRobotMachine \<Rightarrow> string" where
  "installDiskFor hrm = (if ResolvedInstallDisk (hrmStatus hrm) \<noteq> [] then ResolvedInstallDisk (hrmStatus hrm)
     else if InstallDisk (hrmSpec hrm) \<noteq> [] then InstallDisk (hrmSpec hrm) else ''/dev/nvme0n1'')"

definition nodeIPFor :: "HetznerRobotCluster \<Rightarrow> HetznerRobotHost \<Rightarrow> string" where
  "nodeIPFor hrc hrh = nodeIPOf (if vlanConfig (hrcSpec hrc) = None then [] else InternalIP (hostSpec hrh))
     (ServerIPv6Net (hostSpec hrh))"

text \<open>
  The first document \<open>c'\<close> of a machine's configuration, against the document \<open>c\<close> of its bootstrap data:
  the disk unless the document names one, the provider ID and node IP of kubelet, the interfaces with the VLAN
  and IPv6 entries for the detected NIC, IPv6 forwarding, and everything else as it was.
\<close>

definition kubeletArgs :: "gmap \<Rightarrow> gmap" where
  "kubeletArgs c = childMap (childMap (childMap c ''machine'') ''kubelet'') ''extraArgs''"

definition interfacesOf :: "gmap \<Rightarrow> gval list" where
  "interfacesOf c = listOr (childMap (childMap c ''machine'') ''network'' ''interfaces'')"

definition configuredFor :: "HetznerRobotMachine \<Rightarrow> HetznerRobotCluster \<Rightarrow> HetznerRobotHost \<Rightarrow> int
    \<Rightarrow> gmap \<Rightarrow> gmap \<Rightarrow> bool" where
  "configuredFor hrm hrc hrh sid c c' \<longleftrightarrow>
     (\<forall>k. k \<noteq> ''machine'' \<longrightarrow> c' k = c k)
     \<and> (\<forall>k. k \<notin> {''install'', ''network'', ''kubelet'', ''sysctls''} \<longrightarrow>
          childMap c' ''machine'' k = childMap c ''machine'' k)
     \<and> childMap (childMap c' ''machine'') ''install'' ''disk''
         = (case childMap (childMap c ''machine'') ''install'' ''disk'' of
              None \<Rightarrow> Some (GStr (installDiskFor hrm)) | Some v \<Rightarrow> Some v)
     \<and> kubeletArgs c' = (if nodeIPFor hrc hrh = [] then kubeletArgs c
          else (kubeletArgs c)(''node-ip'' \<mapsto> GStr (nodeIPFor hrc hrh)))(''provider-id'' \<mapsto> GStr (providerIDFor sid))
     \<and> interfacesOf c' =
         (case vlanConfig (hrcSpec hrc) of
            None \<Rightarrow> interfacesOf c
          | Some v \<Rightarrow> map dropVlans (interfacesOf c) @ [vlanIface v (InternalIP (hostSpec hrh)) (PrimaryMAC (hrmStatus hrm))])
         @ (if ServerIPv6Net (hostSpec hrh) = [] then []
            else [ipv6Iface (ServerIPv6Net (hostSpec hrh)) (PrimaryMAC (hrmStatus hrm))])
     \<and> childMap (childMap c' ''machine'') ''sysctls'' =
         (if ServerIPv6Net (hostSpec hrh) = [] then childMap (childMap c ''machine'') ''sysctls''
          else (childMap (childMap c ''machine'') ''sysctls'')(''net.ipv6.conf.all.forwarding'' \<mapsto> GStr ''1''))
     \<and> PrimaryMAC (hrmStatus hrm) \<noteq> []"

text \<open>The edits in the order the state applies them.\<close>

definition allEdits :: "HetznerRobotMachine \<Rightarrow> HetznerRobotCluster \<Rightarrow> HetznerRobotHost \<Rightarrow> int \<Rightarrow> gmap \<Rightarrow> gmap" where
  "allEdits hrm hrc hrh sid c =
     (let mac = PrimaryMAC (hrmStatus hrm); net = ServerIPv6Net (hostSpec hrh); nodeIP = nodeIPFor hrc hrh;
          c1 = installDiskEdit (installDiskFor hrm) c;
          c2 = (case vlanConfig (hrcSpec hrc) of None \<Rightarrow> c1 | Some v \<Rightarrow> vlanEdit v (InternalIP (hostSpec hrh)) mac c1);
          c3 = (if net = [] then c2 else ipv6Edit net mac c2);
          c4 = (if nodeIP = [] then c3 else kubeletArgEdit ''node-ip'' nodeIP c3)
      in kubeletArgEdit ''provider-id'' (providerIDFor sid) c4)"

lemma childMap_empty [simp]: "childMap Map.empty k = Map.empty"
  by (simp add: childMap_def)

lemma listOr_GList [simp]: "listOr (Some (GList vs)) = vs"
  by (simp add: listOr_def asList_def)

lemmas edit_defs = installDiskEdit_def vlanEdit_def ipv6Edit_def kubeletArgEdit_def

lemma configured_edits:
  assumes "PrimaryMAC (hrmStatus hrm) \<noteq> []"
  shows "configuredFor hrm hrc hrh sid c (allEdits hrm hrc hrh sid c)"
  using assms unfolding configuredFor_def allEdits_def Let_def edit_defs kubeletArgs_def interfacesOf_def
  by (auto split: option.split)

lemma installDiskFor_nonempty [simp]: "installDiskFor hrm \<noteq> []"
  by (simp add: installDiskFor_def)

lemma providerIDFor_nonempty [simp]: "providerIDFor sid \<noteq> []"
  by (simp add: providerIDFor_def)

lemma wrapR_Returned [simp]: "wrapR msg r = Returned x \<longleftrightarrow> r = Returned x"
  by (cases r) (auto simp: wrapR_def)

lemma ipv6_step:
  "(if n = [] then Returned d else wrapR msg (injectIPv6Config X d n mac ip)) = Returned d'
     \<longleftrightarrow> injectIPv6Config X d n mac ip = Returned d'"
  by (simp add: injectIPv6Config_def)

lemma build_reads:
  assumes "yaml_codec X" and "readsAs X data c ds" and "buildMachineConfig X hrm hrc hrh sid ip data = Returned out"
  shows "readsAs X out (allEdits hrm hrc hrh sid c) ds \<and> PrimaryMAC (hrmStatus hrm) \<noteq> []"
proof -
  note injected = inject_reads [OF assms(1)]
  let ?int = "InternalIP (hostSpec hrh)" and ?net = "ServerIPv6Net (hostSpec hrh)" and ?mac = "PrimaryMAC (hrmStatus hrm)"
  from assms(3) obtain d1 d2 d3 d4 where
      d1: "injectInstallDisk X data (installDiskFor hrm) = Returned d1" and mac: "?mac \<noteq> []"
      and d2: "case vlanConfig (hrcSpec hrc) of None \<Rightarrow> d2 = d1
        | Some v \<Rightarrow> ?int \<noteq> [] \<and> injectVLANConfig X d1 (Some v) ?int ?mac ip (GatewayIP (hrmStatus hrm)) = Returned d2"
      and d3: "injectIPv6Config X d2 ?net ?mac ?int = Returned d3"
      and d4: "injectKubeletNodeIP X d3 (if vlanConfig (hrcSpec hrc) = None then [] else ?int) ?net = Returned d4"
      and out: "injectProviderID X d4 (providerIDFor sid) = Returned out"
    unfolding buildMachineConfig_def Let_def installDiskFor_def [symmetric]
    by (auto simp: bindR_Returned ipv6_step split: if_split_asm option.split_asm)
  have r1: "readsAs X d1 (installDiskEdit (installDiskFor hrm) c) ds"
    using injected(1) [OF assms(2) d1] by simp
  have r2: "readsAs X d2 (case vlanConfig (hrcSpec hrc) of None \<Rightarrow> installDiskEdit (installDiskFor hrm) c
      | Some v \<Rightarrow> vlanEdit v ?int ?mac (installDiskEdit (installDiskFor hrm) c)) ds"
    using d2 r1 injected(2) [OF r1, of "vlanConfig (hrcSpec hrc)" ?int ?mac ip "GatewayIP (hrmStatus hrm)" d2]
    by (auto split: option.splits)
  note r3 = injected(3) [OF r2 d3]
  note r4 = injected(4) [OF r3 d4, folded nodeIPFor_def]
  from injected(5) [OF r4 out] mac show ?thesis
    by (simp add: allEdits_def Let_def cong: if_cong option.case_cong)
qed

section \<open>The applied configuration\<close>

lemma wp_results: "keeps m \<Longrightarrow> wp m ob (\<lambda>n r ob'. ob' = ob \<and> r \<in> results m)"
  unfolding keeps_def wp_def results_def by blast

lemma wp_ApplyConfig_ok:
  "wp (ApplyConfig X ip d) ob (\<lambda>n r ob'. ob' = ob \<and> (r = None \<longrightarrow> EvTalosApply ip d None \<in> set n))"
  unfolding ApplyConfig_def talosApply_def
  by (intro wp_exec wp_bind_call) auto

definition appliedConfig :: "'w ext \<Rightarrow> HetznerRobotMachine \<Rightarrow> HetznerRobotCluster \<Rightarrow> HetznerRobotHost \<Rightarrow> int
    \<Rightarrow> string \<Rightarrow> string \<Rightarrow> event list \<Rightarrow> bool" where
  "appliedConfig X hrm hrc hrh sid ip data n \<longleftrightarrow> (\<exists>out. EvTalosApply ip out None \<in> set n
     \<and> (\<forall>c ds. readsAs X data c ds \<longrightarrow> (\<exists>c'. readsAs X out c' ds \<and> configuredFor hrm hrc hrh sid c c')))"

lemma wp_applyConfig_ok:
  assumes "yaml_codec X"
  shows "wp (stateApplyConfig X machine hrc hrh sid ip) m (\<lambda>n r m'. provState (hrmStatus m') = provState (hrmStatus m)
     \<or> provState (hrmStatus m') = StateWaitingForBoot \<and> ProviderID (hrmSpec m') = Some (providerIDFor sid)
       \<and> (\<exists>data. Inr data \<in> results (getBootstrapData X machine :: ('w, HetznerRobotMachine, goerr + string) go)
            \<and> appliedConfig (X :: 'w ext) m hrc hrh sid ip data n))"
  unfolding stateApplyConfig_def
proof (rule wp_bindI [OF wp_results [OF keeps_secrets(4)]], intro wp_case_sum, goal_cases)
  case (2 n r ob' data)
  then have ob': "ob' = m" and data: "Inr data \<in> results (getBootstrapData X machine :: ('w, HetznerRobotMachine, goerr + string) go)"
    by auto
  show ?case
    unfolding wp_bind_getObj ob'
  proof (cases "buildMachineConfig X m hrc hrh sid ip data", goal_cases)
    case (3 out)
    have "appliedConfig X m hrc hrh sid ip data (n @ n1)" if "EvTalosApply ip out None \<in> set n1" for n1
      using that build_reads [OF assms _ 3] configured_edits [of m hrc hrh sid]
      unfolding appliedConfig_def by (intro exI [of _ out]) auto
    then show ?case
      unfolding 3 res.case
      by (intro wp_bindI [OF wp_ApplyConfig_ok] wp_exec) (use data in \<open>auto intro!: exI [of _ data]\<close>)
  qed simp_all
qed simp

subsection \<open>A codec that reads and prints the documents of one run\<close>

definition sampleConfig :: "nat \<Rightarrow> gmap" where
  "sampleConfig n =
     (let c1 = installDiskEdit ''/dev/nvme0n1'' Map.empty;
          c2 = ipv6Edit ''2001:db8:6::/64'' ''aa:bb'' c1;
          c3 = kubeletArgEdit ''node-ip'' (nodeIPOf [] ''2001:db8:6::/64'') c2
      in if n = 1 then c1 else if n = 2 then c2 else if n = 3 then c3
         else kubeletArgEdit ''provider-id'' (providerIDFor 321) c3)"

definition sampleUnmarshal :: "string \<Rightarrow> goerr + gmap option" where
  "sampleUnmarshal d = (if d = ''DATA'' then Inr (Some Map.empty)
     else if d = ''1'' then Inr (Some (sampleConfig 1)) else if d = ''2'' then Inr (Some (sampleConfig 2))
     else if d = ''3'' then Inr (Some (sampleConfig 3)) else if d = ''4'' then Inr (Some (sampleConfig 4))
     else Inl (errorf ''yaml''))"

definition sampleText :: "gmap \<Rightarrow> string" where
  "sampleText m = (if childMap m ''machine'' ''kubelet'' = None
     then (if childMap m ''machine'' ''sysctls'' = None then ''1'' else ''2'')
     else (if kubeletArgs m ''provider-id'' = None then ''3'' else ''4''))"

definition configExt :: "unit ext" where
  "configExt = sampleExt\<lparr>xYamlUnmarshal := sampleUnmarshal,
     xYamlMarshal := \<lambda>m. if sampleUnmarshal (sampleText m) = Inr (Some m) then Inr (sampleText m) else Inl (errorf ''yaml'')\<rparr>"

definition configRun :: "(unit, HetznerRobotMachine) rt" where
  "configRun = sampleRun (modStatus (\<lambda>st. st\<lparr>provState := StateApplyingConfig, PrimaryMAC := ''aa:bb''\<rparr>) sampleHRM)"

lemma yaml_sampleConfig: "yamlMap (sampleConfig n)"
  by (simp add: sampleConfig_def Let_def install_disk_edit.yaml ipv6_edit.yaml kubelet_edit.yaml)

lemma sampleTexts:
  "sepFree (sampleText m)" "docOf (sampleText m) = Some (sampleText m)"
proof -
  have "list_all (\<lambda>t. sepFree t \<and> docOf t = Some t) [''1'', ''2'', ''3'', ''4'']" by code_simp
  then show "sepFree (sampleText m)" "docOf (sampleText m) = Some (sampleText m)"
    by (simp_all add: sampleText_def)
qed

lemma configExt_codec: "yaml_codec configExt"
  unfolding yaml_codec_def configExt_def
  by (auto simp: sampleTexts sampleUnmarshal_def yaml_sampleConfig split: if_splits)

lemma splitSample: "splitYAMLDocuments ''DATA'' = [''DATA'']" "splitYAMLDocuments (sampleText m) = [sampleText m]"
proof -
  have "list_all (\<lambda>t. splitYAMLDocuments t = [t]) [''DATA'', ''1'', ''2'', ''3'', ''4'']" by code_simp
  then show "splitYAMLDocuments ''DATA'' = [''DATA'']" "splitYAMLDocuments (sampleText m) = [sampleText m]"
    by (simp_all add: sampleText_def)
qed

lemma sampleText_config:
  "sampleText (sampleConfig 1) = ''1''" "sampleText (sampleConfig 2) = ''2''" "sampleText (sampleConfig 3) = ''3''"
  "sampleText (sampleConfig 4) = ''4''"
  by (simp_all add: sampleText_def sampleConfig_def Let_def edit_defs kubeletArgs_def)

lemma modify_sample:
  assumes "splitYAMLDocuments d = [d]" and "sampleUnmarshal d = Inr (Some c)" and "f c = sampleConfig n"
    and "sampleText (sampleConfig n) = t" and "sampleUnmarshal t = Inr (Some (sampleConfig n))"
  shows "modifyFirstDocument configExt d f = Returned t"
  using assms by (simp add: modifyFirstDocument_def configExt_def restText_def)

lemma build_sample:
  "buildMachineConfig configExt (obj configRun) sampleHRC sampleHost 321 ip ''DATA'' = Returned ''4''"
proof -
  let ?net = "''2001:db8:6::/64''"
  note docs = sampleText_config splitSample(2) [of "sampleConfig 1"] splitSample(2) [of "sampleConfig 2"] splitSample(2) [of "sampleConfig 3"]
  have "modifyFirstDocument configExt ''DATA'' (installDiskEdit ''/dev/nvme0n1'') = Returned ''1''"
    by (rule modify_sample [where n = 1, OF _ _ _ sampleText_config(1)]) (simp_all add: splitSample sampleUnmarshal_def sampleConfig_def Let_def)
  moreover have "modifyFirstDocument configExt ''1'' (ipv6Edit ?net ''aa:bb'') = Returned ''2''"
    by (rule modify_sample [where n = 2, OF _ _ _ sampleText_config(2)])
      (use docs in \<open>simp_all add: sampleUnmarshal_def\<close>, simp_all add: sampleConfig_def Let_def)
  moreover have "modifyFirstDocument configExt ''2'' (kubeletArgEdit ''node-ip'' (nodeIPOf [] ?net)) = Returned ''3''"
    by (rule modify_sample [where n = 3, OF _ _ _ sampleText_config(3)])
      (use docs in \<open>simp_all add: sampleUnmarshal_def\<close>, simp_all add: sampleConfig_def Let_def)
  moreover have "modifyFirstDocument configExt ''3'' (kubeletArgEdit ''provider-id'' (providerIDFor 321)) = Returned ''4''"
    by (rule modify_sample [where n = 4, OF _ _ _ sampleText_config(4)])
      (use docs in \<open>simp_all add: sampleUnmarshal_def\<close>, simp_all add: sampleConfig_def Let_def)
  moreover have "nodeIPOf [] ?net \<noteq> []" by (simp add: nodeIPOf_def nodeIPv6Of_def Let_def)
  ultimately show ?thesis
    by (simp add: buildMachineConfig_def injectInstallDisk_def injectIPv6Config_def injectKubeletNodeIP_def
        injectProviderID_def wrapR_def configRun_def sample_defs Let_def)
qed

subsection \<open>The property\<close>



end
