(* ===== verification/Cluster_Controller.thy ===== *)
theory Cluster_Controller
  imports Machine_States
begin

text \<open>
  \<^verbatim>\<open>controllers/hetznerrobotcluster_controller.go\<close>: the readiness of a cluster and its
  deletion. The object of a run is the HetznerRobotCluster.
\<close>

section \<open>Definitions\<close>

type_synonym 'w cluster_step = "('w, HetznerRobotCluster, Result res) go"

definition clusterLabel :: string where
  "clusterLabel = ''cluster.x-k8s.io/cluster-name''"

definition filterMachinesByCluster :: "HetznerRobotMachine list \<Rightarrow> string \<Rightarrow> HetznerRobotMachine list" where
  "filterMachinesByCluster machines clusterName = filter (\<lambda>m. label (hrmMeta m) clusterLabel = clusterName) machines"

definition setClusterFinalizer :: "bool \<Rightarrow> HetznerRobotCluster \<Rightarrow> HetznerRobotCluster" where
  "setClusterFinalizer b c = c\<lparr>hrcMeta := (hrcMeta c)\<lparr>hasFinalizer := b\<rparr>\<rparr>"

definition modClusterStatus ::
    "(HetznerRobotClusterStatus \<Rightarrow> HetznerRobotClusterStatus) \<Rightarrow> HetznerRobotCluster \<Rightarrow> HetznerRobotCluster" where
  "modClusterStatus f c = c\<lparr>hrcStatus := f (hrcStatus c)\<rparr>"

definition clusterReconcileNormal :: "'w cluster_step" where
  "clusterReconcileNormal = do {
     hrc \<leftarrow> getObj;
     (if endpointHost (ControlPlaneEndpoint (hrcSpec hrc)) = [] then do {
        modObj (modClusterStatus (clusterReadyMark_update (\<lambda>_. Some (MarkFalse ''WaitingForControlPlaneEndpoint''
          SeverityInfo ''Control plane endpoint not yet available''))));
        ret (Returned (RequeueAfter requeueAfterShort)) }
      else do {
        modObj (modClusterStatus (\<lambda>st. st\<lparr>clusterReady := True, clusterInitialization := Some True,
          clusterReadyMark := Some MarkTrue\<rparr>));
        ret (Returned Done) })
   }"

definition clusterReconcileDelete :: "'w ext \<Rightarrow> 'w cluster_step" where
  "clusterReconcileDelete X = do {
     hrc \<leftarrow> getObj;
     l \<leftarrow> silent (xListMachines X (Namespace (hrcMeta hrc)));
     (case l of
        Inl e \<Rightarrow> ret (Failed e)
      | Inr items \<Rightarrow>
          if 0 < length (filterMachinesByCluster items (Name (hrcMeta hrc))) then
            ret (Returned (RequeueAfter requeueAfterShort))
          else do {
            modObj (setClusterFinalizer False);
            ret (Returned Done) })
   }"

definition reconcileCluster :: "'w ext \<Rightarrow> 'w cluster_step" where
  "reconcileCluster X = do {
     hrc \<leftarrow> getObj;
     (if DeletionTimestamp (hrcMeta hrc) \<noteq> None then clusterReconcileDelete X
      else if \<not> hasFinalizer (hrcMeta hrc) then do {
        modObj (setClusterFinalizer True);
        ret (Returned Done) }
      else clusterReconcileNormal)
   }"

definition ReconcileCluster :: "'w ext \<Rightarrow> key \<Rightarrow> 'w cluster_step" where
  "ReconcileCluster X k = do {
     g \<leftarrow> silent (xGetHRC X k);
     (case g of
        Inl e \<Rightarrow> ret (if isNotFound e then Returned Done else Failed e)
      | Inr hrc0 \<Rightarrow> do {
          modObj (\<lambda>_. hrc0);
          c \<leftarrow> silent (xOwnerCluster X (hrcMeta hrc0));
          (case c of
             Inl e \<Rightarrow> ret (Failed e)
           | Inr None \<Rightarrow> ret (Returned (RequeueAfter requeueAfterShort))
           | Inr (Some cluster) \<Rightarrow>
               if Paused cluster then ret (Returned Done)
               else do {
                 p \<leftarrow> silent (xNewHelper X);
                 (case p of
                    Some e \<Rightarrow> ret (Failed (wrapErr ''failed to init patch helper: '' e))
                  | None \<Rightarrow> do {
                      res \<leftarrow> reconcileCluster X;
                      hrc \<leftarrow> getObj;
                      _ \<leftarrow> patchHRC X hrc;
                      ret res }) }) })
   }"

section \<open>Readiness and deletion\<close>

text \<open>
  A live cluster with its finalizer becomes ready in a reconcile exactly when its control
  plane endpoint has a host, and says so in its condition; otherwise the status flag stays, the
  condition names the reason and the reconcile comes back. Neither the spec nor the metadata change.
\<close>

lemma cluster_ready_iff_endpoint:
  assumes "DeletionTimestamp (hrcMeta (obj s)) = None" and "hasFinalizer (hrcMeta (obj s))"
  shows "(let c = obj s; c' = obj (snd (run_state (reconcileCluster X) s)); r = fst (run_state (reconcileCluster X) s) in
     hrcSpec c' = hrcSpec c \<and> hrcMeta c' = hrcMeta c
     \<and> (if endpointHost (ControlPlaneEndpoint (hrcSpec c)) \<noteq> []
        then clusterReady (hrcStatus c') \<and> clusterReadyMark (hrcStatus c') = Some MarkTrue \<and> r = Returned Done
        else clusterReady (hrcStatus c') = clusterReady (hrcStatus c) \<and> r = Returned (RequeueAfter (15 * second))
          \<and> clusterReadyMark (hrcStatus c') \<noteq> Some MarkTrue))"
  using assms
  by (simp add: reconcileCluster_def clusterReconcileNormal_def modClusterStatus_def Let_def requeueAfterShort_def)

text \<open>
  C36. A cluster that is being deleted keeps its finalizer as long as the API lists, in its
  namespace, one machine whose cluster label is the name of the HetznerRobotCluster, or cannot list them.
\<close>

theorem cluster_waits_for_machines:
  assumes "DeletionTimestamp (hrcMeta (obj s)) \<noteq> None"
  shows "hasFinalizer (hrcMeta (obj (snd (run_state (reconcileCluster X) s))))
    \<longleftrightarrow> hasFinalizer (hrcMeta (obj s))
      \<and> (case fst (xListMachines X (Namespace (hrcMeta (obj s))) (world s)) of
           Inl _ \<Rightarrow> True
         | Inr ms \<Rightarrow> list_ex (\<lambda>m. label (hrmMeta m) clusterLabel = Name (hrcMeta (obj s))) ms)"
  using assms
  by (auto simp: reconcileCluster_def clusterReconcileDelete_def filterMachinesByCluster_def setClusterFinalizer_def
      silent_def list_ex_iff filter_empty_conv split: sum.split)

theorem cluster_waits_for_machines_witness:
  "\<not> hasFinalizer (hrcMeta (obj (snd (run_state (reconcileCluster sampleExt)
     (sampleRun (sampleHRC\<lparr>hrcMeta := sampleMeta\<lparr>DeletionTimestamp := Some 1\<rparr>\<rparr>))))))"
  using cluster_waits_for_machines [of "sampleRun (sampleHRC\<lparr>hrcMeta := sampleMeta\<lparr>DeletionTimestamp := Some 1\<rparr>\<rparr>)" sampleExt]
  by (simp add: sample_defs)

end
