(* ===== verification/Remediation.thy ===== *)
theory Remediation
  imports Machine_Safety
begin

text \<open>
  \<^verbatim>\<open>controllers/hetznerrobotremediation_controller.go\<close>: hardware resets of an unhealthy
  node, up to the retry limit of the strategy. The object of a run is the
  HetznerRobotRemediation; its phase is none, Running, Waiting or, terminal, Deleting.
\<close>

section \<open>Definitions\<close>

definition modRemStatus ::
    "(HetznerRobotRemediationStatus \<Rightarrow> HetznerRobotRemediationStatus) \<Rightarrow> HetznerRobotRemediation \<Rightarrow> HetznerRobotRemediation" where
  "modRemStatus f r = r\<lparr>remStatus := f (remStatus r)\<rparr>"

type_synonym ('w, 'a) remediation = "('w, HetznerRobotRemediation, 'a) go"

definition getTimeout :: "HetznerRobotRemediation \<Rightarrow> int" where
  "getTimeout r = (if 0 < Timeout (remStrategy r) then Timeout (remStrategy r) else 5 * minute)"

text \<open>The text of a namespaced name.\<close>

definition keyText :: "key \<Rightarrow> string" where
  "keyText k = fst k @ ''/'' @ snd k"

definition getErr :: "string \<Rightarrow> key \<Rightarrow> goerr \<Rightarrow> goerr" where
  "getErr kind k e = (if isNotFound e then wrapErr (kind @ '' '' @ keyText k @ '' not found: '') e
     else wrapErr (''get '' @ kind @ '' '' @ keyText k @ '': '') e)"

definition resolveServerAndCluster :: "'w ext \<Rightarrow> Machine
    \<Rightarrow> ('w, goerr + int \<times> HetznerRobotHost \<times> HetznerRobotCluster) remediation" where
  "resolveServerAndCluster X machine =
     (let ns = Namespace (machineMeta machine); mname = ns @ ''/'' @ Name (machineMeta machine);
          hrmKey = (ns, machineInfraRef machine) in
      if machineInfraRef machine = [] then ret (Inl (errorf (''Machine '' @ mname @ '' has no InfrastructureRef'')))
      else do {
        g \<leftarrow> silent (xGetMachine X hrmKey);
        (case g of
           Inl e \<Rightarrow> ret (Inl (getErr ''HetznerRobotMachine'' hrmKey e))
         | Inr hrm \<Rightarrow>
             if HostRef (hrmStatus hrm) = [] then
               ret (Inl (errorf (''HetznerRobotMachine '' @ keyText hrmKey @ '' has no HostRef '' @ emDash
                 @ '' machine may not be provisioned yet'')))
             else do {
               h \<leftarrow> getHost X ns (HostRef (hrmStatus hrm));
               (case h of
                  Inl e \<Rightarrow> ret (Inl (getErr ''HetznerRobotHost'' (ns, HostRef (hrmStatus hrm)) e))
                | Inr host \<Rightarrow> do {
                    c \<leftarrow> silent (xClusterOf X machine);
                    (case c of
                       Inl e \<Rightarrow> ret (Inl (wrapErr ''get Cluster from Machine metadata: '' e))
                     | Inr None \<Rightarrow> ret (Inl (errorf (''Cluster not found for Machine '' @ mname)))
                     | Inr (Some cluster) \<Rightarrow> (case clusterInfraRef cluster of
                         None \<Rightarrow> ret (Inl (errorf (''Cluster '' @ Namespace (clusterMeta cluster) @ ''/''
                           @ Name (clusterMeta cluster) @ '' has no InfrastructureRef'')))
                       | Some hrcKey \<Rightarrow> do {
                           r \<leftarrow> silent (xGetHRC X hrcKey);
                           ret (case r of
                              Inl e \<Rightarrow> Inl (getErr ''HetznerRobotCluster'' hrcKey e)
                            | Inr hrc \<Rightarrow> Inr (ServerID (hostSpec host), host, hrc)) })) }) }) })"

text \<open>The reset both phases issue: gate, client, request, and the new status.\<close>

definition issueReset :: "'w ext \<Rightarrow> int \<Rightarrow> HetznerRobotHost \<Rightarrow> HetznerRobotCluster \<Rightarrow> (int \<Rightarrow> int)
    \<Rightarrow> ('w, Result res) remediation" where
  "issueReset X serverID host hrc nextCount = (case authorizeAutomatedHardwareReset (Some host) of
     Some _ \<Rightarrow> ret (Returned (RequeueAfter requeueAfterLong))
   | None \<Rightarrow> do {
       c \<leftarrow> buildRobotClient X hrc;
       (case c of
          Inl e \<Rightarrow> ret (Failed (wrapErr ''build robot client: '' e))
        | Inr rc \<Rightarrow> do {
            r \<leftarrow> ResetServer X rc serverID ResetTypeHardware;
            (case r of
               Some e \<Rightarrow> ret (Failed (wrapErr (''hardware reset server '' @ itoa serverID @ '': '') e))
             | None \<Rightarrow> do {
                 now \<leftarrow> timeNow X;
                 modObj (modRemStatus (\<lambda>st. st\<lparr>Phase := RemediationPhaseRunning, LastRemediated := Some now,
                   remRetryCount := nextCount (remRetryCount st)\<rparr>));
                 rem \<leftarrow> getObj;
                 ret (Returned (RequeueAfter (getTimeout rem))) }) }) })"

definition reconcileInitial :: "'w ext \<Rightarrow> int \<Rightarrow> HetznerRobotHost \<Rightarrow> HetznerRobotCluster \<Rightarrow> ('w, Result res) remediation" where
  "reconcileInitial X serverID host hrc = issueReset X serverID host hrc (\<lambda>_. 1)"

definition reconcileRunning :: "('w, Result res) remediation" where
  "reconcileRunning = do {
     modObj (modRemStatus (Phase_update (\<lambda>_. RemediationPhaseWaiting)));
     ret (Returned Requeue)
   }"

definition reconcileWaiting :: "'w ext \<Rightarrow> int \<Rightarrow> HetznerRobotHost \<Rightarrow> HetznerRobotCluster \<Rightarrow> ('w, Result res) remediation" where
  "reconcileWaiting X serverID host hrc = do {
     rem \<leftarrow> getObj;
     (if RetryLimit (remStrategy rem) \<le> remRetryCount (remStatus rem) then do {
        modObj (modRemStatus (Phase_update (\<lambda>_. RemediationPhaseDeleting)));
        ret (Returned Done) }
      else issueReset X serverID host hrc (\<lambda>n. wrap64 (n + 1)))
   }"

definition reconcilePhase :: "'w ext \<Rightarrow> Machine \<Rightarrow> ('w, Result res) remediation" where
  "reconcilePhase X machine = do {
     rem \<leftarrow> getObj;
     (if Phase (remStatus rem) = RemediationPhaseDeleting then ret (Returned Done)
      else do {
        t \<leftarrow> resolveServerAndCluster X machine;
        (case t of
           Inl e \<Rightarrow> ret (Failed (wrapErr ''resolve server and cluster: '' e))
         | Inr (serverID, host, hrc) \<Rightarrow> (case Phase (remStatus rem) of
             RemediationPhaseNone \<Rightarrow> reconcileInitial X serverID host hrc
           | RemediationPhaseRunning \<Rightarrow> reconcileRunning
           | RemediationPhaseWaiting \<Rightarrow> reconcileWaiting X serverID host hrc
           | _ \<Rightarrow> ret (Returned Done))) })
   }"

definition ReconcileRemediation :: "'w ext \<Rightarrow> key \<Rightarrow> ('w, Result res) remediation" where
  "ReconcileRemediation X k = do {
     g \<leftarrow> silent (xGetRemediation X k);
     (case g of
        Inl e \<Rightarrow> ret (if isNotFound e then Returned Done else Failed e)
      | Inr rem0 \<Rightarrow> do {
          modObj (\<lambda>_. rem0);
          mo \<leftarrow> silent (xOwnerMachine X (remMeta rem0));
          (case mo of
             Inl e \<Rightarrow> ret (Failed (wrapErr ''get owner Machine: '' e))
           | Inr None \<Rightarrow> ret (Returned (RequeueAfter requeueAfterShort))
           | Inr (Some machine) \<Rightarrow> do {
               p \<leftarrow> silent (xNewHelper X);
               (case p of
                  Some e \<Rightarrow> ret (Failed (wrapErr ''failed to init patch helper: '' e))
                | None \<Rightarrow> do {
                    res \<leftarrow> reconcilePhase X machine;
                    rem \<leftarrow> getObj;
                    _ \<leftarrow> patchRem X rem0 rem;
                    ret res }) }) })
   }"

section \<open>What may be reset\<close>

text \<open>
  The only event that changes a server is a hardware reset of a disposable host the API has
  just shown.
\<close>

definition resetPermitted :: "event list \<Rightarrow> event \<Rightarrow> bool" where
  "resetPermitted pre e \<longleftrightarrow> (destructive e \<longrightarrow> (\<exists>h r. hostSeen pre h \<and> disposable h
     \<and> e = EvHttp POST (robotBaseURL @ ''/reset/'' @ itoa (ServerID (hostSpec h))) [(''type'', ''hw'')] r))"

definition hwReset :: "int \<Rightarrow> event \<Rightarrow> bool" where
  "hwReset sid e \<longleftrightarrow> (\<exists>r. e = EvHttp POST (robotBaseURL @ ''/reset/'' @ itoa sid) [(''type'', ''hw'')] r)"

lemma safe_reset_quiet: "list_all quiet n \<Longrightarrow> safeFrom resetPermitted pre n"
  by (erule safeFrom_all) (simp add: resetPermitted_def quiet_def)

lemma safe_reset:
  assumes "hostSeen pre h" and "disposable h"
  shows "list_all (\<lambda>e. quiet e \<or> hwReset (ServerID (hostSpec h)) e) n \<Longrightarrow> safeFrom resetPermitted pre n"
  by (erule safeFrom_all) (use assms in \<open>auto simp: resetPermitted_def quiet_def hwReset_def\<close>)

section \<open>The phases\<close>

text \<open>
  The moves of a remediation with the retry limit \<open>L\<close>, on its phase and the number of resets; the
  flag tells whether a reset was acknowledged in the move.
\<close>

inductive remediates :: "int \<Rightarrow> RemediationPhase \<times> int \<Rightarrow> bool \<Rightarrow> RemediationPhase \<times> int \<Rightarrow> bool" where
  idle: "remediates L s False s"
| first: "remediates L (RemediationPhaseNone, n) True (RemediationPhaseRunning, 1)"
| waited: "remediates L (RemediationPhaseRunning, n) False (RemediationPhaseWaiting, n)"
| again: "n < L \<Longrightarrow> remediates L (RemediationPhaseWaiting, n) True (RemediationPhaseRunning, n + 1)"
| give_up: "L \<le> n \<Longrightarrow> remediates L (RemediationPhaseWaiting, n) False (RemediationPhaseDeleting, n)"

code_pred remediates .

inductive_cases remediatesE: "remediates L s b s'"

inductive_simps remediates_terminal: "remediates L (RemediationPhaseDeleting, n) b s'"

abbreviation remState :: "HetznerRobotRemediation \<Rightarrow> RemediationPhase \<times> int" where
  "remState r \<equiv> (Phase (remStatus r), remRetryCount (remStatus r))"

text \<open>A request acknowledged by the Robot API, and how many of them a run made.\<close>

definition ackedReset :: "'w ext \<Rightarrow> event \<Rightarrow> bool" where
  "ackedReset X e \<longleftrightarrow> (\<exists>url code body. e = EvHttp POST url [(''type'', ''hw'')] (HttpResponse code body)
     \<and> code < 400 \<and> xAnyJSON X body = None)"

definition ackedResets :: "'w ext \<Rightarrow> event list \<Rightarrow> nat" where
  "ackedResets X n = length (filter (ackedReset X) n)"

text \<open>What one pass through a phase is allowed to be.\<close>

definition phaseStep :: "'w ext \<Rightarrow> HetznerRobotRemediation \<Rightarrow> event list \<Rightarrow> HetznerRobotRemediation \<Rightarrow> bool" where
  "phaseStep X r n r' \<longleftrightarrow> remMeta r' = remMeta r \<and> remStrategy r' = remStrategy r
     \<and> ackedResets X n \<le> 1
     \<and> remediates (RetryLimit (remStrategy r)) (remState r) (ackedResets X n = 1) (remState r')"

lemma ackedResets_simps [simp]:
  "ackedResets X [] = 0" "ackedResets X (e # n) = (if ackedReset X e then 1 else 0) + ackedResets X n"
  "ackedResets X (n @ n') = ackedResets X n + ackedResets X n'"
  by (simp_all add: ackedResets_def)

lemma wp_ResetServer:
  "wp (ResetServer X rc sid ResetTypeHardware) ob (\<lambda>n r ob'. ob' = ob
     \<and> (\<exists>a. n = [EvHttp POST (baseURL rc @ ''/reset/'' @ itoa sid) [(''type'', ''hw'')] a])
     \<and> ackedResets X n = (if r = None then 1 else 0))"
  unfolding wp_def
  by (auto simp: ResetServer_def robotPost_def httpDo_def ackedReset_def split: http_result.split)

lemma modRemStatus_simps [simp]:
  "remMeta (modRemStatus f r) = remMeta r" "remStrategy (modRemStatus f r) = remStrategy r"
  "remStatus (modRemStatus f r) = f (remStatus r)"
  by (simp_all add: modRemStatus_def)

lemma ackedReset_simps [simp]:
  "\<not> ackedReset X (EvNow t)" "\<not> ackedReset X (EvGetHost k g)"
  by (simp_all add: ackedReset_def)

lemma wp_issueReset:
  assumes "remediates (RetryLimit (remStrategy ob)) (remState ob) True (RemediationPhaseRunning, cnt (remRetryCount (remStatus ob)))"
  shows "wp (issueReset X (ServerID (hostSpec h)) h hrc cnt) ob (\<lambda>n r ob'.
     phaseStep X ob n ob' \<and> list_all (\<lambda>e. quiet e \<or> disposable h \<and> hwReset (ServerID (hostSpec h)) e) n)"
proof (cases "authorizeAutomatedHardwareReset (Some h)")
  case (Some e)
  then show ?thesis by (simp add: issueReset_def phaseStep_def idle)
next
  case None
  then have disp: "disposable h" using reset_gate.gate_iff [of "Some h"] by simp
  show ?thesis
    unfolding issueReset_def None option.case
  proof (rule wp_bindI [OF wp_buildRobotClient], intro wp_case_sum, goal_cases)
    case (1 n r ob' e)
    then show ?case by (simp add: phaseStep_def idle)
  next
    case (2 n r ob' rc)
    then have rc: "n = []" "ob' = ob" "baseURL rc = robotBaseURL" by auto
    show ?case
      unfolding rc(1,2)
      by (rule wp_bindI [OF wp_ResetServer])
        (use rc(3) assms disp in \<open>auto intro!: wp_exec simp: phaseStep_def idle hwReset_def ackedReset_def\<close>)
  qed
qed

lemma wp_resolveServer:
  "wp (resolveServerAndCluster X machine) ob (\<lambda>n r ob'. ob' = ob \<and> list_all (\<lambda>e. quiet e \<and> \<not> ackedReset X e) n
     \<and> (case r of Inl _ \<Rightarrow> True | Inr (sid, h, hrc) \<Rightarrow> sid = ServerID (hostSpec h) \<and> hostSeen n h))"
  unfolding resolveServerAndCluster_def Let_def
  by (intro wp_exec) (auto split: sum.split)

lemma no_ack: "list_all (\<lambda>e. quiet e \<and> \<not> ackedReset X e) n \<Longrightarrow> list_all quiet n \<and> ackedResets X n = 0"
  by (auto simp: list_all_iff ackedResets_def filter_empty_conv)

lemma phaseStep_after:
  "list_all (\<lambda>e. quiet e \<and> \<not> ackedReset X e) n \<Longrightarrow> phaseStep X r n' r' \<Longrightarrow> phaseStep X r (n @ n') r'"
  using no_ack [of X n] by (simp add: phaseStep_def)

lemma wp_reconcilePhase:
  assumes "int64 (RetryLimit (remStrategy ob))" and "int64 (remRetryCount (remStatus ob))"
  shows "wp (reconcilePhase X machine) ob (\<lambda>n r ob'. phaseStep X ob n ob' \<and> safeFrom resetPermitted [] n)"
  unfolding reconcilePhase_def wp_bind_getObj
proof (rule wp_if, simp add: phaseStep_def idle, rule wp_bindI [OF wp_resolveServer], intro wp_case_sum wp_case_prod, goal_cases)
  case (1 n x ob' e)
  then show ?case using no_ack [of X n] by (simp add: phaseStep_def idle safe_reset_quiet)
next
  case (2 n x ob' y sid b h hrc)
  then have n: "list_all (\<lambda>e. quiet e \<and> \<not> ackedReset X e) n" and h: "sid = ServerID (hostSpec h)" "hostSeen n h"
    and ob': "ob' = ob" by auto
  have safe: "safeFrom resetPermitted [] (n @ n')"
    if "list_all (\<lambda>e. quiet e \<or> disposable h \<and> hwReset (ServerID (hostSpec h)) e) n'" for n'
    using n that no_ack [of X n] h(2)
    by (cases "disposable h") (auto simp: safe_reset_quiet intro: safe_reset)
  have reset: "wp (issueReset X sid h hrc cnt) ob (\<lambda>n' r ob'. phaseStep X ob (n @ n') ob' \<and> safeFrom resetPermitted [] (n @ n'))"
    if "remediates (RetryLimit (remStrategy ob)) (remState ob) True
      (RemediationPhaseRunning, cnt (remRetryCount (remStatus ob)))" for cnt
    unfolding h(1) by (rule wp_mono [OF wp_issueReset [where cnt = cnt and ob = ob, OF that]]) (use n safe in \<open>auto intro: phaseStep_after\<close>)
  have idle': "phaseStep X ob n r' \<longleftrightarrow> phaseStep X ob [] r'" for r'
    using no_ack [OF n] by (simp add: phaseStep_def)
  have quiet: "safeFrom resetPermitted [] n" using no_ack [OF n] by (simp add: safe_reset_quiet)
  have wrap: "wrap64 (m + 1) = m + 1" if "m = remRetryCount (remStatus ob)" "m < RetryLimit (remStrategy ob)" for m
    using assms that by (intro wrap64_id) (auto simp: int64_def)
  have phases: "wp (reconcileInitial X sid h hrc) ob (\<lambda>n' r ob'. phaseStep X ob (n @ n') ob' \<and> safeFrom resetPermitted [] (n @ n'))"
    if "Phase (remStatus ob) = RemediationPhaseNone"
    unfolding reconcileInitial_def using that by (intro reset) (simp add: first)
  have "wp reconcileRunning ob (\<lambda>n' r ob'. phaseStep X ob (n @ n') ob' \<and> safeFrom resetPermitted [] (n @ n'))"
    if "Phase (remStatus ob) = RemediationPhaseRunning"
    unfolding reconcileRunning_def using that by (simp add: idle' quiet) (simp add: phaseStep_def waited)
  moreover have "wp (reconcileWaiting X sid h hrc) ob (\<lambda>n' r ob'. phaseStep X ob (n @ n') ob' \<and> safeFrom resetPermitted [] (n @ n'))"
    if "Phase (remStatus ob) = RemediationPhaseWaiting"
    unfolding reconcileWaiting_def wp_bind_getObj using that
    by (intro wp_if reset) (auto simp: idle' quiet wrap again, simp add: phaseStep_def give_up)
  ultimately show ?case
    using phases unfolding ob'
    by (auto split: RemediationPhase.split simp: idle' quiet) (auto simp: phaseStep_def idle)
qed

text \<open>
  C9. One pass of the remediation controller over its phase. It is a move of the phase machine \<open>remediates\<close>:
  the first reset sets the count to one, a further reset needs a count below the limit and adds
  one, Running only becomes Waiting, Waiting at the limit becomes Deleting, Deleting stays; a reset
  acknowledged by the Robot API is recorded in the count in the same pass, and nothing else is. And every event that
  changes a server is a hardware reset of a disposable host that the API has just shown.
\<close>

theorem remediation_refines_phases:
  assumes "int64 (RetryLimit (remStrategy (obj s)))" and "int64 (remRetryCount (remStatus (obj s)))"
  shows "phaseStep X (obj s) (newEvents (reconcilePhase X machine) s) (obj (snd (run_state (reconcilePhase X machine) s)))
    \<and> safeFrom resetPermitted [] (newEvents (reconcilePhase X machine) s)"
  using wpD(1) [OF wp_reconcilePhase [OF assms, of X machine]] .

theorem remediation_refines_phases_witness:
  "remediates 2 (RemediationPhaseNone, 0) True (RemediationPhaseRunning, 1)"
proof -
  let ?X = "claimedExt :: unit ext"
  have "phaseStep ?X sampleRemediation (newEvents (reconcilePhase ?X sampleMachine) (sampleRun sampleRemediation))
      (obj (snd (run_state (reconcilePhase ?X sampleMachine) (sampleRun sampleRemediation))))"
    using remediation_refines_phases [of "sampleRun sampleRemediation" ?X sampleMachine]
    by (simp add: sample_defs int64_def)
  then show ?thesis
    by (simp add: phaseStep_def reconcilePhase_def resolveServerAndCluster_def reconcileInitial_def issueReset_def
        authorizeAutomatedHardwareReset_def buildRobotClient_def NewFromCluster_def ResetServer_def robotPost_def
        newEvents_def calls_def ackedReset_def modRemStatus_def Let_def sample_defs)
qed

section \<open>Whole remediations\<close>

text \<open>
  The passes over one remediation, each in any state of the world, and the number of resets the
  Robot API acknowledged in them.
\<close>

inductive remediationRun :: "'w ext \<Rightarrow> Machine \<Rightarrow> HetznerRobotRemediation \<Rightarrow> nat
    \<Rightarrow> HetznerRobotRemediation \<Rightarrow> bool" for X machine where
  start: "remediationRun X machine r 0 r"
| pass: "remediationRun X machine r k (obj s) \<Longrightarrow>
    remediationRun X machine r (k + ackedResets X (newEvents (reconcilePhase X machine) s))
      (obj (snd (run_state (reconcilePhase X machine) s)))"

definition resetsCounted :: "int \<Rightarrow> nat \<Rightarrow> RemediationPhase \<times> int \<Rightarrow> bool" where
  "resetsCounted L k st \<longleftrightarrow> (case st of (p, n) \<Rightarrow> int k = n \<and> n \<le> max 1 L
     \<and> (if p = RemediationPhaseNone then n = 0
        else 1 \<le> n \<and> p \<in> {RemediationPhaseRunning, RemediationPhaseWaiting, RemediationPhaseDeleting})
     \<and> (p = RemediationPhaseDeleting \<longrightarrow> L \<le> n))"

lemma resetsCounted_step:
  assumes "remediates L st (j = 1) st'" and "j \<le> 1" and "resetsCounted L k st"
  shows "resetsCounted L (k + j) st'"
  using assms by (cases rule: remediates.cases) (auto simp: resetsCounted_def max_def split: if_splits)

lemma resetsCounted_int64: "resetsCounted L k (p, n) \<Longrightarrow> int64 L \<Longrightarrow> int64 n"
  by (auto simp: resetsCounted_def int64_def max_def split: if_splits)

lemma remediationRun_invariant:
  "remediationRun X machine r k r' \<Longrightarrow> resetsCounted (RetryLimit (remStrategy r)) 0 (remState r) \<Longrightarrow>
     int64 (RetryLimit (remStrategy r)) \<Longrightarrow>
     remStrategy r' = remStrategy r \<and> resetsCounted (RetryLimit (remStrategy r)) k (remState r')"
proof (induction rule: remediationRun.induct)
  case (start r)
  then show ?case by simp
next
  case (pass r k s)
  then have IH: "remStrategy (obj s) = remStrategy r" "resetsCounted (RetryLimit (remStrategy r)) k (remState (obj s))"
    by auto
  have "phaseStep X (obj s) (newEvents (reconcilePhase X machine) s) (obj (snd (run_state (reconcilePhase X machine) s)))"
    using wpD(1) [OF wp_reconcilePhase [of "obj s" X machine]] IH pass.prems(2) resetsCounted_int64 [OF IH(2)] by simp
  with IH show ?case
    by (auto simp: phaseStep_def intro: resetsCounted_step)
qed



definition remMeasure :: "int \<Rightarrow> RemediationPhase \<times> int \<Rightarrow> nat" where
  "remMeasure L s = (case s of
     (RemediationPhaseNone, n) \<Rightarrow> 3 * nat (L - 1) + 3
   | (RemediationPhaseRunning, n) \<Rightarrow> 3 * nat (L - n) + 2
   | (RemediationPhaseWaiting, n) \<Rightarrow> 3 * nat (L - n) + 1
   | _ \<Rightarrow> 0)"

lemma remMeasure_decreases: "remediates L st b st' \<Longrightarrow> st' \<noteq> st \<Longrightarrow> remMeasure L st' < remMeasure L st"
  by (auto simp: remMeasure_def elim!: remediates.cases)

definition changingPass :: "'w ext \<Rightarrow> Machine \<Rightarrow> HetznerRobotRemediation \<Rightarrow> HetznerRobotRemediation \<Rightarrow> bool" where
  "changingPass X machine r r' \<longleftrightarrow> int64 (RetryLimit (remStrategy r)) \<and> int64 (remRetryCount (remStatus r))
     \<and> remState r' \<noteq> remState r
     \<and> (\<exists>s. obj s = r \<and> r' = obj (snd (run_state (reconcilePhase X machine) s)))"

interpretation changing: ranked_steps "changingPass X machine" "\<lambda>r. remMeasure (RetryLimit (remStrategy r)) (remState r)"
  for X machine
  by unfold_locales
    (use wpD(1) [OF wp_reconcilePhase] remMeasure_decreases in \<open>fastforce simp: changingPass_def phaseStep_def\<close>)

text \<open>
  C18. A remediation comes to an end: whatever the limit and whatever the world answers, there is no infinite
  sequence of passes that change the phase or the count.
\<close>

theorem remediation_terminates: "wf {(r', r). changingPass X machine r r'}"
  by (rule changing.terminates)

text \<open>
  The wait between two resets is not checked. A pass over a remediation in phase Running
  that resolves its machine moves it to Waiting and asks for an immediate requeue, whenever the last reset was and
  without reading the clock: only the requeue delay of the pass before, which any watch event
  cuts short, stands between the resets.
\<close>

lemma running_ignores_elapsed_time:
  assumes "Phase (remStatus (obj s)) = RemediationPhaseRunning"
    and "fst (run_state (resolveServerAndCluster X machine) s) = Inr t"
  shows "remStatus (obj (snd (run_state (reconcilePhase X machine) s)))
      = (remStatus (obj s))\<lparr>Phase := RemediationPhaseWaiting\<rparr>
    \<and> fst (run_state (reconcilePhase X machine) s) = Returned Requeue
    \<and> (\<forall>now. EvNow now \<notin> set (newEvents (reconcilePhase X machine) s))"
proof -
  let ?P = "\<lambda>e. \<forall>now. e \<noteq> EvNow now"
  have "emits ?P (resolveServerAndCluster X machine)"
    unfolding resolveServerAndCluster_def Let_def getHost_def by (intro emits_intro) auto
  moreover have "emits ?P reconcileRunning"
    unfolding reconcileRunning_def by (intro emits_intro)
  moreover have "obj (snd (run_state (resolveServerAndCluster X machine) s)) = obj s"
    using wpD(1) [OF wp_resolveServer [of X machine "obj s"]] by blast
  moreover have eq: "run_state (reconcilePhase X machine) s
      = run_state reconcileRunning (snd (run_state (resolveServerAndCluster X machine) s))"
    using assms by (simp add: reconcilePhase_def case_prod_beta split: prod.split)
  moreover have "newEvents (reconcilePhase X machine) s = newEvents (resolveServerAndCluster X machine) s"
    unfolding newEvents_def eq by (simp add: reconcileRunning_def)
  ultimately show ?thesis
    using emits_new [of ?P "resolveServerAndCluster X machine"]
    by (auto simp: reconcileRunning_def modRemStatus_def)
qed

end
