(* ===== verification/Spec2Isabelle.thy ===== *)
theory Spec2Isabelle
  imports Api_Schema Manager Pool_Safety Deep_Copies Talos_Certs Machine_Progress Machine_Settled Machine_Install Talos_Config Cluster_Controller Remediation
begin

text \<open>
  \<^bold>\<open>A verification library for cluster-api-provider-hetzner-robot.\<close>

  The program is a Kubernetes controller manager that turns Hetzner dedicated servers into nodes of a
  cluster. A HetznerRobotHost stands for a physical server, a HetznerRobotMachine for a node. The
  machine controller claims a host, boots it into the rescue system, wipes and installs it with Talos
  or Flatcar over SSH, hands it its configuration and waits for the node; deletion resets the server
  and releases the host. A host controller keeps the host records, a cluster controller the cluster,
  a remediation controller reboots nodes that a health check has given up. A policy on the host
  decides when data may be destroyed. The controllers talk to each other only through the objects in
  the Kubernetes API.

  \<^bold>\<open>How programs are modelled.\<close> A method of a controller is a program in the state monad
  (\<^verbatim>\<open>('w, 'o, 'a) go\<close> in Runtime) over the world, the object that is reconciled and the trace of the
  calls made. Everything that is not in the repository is one record \<^verbatim>\<open>'w ext\<close> of functions over
  the opaque world \<open>'w\<close>: the API client, the patch helper, HTTP, SSH, the Talos API, the YAML and JSON
  codecs, the clock. It is the parameter \<open>X\<close> of every definition that uses it, and nothing is assumed of
  it: every call may fail, and the same call may answer differently the next time. A property that needs more
  says so in a hypothesis, and its witness runs the code on the concrete world of Sample_World. Errors are
  values (\<^verbatim>\<open>goerr + 'a\<close>, where Go returns a value and an error), a panic is the constructor \<open>Panicked\<close> of
  the results of a reconcile. Go's \<^verbatim>\<open>int\<close> is an \<open>int\<close> with \<open>wrap64\<close> where it can leave its range, byte
  slices and strings are character lists, an \<^verbatim>\<open>interface{}\<close> of a decoded document is a \<open>gval\<close>.

  \<^bold>\<open>Theories and sources\<close> (under src/):

  \<^item> Prelude: the Go library functions used (strings, strconv, time), errors and
    results, with the generic lemmas, and the interfaces several components provide (\<open>codec\<close>, interpreted on base64, URL
    escapes and shell words; \<open>kept_invariant\<close> and \<open>ranked_steps\<close> on the step relations). Base64: the encoding, with its decoder. Api_Types: api/v1alpha1 as records and datatypes. Runtime: programs, the
    external functions, and the two calculi all proofs use: \<open>emits P m\<close> (every event a run makes satisfies \<open>P\<close>)
    and \<open>wp m ob Q\<close> (from the object \<open>ob\<close>, the events, the answer and the object left satisfy \<open>Q\<close>), with
    introduction rules that execute a program symbolically; \<open>keeps\<close> for programs that leave the object alone,
    \<open>moves R m\<close> for programs all of whose writes to the object are steps of \<open>R\<close>, and \<open>answered m P\<close> for calls
    whose result, with whatever events, satisfies \<open>P\<close> under what is assumed of the world.
    Sample_World: a concrete world and concrete objects for the witnesses.
  \<^item> Policy: controllers/hetznerrobotmachine_policy.go, the gates for destructive provisioning and
    automated resets, with an interface (a locale) that both gates instantiate.
  \<^item> Robot_Client: pkg/robot. Rescue_SSH: pkg/sshrescue, commands and their quoting, the hardware report, the choice of
    the install disk, wipe and installers. Talos_Client: pkg/talos/client.go. Talos_Certs: pkg/talos/bundle.go.
    Secrets: controllers/hetznerrobotmachine_secrets.go.
  \<^item> Inject: controllers/hetznerrobotmachine_inject.go, the edits of the Talos configuration, with the
    interface of one edit of a document (locale \<open>machine_edit\<close>) over a codec that is external.
    Ignition: controllers/hetznerrobotmachine_ignition.go, the edits of the Flatcar configuration.
    Boot_Scripts: the shell scripts of the states and the file templates.
  \<^item> Host_Claims: controllers/hetznerrobotmachine_host.go, how a machine finds, claims, adopts and releases its host.
  \<^item> Machine_States: one definition per provisioning state (hetznerrobotmachine_states.go, _flatcar.go),
    with what each may send to servers and where it may move the machine. Machine_Controller:
    hetznerrobotmachine_controller.go, the loop around them: backoff, timeout, error classes, the policy gate, deletion.
  \<^item> Machine_Safety, Machine_Loop, Machine_Settled, Machine_Install, Talos_Config, Machine_Hazards: the properties of
    the loop: what it may destroy, how it moves, that an installed machine is left alone, what an install has done, what the applied configuration
    holds, and the behaviours its comments do not promise. Machine_Progress: that a machine gets through, pass by pass,
    to a provisioned node when the world cooperates; what cooperating means is the definition \<open>cooperative\<close>.
  \<^item> Host_Controller, Cluster_Controller, Remediation: the other three controllers.
  \<^item> Host_Pool: the controllers together. Every host patch of a machine's reconcile is classified, and a
    transition system whose steps are runs of the real reconcilers on one store shows that no host has two holders. Api_Schema: what the writes of a machine's reconcile do to the specs of
    the machine and its hosts, against the validation rules of the CRDs.
    Pool_Safety: that system together with the safety of one reconcile, so that only the holder of a host changes its server.
  \<^item> Go_Memory, Deep_Copies: api/v1alpha1/zz_generated.deepcopy.go. Go_Memory has values with addresses, a memory, types that say what
    a reference leads to, and the promise of a copy (locale \<open>deep_copier\<close>): it reads the same and shares exactly a stated set
    of addresses. Deep_Copies has the struct and the copy methods of every API type over it.
  \<^item> Manager: main.go, groupversion_info.go and the registration of the kinds, and the \<^verbatim>\<open>SetupWithManager\<close> methods, the calls of the start in their order.

  \<^bold>\<open>What the lemmas show.\<close> The claim properties carry numbers C1 to C40 in the theories and are listed in the manifest.
  The safety of the loop is one invariant of traces (\<open>safeFrom\<close>): every destructive event comes after the host it
  is aimed at was shown and let through for this machine. The order of states is a refinement: each pass of the loop is
  a step of the small relation \<open>advances\<close> (or enters the error state), and each pass of the remediation controller a step of its
  phase machine, from which bounds on resets and termination follow. Installs are stated on traces as
  subsequences of commands that succeeded. Round trips are proved for quoting, URL encoding and provider
  IDs; equivalences for the key injection and the derived addresses.

  \<^bold>\<open>Bounds and termination.\<close> There is no fuel: every loop of the source runs over a finite list or string
  and is a structural recursion. Durations and counts are 64-bit; the backoff is bounded for every 64-bit count.

  \<^bold>\<open>Not modelled.\<close> Logging, metrics and contexts (timeouts of a context appear as errors of the call);
  the parsing of flags, the schemes and the manager behind the start-up calls; the getters and setters
  of conditions; the Ignition struct types, which no code uses. The
  interiors of the codecs, of TLS, SSH and HTTP and of the Kubernetes client are external. Resource versions are
  not part of the objects: where Host_Pool needs that a patch is refused when the object has changed, the step relation
  says so. The reads of objects other than hosts and releases leave no event in the trace.
\<close>

end
